(* ===== verification/Prelude.thy ===== *)
theory Prelude
  imports Main "HOL-Library.Word" "HOL-Library.AList" "HOL-Library.Multiset"
    "HOL-Library.Char_ord" "HOL-Library.List_Lexorder"
begin

text \<open>
  Shared material of the development: the collections of facts the component theories extend,
  the state-and-fault monad in which the handlers of the daemon are written, step relations over
  it, decimal printing as done by the \<^verbatim>\<open>%d\<close> and \<^verbatim>\<open>%u\<close> conversions of C, and
  facts about lists and characters used in several theories.

  Handlers of the daemon take an XML-RPC environment in which a fault may be recorded and return
  early as soon as one is (the \<^verbatim>\<open>method_return_fault\<close> and
  \<^verbatim>\<open>method_return_if_fault\<close> macros).  A handler is a function from the state to a result
  (\<open>Inl\<close> the fault, \<open>Inr\<close> the value) and the state it leaves, so that
  effects made before a fault are kept, as they are in the code.
\<close>

named_theorems prog_simps \<open>unfolding of the monad's operations\<close>
named_theorems stays_intros \<open>structural rules of the step relations\<close>
named_theorems keeps_intros \<open>what the primitive operations leave unchanged\<close>

section \<open>Programs with state and faults\<close>

type_synonym ('s, 'e, 'a) prog = "'s \<Rightarrow> ('e + 'a) \<times> 's"

definition ret :: "'a \<Rightarrow> ('s, 'e, 'a) prog" where
  "ret x s = (Inr x, s)"

definition raise :: "'e \<Rightarrow> ('s, 'e, 'a) prog" where
  "raise e s = (Inl e, s)"

definition bindM :: "('s, 'e, 'a) prog \<Rightarrow> ('a \<Rightarrow> ('s, 'e, 'b) prog) \<Rightarrow> ('s, 'e, 'b) prog" where
  "bindM m f s = (case m s of (Inl e, s') \<Rightarrow> (Inl e, s') | (Inr x, s') \<Rightarrow> f x s')"

definition unlessM :: "bool \<Rightarrow> 'e \<Rightarrow> ('s, 'e, unit) prog" where
  "unlessM b e s = (if b then (Inr (), s) else (Inl e, s))"

definition liftM :: "'e + 'a \<Rightarrow> ('s, 'e, 'a) prog" where
  "liftM r s = (r, s)"

definition getsM :: "('s \<Rightarrow> 'a) \<Rightarrow> ('s, 'e, 'a) prog" where
  "getsM f s = (Inr (f s), s)"

fun forM :: "'a list \<Rightarrow> ('a \<Rightarrow> ('s, 'e, unit) prog) \<Rightarrow> ('s, 'e, unit) prog" where
  "forM [] f = ret ()"
| "forM (x # xs) f = bindM (f x) (\<lambda>_. forM xs f)"

lemma ret_apply [prog_simps]: "ret x s = (Inr x, s)"
  by (simp add: ret_def)

lemma raise_apply [prog_simps]: "raise e s = (Inl e, s)"
  by (simp add: raise_def)

lemma unlessM_apply [prog_simps]: "unlessM b e s = (if b then Inr () else Inl e, s)"
  by (simp add: unlessM_def)

lemma liftM_apply [prog_simps]: "liftM r s = (r, s)"
  by (simp add: liftM_def)

lemma getsM_apply [prog_simps]: "getsM f s = (Inr (f s), s)"
  by (simp add: getsM_def)

lemma bindM_Inl: "m s = (Inl e, s') \<Longrightarrow> bindM m f s = (Inl e, s')"
  by (simp add: bindM_def)

lemma bindM_Inr: "m s = (Inr x, s') \<Longrightarrow> bindM m f s = f x s'"
  by (simp add: bindM_def)

lemma bindM_simps [simp]:
  "bindM (ret x) f = f x"
  "bindM (raise e) f = raise e"
  "bindM (liftM (Inr x)) f = f x"
  "bindM (liftM (Inl e)) f = raise e"
  by (simp_all add: fun_eq_iff bindM_def ret_def raise_def liftM_def)

lemma bindM_InrE:
  assumes "bindM m f s = (Inr y, s')"
  obtains x s1 where "m s = (Inr x, s1)" and "f x s1 = (Inr y, s')"
  using assms by (auto simp: bindM_def split: prod.splits sum.splits)

lemma bindM_ret_InrD:
  "bindM m (\<lambda>r. ret (g r)) s = (Inr y, s') \<Longrightarrow> \<exists>r. m s = (Inr r, s') \<and> y = g r"
  by (auto simp: bindM_def ret_def split: prod.splits sum.splits)

lemma unlessM_InrE:
  assumes "unlessM b e s = (Inr y, s')"
  obtains "b" and "s' = s"
  using assms by (auto simp: unlessM_def split: if_splits)

section \<open>Step relations\<close>

text \<open>
  \<open>stays R m\<close> says that every run of \<open>m\<close>, faulting or not, relates its first state to its last
  by \<open>R\<close>.  For a relation that composes, the property is structural in the program, so each
  handler inherits it from the primitive operations it calls.
\<close>

definition stays :: "('s \<Rightarrow> 's \<Rightarrow> bool) \<Rightarrow> ('s, 'e, 'a) prog \<Rightarrow> bool" where
  "stays R m \<longleftrightarrow> (\<forall>s. R s (snd (m s)))"

lemma staysI: "(\<And>s. R s (snd (m s))) \<Longrightarrow> stays R m"
  by (simp add: stays_def)

lemma staysD: "stays R m \<Longrightarrow> m s = (r, s') \<Longrightarrow> R s s'"
  by (metis snd_conv stays_def)

locale step_relation =
  fixes R :: "'s \<Rightarrow> 's \<Rightarrow> bool"
  assumes R_refl: "R s s"
    and R_trans: "R s t \<Longrightarrow> R t u \<Longrightarrow> R s u"
begin

lemma stays_bind: "stays R m \<Longrightarrow> (\<And>x. stays R (f x)) \<Longrightarrow> stays R (bindM m f)"
  by (auto simp: stays_def bindM_def split: prod.splits sum.splits) (metis R_trans snd_conv)+

lemma stays_if: "stays R m \<Longrightarrow> stays R n \<Longrightarrow> stays R (if b then m else n)"
  by simp

lemma stays_pure:
  "stays R (ret x)" "stays R (raise e)" "stays R (unlessM b e)" "stays R (liftM r)"
  "stays R (getsM g)"
  by (simp_all add: stays_def prog_simps R_refl)

lemma stays_option:
  "stays R m \<Longrightarrow> (\<And>x. stays R (f x)) \<Longrightarrow> stays R (case v of None \<Rightarrow> m | Some x \<Rightarrow> f x)"
  by (cases v) simp_all

lemma stays_case_prod: "(\<And>a b. stays R (f a b)) \<Longrightarrow> stays R (case z of (a, b) \<Rightarrow> f a b)"
  by (cases z) simp

lemma stays_forM: "(\<And>x. stays R (f x)) \<Longrightarrow> stays R (forM xs f)"
  by (induction xs) (simp_all add: stays_bind stays_pure)

lemma stays_sum:
  "(\<And>a. stays R (f a)) \<Longrightarrow> (\<And>b. stays R (g b)) \<Longrightarrow> stays R (case v of Inl a \<Rightarrow> f a | Inr b \<Rightarrow> g b)"
  by (cases v) simp_all

lemma stays_let: "(\<And>x. stays R (f x)) \<Longrightarrow> stays R (let x = v in f x)"
  by simp

text \<open>The same with what the guards passed so far have established.\<close>

lemma stays_guard: "(b \<Longrightarrow> stays R (f ())) \<Longrightarrow> stays R (bindM (unlessM b e) f)"
  by (auto simp: stays_def bindM_def unlessM_def R_refl)

lemma stays_cond: "(b \<Longrightarrow> stays R m) \<Longrightarrow> (\<not> b \<Longrightarrow> stays R n) \<Longrightarrow> stays R (if b then m else n)"
  by simp

lemmas stays_rules = stays_forM stays_sum stays_let stays_bind stays_if stays_pure stays_option stays_case_prod
lemmas stays_guarded = stays_guard stays_cond stays_forM stays_sum stays_let stays_pure stays_option stays_case_prod

end

section \<open>Decimal printing and reading\<close>

definition digit_char :: "nat \<Rightarrow> char" where
  "digit_char d = char_of (48 + d)"

definition char_digit :: "char \<Rightarrow> nat" where
  "char_digit c = of_char c - 48"

definition is_digit :: "char \<Rightarrow> bool" where
  "is_digit c \<longleftrightarrow> 48 \<le> (of_char c :: nat) \<and> (of_char c :: nat) \<le> 57"

definition is_alpha :: "char \<Rightarrow> bool" where
  "is_alpha c \<longleftrightarrow>
     (65 \<le> (of_char c :: nat) \<and> (of_char c :: nat) \<le> 90) \<or>
     (97 \<le> (of_char c :: nat) \<and> (of_char c :: nat) \<le> 122)"

definition is_alnum :: "char \<Rightarrow> bool" where
  "is_alnum c \<longleftrightarrow> is_digit c \<or> is_alpha c"

definition is_graph :: "char \<Rightarrow> bool" where
  "is_graph c \<longleftrightarrow> 33 \<le> (of_char c :: nat) \<and> (of_char c :: nat) \<le> 126"

fun dec_nat :: "nat \<Rightarrow> string" where
  "dec_nat n = (if n < 10 then [digit_char n] else dec_nat (n div 10) @ [digit_char (n mod 10)])"

declare dec_nat.simps [simp del]

definition dec :: "int \<Rightarrow> string" where
  "dec i = (if i < 0 then CHR ''-'' # dec_nat (nat (- i)) else dec_nat (nat i))"

definition undec_nat :: "string \<Rightarrow> nat" where
  "undec_nat s = foldl (\<lambda>n c. 10 * n + char_digit c) 0 s"

definition undec :: "string \<Rightarrow> int option" where
  "undec s = (case s of
      [] \<Rightarrow> None
    | c # cs \<Rightarrow>
        if c = CHR ''-'' \<and> cs \<noteq> [] \<and> list_all is_digit cs then Some (- int (undec_nat cs))
        else if list_all is_digit s then Some (int (undec_nat s))
        else None)"

lemma is_alnum_graph: "is_alnum c \<Longrightarrow> is_graph c"
  by (auto simp: is_alnum_def is_digit_def is_alpha_def is_graph_def)

lemma quote_not_alnum [simp]: "\<not> is_alnum CHR 0x27"
  by (simp add: is_alnum_def is_digit_def is_alpha_def)

lemma of_char_digit_char: "d < 10 \<Longrightarrow> (of_char (digit_char d) :: nat) = 48 + d"
  by (simp add: digit_char_def)

lemma is_digit_digit_char [simp]: "d < 10 \<Longrightarrow> is_digit (digit_char d)"
  by (simp add: is_digit_def of_char_digit_char)

lemma char_digit_digit_char [simp]: "d < 10 \<Longrightarrow> char_digit (digit_char d) = d"
  by (simp add: char_digit_def of_char_digit_char)

lemma dec_nat_digits: "list_all is_digit (dec_nat n)"
proof (induction n rule: dec_nat.induct)
  case (1 n)
  then show ?case by (subst dec_nat.simps) simp
qed

lemma dec_nat_nonempty [simp]: "dec_nat n \<noteq> []"
  by (subst dec_nat.simps) simp

lemma undec_nat_dec_nat: "undec_nat (dec_nat n) = n"
proof (induction n rule: dec_nat.induct)
  case (1 n)
  then show ?case
    by (subst dec_nat.simps) (simp add: undec_nat_def)
qed

lemma minus_not_digit [simp]: "\<not> is_digit CHR ''-''"
  by (simp add: is_digit_def)

lemma undec_dec: "undec (dec i) = Some i"
proof (cases "i < 0")
  case True
  then show ?thesis
    by (simp add: dec_def undec_def dec_nat_digits undec_nat_dec_nat)
next
  case False
  obtain c cs where s: "dec_nat (nat i) = c # cs"
    by (cases "dec_nat (nat i)") simp_all
  with dec_nat_digits [of "nat i"] have "is_digit c" by simp
  then have "c \<noteq> CHR ''-''" by auto
  with False s dec_nat_digits [of "nat i"] undec_nat_dec_nat [of "nat i"] show ?thesis
    by (simp add: dec_def undec_def)
qed

section \<open>C strings\<close>

text \<open>What a C program sees of an array of characters: the part before the first NUL.\<close>

definition c_str :: "string \<Rightarrow> string" where
  "c_str s = takeWhile (\<lambda>c. c \<noteq> CHR 0x00) s"

lemma c_str_id: "CHR 0x00 \<notin> set s \<Longrightarrow> c_str s = s"
  by (induction s) (auto simp: c_str_def)

lemma c_str_nul_free [simp]: "CHR 0x00 \<notin> set (c_str s)"
  by (auto simp: c_str_def dest: set_takeWhileD)

lemma nul_not_digit [simp]: "\<not> is_digit CHR 0x00"
  by (simp add: is_digit_def)

lemma nul_not_alnum [simp]: "\<not> is_alnum CHR 0x00"
  by (simp add: is_alnum_def is_digit_def is_alpha_def)

lemma dec_nul_free [simp]: "CHR 0x00 \<notin> set (dec i)"
  using dec_nat_digits [of "nat i"] dec_nat_digits [of "nat (- i)"]
  by (auto simp: dec_def list_all_iff)

lemma c_str_dec [simp]: "c_str (dec i) = dec i"
  by (rule c_str_id) simp

section \<open>Lists\<close>

lemma mset_eq_short:
  assumes "mset xs = mset ys" and "length ys \<le> 1"
  shows "xs = ys"
proof (cases ys)
  case Nil
  with assms show ?thesis by simp
next
  case (Cons y zs)
  with assms(2) have "ys = [y]" by simp
  with assms(1) show ?thesis by simp
qed

lemma sorted_wrt_filter_short:
  assumes "sorted_wrt (\<lambda>a b. \<not> C a b) xs" and "\<And>a b. Q a \<Longrightarrow> Q b \<Longrightarrow> C a b"
  shows "length (filter Q xs) \<le> 1"
  using assms
proof (induction xs)
  case Nil
  then show ?case by simp
next
  case (Cons x xs)
  have "filter Q xs = []" if "Q x"
    using Cons.prems that by (auto simp: filter_empty_conv)
  with Cons show ?case by simp
qed

lemma sorted_wrt_filterI: "sorted_wrt P xs \<Longrightarrow> sorted_wrt P (filter Q xs)"
  by (induction xs) auto

lemma filter_filter_idem: "(\<And>x. Q x \<Longrightarrow> P x) \<Longrightarrow> filter Q (filter P xs) = filter Q xs"
  by (induction xs) auto

lemma filter_filter_disjoint: "(\<And>x. P x \<Longrightarrow> \<not> Q x) \<Longrightarrow> filter Q (filter P xs) = []"
  by (induction xs) auto

end
