(* ===== verification/Sql.thy ===== *)
theory Sql
  imports Prelude
begin

text \<open>
  The SQL the daemon is written in.  The sources of vcd embed SQL statements as text; this theory
  has the data they work on (\<^verbatim>\<open>src/src/vcd/vxdb-tables.h\<close>: the tables, their
  columns and their unique indexes) and the meaning of the statement forms that occur in the
  sources: one constructor of \<open>stmt\<close> or \<open>query\<close> per form.  No table declares a column type, so
  SQLite stores a literal as it is written: \<open>%d\<close> as an integer, \<open>'%s'\<close> as text.

  The engine itself (failures, the order in which rows are produced, what it makes of a text whose
  interpolated argument closes the quotes) is not fixed here: it is the parameter \<open>sqlite\<close> of
  theory \<open>Host\<close>.

  The lemmas show that every statement keeps the unique indexes, what each statement form does to
  the rows of its own and of every other table, and that rows under a unique key behave as a map
  from keys to rows (locale \<open>keyed_store\<close>, interpreted on the row operations).
\<close>

section \<open>Tables and columns\<close>

datatype col =
    C_xid | C_space | C_inodes | C_reserved | C_gid | C_name | C_init | C_halt | C_reboot
  | C_timeout | C_src | C_dst | C_type | C_opts | C_addr | C_netmask | C_broadcast | C_uid
  | C_password | C_admin | C_cap | C_uptime | C_requests | C_flogins | C_nomethod
  | C_vxdbqueries | C_vdir | C_bcap | C_ccap | C_cpus | C_mems | C_virtualize | C_flag
  | C_soft | C_max | C_cpuid | C_fillrate | C_fillrate2 | C_interval | C_interval2
  | C_tokensmin | C_tokensmax | C_value

datatype table =
    T_dx_limit | T_groups | T_init | T_mount | T_nx_addr | T_nx_broadcast | T_restart | T_user
  | T_user_caps | T_vcd | T_vdir | T_vx_bcaps | T_vx_ccaps | T_vx_cpuset | T_vx_flags
  | T_vx_limit | T_vx_sched | T_vx_uname | T_xid_gid_map | T_xid_name_map | T_xid_uid_map

record vxdb_table =
  tbl_name :: table
  tbl_columns :: "col list"
  tbl_unique :: "col list list"

definition vxdb_tables :: "vxdb_table list" where
  "vxdb_tables = [
     \<lparr>tbl_name = T_dx_limit, tbl_columns = [C_xid, C_space, C_inodes, C_reserved],
      tbl_unique = [[C_xid]]\<rparr>,
     \<lparr>tbl_name = T_groups, tbl_columns = [C_gid, C_name], tbl_unique = [[C_gid], [C_name]]\<rparr>,
     \<lparr>tbl_name = T_init, tbl_columns = [C_xid, C_init, C_halt, C_reboot, C_timeout],
      tbl_unique = [[C_xid]]\<rparr>,
     \<lparr>tbl_name = T_mount, tbl_columns = [C_xid, C_src, C_dst, C_type, C_opts],
      tbl_unique = [[C_xid, C_dst]]\<rparr>,
     \<lparr>tbl_name = T_nx_addr, tbl_columns = [C_xid, C_addr, C_netmask],
      tbl_unique = [[C_xid, C_addr]]\<rparr>,
     \<lparr>tbl_name = T_nx_broadcast, tbl_columns = [C_xid, C_broadcast], tbl_unique = [[C_xid]]\<rparr>,
     \<lparr>tbl_name = T_restart, tbl_columns = [C_xid], tbl_unique = [[C_xid]]\<rparr>,
     \<lparr>tbl_name = T_user, tbl_columns = [C_uid, C_name, C_password, C_admin],
      tbl_unique = [[C_uid], [C_name]]\<rparr>,
     \<lparr>tbl_name = T_user_caps, tbl_columns = [C_uid, C_cap], tbl_unique = [[C_uid, C_cap]]\<rparr>,
     \<lparr>tbl_name = T_vcd,
      tbl_columns = [C_uptime, C_requests, C_flogins, C_nomethod, C_vxdbqueries],
      tbl_unique = [[C_uptime]]\<rparr>,
     \<lparr>tbl_name = T_vdir, tbl_columns = [C_xid, C_vdir], tbl_unique = [[C_xid], [C_vdir]]\<rparr>,
     \<lparr>tbl_name = T_vx_bcaps, tbl_columns = [C_xid, C_bcap], tbl_unique = [[C_xid, C_bcap]]\<rparr>,
     \<lparr>tbl_name = T_vx_ccaps, tbl_columns = [C_xid, C_ccap], tbl_unique = [[C_xid, C_ccap]]\<rparr>,
     \<lparr>tbl_name = T_vx_cpuset, tbl_columns = [C_xid, C_cpus, C_mems, C_virtualize],
      tbl_unique = [[C_xid]]\<rparr>,
     \<lparr>tbl_name = T_vx_flags, tbl_columns = [C_xid, C_flag], tbl_unique = [[C_xid, C_flag]]\<rparr>,
     \<lparr>tbl_name = T_vx_limit, tbl_columns = [C_xid, C_type, C_soft, C_max],
      tbl_unique = [[C_xid, C_type]]\<rparr>,
     \<lparr>tbl_name = T_vx_sched,
      tbl_columns = [C_xid, C_cpuid, C_fillrate, C_fillrate2, C_interval, C_interval2,
        C_tokensmin, C_tokensmax],
      tbl_unique = [[C_xid, C_cpuid]]\<rparr>,
     \<lparr>tbl_name = T_vx_uname, tbl_columns = [C_xid, C_type, C_value],
      tbl_unique = [[C_xid, C_type]]\<rparr>,
     \<lparr>tbl_name = T_xid_gid_map, tbl_columns = [C_xid, C_gid], tbl_unique = [[C_xid, C_gid]]\<rparr>,
     \<lparr>tbl_name = T_xid_name_map, tbl_columns = [C_xid, C_name],
      tbl_unique = [[C_xid], [C_name]]\<rparr>,
     \<lparr>tbl_name = T_xid_uid_map, tbl_columns = [C_xid, C_uid],
      tbl_unique = [[C_xid, C_uid]]\<rparr>]"

section \<open>Values and rows\<close>

datatype sval = SNull | SInt int | STxt string

text \<open>
  SQLite's order on values, used by \<^verbatim>\<open>ORDER BY\<close> and \<^verbatim>\<open>MAX\<close>: NULL
  before integers before text, text byte by byte.
\<close>

fun sval_le :: "sval \<Rightarrow> sval \<Rightarrow> bool" where
  "sval_le SNull _ = True"
| "sval_le (SInt i) SNull = False"
| "sval_le (SInt i) (SInt j) = (i \<le> j)"
| "sval_le (SInt i) (STxt _) = True"
| "sval_le (STxt s) (STxt t) = (s \<le> t)"
| "sval_le (STxt s) _ = False"

instantiation sval :: linorder
begin

definition less_eq_sval :: "sval \<Rightarrow> sval \<Rightarrow> bool" where
  "less_eq_sval a b = sval_le a b"

definition less_sval :: "sval \<Rightarrow> sval \<Rightarrow> bool" where
  "less_sval a b = (sval_le a b \<and> \<not> sval_le b a)"

instance
proof
  fix x y z :: sval
  show "(x < y) = (x \<le> y \<and> \<not> y \<le> x)"
    by (simp add: less_eq_sval_def less_sval_def)
  show "x \<le> x"
    by (cases x) (simp_all add: less_eq_sval_def)
  show "x \<le> y \<Longrightarrow> y \<le> z \<Longrightarrow> x \<le> z"
    by (cases x; cases y; cases z) (auto simp: less_eq_sval_def)
  show "x \<le> y \<Longrightarrow> y \<le> x \<Longrightarrow> x = y"
    by (cases x; cases y) (auto simp: less_eq_sval_def)
  show "x \<le> y \<or> y \<le> x"
    by (cases x; cases y) (auto simp: less_eq_sval_def)
qed

end

type_synonym row = "(col \<times> sval) list"

definition rget :: "row \<Rightarrow> col \<Rightarrow> sval" where
  "rget r c = (case map_of r c of None \<Rightarrow> SNull | Some v \<Rightarrow> v)"

record vxdb_db =
  user_version :: int
  schema :: "(table \<times> col list) list"
  indexes :: "(table \<times> col list) list"
  rows :: "table \<Rightarrow> row list"

definition empty_db :: vxdb_db where
  "empty_db = \<lparr>user_version = 0, schema = [], indexes = [], rows = (\<lambda>_. [])\<rparr>"

text \<open>
  Two rows conflict on an index when they agree on all of its columns and none of these is NULL
  (SQL regards NULLs as distinct).
\<close>

definition conflict :: "col list \<Rightarrow> row \<Rightarrow> row \<Rightarrow> bool" where
  "conflict ix r r' \<longleftrightarrow> list_all (\<lambda>c. rget r c = rget r' c \<and> rget r c \<noteq> SNull) ix"

definition uniq_rows :: "col list \<Rightarrow> row list \<Rightarrow> bool" where
  "uniq_rows ix rs \<longleftrightarrow> sorted_wrt (\<lambda>a b. \<not> conflict ix a b) rs"

definition table_indexes :: "vxdb_db \<Rightarrow> table \<Rightarrow> col list list" where
  "table_indexes d t = map snd (filter (\<lambda>i. fst i = t) (indexes d))"

definition clashes :: "vxdb_db \<Rightarrow> table \<Rightarrow> row \<Rightarrow> row \<Rightarrow> bool" where
  "clashes d t r r' \<longleftrightarrow> list_ex (\<lambda>ix. conflict ix r r') (table_indexes d t)"

section \<open>Expressions and conditions\<close>

datatype sexpr =
    Lit sval            \<comment> \<open>\<^verbatim>\<open>%d\<close>, \<^verbatim>\<open>'%s'\<close> or a constant\<close>
  | Plus1 col           \<comment> \<open>\<^verbatim>\<open>col + 1\<close>\<close>
  | MaxOf table col     \<comment> \<open>\<^verbatim>\<open>(SELECT MAX(col) FROM table)\<close>\<close>

definition max_of :: "row list \<Rightarrow> col \<Rightarrow> sval" where
  "max_of rs c = foldr (\<lambda>r m. max (rget r c) m) rs SNull"

text \<open>
  \<open>Plus1\<close> is applied to the counters of table \<open>vcd\<close> only, which are always integers.
\<close>

fun eval_expr :: "vxdb_db \<Rightarrow> row \<Rightarrow> sexpr \<Rightarrow> sval" where
  "eval_expr d r (Lit v) = v"
| "eval_expr d r (Plus1 c) = (case rget r c of SInt i \<Rightarrow> SInt (i + 1) | _ \<Rightarrow> SNull)"
| "eval_expr d r (MaxOf t c) = max_of (rows d t) c"

type_synonym cond = "(col \<times> sexpr) list"

definition matches :: "vxdb_db \<Rightarrow> cond \<Rightarrow> row \<Rightarrow> bool" where
  "matches d w r \<longleftrightarrow>
     list_all (\<lambda>(c, e). let v = eval_expr d r e in rget r c = v \<and> v \<noteq> SNull) w"

section \<open>Statements\<close>

datatype stmt =
    Begin
  | Commit
  | CreateTable table "col list"
  | CreateIndex table "col list"
  | SetVersion int
  | Insert bool table row                    \<comment> \<open>the flag is \<^verbatim>\<open>OR REPLACE\<close>\<close>
  | Update table "(col \<times> sexpr) list" cond
  | Delete table cond

text \<open>A connection: the database it sees, and the one to go back to if the open transaction is
  never committed.\<close>

record conn =
  cur :: vxdb_db
  saved :: "vxdb_db option"
  changes :: nat

definition has_cols :: "vxdb_db \<Rightarrow> table \<Rightarrow> col list \<Rightarrow> bool" where
  "has_cols d t cs \<longleftrightarrow>
     (case map_of (schema d) t of None \<Rightarrow> False | Some ds \<Rightarrow> list_all (\<lambda>c. c \<in> set ds) cs)"

definition set_rows :: "table \<Rightarrow> row list \<Rightarrow> vxdb_db \<Rightarrow> vxdb_db" where
  "set_rows t rs d = d\<lparr>rows := (rows d)(t := rs)\<rparr>"

definition update_row :: "vxdb_db \<Rightarrow> (col \<times> sexpr) list \<Rightarrow> row \<Rightarrow> row" where
  "update_row d sets r = foldl (\<lambda>q (c, e). AList.update c (eval_expr d r e) q) r sets"

definition uniq_ok :: "vxdb_db \<Rightarrow> table \<Rightarrow> row list \<Rightarrow> bool" where
  "uniq_ok d t rs \<longleftrightarrow> list_all (\<lambda>ix. uniq_rows ix rs) (table_indexes d t)"

fun exec_stmt :: "stmt \<Rightarrow> conn \<Rightarrow> conn option" where
  "exec_stmt Begin k =
     (case saved k of None \<Rightarrow> Some (k\<lparr>saved := Some (cur k)\<rparr>) | Some _ \<Rightarrow> None)"
| "exec_stmt Commit k =
     (case saved k of None \<Rightarrow> None | Some _ \<Rightarrow> Some (k\<lparr>saved := None\<rparr>))"
| "exec_stmt (CreateTable t cs) k =
     (if map_of (schema (cur k)) t \<noteq> None then None
      else Some (k\<lparr>cur := set_rows t [] (cur k\<lparr>schema := schema (cur k) @ [(t, cs)]\<rparr>)\<rparr>))"
| "exec_stmt (CreateIndex t ix) k =
     (if (t, ix) \<in> set (indexes (cur k)) \<or> \<not> has_cols (cur k) t ix
          \<or> \<not> uniq_rows ix (rows (cur k) t) then None
      else Some (k\<lparr>cur := cur k\<lparr>indexes := indexes (cur k) @ [(t, ix)]\<rparr>\<rparr>))"
| "exec_stmt (SetVersion v) k = Some (k\<lparr>cur := cur k\<lparr>user_version := v\<rparr>\<rparr>)"
| "exec_stmt (Insert orrepl t r) k =
     (let d = cur k; rs = rows d t in
      if \<not> has_cols d t (map fst r) then None
      else if \<not> orrepl \<and> list_ex (clashes d t r) rs then None
      else Some (k\<lparr>cur := set_rows t (filter (\<lambda>q. \<not> clashes d t r q) rs @ [r]) d,
                   changes := 1\<rparr>))"
| "exec_stmt (Update t sets w) k =
     (let d = cur k; rs = rows d t;
          rs' = map (\<lambda>r. if matches d w r then update_row d sets r else r) rs in
      if \<not> has_cols d t (map fst sets @ map fst w) then None
      else if \<not> uniq_ok d t rs' then None
      else Some (k\<lparr>cur := set_rows t rs' d, changes := length (filter (matches d w) rs)\<rparr>))"
| "exec_stmt (Delete t w) k =
     (let d = cur k; rs = rows d t in
      if \<not> has_cols d t (map fst w) then None
      else Some (k\<lparr>cur := set_rows t (filter (\<lambda>r. \<not> matches d w r) rs) d,
                   changes := length (filter (matches d w) rs)\<rparr>))"

text \<open>Closing a connection with an open transaction rolls it back.\<close>

definition close_conn :: "conn \<Rightarrow> conn" where
  "close_conn k = (case saved k of None \<Rightarrow> k | Some d \<Rightarrow> k\<lparr>cur := d, saved := None\<rparr>)"

section \<open>Queries\<close>

datatype sord = Unordered | Asc col | Desc col

datatype query =
    Select "col list" table cond sord
  | SelectLimit1 "col list" table cond sord
  | SelectJoin "col list" table table col cond sord
      \<comment> \<open>\<^verbatim>\<open>SELECT t1.cols FROM t1 INNER JOIN t2 ON t1.c = t2.c WHERE t2.cond\<close>\<close>
  | SelectCountMax col table
  | MasterAny
  | MasterTable table
  | MasterIndex table "col list"
  | PragmaVersion

definition join_rows :: "vxdb_db \<Rightarrow> table \<Rightarrow> table \<Rightarrow> col \<Rightarrow> cond \<Rightarrow> row list" where
  "join_rows d t1 t2 c w =
     concat (map (\<lambda>r1. map (\<lambda>_. r1)
        (filter (\<lambda>r2. rget r1 c = rget r2 c \<and> rget r1 c \<noteq> SNull \<and> matches d w r2) (rows d t2)))
        (rows d t1))"

fun order_rows :: "sord \<Rightarrow> row list \<Rightarrow> row list" where
  "order_rows Unordered rs = rs"
| "order_rows (Asc c) rs = sort_key (\<lambda>r. rget r c) rs"
| "order_rows (Desc c) rs = rev (sort_key (\<lambda>r. rget r c) rs)"

fun order_cols :: "sord \<Rightarrow> col list" where
  "order_cols Unordered = []"
| "order_cols (Asc c) = [c]"
| "order_cols (Desc c) = [c]"

text \<open>Whether the statement compiles against the schema.\<close>

fun query_ok :: "query \<Rightarrow> vxdb_db \<Rightarrow> bool" where
  "query_ok (Select cs t w od) d = has_cols d t (cs @ map fst w @ order_cols od)"
| "query_ok (SelectLimit1 cs t w od) d = has_cols d t (cs @ map fst w @ order_cols od)"
| "query_ok (SelectJoin cs t1 t2 c w od) d =
     (has_cols d t1 (c # cs @ order_cols od) \<and> has_cols d t2 (c # map fst w))"
| "query_ok (SelectCountMax c t) d = has_cols d t [c]"
| "query_ok _ d = True"

text \<open>The rows a query yields; \<open>scan\<close> is the order in which the engine visits the rows where the
  statement does not fix one.\<close>

fun query_rows :: "(row list \<Rightarrow> row list) \<Rightarrow> query \<Rightarrow> vxdb_db \<Rightarrow> sval list list" where
  "query_rows scan (Select cs t w od) d =
     map (\<lambda>r. map (rget r) cs) (order_rows od (scan (filter (matches d w) (rows d t))))"
| "query_rows scan (SelectLimit1 cs t w od) d =
     take 1 (map (\<lambda>r. map (rget r) cs) (order_rows od (scan (filter (matches d w) (rows d t)))))"
| "query_rows scan (SelectJoin cs t1 t2 c w od) d =
     map (\<lambda>r. map (rget r) cs) (order_rows od (scan (join_rows d t1 t2 c w)))"
| "query_rows scan (SelectCountMax c t) d =
     [[SInt (int (length (filter (\<lambda>r. rget r c \<noteq> SNull) (rows d t)))), max_of (rows d t) c]]"
| "query_rows scan MasterAny d = (if schema d = [] then [] else [[SNull]])"
| "query_rows scan (MasterTable t) d = (if map_of (schema d) t = None then [] else [[SNull]])"
| "query_rows scan (MasterIndex t ix) d = (if (t, ix) \<in> set (indexes d) then [[SNull]] else [])"
| "query_rows scan PragmaVersion d = [[SInt (user_version d)]]"

section \<open>Quoting\<close>

text \<open>
  The sources interpolate text arguments between single quotes without escaping them.  A statement
  is the one the format string spells out exactly when no argument contains a quote.
\<close>

definition quote_free :: "string \<Rightarrow> bool" where
  "quote_free s \<longleftrightarrow> CHR 0x27 \<notin> set s"

fun sval_safe :: "sval \<Rightarrow> bool" where
  "sval_safe (STxt s) = quote_free s"
| "sval_safe _ = True"

fun sexpr_safe :: "sexpr \<Rightarrow> bool" where
  "sexpr_safe (Lit v) = sval_safe v"
| "sexpr_safe _ = True"

fun stmt_safe :: "stmt \<Rightarrow> bool" where
  "stmt_safe (Insert _ _ r) = list_all (\<lambda>(c, v). sval_safe v) r"
| "stmt_safe (Update _ sets w) =
     (list_all (\<lambda>(c, e). sexpr_safe e) sets \<and> list_all (\<lambda>(c, e). sexpr_safe e) w)"
| "stmt_safe (Delete _ w) = list_all (\<lambda>(c, e). sexpr_safe e) w"
| "stmt_safe _ = True"

fun query_safe :: "query \<Rightarrow> bool" where
  "query_safe (Select _ _ w _) = list_all (\<lambda>(c, e). sexpr_safe e) w"
| "query_safe (SelectLimit1 _ _ w _) = list_all (\<lambda>(c, e). sexpr_safe e) w"
| "query_safe (SelectJoin _ _ _ _ w _) = list_all (\<lambda>(c, e). sexpr_safe e) w"
| "query_safe _ = True"

section \<open>Facts about rows\<close>

lemma rget_Cons [simp]: "rget ((c, v) # r) c' = (if c' = c then v else rget r c')"
  by (simp add: rget_def)

lemma rget_Nil [simp]: "rget [] c = SNull"
  by (simp add: rget_def)

lemma rget_update [simp]: "rget (AList.update c v r) c' = (if c' = c then v else rget r c')"
  by (simp add: rget_def update_conv')

lemma conflict_sym: "conflict ix r r' = conflict ix r' r"
  by (auto simp: conflict_def list_all_iff)

lemma matches_Nil [simp]: "matches d [] r"
  by (simp add: matches_def)

lemma matches_Cons [simp]:
  "matches d ((c, e) # w) r \<longleftrightarrow>
     rget r c = eval_expr d r e \<and> eval_expr d r e \<noteq> SNull \<and> matches d w r"
  by (auto simp: matches_def Let_def)

lemma set_rows_sel [simp]:
  "rows (set_rows t rs d) = (rows d)(t := rs)"
  "schema (set_rows t rs d) = schema d"
  "indexes (set_rows t rs d) = indexes d"
  "user_version (set_rows t rs d) = user_version d"
  by (simp_all add: set_rows_def)

lemma table_indexes_set_rows [simp]: "table_indexes (set_rows t rs d) = table_indexes d"
  by (simp add: fun_eq_iff table_indexes_def)

lemma has_cols_set_rows [simp]: "has_cols (set_rows t rs d) = has_cols d"
  by (simp add: fun_eq_iff has_cols_def)

lemma set_table_indexes: "ix \<in> set (table_indexes d t) \<longleftrightarrow> (t, ix) \<in> set (indexes d)"
  by (force simp: table_indexes_def)

section \<open>Unique indexes are kept\<close>

definition db_inv :: "vxdb_db \<Rightarrow> bool" where
  "db_inv d \<longleftrightarrow> list_all (\<lambda>(t, ix). uniq_rows ix (rows d t)) (indexes d)"

definition conn_inv :: "conn \<Rightarrow> bool" where
  "conn_inv k \<longleftrightarrow> db_inv (cur k) \<and> (case saved k of None \<Rightarrow> True | Some d \<Rightarrow> db_inv d)"

lemma db_invI:
  "(\<And>t ix. (t, ix) \<in> set (indexes d) \<Longrightarrow> uniq_rows ix (rows d t)) \<Longrightarrow> db_inv d"
  by (auto simp: db_inv_def list_all_iff)

lemma db_invD: "db_inv d \<Longrightarrow> (t, ix) \<in> set (indexes d) \<Longrightarrow> uniq_rows ix (rows d t)"
  by (auto simp: db_inv_def list_all_iff)

lemma uniq_rows_filter: "uniq_rows ix rs \<Longrightarrow> uniq_rows ix (filter P rs)"
  by (simp add: uniq_rows_def sorted_wrt_filterI)

lemma uniq_rows_replace:
  "uniq_rows ix rs \<Longrightarrow> (\<And>q. q \<in> set rs \<Longrightarrow> P q \<Longrightarrow> \<not> conflict ix r q)
     \<Longrightarrow> uniq_rows ix (filter P rs @ [r])"
  by (auto simp: uniq_rows_def sorted_wrt_append sorted_wrt_filterI conflict_sym)

lemma db_inv_set_rows:
  assumes "db_inv d" and "\<And>ix. (t, ix) \<in> set (indexes d) \<Longrightarrow> uniq_rows ix rs"
  shows "db_inv (set_rows t rs d)"
  using assms by (intro db_invI) (auto dest: db_invD)

lemma not_clashes:
  "\<not> clashes d t r q \<Longrightarrow> (t, ix) \<in> set (indexes d) \<Longrightarrow> \<not> conflict ix r q"
  by (auto simp: clashes_def list_ex_iff set_table_indexes)

lemma exec_stmt_inv:
  assumes "exec_stmt st k = Some k'" and "conn_inv k"
  shows "conn_inv k'"
proof (cases st)
  case (Insert orrepl t r)
  with assms show ?thesis
    by (auto simp: conn_inv_def Let_def split: if_splits
        intro!: db_inv_set_rows uniq_rows_replace dest: db_invD not_clashes)
next
  case (Update t sets w)
  with assms show ?thesis
    by (auto simp: conn_inv_def Let_def uniq_ok_def list_all_iff set_table_indexes
        split: if_splits intro!: db_inv_set_rows)
next
  case (Delete t w)
  with assms show ?thesis
    by (auto simp: conn_inv_def Let_def split: if_splits
        intro!: db_inv_set_rows uniq_rows_filter dest: db_invD)
next
  case (CreateTable t cs)
  with assms show ?thesis
    by (auto simp: conn_inv_def db_inv_def list_all_iff uniq_rows_def split: if_splits)
next
  case (CreateIndex t ix)
  with assms show ?thesis
    by (auto simp: conn_inv_def db_inv_def list_all_iff split: if_splits)
qed (use assms in \<open>auto simp: conn_inv_def db_inv_def split: option.splits\<close>)

lemma close_conn_inv: "conn_inv k \<Longrightarrow> conn_inv (close_conn k)"
  by (auto simp: conn_inv_def close_conn_def split: option.splits)

section \<open>Frame of a statement\<close>

fun stmt_table :: "stmt \<Rightarrow> table option" where
  "stmt_table (CreateTable t _) = Some t"
| "stmt_table (Insert _ t _) = Some t"
| "stmt_table (Update t _ _) = Some t"
| "stmt_table (Delete t _) = Some t"
| "stmt_table _ = None"

lemma exec_stmt_other_table:
  "exec_stmt st k = Some k' \<Longrightarrow> stmt_table st \<noteq> Some t \<Longrightarrow> rows (cur k') t = rows (cur k) t"
  by (cases st) (auto simp: Let_def split: if_splits option.splits)

lemma exec_stmt_schema:
  "exec_stmt st k = Some k' \<Longrightarrow> (case st of CreateTable _ _ \<Rightarrow> False | _ \<Rightarrow> True)
     \<Longrightarrow> schema (cur k') = schema (cur k)"
  by (cases st) (auto simp: Let_def split: if_splits option.splits)

lemma exec_stmt_indexes:
  "exec_stmt st k = Some k' \<Longrightarrow> (case st of CreateIndex _ _ \<Rightarrow> False | _ \<Rightarrow> True)
     \<Longrightarrow> indexes (cur k') = indexes (cur k)"
  by (cases st) (auto simp: Let_def split: if_splits option.splits)

section \<open>Rows under a unique key\<close>

text \<open>
  A table with one unique index is a map from the values of the index columns to rows.  The
  interface is stated once; the client lemmas give what a handler that writes a row and one that
  reads it back rely on.
\<close>

locale keyed_store =
  fixes key :: "'v \<Rightarrow> 'k"
    and valid :: "'k \<Rightarrow> bool"
    and put :: "'v \<Rightarrow> 'm \<Rightarrow> 'm"
    and del :: "'k \<Rightarrow> 'm \<Rightarrow> 'm"
    and lookup :: "'m \<Rightarrow> 'k \<Rightarrow> 'v option"
    and invar :: "'m \<Rightarrow> bool"
  assumes lookup_put: "invar m \<Longrightarrow> valid (key v) \<Longrightarrow> lookup (put v m) = (lookup m)(key v := Some v)"
    and lookup_del: "invar m \<Longrightarrow> lookup (del k m) = (lookup m)(k := None)"
    and invar_put: "invar m \<Longrightarrow> invar (put v m)"
    and invar_del: "invar m \<Longrightarrow> invar (del k m)"
begin

lemma get_put_same: "invar m \<Longrightarrow> valid (key v) \<Longrightarrow> lookup (put v m) (key v) = Some v"
  by (simp add: lookup_put)

lemma get_put_other: "invar m \<Longrightarrow> valid (key v) \<Longrightarrow> k \<noteq> key v \<Longrightarrow> lookup (put v m) k = lookup m k"
  by (simp add: lookup_put)

lemma put_put_last:
  "invar m \<Longrightarrow> valid (key v) \<Longrightarrow> key v' = key v \<Longrightarrow> lookup (put v' (put v m)) = lookup (put v' m)"
  by (simp add: lookup_put invar_put)

lemma put_del: "invar m \<Longrightarrow> valid (key v) \<Longrightarrow> lookup (del (key v) (put v m)) = lookup (del (key v) m)"
  by (simp add: lookup_put lookup_del invar_put)

lemma put_comm:
  "invar m \<Longrightarrow> valid (key v) \<Longrightarrow> valid (key v') \<Longrightarrow> key v \<noteq> key v'
     \<Longrightarrow> lookup (put v (put v' m)) = lookup (put v' (put v m))"
  by (simp add: lookup_put invar_put fun_upd_twist)

end

definition row_key :: "col list \<Rightarrow> row \<Rightarrow> sval list" where
  "row_key ix r = map (rget r) ix"

definition key_valid :: "sval list \<Rightarrow> bool" where
  "key_valid k \<longleftrightarrow> SNull \<notin> set k"

definition row_put :: "col list \<Rightarrow> row \<Rightarrow> row list \<Rightarrow> row list" where
  "row_put ix r rs = filter (\<lambda>q. \<not> conflict ix r q) rs @ [r]"

definition row_del :: "col list \<Rightarrow> sval list \<Rightarrow> row list \<Rightarrow> row list" where
  "row_del ix k rs = filter (\<lambda>q. \<not> (row_key ix q = k \<and> key_valid k)) rs"

definition row_lookup :: "col list \<Rightarrow> row list \<Rightarrow> sval list \<Rightarrow> row option" where
  "row_lookup ix rs k = find (\<lambda>q. row_key ix q = k \<and> key_valid k) rs"

lemma conflict_key: "conflict ix r q \<longleftrightarrow> row_key ix r = row_key ix q \<and> key_valid (row_key ix r)"
  by (induction ix) (auto simp: conflict_def row_key_def key_valid_def)

lemma find_append: "find P (xs @ ys) = (case find P xs of None \<Rightarrow> find P ys | Some x \<Rightarrow> Some x)"
  by (induction xs) auto

lemma find_filter_keep: "(\<And>x. P x \<Longrightarrow> Q x) \<Longrightarrow> find P (filter Q xs) = find P xs"
  by (induction xs) auto

lemma find_filter_drop: "(\<And>x. P x \<Longrightarrow> \<not> Q x) \<Longrightarrow> find P (filter Q xs) = None"
  by (induction xs) auto

lemma row_lookup_put:
  assumes "key_valid (row_key ix r)"
  shows "row_lookup ix (row_put ix r rs) = (row_lookup ix rs)(row_key ix r := Some r)"
proof
  fix k
  let ?P = "\<lambda>q. row_key ix q = k \<and> key_valid k"
  show "row_lookup ix (row_put ix r rs) k = ((row_lookup ix rs)(row_key ix r := Some r)) k"
  proof (cases "k = row_key ix r")
    case True
    then have "find ?P (filter (\<lambda>q. \<not> conflict ix r q) rs) = None"
      by (intro find_filter_drop) (auto simp: conflict_key)
    with True assms show ?thesis by (simp add: row_lookup_def row_put_def find_append)
  next
    case False
    then have "find ?P (filter (\<lambda>q. \<not> conflict ix r q) rs) = find ?P rs"
      by (intro find_filter_keep) (auto simp: conflict_key)
    with False show ?thesis
      by (auto simp: row_lookup_def row_put_def find_append split: option.splits)
  qed
qed

lemma row_lookup_del: "row_lookup ix (row_del ix k rs) = (row_lookup ix rs)(k := None)"
proof
  fix j
  let ?Q = "\<lambda>q. \<not> (row_key ix q = k \<and> key_valid k)"
  show "row_lookup ix (row_del ix k rs) j = ((row_lookup ix rs)(k := None)) j"
  proof (cases "j = k")
    case True
    have "find (\<lambda>q. row_key ix q = k \<and> key_valid k) (filter ?Q rs) = None"
      by (rule find_filter_drop) blast
    with True show ?thesis by (simp only: row_lookup_def row_del_def fun_upd_same)
  next
    case False
    then have "find (\<lambda>q. row_key ix q = j \<and> key_valid j) (filter ?Q rs)
        = find (\<lambda>q. row_key ix q = j \<and> key_valid j) rs"
      by (intro find_filter_keep) auto
    with False show ?thesis by (simp add: row_lookup_def row_del_def)
  qed
qed

interpretation tab: keyed_store "row_key ix" key_valid "row_put ix" "row_del ix" "row_lookup ix"
    "uniq_rows ix" for ix
proof unfold_locales
  fix m :: "row list" and v k
  assume "uniq_rows ix m"
  then show "uniq_rows ix (row_put ix v m)" and "uniq_rows ix (row_del ix k m)"
    by (auto simp: row_put_def row_del_def intro!: uniq_rows_replace uniq_rows_filter)
qed (simp_all add: row_lookup_put row_lookup_del)

text \<open>Under the invariant a selection by the full key yields the row of that key, or nothing.\<close>

lemma filter_key:
  assumes "uniq_rows ix rs"
  shows "filter (\<lambda>q. row_key ix q = k \<and> key_valid k) rs
    = (case row_lookup ix rs k of None \<Rightarrow> [] | Some r \<Rightarrow> [r])"
proof -
  have *: "length (filter (\<lambda>q. row_key ix q = k \<and> key_valid k) rs) \<le> 1"
    using assms unfolding uniq_rows_def
    by (rule sorted_wrt_filter_short) (auto simp: conflict_key)
  show ?thesis
  proof (cases "row_lookup ix rs k")
    case None
    then have "filter (\<lambda>q. row_key ix q = k \<and> key_valid k) rs = []"
      by (auto simp: row_lookup_def find_None_iff filter_empty_conv)
    with None show ?thesis by simp
  next
    case (Some r)
    then have "r \<in> set (filter (\<lambda>q. row_key ix q = k \<and> key_valid k) rs)"
      by (auto simp: row_lookup_def find_Some_iff)
    with * Some show ?thesis
      by (cases "filter (\<lambda>q. row_key ix q = k \<and> key_valid k) rs") auto
  qed
qed

end
