(* ===== verification/Host.thy ===== *)
theory Host
  imports Sql
begin

text \<open>
  What the daemon calls and does not contain: the lucid library (string predicates, scanning,
  path handling, hashing), the SQLite engine, the VServer kernel and the C library's system
  interface, header constants and configuration values.  They are the parameters of the model,
  grouped in records; every definition that uses one takes it as an argument.

  \<open>lucid_ok\<close> and \<open>sqlite_ok\<close> state the documented behaviour some properties rely on; a
  statement or a query may fail at any time.  \<open>ref_host\<close> of theory \<open>Ref_Host\<close> is a concrete instance that satisfies them.

  \<open>str_len\<close>, \<open>str_equal\<close>, \<open>str_cmpn\<close>, \<open>str_dup\<close> and the printf family are lucid's copies of the
  C library's functions and appear as list operations and \<open>dec\<close>.
\<close>

section \<open>The lucid library\<close>

record lucid =
  str_isempty :: "string option \<Rightarrow> bool"           \<comment> \<open>\<open>None\<close> is the null pointer\<close>
  str_isalnum :: "string \<Rightarrow> bool"
  str_isdigit :: "string \<Rightarrow> bool"
  str_isgraph :: "string \<Rightarrow> bool"
  str_isascii :: "string \<Rightarrow> bool"
  str_path_isabs :: "string \<Rightarrow> bool"
  str_path_concat :: "string \<Rightarrow> string \<Rightarrow> string option"
  addr_from_str :: "string \<Rightarrow> int \<times> 32 word \<times> 32 word"  \<comment> \<open>result, address, mask\<close>
  whirlpool_digest :: "string \<Rightarrow> string"
  sscanf_d :: "string \<Rightarrow> int option"       \<comment> \<open>\<^verbatim>\<open>%d\<close>: \<open>None\<close> when nothing converts\<close>
  sscanf_u32 :: "string \<Rightarrow> int option"     \<comment> \<open>\<^verbatim>\<open>SCNu32\<close>\<close>
  sscanf_u64 :: "string \<Rightarrow> int option"     \<comment> \<open>\<^verbatim>\<open>SCNu64\<close>\<close>
  sscanf_i32 :: "string \<Rightarrow> int option"     \<comment> \<open>\<^verbatim>\<open>SCNi32\<close>\<close>
  v2i32 :: "32 word \<Rightarrow> int"                \<comment> \<open>the index of a bit\<close>
  ino_found :: "nat list \<Rightarrow> nat \<Rightarrow> bool"
      \<comment> \<open>\<^verbatim>\<open>tfind\<close> of an inode in a tree built with \<^verbatim>\<open>tsearch\<close>\<close>
  flist64_getval :: "(string \<times> 64 word) list \<Rightarrow> string \<Rightarrow> 64 word"
  flist64_getkey :: "(string \<times> 64 word) list \<Rightarrow> 64 word \<Rightarrow> string option"
  flist32_getval :: "(string \<times> 32 word) list \<Rightarrow> string \<Rightarrow> 32 word"
  strtok :: "string \<Rightarrow> char \<Rightarrow> string list option"  \<comment> \<open>\<^verbatim>\<open>strtok_init_str\<close>; \<open>None\<close> when it fails\<close>
  strtok_tostr :: "string list \<Rightarrow> string option"
      \<comment> \<open>\<^verbatim>\<open>strtok_init_argv\<close>, then \<^verbatim>\<open>strtok_tostr\<close> with a space\<close>

definition lucid_ok :: "lucid \<Rightarrow> bool" where
  "lucid_ok L \<longleftrightarrow>
     str_isempty L None \<and> str_isempty L (Some [])
     \<and> (\<forall>s c. c \<in> set s \<and> is_graph c \<longrightarrow> \<not> str_isempty L (Some s))
     \<and> (\<forall>s. s \<noteq> [] \<longrightarrow> str_isalnum L s = list_all is_alnum s)
     \<and> (\<forall>s. s \<noteq> [] \<longrightarrow> str_isdigit L s = list_all is_digit s)
     \<and> (\<forall>i. - (2 ^ 31) \<le> i \<and> i < 2 ^ 31 \<longrightarrow> sscanf_d L (dec i) = Some i)
     \<and> (\<forall>s i. sscanf_d L s = Some i \<longrightarrow> - (2 ^ 31) \<le> i \<and> i < 2 ^ 31)
     \<and> (\<forall>i. 0 \<le> i \<and> i < 2 ^ 32 \<longrightarrow> sscanf_u32 L (dec i) = Some i)
     \<and> (\<forall>i. 0 \<le> i \<and> i < 2 ^ 64 \<longrightarrow> sscanf_u64 L (dec i) = Some i)
     \<and> (\<forall>i. 0 \<le> i \<and> i < 2 ^ 31 \<longrightarrow> sscanf_i32 L (dec i) = Some i)
     \<and> (\<forall>i. i < 32 \<longrightarrow> v2i32 L (push_bit i 1) = int i)
     \<and> (\<forall>l k. flist64_getval L l k = (case map_of l k of None \<Rightarrow> 0 | Some v \<Rightarrow> v))
     \<and> (\<forall>l v. flist64_getkey L l v = map_option fst (find (\<lambda>n. snd n = v) l))
     \<and> (\<forall>l k. flist32_getval L l k = (case map_of l k of None \<Rightarrow> 0 | Some v \<Rightarrow> v))
     \<and> (\<forall>s. list_all is_alnum (whirlpool_digest L s))"

lemma lucid_ok_isempty:
  assumes "lucid_ok L"
  shows "str_isempty L None" and "str_isempty L (Some [])"
    and "c \<in> set s \<Longrightarrow> is_graph c \<Longrightarrow> \<not> str_isempty L (Some s)"
  using assms by (auto simp: lucid_ok_def)

lemma lucid_ok_chars:
  assumes "lucid_ok L" and "s \<noteq> []"
  shows "str_isalnum L s = list_all is_alnum s" and "str_isdigit L s = list_all is_digit s"
  using assms by (auto simp: lucid_ok_def)

lemma lucid_ok_scan:
  assumes "lucid_ok L"
  shows "- (2 ^ 31) \<le> i \<Longrightarrow> i < 2 ^ 31 \<Longrightarrow> sscanf_d L (dec i) = Some i"
    and "0 \<le> i \<Longrightarrow> i < 2 ^ 32 \<Longrightarrow> sscanf_u32 L (dec i) = Some i"
    and "0 \<le> i \<Longrightarrow> i < 2 ^ 64 \<Longrightarrow> sscanf_u64 L (dec i) = Some i"
    and "0 \<le> i \<Longrightarrow> i < 2 ^ 31 \<Longrightarrow> sscanf_i32 L (dec i) = Some i"
    and "j < 32 \<Longrightarrow> v2i32 L (push_bit j 1) = int j"
  using assms by (auto simp: lucid_ok_def)

lemma lucid_ok_int:
  assumes "lucid_ok L" and "sscanf_d L s = Some i"
  shows "- (2 ^ 31) \<le> i" and "i < 2 ^ 31"
  using assms by (auto simp: lucid_ok_def)

lemma lucid_ok_flist:
  assumes "lucid_ok L"
  shows "flist64_getval L l k = (case map_of l k of None \<Rightarrow> 0 | Some v \<Rightarrow> v)"
    and "flist64_getkey L l w = map_option fst (find (\<lambda>n. snd n = w) l)"
    and "flist32_getval L m k = (case map_of m k of None \<Rightarrow> 0 | Some v \<Rightarrow> v)"
  using assms by (auto simp: lucid_ok_def)

lemma lucid_ok_digest: "lucid_ok L \<Longrightarrow> list_all is_alnum (whirlpool_digest L s)"
  by (simp add: lucid_ok_def)

lemma lucid_ok_isempty_nonempty:
  "lucid_ok L \<Longrightarrow> \<not> str_isempty L (Some s) \<Longrightarrow> s \<noteq> []"
  using lucid_ok_isempty(2) by blast

section \<open>The SQLite engine\<close>

record qres =
  prepared :: bool              \<comment> \<open>\<^verbatim>\<open>sqlite3_prepare\<close> returned \<^verbatim>\<open>SQLITE_OK\<close>\<close>
  result :: "sval list list"    \<comment> \<open>the rows stepped over\<close>
  finished :: bool              \<comment> \<open>the last step returned \<^verbatim>\<open>SQLITE_DONE\<close>\<close>

record 'k sqlite =
  sq_perform :: "stmt \<Rightarrow> 'k \<Rightarrow> bool \<times> 'k"       \<comment> \<open>whether the engine gets to run a statement\<close>
  sq_prepare :: "query \<Rightarrow> 'k \<Rightarrow> bool \<times> 'k"
  sq_stop :: "query \<Rightarrow> 'k \<Rightarrow> nat option \<times> 'k"   \<comment> \<open>an error after so many rows\<close>
  sq_scan :: "query \<Rightarrow> row list \<Rightarrow> row list"     \<comment> \<open>order of visiting rows\<close>
  sq_raw_exec :: "stmt list \<Rightarrow> conn \<Rightarrow> 'k \<Rightarrow> (bool \<times> conn) \<times> 'k"
      \<comment> \<open>what the engine makes of the text of statements with a quote in an argument\<close>
  sq_raw_query :: "query \<Rightarrow> conn \<Rightarrow> 'k \<Rightarrow> qres \<times> 'k"
  sq_open :: "string option \<Rightarrow> 'k \<Rightarrow> bool \<times> 'k"        \<comment> \<open>whether the database file opens\<close>
  sq_close :: "'k \<Rightarrow> bool \<times> 'k"                 \<comment> \<open>whether \<^verbatim>\<open>sqlite3_close\<close> returns \<^verbatim>\<open>SQLITE_BUSY\<close>\<close>
  sq_stale_done :: bool    \<comment> \<open>whether a step of a finalized statement returns \<^verbatim>\<open>SQLITE_DONE\<close>\<close>

text \<open>Rows are visited in some order, each once, and whatever a text says, the unique indexes hold
  afterwards.\<close>

definition sqlite_ok :: "'k sqlite \<Rightarrow> bool" where
  "sqlite_ok Q \<longleftrightarrow>
     (\<forall>q rs. mset (sq_scan Q q rs) = mset rs)
     \<and> (\<forall>sts c k. conn_inv c \<longrightarrow> conn_inv (snd (fst (sq_raw_exec Q sts c k))))"

fun run_stmts :: "'k sqlite \<Rightarrow> stmt list \<Rightarrow> conn \<Rightarrow> 'k \<Rightarrow> (bool \<times> conn) \<times> 'k" where
  "run_stmts Q [] c k = ((True, c), k)"
| "run_stmts Q (st # sts) c k =
     (case sq_perform Q st k of (ok, k') \<Rightarrow>
        if \<not> ok then ((False, c), k')
        else (case exec_stmt st c of
                None \<Rightarrow> ((False, c), k')
              | Some c' \<Rightarrow> run_stmts Q sts c' k'))"

definition run_query :: "'k sqlite \<Rightarrow> query \<Rightarrow> conn \<Rightarrow> 'k \<Rightarrow> qres \<times> 'k" where
  "run_query Q q c k =
     (case sq_prepare Q q k of (ok, k') \<Rightarrow>
        if \<not> ok \<or> \<not> query_ok q (cur c) then
          (\<lparr>prepared = False, result = [], finished = False\<rparr>, k')
        else (case sq_stop Q q k' of (stop, k'') \<Rightarrow>
          let rs = query_rows (sq_scan Q q) q (cur c) in
          (case stop of
             None \<Rightarrow> (\<lparr>prepared = True, result = rs, finished = True\<rparr>, k'')
           | Some n \<Rightarrow> (\<lparr>prepared = True, result = take n rs, finished = False\<rparr>, k''))))"

section \<open>The kernel and the C library's system interface\<close>

datatype errno = ESRCH | ENOENT | Errno int

type_synonym ('k, 'a) syscall = "'k \<Rightarrow> (errno + 'a) \<times> 'k"   \<comment> \<open>\<open>Inl\<close>: returned -1\<close>

type_synonym xid_t = int   \<comment> \<open>unsigned 32-bit\<close>

datatype wstatus = WExited int | WSignaled int

record vx_stat_t =
  vs_tasks :: int
  nr_threads :: int
  nr_running :: int
  nr_unintr :: int
  nr_onhold :: int
  nr_forks :: int
  vs_uptime :: int      \<comment> \<open>nanoseconds\<close>
  load1 :: int
  load5 :: int
  load15 :: int

datatype ftw_type = FTW_D | FTW_F | FTW_SL | FTW_OTHER int

datatype fkind = S_REG | S_DIR | S_LNK | S_CHR | S_BLK | S_FIFO | S_SOCK

text \<open>One call of the function that \<^verbatim>\<open>nftw\<close> is given: the path, what follows its last
  slash, the depth, the type and what \<^verbatim>\<open>stat\<close> says.\<close>

record ftw =
  ft_path :: string
  ft_base :: string
  ft_level :: nat
  ft_type :: ftw_type
  st_kind :: fkind
  st_mode :: int
  st_uid :: int
  st_gid :: int
  st_ino :: nat
  st_nlink :: nat
  st_blocks :: int

record ix_attr =
  ia_xid :: xid_t
  ia_flags :: "32 word"
  ia_mask :: "32 word"

record vx_sched_t =
  sc_mask :: "64 word"
  sc_cpu :: int
  sc_fill_rate :: "int \<times> int"
  sc_interval :: "int \<times> int"
  sc_tokens_min :: int
  sc_tokens_max :: int
  sc_prio_bias :: int

text \<open>Calls that only succeed or fail.\<close>

datatype call =
    Nx_create xid_t "64 word"                  \<comment> \<open>flags and mask are the same\<close>
  | Vx_create xid_t "64 word"
  | Vx_migrate xid_t "64 word"
  | Vx_bcaps_set xid_t "64 word" "64 word"     \<comment> \<open>flags, mask\<close>
  | Vx_ccaps_set xid_t "64 word" "64 word"
  | Dx_limit_remove xid_t string
  | Dx_limit_add xid_t string
  | Dx_limit_set xid_t string int int int int int
      \<comment> \<open>space used and total, inodes used and total, reserved\<close>
  | Vx_limit_set xid_t int "64 word" "64 word" \<comment> \<open>soft limit, maximum\<close>
  | Vx_sched_set xid_t vx_sched_t
  | Ns_set xid_t
  | Chdir string
  | Fchdir_saved                               \<comment> \<open>back to the directory opened as \<^verbatim>\<open>curfd\<close>\<close>
  | Mkdir string int
  | Mkdirp string int
  | Mkdirat string int                         \<comment> \<open>below the guest's directory\<close>
  | Mknod string int int int                   \<comment> \<open>mode, major, minor\<close>
  | Unlink string
  | Open_read string
  | Openat_excl string int
  | Copy_file string
  | Linkat string
  | Symlinkat string string
  | Fchownat string int int
  | Fchmodat string int
  | Ix_attr_set string xid_t "32 word" "32 word" \<comment> \<open>flags, mask\<close>
  | Open_trunc string
  | Open_append string
  | Write string string                        \<comment> \<open>\<^verbatim>\<open>dprintf\<close> to the open file\<close>
  | Sigaction string
  | Close int
  | Umask int
  | Setsid
  | Tcp_listen string int int                  \<comment> \<open>host, port, backlog\<close>
  | Close_listen
  | Wait_pending                               \<comment> \<open>\<^verbatim>\<open>waitpid\<close> until no child is left\<close>

text \<open>The configuration file of a template as \<^verbatim>\<open>libconfuse\<close> reads it; \<open>None\<close> is an option
  that is not set.\<close>

record tmount =
  tm_dst :: string
  tm_src :: "string option"
  tm_type :: "string option"
  tm_opts :: "string option"

record tconf =
  t_description :: "string option"
  t_init :: "string option"
  t_halt :: "string option"
  t_reboot :: "string option"
  t_timeout :: "int option"
  t_mounts :: "tmount list"
  t_bcaps :: "string list option"
  t_ccaps :: "string list option"
  t_flags :: "string list option"

datatype cfg_rc = RC_FILE_ERROR | RC_PARSE_ERROR | RC_SUCCESS

datatype cfg_parsed = CFG_FILE_ERROR | CFG_PARSE_ERROR | CFG_SUCCESS tconf

text \<open>A child process: what it writes to the pipe, how it ends, and what it changes.\<close>

type_synonym 'k child = "'k \<Rightarrow> (string \<times> wstatus) \<times> 'k"

record 'k kernel =
  act :: "call \<Rightarrow> ('k, unit) syscall"
  nprocessors :: "'k \<Rightarrow> int"                       \<comment> \<open>\<^verbatim>\<open>sysconf(_SC_NPROCESSORS_ONLN)\<close>\<close>
  node_entries :: "'k \<Rightarrow> string list option"       \<comment> \<open>\<^verbatim>\<open>/sys/devices/system/node\<close>\<close>
  pagesize :: "64 word"                            \<comment> \<open>\<^verbatim>\<open>getpagesize()\<close>\<close>
  time_now :: "'k \<Rightarrow> int"
  open_lockfile :: "string \<Rightarrow> 'k \<Rightarrow> int \<times> 'k"      \<comment> \<open>\<^verbatim>\<open>mkdirnamep\<close>, then the descriptor of \<^verbatim>\<open>open_trunc\<close>\<close>
  lockf_test :: "int \<Rightarrow> ('k, unit) syscall"
  lockf_lock :: "int \<Rightarrow> ('k, unit) syscall"
  vx_info :: "xid_t \<Rightarrow> ('k, unit) syscall"
  nx_info :: "xid_t \<Rightarrow> ('k, unit) syscall"
  vx_kill :: "xid_t \<Rightarrow> int \<Rightarrow> int \<Rightarrow> ('k, unit) syscall"
  vx_flags_set :: "xid_t \<Rightarrow> 64 word \<Rightarrow> 64 word \<Rightarrow> ('k, unit) syscall"
  nx_flags_set :: "xid_t \<Rightarrow> 64 word \<Rightarrow> 64 word \<Rightarrow> ('k, unit) syscall"
  vx_uname_set :: "xid_t \<Rightarrow> int \<Rightarrow> string \<Rightarrow> ('k, unit) syscall"
  vx_stat :: "xid_t \<Rightarrow> ('k, vx_stat_t) syscall"
  vx_limit_stat :: "xid_t \<Rightarrow> int \<Rightarrow> ('k, 64 word \<times> 64 word \<times> 64 word) syscall"
      \<comment> \<open>minimum, value, maximum\<close>
  nx_sock_stat :: "xid_t \<Rightarrow> int \<Rightarrow> ('k, (32 word \<times> 64 word) list) syscall"
      \<comment> \<open>count and total for received, sent and failed\<close>
  ns_enter :: "xid_t \<Rightarrow> ('k, unit) syscall"
  chroot_secure_chdir :: "string \<Rightarrow> string \<Rightarrow> ('k, unit) syscall"
  chroot :: "string \<Rightarrow> ('k, unit) syscall"
  nx_migrate :: "xid_t \<Rightarrow> ('k, unit) syscall"
  pipe :: "('k, unit) syscall"
  fork_run :: "'k child \<Rightarrow> ('k, unit) syscall"     \<comment> \<open>\<^verbatim>\<open>fork\<close>, and what the child does\<close>
  ns_clone_run :: "'k child \<Rightarrow> ('k, unit) syscall" \<comment> \<open>the same with \<^verbatim>\<open>ns_clone(SIGCHLD, NULL)\<close>\<close>
  exec_replace :: "string \<Rightarrow> 'k \<Rightarrow> (errno + string \<times> wstatus) \<times> 'k"
      \<comment> \<open>returns only when it fails; otherwise the output and the end of the command\<close>
  read_child :: "('k, string) syscall"             \<comment> \<open>\<^verbatim>\<open>str_readfile\<close> on the pipe\<close>
  wait_child :: "('k, wstatus) syscall"            \<comment> \<open>\<^verbatim>\<open>waitpid(pid, &status, 0)\<close>\<close>
  fork :: "('k, unit) syscall"                     \<comment> \<open>as the parent sees it\<close>
  waitpid_nohang :: "('k, unit) syscall"
  sleep1 :: "'k \<Rightarrow> 'k"
  runlink :: "string \<Rightarrow> ('k, unit) syscall"
  isdir :: "string \<Rightarrow> 'k \<Rightarrow> bool"
  ismount :: "string \<Rightarrow> 'k \<Rightarrow> bool"
  rmdir :: "string \<Rightarrow> 'k \<Rightarrow> 'k"
  isfile :: "string \<Rightarrow> 'k \<Rightarrow> bool"
  ispath :: "string \<Rightarrow> 'k \<Rightarrow> bool"
  dir_entries :: "string \<Rightarrow> ('k, string list) syscall"   \<comment> \<open>\<^verbatim>\<open>opendir\<close> and all of \<^verbatim>\<open>readdir\<close>\<close>
  nftw :: "string \<Rightarrow> 'k \<Rightarrow> ftw list"                      \<comment> \<open>the files visited, in order\<close>
  stat_dev :: "string \<Rightarrow> ('k, int) syscall"              \<comment> \<open>\<^verbatim>\<open>st_dev\<close>\<close>
  readsymlink :: "string \<Rightarrow> ('k, string) syscall"
  ix_attr_get :: "string \<Rightarrow> ('k, ix_attr) syscall"
  vx_limit_mask_get :: "('k, 32 word \<times> 32 word) syscall"  \<comment> \<open>soft limit, maximum\<close>
  cfg_parse :: "string \<Rightarrow> 'k \<Rightarrow> cfg_parsed"
  cfg_parse_rc :: "string \<Rightarrow> 'k \<Rightarrow> cfg_rc"
      \<comment> \<open>\<^verbatim>\<open>cfg_parse\<close> on the configuration file of a program\<close>
  lstat_isdir :: "string \<Rightarrow> ('k, bool) syscall"           \<comment> \<open>\<^verbatim>\<open>lstat\<close>, then \<^verbatim>\<open>S_ISDIR\<close>\<close>
  getpid :: "'k \<Rightarrow> int"
  fork_child :: "('k, bool) syscall"                      \<comment> \<open>\<^verbatim>\<open>fork\<close>; true in the child\<close>
  strerror :: "errno \<Rightarrow> string"
  strsignal :: "int \<Rightarrow> string"
  addr_add :: "xid_t \<Rightarrow> bool \<Rightarrow> 32 word \<Rightarrow> 32 word \<Rightarrow> ('k, unit) syscall"
      \<comment> \<open>\<^verbatim>\<open>nx_addr_add\<close>; the flag is \<^verbatim>\<open>NXA_MOD_BCAST\<close>\<close>

section \<open>XML-RPC values\<close>

text \<open>
  Requests and answers are XML-RPC values.  Taking a request apart is the work of
  \<^verbatim>\<open>xmlrpc_decompose_value\<close> of the xmlrpc-c library; its format letters are parameters:
  a member of a structure, a C string (\<^verbatim>\<open>s\<close>), an \<^verbatim>\<open>int\<close> (\<^verbatim>\<open>i\<close>), a truth
  value (\<^verbatim>\<open>b\<close>) and an array of two elements.  \<open>None\<close> is a fault of the library.
\<close>

datatype xval =
    XInt int
  | XBool bool
  | XStr string
  | XNil
  | XArr "xval list"
  | XStruct "(string \<times> xval) list"

record xmlrpc =
  xr_member :: "xval \<Rightarrow> string \<Rightarrow> xval option"
  xr_string :: "xval \<Rightarrow> string option"
  xr_int :: "xval \<Rightarrow> int option"
  xr_bool :: "xval \<Rightarrow> bool option"
  xr_pair :: "xval \<Rightarrow> (xval \<times> xval) option"

definition xmlrpc_ok :: "xmlrpc \<Rightarrow> bool" where
  "xmlrpc_ok X \<longleftrightarrow>
     (\<forall>fs k. distinct (map fst fs) \<longrightarrow> xr_member X (XStruct fs) k = map_of fs k)
     \<and> (\<forall>s. CHR 0x00 \<notin> set s \<longrightarrow> xr_string X (XStr s) = Some s)
     \<and> (\<forall>v s. xr_string X v = Some s \<longrightarrow> CHR 0x00 \<notin> set s)
     \<and> (\<forall>i. - (2 ^ 31) \<le> i \<and> i < 2 ^ 31 \<longrightarrow> xr_int X (XInt i) = Some i)
     \<and> (\<forall>b. xr_bool X (XBool b) = Some b)
     \<and> (\<forall>a b. xr_pair X (XArr [a, b]) = Some (a, b))"

section \<open>The environment of the daemon\<close>

record 'k host =
  xr :: xmlrpc
  lib :: lucid
  sql :: "'k sqlite"
  kern :: "'k kernel"
  hdr :: "string \<Rightarrow> nat"              \<comment> \<open>constants of system headers, by name\<close>
  cfg_getstr :: "string \<Rightarrow> string"    \<comment> \<open>configuration values\<close>
  cfg_getint :: "string \<Rightarrow> int"
  cfg_isset :: "string \<Rightarrow> bool"       \<comment> \<open>whether a string option is not the null pointer\<close>
  garbage :: int                      \<comment> \<open>what an uninitialised \<^verbatim>\<open>int\<close> holds\<close>

section \<open>The state of a request\<close>

text \<open>
  Each connection is served by a process of its own: it has a database connection, the system it
  runs on, and the descriptor of the lock it holds (-1 for none,
  \<^verbatim>\<open>static int lockfd\<close> in \<^verbatim>\<open>methods.c\<close>).
\<close>

record 'k st =
  conn :: conn
  os :: 'k
  lockfd :: int

text \<open>
  How a request, or the start of the daemon, can end other than with a value.  \<open>Fault\<close> carries the
  code of a fault set with its standard message, \<open>Faultf\<close> a code with a message of its own,
  \<open>SysFault\<close> the name of the failed call and its error (code \<^verbatim>\<open>MESYS\<close>), \<open>VxdbFault\<close> a
  failed database operation (code \<^verbatim>\<open>MEVXDB\<close>), \<open>LibFault\<close> a request the XML-RPC library could
  not decompose, \<open>NoSuchMethod\<close> an unknown method; \<open>Die\<close> is \<^verbatim>\<open>log_error_and_die\<close>
  or \<^verbatim>\<open>exit(EXIT_FAILURE)\<close> after a message, \<open>Exit\<close> an \<^verbatim>\<open>exit\<close> with the given status.
\<close>

datatype fault =
    Fault int
  | Faultf int string
  | SysFault string errno
  | VxdbFault
  | LibFault
  | NoSuchMethod string
  | Die string
  | Exit int

type_synonym ('k, 'a) handler = "('k st, fault, 'a) prog"

abbreviation db :: "'k st \<Rightarrow> vxdb_db" where
  "db s \<equiv> cur (conn s)"

definition sysM :: "('k, 'a) syscall \<Rightarrow> ('k, errno + 'a) handler" where
  "sysM f s = (case f (os s) of (r, k) \<Rightarrow> (Inr r, s\<lparr>os := k\<rparr>))"

definition osM :: "('k \<Rightarrow> 'k) \<Rightarrow> ('k, unit) handler" where
  "osM f s = (Inr (), s\<lparr>os := f (os s)\<rparr>)"

lemma sysM_state: "snd (sysM f s) = s\<lparr>os := snd (f (os s))\<rparr>"
  by (simp add: sysM_def split: prod.splits)

lemma sysM_apply [prog_simps]: "f (os s) = (r, k) \<Longrightarrow> sysM f s = (Inr r, s\<lparr>os := k\<rparr>)"
  by (simp add: sysM_def)

lemma osM_apply [prog_simps]: "osM f s = (Inr (), s\<lparr>os := f (os s)\<rparr>)"
  by (simp add: osM_def)

end
