(* ===== verification/Ref_Host.thy ===== *)
theory Ref_Host
  imports Host
begin

text \<open>
  A concrete environment for the daemon: a string library with the documented behaviour, an engine
  that never fails and visits rows in the order of insertion, and a system whose state is the list
  of the contexts that exist.  Instances of the properties are evaluated on it.
\<close>

definition is_space :: "char \<Rightarrow> bool" where
  "is_space c \<longleftrightarrow> c = CHR '' '' \<or> (9 \<le> (of_char c :: nat) \<and> (of_char c :: nat) \<le> 13)"

fun split_at :: "char \<Rightarrow> string \<Rightarrow> string \<Rightarrow> string list" where
  "split_at d acc [] = (if acc = [] then [] else [rev acc])"
| "split_at d acc (c # cs) =
     (if c = d then (if acc = [] then [] else [rev acc]) @ split_at d [] cs
      else split_at d (c # acc) cs)"

definition ref_scan :: "int \<Rightarrow> int \<Rightarrow> string \<Rightarrow> int option" where
  "ref_scan lo hi s =
     (case undec s of None \<Rightarrow> None | Some i \<Rightarrow> if lo \<le> i \<and> i < hi then Some i else None)"

definition ref_lucid :: lucid where
  "ref_lucid = \<lparr>
     str_isempty = (\<lambda>s. case s of None \<Rightarrow> True | Some t \<Rightarrow> list_all is_space t),
     str_isalnum = list_all is_alnum,
     str_isdigit = list_all is_digit,
     str_isgraph = list_all is_graph,
     str_isascii = list_all (\<lambda>c. (of_char c :: nat) < 128),
     str_path_isabs = (\<lambda>s. take 1 s = ''/''),
     str_path_concat = (\<lambda>d p. Some (d @ ''/'' @ p)),
     addr_from_str = (\<lambda>s.
       if s \<noteq> [] \<and> list_all (\<lambda>c. is_digit c \<or> c = CHR ''.'') s
       then (1, of_nat (undec_nat (filter is_digit s)), 0xffffffff) else (0, 0, 0)),
     whirlpool_digest = (\<lambda>s. ''W'' @ filter is_alnum s),
     sscanf_d = ref_scan (- (2 ^ 31)) (2 ^ 31),
     sscanf_u32 = ref_scan 0 (2 ^ 32),
     sscanf_u64 = ref_scan 0 (2 ^ 64),
     sscanf_i32 = ref_scan (- (2 ^ 31)) (2 ^ 31),
     v2i32 = (\<lambda>w. int (case find (bit w) [0..<32] of None \<Rightarrow> 0 | Some i \<Rightarrow> i)),
     ino_found = (\<lambda>inos i. i \<in> set inos),
     flist64_getval = (\<lambda>l k. case map_of l k of None \<Rightarrow> 0 | Some v \<Rightarrow> v),
     flist64_getkey = (\<lambda>l v. map_option fst (find (\<lambda>n. snd n = v) l)),
     flist32_getval = (\<lambda>l k. case map_of l k of None \<Rightarrow> 0 | Some v \<Rightarrow> v),
     strtok = (\<lambda>s d. Some (split_at d [] s)),
     strtok_tostr = (\<lambda>ws. Some (concat (map (\<lambda>w. w @ '' '') ws)))\<rparr>"

definition ref_xmlrpc :: xmlrpc where
  "ref_xmlrpc = \<lparr>
     xr_member = (\<lambda>v k. case v of XStruct fs \<Rightarrow> map_of fs k | _ \<Rightarrow> None),
     xr_string = (\<lambda>v. case v of XStr s \<Rightarrow> if CHR 0x00 \<in> set s then None else Some s | _ \<Rightarrow> None),
     xr_int = (\<lambda>v. case v of XInt i \<Rightarrow> if - (2 ^ 31) \<le> i \<and> i < 2 ^ 31 then Some i else None
                 | _ \<Rightarrow> None),
     xr_bool = (\<lambda>v. case v of XBool b \<Rightarrow> Some b | _ \<Rightarrow> None),
     xr_pair = (\<lambda>v. case v of XArr [a, b] \<Rightarrow> Some (a, b) | _ \<Rightarrow> None)\<rparr>"

definition ref_sqlite :: "'k sqlite" where
  "ref_sqlite = \<lparr>
     sq_perform = (\<lambda>_ k. (True, k)),
     sq_prepare = (\<lambda>_ k. (True, k)),
     sq_stop = (\<lambda>_ k. (None, k)),
     sq_scan = (\<lambda>_ rs. rs),
     sq_raw_exec = (\<lambda>_ c k. ((False, c), k)),
     sq_raw_query = (\<lambda>_ _ k. (\<lparr>prepared = False, result = [], finished = False\<rparr>, k)), sq_open = (\<lambda>_ k. (True, k)), sq_close = (\<lambda>k. (False, k)), sq_stale_done = False\<rparr>"

definition ref_ctx :: "xid_t \<Rightarrow> (xid_t list, unit) syscall" where
  "ref_ctx xid k = (if xid \<in> set k then Inr () else Inl ESRCH, k)"

fun ref_act :: "call \<Rightarrow> (xid_t list, unit) syscall" where
  "ref_act (Vx_create xid _) k = (Inr (), xid # k)"
| "ref_act _ k = (Inr (), k)"

definition ref_kernel :: "xid_t list kernel" where
  "ref_kernel = \<lparr>
     act = ref_act,
     nprocessors = (\<lambda>_. 2),
     node_entries = (\<lambda>_. Some [''.'', ''..'', ''node0'']),
     pagesize = 4096,
     time_now = (\<lambda>_. 1000),
     open_lockfile = (\<lambda>_ k. (3, k)),
     lockf_test = (\<lambda>_ k. (Inr (), k)),
     lockf_lock = (\<lambda>_ k. (Inr (), k)),
     vx_info = ref_ctx,
     nx_info = ref_ctx,
     vx_kill = (\<lambda>xid _ sig k. if xid \<in> set k then (Inr (), if sig = 9 then removeAll xid k else k)
                              else (Inl ESRCH, k)),
     vx_flags_set = (\<lambda>xid _ _. ref_ctx xid),
     nx_flags_set = (\<lambda>xid _ _. ref_ctx xid),
     vx_uname_set = (\<lambda>xid _ _. ref_ctx xid),
     vx_stat = (\<lambda>xid k. (if xid \<in> set k then Inr \<lparr>vs_tasks = 1, nr_threads = 1, nr_running = 1,
        nr_unintr = 0, nr_onhold = 0, nr_forks = 1, vs_uptime = 5000000000, load1 = 0, load5 = 0,
        load15 = 0\<rparr> else Inl ESRCH, k)),
     vx_limit_stat = (\<lambda>xid _ k. (if xid \<in> set k then Inr (0, 1, 2) else Inl ESRCH, k)),
     nx_sock_stat = (\<lambda>xid _ k. (if xid \<in> set k then Inr [(1, 2), (3, 4), (5, 6)] else Inl ESRCH, k)),
     ns_enter = ref_ctx,
     chroot_secure_chdir = (\<lambda>_ _ k. (Inr (), k)),
     chroot = (\<lambda>_ k. (Inr (), k)),
     nx_migrate = ref_ctx,
     pipe = (\<lambda>k. (Inr (), k)),
     fork_run = (\<lambda>child k. (Inr (), snd (child k))),
     ns_clone_run = (\<lambda>child k. (Inr (), snd (child k))),
     exec_replace = (\<lambda>_ k. (Inr ([], WExited 0), k)),
     read_child = (\<lambda>k. (Inr [], k)),
     wait_child = (\<lambda>k. (Inr (WExited 0), k)),
     fork = (\<lambda>k. (Inr (), k)),
     waitpid_nohang = (\<lambda>k. (Inr (), k)),
     sleep1 = (\<lambda>_. []),
     runlink = (\<lambda>_ k. (Inr (), k)),
     isdir = (\<lambda>p _. p \<noteq> ''/vbasedir/guest2''),
     ismount = (\<lambda>_ _. False),
     rmdir = (\<lambda>_ k. k),
     isfile = (\<lambda>_ _. False),
     ispath = (\<lambda>_ _. False),
     dir_entries = (\<lambda>_ k. (Inr [''.'', ''..'', ''debian''], k)),
     nftw = (\<lambda>_ _. []),
     stat_dev = (\<lambda>_ k. (Inr 1, k)),
     readsymlink = (\<lambda>_ k. (Inr ''/'', k)),
     ix_attr_get = (\<lambda>_ k. (Inr \<lparr>ia_xid = 0, ia_flags = 0, ia_mask = 0\<rparr>, k)),
     vx_limit_mask_get = (\<lambda>k. (Inr (0xffffffff, 0xffffffff), k)),
     cfg_parse = (\<lambda>_ _. CFG_SUCCESS \<lparr>t_description = None, t_init = None, t_halt = None, t_reboot = None,
        t_timeout = None, t_mounts = [], t_bcaps = None, t_ccaps = None, t_flags = None\<rparr>),
     cfg_parse_rc = (\<lambda>_ _. RC_SUCCESS),
     lstat_isdir = (\<lambda>_ k. (Inr True, k)),
     getpid = (\<lambda>_. 100),
     fork_child = (\<lambda>k. (Inr True, k)),
     strerror = (\<lambda>_. ''error''),
     strsignal = (\<lambda>_. ''signal''),
     addr_add = (\<lambda>xid _ _ _. ref_ctx xid)\<rparr>"

definition ref_host :: "xid_t list host" where
  "ref_host = \<lparr>xr = ref_xmlrpc, lib = ref_lucid, sql = ref_sqlite, kern = ref_kernel,
     hdr = (\<lambda>n. if n = ''CDLIM_INFINITY'' \<or> n = ''CDLIM_KEEP'' then 4294967295
                else if n = ''CRLIM_INFINITY'' then 18446744073709551615
                else if n = ''CRLIM_KEEP'' then 18446744073709551614
                else if n = ''RLIMIT_RSS'' then 5
                else if n = ''PATH_MAX'' then 4096 else 1),
     cfg_getstr = (\<lambda>n. ''/'' @ n), cfg_getint = (\<lambda>n. if n = ''port'' then 13386 else 30),
     cfg_isset = (\<lambda>n. n \<noteq> ''logfile''), garbage = 0\<rparr>"

lemma ref_host_sel [simp]:
  "xr ref_host = ref_xmlrpc" "lib ref_host = ref_lucid" "sql ref_host = ref_sqlite" "kern ref_host = ref_kernel"
  by (simp_all add: ref_host_def)

lemma ref_lucid_sel:
  "str_isempty ref_lucid = (\<lambda>s. case s of None \<Rightarrow> True | Some t \<Rightarrow> list_all is_space t)"
  "str_isalnum ref_lucid = list_all is_alnum"
  "str_isdigit ref_lucid = list_all is_digit"
  "str_isgraph ref_lucid = list_all is_graph"
  "str_isascii ref_lucid = list_all (\<lambda>c. (of_char c :: nat) < 128)"
  "str_path_isabs ref_lucid = (\<lambda>s. take 1 s = ''/'')"
  "str_path_concat ref_lucid = (\<lambda>d p. Some (d @ ''/'' @ p))"
  "addr_from_str ref_lucid = (\<lambda>s.
       if s \<noteq> [] \<and> list_all (\<lambda>c. is_digit c \<or> c = CHR ''.'') s
       then (1, of_nat (undec_nat (filter is_digit s)), 0xffffffff) else (0, 0, 0))"
  "whirlpool_digest ref_lucid = (\<lambda>s. ''W'' @ filter is_alnum s)"
  "sscanf_d ref_lucid = ref_scan (- (2 ^ 31)) (2 ^ 31)"
  "sscanf_u32 ref_lucid = ref_scan 0 (2 ^ 32)"
  "sscanf_u64 ref_lucid = ref_scan 0 (2 ^ 64)"
  "sscanf_i32 ref_lucid = ref_scan (- (2 ^ 31)) (2 ^ 31)"
  "v2i32 ref_lucid = (\<lambda>w. int (case find (bit w) [0..<32] of None \<Rightarrow> 0 | Some i \<Rightarrow> i))"
  "ino_found ref_lucid = (\<lambda>inos i. i \<in> set inos)"
  "flist64_getval ref_lucid = (\<lambda>l k. case map_of l k of None \<Rightarrow> 0 | Some v \<Rightarrow> v)"
  "flist64_getkey ref_lucid = (\<lambda>l v. map_option fst (find (\<lambda>n. snd n = v) l))"
  "flist32_getval ref_lucid = (\<lambda>l k. case map_of l k of None \<Rightarrow> 0 | Some v \<Rightarrow> v)"
  "strtok ref_lucid = (\<lambda>s d. Some (split_at d [] s))"
  "strtok_tostr ref_lucid = (\<lambda>ws. Some (concat (map (\<lambda>w. w @ '' '') ws)))"
  by (simp_all add: ref_lucid_def)

lemma ref_xmlrpc_sel:
  "xr_member ref_xmlrpc = (\<lambda>v k. case v of XStruct fs \<Rightarrow> map_of fs k | _ \<Rightarrow> None)"
  "xr_string ref_xmlrpc = (\<lambda>v. case v of XStr s \<Rightarrow> if CHR 0x00 \<in> set s then None else Some s | _ \<Rightarrow> None)"
  "xr_int ref_xmlrpc = (\<lambda>v. case v of XInt i \<Rightarrow> if - (2 ^ 31) \<le> i \<and> i < 2 ^ 31 then Some i else None
                 | _ \<Rightarrow> None)"
  "xr_bool ref_xmlrpc = (\<lambda>v. case v of XBool b \<Rightarrow> Some b | _ \<Rightarrow> None)"
  "xr_pair ref_xmlrpc = (\<lambda>v. case v of XArr [a, b] \<Rightarrow> Some (a, b) | _ \<Rightarrow> None)"
  by (simp_all add: ref_xmlrpc_def)

lemma ref_sqlite_sel:
  "sq_perform ref_sqlite = (\<lambda>_ k. (True, k))"
  "sq_prepare ref_sqlite = (\<lambda>_ k. (True, k))"
  "sq_stop ref_sqlite = (\<lambda>_ k. (None, k))"
  "sq_scan ref_sqlite = (\<lambda>_ rs. rs)"
  "sq_raw_exec ref_sqlite = (\<lambda>_ c k. ((False, c), k))"
  "sq_raw_query ref_sqlite = (\<lambda>_ _ k. (\<lparr>prepared = False, result = [], finished = False\<rparr>, k))"
  "sq_open ref_sqlite = (\<lambda>_ k. (True, k))" "sq_close ref_sqlite = (\<lambda>k. (False, k))"
  by (simp_all add: ref_sqlite_def)

lemma ref_kernel_sel:
  "nprocessors ref_kernel = (\<lambda>_. 2)"
  "node_entries ref_kernel = (\<lambda>_. Some [''.'', ''..'', ''node0''])"
  "pagesize ref_kernel = 4096"
  "time_now ref_kernel = (\<lambda>_. 1000)"
  "open_lockfile ref_kernel = (\<lambda>_ k. (3, k))"
  "lockf_test ref_kernel = (\<lambda>_ k. (Inr (), k))"
  "lockf_lock ref_kernel = (\<lambda>_ k. (Inr (), k))"
  "vx_info ref_kernel = ref_ctx"
  "nx_info ref_kernel = ref_ctx"
  "vx_kill ref_kernel = (\<lambda>xid _ sig k. if xid \<in> set k then (Inr (), if sig = 9 then removeAll xid k else k)
                              else (Inl ESRCH, k))"
  "vx_flags_set ref_kernel = (\<lambda>xid _ _. ref_ctx xid)"
  "nx_flags_set ref_kernel = (\<lambda>xid _ _. ref_ctx xid)"
  "vx_uname_set ref_kernel = (\<lambda>xid _ _. ref_ctx xid)"
  "vx_stat ref_kernel = (\<lambda>xid k. (if xid \<in> set k then Inr \<lparr>vs_tasks = 1, nr_threads = 1, nr_running = 1,
        nr_unintr = 0, nr_onhold = 0, nr_forks = 1, vs_uptime = 5000000000, load1 = 0, load5 = 0,
        load15 = 0\<rparr> else Inl ESRCH, k))"
  "vx_limit_stat ref_kernel = (\<lambda>xid _ k. (if xid \<in> set k then Inr (0, 1, 2) else Inl ESRCH, k))"
  "nx_sock_stat ref_kernel = (\<lambda>xid _ k. (if xid \<in> set k then Inr [(1, 2), (3, 4), (5, 6)] else Inl ESRCH, k))"
  "ns_enter ref_kernel = ref_ctx"
  "chroot_secure_chdir ref_kernel = (\<lambda>_ _ k. (Inr (), k))"
  "chroot ref_kernel = (\<lambda>_ k. (Inr (), k))"
  "nx_migrate ref_kernel = ref_ctx"
  "pipe ref_kernel = (\<lambda>k. (Inr (), k))"
  "fork_run ref_kernel = (\<lambda>child k. (Inr (), snd (child k)))"
  "ns_clone_run ref_kernel = (\<lambda>child k. (Inr (), snd (child k)))"
  "exec_replace ref_kernel = (\<lambda>_ k. (Inr ([], WExited 0), k))"
  "read_child ref_kernel = (\<lambda>k. (Inr [], k))"
  "wait_child ref_kernel = (\<lambda>k. (Inr (WExited 0), k))"
  "fork ref_kernel = (\<lambda>k. (Inr (), k))"
  "waitpid_nohang ref_kernel = (\<lambda>k. (Inr (), k))"
  "sleep1 ref_kernel = (\<lambda>_. [])"
  "runlink ref_kernel = (\<lambda>_ k. (Inr (), k))"
  "isdir ref_kernel = (\<lambda>p _. p \<noteq> ''/vbasedir/guest2'')"
  "ismount ref_kernel = (\<lambda>_ _. False)"
  "rmdir ref_kernel = (\<lambda>_ k. k)"
  "act ref_kernel = ref_act"
  "isfile ref_kernel = (\<lambda>_ _. False)"
  "ispath ref_kernel = (\<lambda>_ _. False)"
  "dir_entries ref_kernel = (\<lambda>_ k. (Inr [''.'', ''..'', ''debian''], k))"
  "nftw ref_kernel = (\<lambda>_ _. [])"
  "stat_dev ref_kernel = (\<lambda>_ k. (Inr 1, k))"
  "readsymlink ref_kernel = (\<lambda>_ k. (Inr ''/'', k))"
  "ix_attr_get ref_kernel = (\<lambda>_ k. (Inr \<lparr>ia_xid = 0, ia_flags = 0, ia_mask = 0\<rparr>, k))"
  "vx_limit_mask_get ref_kernel = (\<lambda>k. (Inr (0xffffffff, 0xffffffff), k))"
  "cfg_parse ref_kernel = (\<lambda>_ _. CFG_SUCCESS \<lparr>t_description = None, t_init = None, t_halt = None,
     t_reboot = None, t_timeout = None, t_mounts = [], t_bcaps = None, t_ccaps = None, t_flags = None\<rparr>)"
  "cfg_parse_rc ref_kernel = (\<lambda>_ _. RC_SUCCESS)"
  "lstat_isdir ref_kernel = (\<lambda>_ k. (Inr True, k))"
  "getpid ref_kernel = (\<lambda>_. 100)"
  "fork_child ref_kernel = (\<lambda>k. (Inr True, k))"
  "strerror ref_kernel = (\<lambda>_. ''error'')"
  "strsignal ref_kernel = (\<lambda>_. ''signal'')"
  "addr_add ref_kernel = (\<lambda>xid _ _ _. ref_ctx xid)"
  by (simp_all add: ref_kernel_def)

lemma ref_hdr_sel:
  "hdr ref_host n = (if n = ''CDLIM_INFINITY'' \<or> n = ''CDLIM_KEEP'' then 4294967295
     else if n = ''CRLIM_INFINITY'' then 18446744073709551615
     else if n = ''CRLIM_KEEP'' then 18446744073709551614
     else if n = ''RLIMIT_RSS'' then 5
     else if n = ''PATH_MAX'' then 4096 else 1)"
  "cfg_getstr ref_host n = ''/'' @ n" "cfg_getint ref_host n = (if n = ''port'' then 13386 else 30)"
  "cfg_isset ref_host n \<longleftrightarrow> n \<noteq> ''logfile''" "garbage ref_host = 0"
  by (simp_all add: ref_host_def)

lemmas ref_sel = ref_lucid_sel ref_xmlrpc_sel ref_sqlite_sel ref_kernel_sel ref_hdr_sel

lemma is_graph_not_space: "is_graph c \<Longrightarrow> \<not> is_space c"
  by (auto simp: is_graph_def is_space_def)

lemma find_bit_push:
  fixes n :: nat
  assumes "i < n" and "n \<le> LENGTH('a)"
  shows "find (bit (2 ^ i :: 'a::len word)) [0..<n] = Some i"
  unfolding find_Some_iff by (rule exI [of _ i]) (use assms in \<open>simp add: bit_exp_iff possible_bit_def\<close>)

lemma ref_lucid_ok: "lucid_ok ref_lucid"
  by (auto simp: find_bit_push lucid_ok_def ref_lucid_def ref_scan_def undec_dec list_all_iff
      is_alnum_def is_alpha_def is_digit_def dest: is_graph_not_space split: option.splits if_splits)

lemma ref_xmlrpc_ok: "xmlrpc_ok ref_xmlrpc"
  by (simp add: xmlrpc_ok_def ref_xmlrpc_def split: xval.split)

lemma ref_sqlite_ok: "sqlite_ok ref_sqlite"
  by (simp add: sqlite_ok_def ref_sqlite_def)

definition ref_state :: "vxdb_db \<Rightarrow> xid_t list \<Rightarrow> xid_t list st" where
  "ref_state d k = \<lparr>conn = \<lparr>cur = d, saved = None, changes = 0\<rparr>, os = k, lockfd = -1\<rparr>"

text \<open>A database with an administrator, an ordinary user, two guests, the first of which belongs
  to the user, and one group.\<close>

definition ref_caps :: "string list" where
  "ref_caps = [''AUTH'', ''DLIM'', ''INIT'', ''MOUNT'', ''NET'', ''BCAP'', ''CCAP'', ''CFLAG'', ''RLIM'',
     ''SCHED'', ''UNAME'', ''CREATE'', ''EXEC'', ''INFO'']"

fun ref_rows :: "table \<Rightarrow> row list" where
  "ref_rows T_user =
     [[(C_uid, SInt 1), (C_name, STxt ''admin''), (C_password, STxt (whirlpool_digest ref_lucid ''secret12'')),
       (C_admin, SInt 1)],
      [(C_uid, SInt 2), (C_name, STxt ''bob''), (C_password, STxt (whirlpool_digest ref_lucid ''password'')),
       (C_admin, SInt 0)]]"
| "ref_rows T_user_caps =
     map (\<lambda>cap. [(C_uid, SInt 1), (C_cap, STxt cap)]) ref_caps
     @ [[(C_uid, SInt 2), (C_cap, STxt ''DLIM'')], [(C_uid, SInt 2), (C_cap, STxt ''INFO'')]]"
| "ref_rows T_xid_name_map =
     [[(C_xid, SInt 2), (C_name, STxt ''guest1'')], [(C_xid, SInt 3), (C_name, STxt ''guest2'')]]"
| "ref_rows T_xid_uid_map = [[(C_xid, SInt 2), (C_uid, SInt 2)]]"
| "ref_rows T_groups = [[(C_gid, SInt 1), (C_name, STxt ''onboot'')]]"
| "ref_rows T_vx_cpuset = [[(C_xid, SInt 2), (C_cpus, STxt ''0''), (C_mems, STxt ''0''), (C_virtualize, SInt 0)]]"
| "ref_rows T_vcd =
     [[(C_uptime, SInt 500), (C_requests, SInt 0), (C_flogins, SInt 0), (C_nomethod, SInt 0)]]"
| "ref_rows _ = []"

definition ref_db :: vxdb_db where
  "ref_db = \<lparr>user_version = 257,
     schema = map (\<lambda>t. (tbl_name t, tbl_columns t)) vxdb_tables,
     indexes = concat (map (\<lambda>t. map (\<lambda>ix. (tbl_name t, ix)) (tbl_unique t)) vxdb_tables),
     rows = ref_rows\<rparr>"

definition ref_request :: "string \<Rightarrow> string \<Rightarrow> (string \<times> xval) list \<Rightarrow> xval" where
  "ref_request user pass fs =
     XArr [XStruct [(''username'', XStr user), (''password'', XStr pass)], XStruct fs]"

lemma run_value: "fst r = v \<Longrightarrow> r = (v, snd r)"
  by (simp add: prod_eq_iff)

lemma run_ok:
  assumes "\<not> isl (fst r)"
  obtains w where "r = (Inr w, snd r)"
  using assms by (metis isl_def prod.collapse sum.collapse(2))

end
