(* ===== verification/Lists.thy ===== *)
theory Lists
  imports Ref_Host
begin

unbundle bit_operations_syntax

text \<open>
  \<^verbatim>\<open>src/src/vcd/lists.c\<close> and the capability constants of
  \<^verbatim>\<open>src/src/vcd/auth.h\<close>: the named lists of flags.  A list node has the part of the
  constant's name after its prefix as key; its value is the constant
  (\<^verbatim>\<open>FLIST64_NODE\<close>), or the bit with the constant's number
  (\<^verbatim>\<open>FLIST64_NODE1\<close>, \<^verbatim>\<open>FLIST32_NODE1\<close>).  The constants of system headers are
  read from \<open>hdr\<close>; the daemon's own capabilities are in \<^verbatim>\<open>auth.h\<close>.
\<close>

definition VCD_CAP_AUTH :: "64 word" where "VCD_CAP_AUTH = push_bit 0 1"
definition VCD_CAP_DLIM :: "64 word" where "VCD_CAP_DLIM = push_bit 1 1"
definition VCD_CAP_INIT :: "64 word" where "VCD_CAP_INIT = push_bit 2 1"
definition VCD_CAP_MOUNT :: "64 word" where "VCD_CAP_MOUNT = push_bit 3 1"
definition VCD_CAP_NET :: "64 word" where "VCD_CAP_NET = push_bit 4 1"
definition VCD_CAP_BCAP :: "64 word" where "VCD_CAP_BCAP = push_bit 5 1"
definition VCD_CAP_CCAP :: "64 word" where "VCD_CAP_CCAP = push_bit 6 1"
definition VCD_CAP_CFLAG :: "64 word" where "VCD_CAP_CFLAG = push_bit 7 1"
definition VCD_CAP_RLIM :: "64 word" where "VCD_CAP_RLIM = push_bit 8 1"
definition VCD_CAP_SCHED :: "64 word" where "VCD_CAP_SCHED = push_bit 9 1"
definition VCD_CAP_UNAME :: "64 word" where "VCD_CAP_UNAME = push_bit 10 1"
definition VCD_CAP_CREATE :: "64 word" where "VCD_CAP_CREATE = push_bit 11 1"
definition VCD_CAP_EXEC :: "64 word" where "VCD_CAP_EXEC = push_bit 12 1"
definition VCD_CAP_INFO :: "64 word" where "VCD_CAP_INFO = push_bit 13 1"
definition VCD_CAP_HELPER :: "64 word" where "VCD_CAP_HELPER = push_bit 63 1"

lemmas vcd_cap_defs = VCD_CAP_AUTH_def VCD_CAP_DLIM_def VCD_CAP_INIT_def VCD_CAP_MOUNT_def
  VCD_CAP_NET_def VCD_CAP_BCAP_def VCD_CAP_CCAP_def VCD_CAP_CFLAG_def VCD_CAP_RLIM_def
  VCD_CAP_SCHED_def VCD_CAP_UNAME_def VCD_CAP_CREATE_def VCD_CAP_EXEC_def VCD_CAP_INFO_def
  VCD_CAP_HELPER_def

definition flist64_node1 :: "'k host \<Rightarrow> string \<Rightarrow> string \<Rightarrow> string \<times> 64 word" where
  "flist64_node1 H pre n = (n, push_bit (hdr H (pre @ ''_'' @ n)) 1)"

definition flist64_node :: "'k host \<Rightarrow> string \<Rightarrow> string \<Rightarrow> string \<times> 64 word" where
  "flist64_node H pre n = (n, of_nat (hdr H (pre @ ''_'' @ n)))"

definition flist32_node1 :: "'k host \<Rightarrow> string \<Rightarrow> string \<Rightarrow> string \<times> 32 word" where
  "flist32_node1 H pre n = (n, push_bit (hdr H (pre @ ''_'' @ n)) 1)"

definition bcaps_list :: "'k host \<Rightarrow> (string \<times> 64 word) list" where
  "bcaps_list H = map (flist64_node1 H ''CAP'')
     [''CHOWN'', ''DAC_OVERRIDE'', ''DAC_READ_SEARCH'', ''FOWNER'', ''FSETID'', ''KILL'',
      ''SETGID'', ''SETUID'', ''SETPCAP'', ''LINUX_IMMUTABLE'', ''NET_BIND_SERVICE'',
      ''NET_BROADCAST'', ''NET_ADMIN'', ''NET_RAW'', ''IPC_LOCK'', ''IPC_OWNER'', ''SYS_MODULE'',
      ''SYS_RAWIO'', ''SYS_CHROOT'', ''SYS_PTRACE'', ''SYS_PACCT'', ''SYS_ADMIN'', ''SYS_BOOT'',
      ''SYS_NICE'', ''SYS_RESOURCE'', ''SYS_TIME'', ''SYS_TTY_CONFIG'', ''MKNOD'', ''LEASE'',
      ''AUDIT_WRITE'', ''AUDIT_CONTROL'']"

definition ccaps_list :: "'k host \<Rightarrow> (string \<times> 64 word) list" where
  "ccaps_list H = map (flist64_node H ''VXC'')
     [''SET_UTSNAME'', ''SET_RLIMIT'', ''RAW_ICMP'', ''SYSLOG'', ''SECURE_MOUNT'',
      ''SECURE_REMOUNT'', ''BINARY_MOUNT'', ''QUOTA_CTL'', ''ADMIN_MAPPER'', ''ADMIN_CLOOP'']"

definition cflags_list :: "'k host \<Rightarrow> (string \<times> 64 word) list" where
  "cflags_list H = map (flist64_node H ''VXF'')
     [''INFO_PRIVATE'', ''INFO_INIT'', ''INFO_HIDE'', ''SCHED_HARD'', ''SCHED_PRIO'',
      ''SCHED_PAUSE'', ''VIRT_MEM'', ''VIRT_UPTIME'', ''VIRT_CPU'', ''VIRT_LOAD'', ''VIRT_TIME'',
      ''HIDE_MOUNT'', ''HIDE_NETIF'', ''HIDE_VINFO'', ''FORK_RSS'']"

definition uname_list :: "'k host \<Rightarrow> (string \<times> 32 word) list" where
  "uname_list H = map (flist32_node1 H ''VHIN'')
     [''SYSNAME'', ''NODENAME'', ''RELEASE'', ''VERSION'', ''MACHINE'', ''DOMAINNAME'']"

definition rlimit_list :: "'k host \<Rightarrow> (string \<times> 32 word) list" where
  "rlimit_list H =
     map (flist32_node1 H ''RLIMIT'')
       [''CPU'', ''FSIZE'', ''DATA'', ''STACK'', ''CORE'', ''RSS'', ''NPROC'', ''NOFILE'',
        ''MEMLOCK'', ''AS'', ''LOCKS'', ''SIGPENDING'', ''MSGQUEUE'']
     @ map (flist32_node1 H ''VLIMIT'')
       [''NSOCK'', ''OPENFD'', ''ANON'', ''SHMEM'', ''SEMARY'', ''NSEMS'', ''DENTRY'', ''MAPPED'']"

text \<open>\<^verbatim>\<open>VCD_CAP_HELPER\<close> is commented out of the last list.\<close>

definition vcd_caps_list :: "(string \<times> 64 word) list" where
  "vcd_caps_list =
     [(''AUTH'', VCD_CAP_AUTH), (''DLIM'', VCD_CAP_DLIM), (''INIT'', VCD_CAP_INIT),
      (''MOUNT'', VCD_CAP_MOUNT), (''NET'', VCD_CAP_NET), (''BCAP'', VCD_CAP_BCAP),
      (''CCAP'', VCD_CAP_CCAP), (''CFLAG'', VCD_CAP_CFLAG), (''RLIM'', VCD_CAP_RLIM),
      (''SCHED'', VCD_CAP_SCHED), (''UNAME'', VCD_CAP_UNAME), (''CREATE'', VCD_CAP_CREATE),
      (''EXEC'', VCD_CAP_EXEC), (''INFO'', VCD_CAP_INFO)]"

section \<open>Facts about the capability list\<close>

lemma vcd_caps_list_bits:
  "vcd_caps_list = map (\<lambda>(n, i). (n, push_bit i 1))
     (zip [''AUTH'', ''DLIM'', ''INIT'', ''MOUNT'', ''NET'', ''BCAP'', ''CCAP'', ''CFLAG'',
           ''RLIM'', ''SCHED'', ''UNAME'', ''CREATE'', ''EXEC'', ''INFO''] [0..<14])"
  by (simp add: vcd_caps_list_def vcd_cap_defs upt_rec)

lemma distinct_vcd_caps_vals: "distinct (map snd vcd_caps_list)"
  by (simp add: vcd_caps_list_def vcd_cap_defs)

lemma vcd_caps_keys_quote_free: "(k, v) \<in> set vcd_caps_list \<Longrightarrow> quote_free k"
  by (auto simp: vcd_caps_list_def quote_free_def)

lemma find_distinct_snd:
  "distinct (map snd l) \<Longrightarrow> (k, v) \<in> set l \<Longrightarrow> find (\<lambda>n. snd n = v) l = Some (k, v)"
  by (induction l) (auto, force)

lemma vcd_caps_getkey:
  "lucid_ok L \<Longrightarrow> (k, v) \<in> set vcd_caps_list \<Longrightarrow> flist64_getkey L vcd_caps_list v = Some k"
  by (simp add: lucid_ok_flist find_distinct_snd distinct_vcd_caps_vals)

lemma helper_not_in_caps:
  "(k, v) \<in> set vcd_caps_list \<Longrightarrow> VCD_CAP_HELPER AND v = 0"
  by (auto simp: vcd_caps_list_def vcd_cap_defs)

end
