(* ===== verification/Validate.thy ===== *)
theory Validate
  imports Lists
begin

text \<open>
  \<^verbatim>\<open>src/src/vcd/validate.c\<close>: the checks every handler applies to its arguments.  Each
  function of the file is a predicate here; those that look at the running system (number of
  processors and memory nodes) also take the system state \<open>k\<close>.

  The lemmas give the accepted language of each check under the documented behaviour of the
  string library, and that accepted names, user names and group names cannot close a quoted SQL
  literal or leave a directory.
\<close>

section \<open>C integers\<close>

definition c_char :: "char \<Rightarrow> int" where
  "c_char c = (let n = of_char c in if n < 128 then int n else int n - 256)"

definition u32 :: "int \<Rightarrow> int" where
  "u32 x = x mod 2 ^ 32"

definition s32 :: "int \<Rightarrow> int" where
  "s32 x = (let y = x mod 2 ^ 32 in if y < 2 ^ 31 then y else y - 2 ^ 32)"

section \<open>The checks\<close>

fun max_mem_node_loop :: "'k host \<Rightarrow> string list \<Rightarrow> int \<Rightarrow> int" where
  "max_mem_node_loop H [] maxmemnode = maxmemnode"
| "max_mem_node_loop H (d_name # ds) maxmemnode =
     (if take 4 d_name \<noteq> ''node'' then max_mem_node_loop H ds maxmemnode
      else let node = (case sscanf_d (lib H) (drop 4 d_name) of None \<Rightarrow> garbage H | Some n \<Rightarrow> n)
           in max_mem_node_loop H ds (if maxmemnode < node then node else maxmemnode))"

definition max_mem_node :: "'k host \<Rightarrow> 'k \<Rightarrow> int" where
  "max_mem_node H k =
     (case node_entries (kern H) k of
        None \<Rightarrow> 0
      | Some ds \<Rightarrow> max_mem_node_loop H ds 0)"

definition alnumextended_char :: "char \<Rightarrow> bool" where
  "alnumextended_char c \<longleftrightarrow>
     u32 (c_char c - 97) < 26 \<or> u32 (c_char c - 65) < 26 \<or> u32 (c_char c - 48) < 10
     \<or> c = CHR ''-'' \<or> c = CHR ''_''"

definition str_isalnumextended :: "string option \<Rightarrow> bool" where
  "str_isalnumextended str =
     (case str of None \<Rightarrow> True | Some s \<Rightarrow> list_all alnumextended_char s)"

definition validate_name :: "lucid \<Rightarrow> string \<Rightarrow> bool" where
  "validate_name L name \<longleftrightarrow>
     \<not> (str_isempty L (Some name) \<or> length name < 3 \<or> length name > 32
        \<or> \<not> str_isalnumextended (Some name))"

definition validate_xid :: "xid_t \<Rightarrow> bool" where
  "validate_xid xid \<longleftrightarrow> xid > 1 \<and> xid < 65535"

definition validate_path :: "lucid \<Rightarrow> string option \<Rightarrow> bool" where
  "validate_path L path \<longleftrightarrow>
     \<not> (str_isempty L path
        \<or> (case path of None \<Rightarrow> True | Some p \<Rightarrow> \<not> str_path_isabs L p))"

definition validate_dlimits :: "'k host \<Rightarrow> int \<Rightarrow> int \<Rightarrow> int \<Rightarrow> bool" where
  "validate_dlimits H inodes space reserved \<longleftrightarrow>
     reserved > 0 \<and> reserved < 100
     \<and> inodes \<noteq> int (hdr H ''CDLIM_KEEP'') \<and> inodes \<noteq> int (hdr H ''CDLIM_INFINITY'')
     \<and> space \<noteq> int (hdr H ''CDLIM_KEEP'') \<and> space \<noteq> int (hdr H ''CDLIM_INFINITY'')"

definition validate_addr :: "lucid \<Rightarrow> string \<Rightarrow> bool" where
  "validate_addr L addr \<longleftrightarrow> \<not> (str_isempty L (Some addr) \<or> fst (addr_from_str L addr) < 1)"

definition validate_username :: "lucid \<Rightarrow> string \<Rightarrow> bool" where
  "validate_username L username \<longleftrightarrow>
     \<not> (str_isempty L (Some username) \<or> \<not> str_isalnum L username)"

definition validate_password :: "lucid \<Rightarrow> string option \<Rightarrow> bool" where
  "validate_password L password \<longleftrightarrow>
     \<not> (str_isempty L password
        \<or> (case password of None \<Rightarrow> True | Some p \<Rightarrow> length p < 8))"

definition validate_group :: "lucid \<Rightarrow> string \<Rightarrow> bool" where
  "validate_group L grp \<longleftrightarrow> \<not> (str_isempty L (Some grp) \<or> \<not> str_isalnum L grp)"

definition validate_vcd_cap :: "lucid \<Rightarrow> string \<Rightarrow> bool" where
  "validate_vcd_cap L cap \<longleftrightarrow>
     \<not> (str_isempty L (Some cap) \<or> flist64_getval L vcd_caps_list cap = 0)"

definition validate_bcap :: "'k host \<Rightarrow> string \<Rightarrow> bool" where
  "validate_bcap H bcap \<longleftrightarrow>
     \<not> (str_isempty (lib H) (Some bcap) \<or> flist64_getval (lib H) (bcaps_list H) bcap = 0)"

definition validate_ccap :: "'k host \<Rightarrow> string \<Rightarrow> bool" where
  "validate_ccap H ccap \<longleftrightarrow>
     \<not> (str_isempty (lib H) (Some ccap) \<or> flist64_getval (lib H) (ccaps_list H) ccap = 0)"

definition validate_cflag :: "'k host \<Rightarrow> string \<Rightarrow> bool" where
  "validate_cflag H cflag \<longleftrightarrow>
     \<not> (str_isempty (lib H) (Some cflag) \<or> flist64_getval (lib H) (cflags_list H) cflag = 0)"

definition validate_rlimit :: "'k host \<Rightarrow> string \<Rightarrow> bool" where
  "validate_rlimit H rlimit \<longleftrightarrow>
     \<not> (str_isempty (lib H) (Some rlimit) \<or> flist32_getval (lib H) (rlimit_list H) rlimit = 0)"

definition validate_rlimits :: "'k host \<Rightarrow> 64 word \<Rightarrow> 64 word \<Rightarrow> bool" where
  "validate_rlimits H soft mx \<longleftrightarrow>
     soft \<noteq> of_nat (hdr H ''CRLIM_KEEP'') \<and> soft \<noteq> of_nat (hdr H ''CRLIM_INFINITY'')
     \<and> mx \<noteq> of_nat (hdr H ''CRLIM_KEEP'') \<and> mx \<noteq> of_nat (hdr H ''CRLIM_INFINITY'')"

definition validate_cpuid :: "'k host \<Rightarrow> 'k \<Rightarrow> int \<Rightarrow> bool" where
  "validate_cpuid H k cpuid \<longleftrightarrow> cpuid \<ge> -1 \<and> cpuid < nprocessors (kern H) k"

definition validate_token_bucket :: "int \<Rightarrow> int \<Rightarrow> int \<Rightarrow> int \<Rightarrow> int \<Rightarrow> int \<Rightarrow> bool" where
  "validate_token_bucket fillrate interval fillrate2 interval2 tokensmin tokensmax \<longleftrightarrow>
     \<not> ((fillrate < 1 \<or> interval < 1 \<or> tokensmax < 1)
        \<or> (fillrate2 < 1 \<and> interval2 > 0)
        \<or> (interval2 < 1 \<and> fillrate2 > 0)
        \<or> (interval < fillrate \<or> interval2 < fillrate2)
        \<or> (tokensmax < fillrate \<or> tokensmax < fillrate2)
        \<or> tokensmin > tokensmax)"

definition cpuset_token_ok :: "'k host \<Rightarrow> 'k \<Rightarrow> int \<Rightarrow> string \<Rightarrow> bool" where
  "cpuset_token_ok H k type token \<longleftrightarrow>
     str_isdigit (lib H) token \<and>
     (let cpu = (case sscanf_d (lib H) token of None \<Rightarrow> garbage H | Some n \<Rightarrow> n) in
      if type = 0 then cpu \<ge> 0 \<and> cpu < nprocessors (kern H) k
      else if type = 1 then cpu \<ge> 0 \<and> cpu \<le> max_mem_node H k
      else False)"

definition validate_cpuset :: "'k host \<Rightarrow> 'k \<Rightarrow> string \<Rightarrow> int \<Rightarrow> bool" where
  "validate_cpuset H k cpuset type =
     (if str_isempty (lib H) (Some cpuset) then False
      else if take 1 cpuset = '','' \<or> drop (length cpuset - 1) cpuset = '','' then False
      else case strtok (lib H) cpuset CHR '','' of
             None \<Rightarrow> False
           | Some tokens \<Rightarrow>
               if type \<noteq> 0 \<and> type \<noteq> 1 then False
               else list_all (cpuset_token_ok H k type) tokens)"

definition validate_uname :: "'k host \<Rightarrow> string \<Rightarrow> bool" where
  "validate_uname H uname \<longleftrightarrow>
     \<not> (str_isempty (lib H) (Some uname) \<or> flist32_getval (lib H) (uname_list H) uname = 0)"

definition validate_uname_value :: "lucid \<Rightarrow> string \<Rightarrow> bool" where
  "validate_uname_value L v \<longleftrightarrow> \<not> (str_isempty L (Some v) \<or> length v > 64)"

section \<open>Accepted languages\<close>

lemma u32_lt:
  assumes "- (2 ^ 31) \<le> x" and "x < 2 ^ 31" and "0 < n" and "n < 2 ^ 31"
  shows "u32 x < n \<longleftrightarrow> 0 \<le> x \<and> x < n"
proof (cases "0 \<le> x")
  case True
  with assms show ?thesis by (simp add: u32_def)
next
  case False
  have "u32 x = (x + 2 ^ 32) mod 2 ^ 32" by (simp add: u32_def)
  also have "\<dots> = x + 2 ^ 32" using False assms by (intro mod_pos_pos_trivial) simp_all
  finally show ?thesis using False assms by simp
qed

lemma c_char_cases:
  obtains n :: nat where "of_char c = n" and "n < 256"
    and "c_char c = (if n < 128 then int n else int n - 256)"
proof -
  define n :: nat where "n = of_char c"
  have "n < 256" unfolding n_def by (rule nat_of_char_less_256)
  moreover have "c_char c = (if n < 128 then int n else int n - 256)"
    by (simp add: c_char_def Let_def n_def)
  ultimately show ?thesis using that n_def by blast
qed

lemma c_char_between:
  assumes "0 \<le> a" and "0 < n" and "a + n \<le> 128"
  shows "u32 (c_char c - a) < n \<longleftrightarrow> a \<le> int (of_char c) \<and> int (of_char c) < a + n"
proof -
  obtain m :: nat where m: "of_char c = m" "m < 256" "c_char c = (if m < 128 then int m else int m - 256)"
    by (rule c_char_cases)
  have "u32 (c_char c - a) < n \<longleftrightarrow> 0 \<le> c_char c - a \<and> c_char c - a < n"
    using assms m by (intro u32_lt) auto
  also have "\<dots> \<longleftrightarrow> a \<le> int m \<and> int m < a + n"
    using assms m by auto
  finally show ?thesis by (simp add: m(1))
qed

lemma alnumextended_char_iff:
  "alnumextended_char c \<longleftrightarrow> is_alnum c \<or> c = CHR ''-'' \<or> c = CHR ''_''"
  by (auto simp: alnumextended_char_def c_char_between is_alnum_def is_digit_def is_alpha_def)

lemma validate_name_iff:
  assumes "lucid_ok L"
  shows "validate_name L name \<longleftrightarrow>
    3 \<le> length name \<and> length name \<le> 32
    \<and> list_all (\<lambda>c. is_alnum c \<or> c = CHR ''-'' \<or> c = CHR ''_'') name"
proof -
  have graph: "is_graph c" if "is_alnum c \<or> c = CHR ''-'' \<or> c = CHR ''_''" for c
    using that by (elim disjE) (simp add: is_alnum_graph, simp_all add: is_graph_def)
  have "\<not> str_isempty L (Some name)"
    if "3 \<le> length name" and "list_all (\<lambda>c. is_alnum c \<or> c = CHR ''-'' \<or> c = CHR ''_'') name"
  proof -
    from that(1) obtain c where "c \<in> set name" by (cases name) auto
    with that(2) have "is_graph c" by (auto simp: list_all_iff graph)
    with \<open>c \<in> set name\<close> assms show ?thesis by (simp add: lucid_ok_isempty)
  qed
  then show ?thesis
    by (auto simp: validate_name_def str_isalnumextended_def alnumextended_char_iff list_all_iff)
qed

lemma validate_username_iff:
  assumes "lucid_ok L"
  shows "validate_username L u \<longleftrightarrow> u \<noteq> [] \<and> list_all is_alnum u"
proof (cases "u = []")
  case True
  with assms show ?thesis by (simp add: validate_username_def lucid_ok_isempty)
next
  case False
  then obtain c cs where u: "u = c # cs" by (cases u) auto
  have "\<not> str_isempty L (Some u)" if "list_all is_alnum u"
    using that assms u lucid_ok_isempty(3) [of L c u] by (simp add: is_alnum_graph)
  with False assms show ?thesis
    by (auto simp: validate_username_def lucid_ok_chars)
qed

lemma validate_group_username: "validate_group L g = validate_username L g"
  by (simp add: validate_group_def validate_username_def)

lemma validate_username_quote_free:
  "lucid_ok L \<Longrightarrow> validate_username L u \<Longrightarrow> quote_free u"
  by (auto simp: validate_username_iff quote_free_def list_all_iff)

lemma validate_group_quote_free:
  "lucid_ok L \<Longrightarrow> validate_group L u \<Longrightarrow> quote_free u"
  by (simp add: validate_group_username validate_username_quote_free)

lemma validate_name_quote_free:
  "lucid_ok L \<Longrightarrow> validate_name L n \<Longrightarrow> quote_free n"
  by (auto simp: validate_name_iff quote_free_def list_all_iff)

lemma validate_name_nul_free:
  "lucid_ok L \<Longrightarrow> validate_name L n \<Longrightarrow> CHR 0x00 \<notin> set n"
  by (auto simp: validate_name_iff list_all_iff)

lemma validate_vcd_cap_iff:
  assumes "lucid_ok L"
  shows "validate_vcd_cap L cap \<longleftrightarrow> cap \<in> fst ` set vcd_caps_list"
proof
  assume "validate_vcd_cap L cap"
  with assms show "cap \<in> fst ` set vcd_caps_list"
    by (auto simp: validate_vcd_cap_def lucid_ok_flist split: option.splits
        dest!: map_of_SomeD intro: rev_image_eqI)
next
  assume "cap \<in> fst ` set vcd_caps_list"
  then have k: "cap \<in> set (map fst vcd_caps_list)" by simp
  then have ne: "\<exists>c \<in> set cap. is_graph c"
    by (auto simp: vcd_caps_list_def is_graph_def)
  from k have "(case map_of vcd_caps_list cap of None \<Rightarrow> 0 | Some v \<Rightarrow> v) \<noteq> 0"
    by (auto simp: vcd_caps_list_def vcd_cap_defs)
  with ne assms show "validate_vcd_cap L cap"
    by (auto simp: validate_vcd_cap_def lucid_ok_flist lucid_ok_isempty)
qed

lemma flist64_getval_key:
  "lucid_ok L \<Longrightarrow> flist64_getval L l k \<noteq> 0 \<Longrightarrow> k \<in> fst ` set l"
  by (auto simp: lucid_ok_flist split: option.splits dest!: map_of_SomeD intro: rev_image_eqI)

lemma flist32_getval_key:
  "lucid_ok L \<Longrightarrow> flist32_getval L l k \<noteq> 0 \<Longrightarrow> k \<in> fst ` set l"
  by (auto simp: lucid_ok_flist split: option.splits dest!: map_of_SomeD intro: rev_image_eqI)

lemma list_keys_quote_free:
  "k \<in> fst ` set (bcaps_list H) \<Longrightarrow> quote_free k"
  "k \<in> fst ` set (ccaps_list H) \<Longrightarrow> quote_free k"
  "k \<in> fst ` set (cflags_list H) \<Longrightarrow> quote_free k"
  "k \<in> fst ` set (uname_list H) \<Longrightarrow> quote_free k"
  "k \<in> fst ` set (rlimit_list H) \<Longrightarrow> quote_free k"
  by (auto simp: bcaps_list_def ccaps_list_def cflags_list_def uname_list_def rlimit_list_def
      flist64_node1_def flist64_node_def flist32_node1_def quote_free_def)

lemma validate_list_quote_free:
  assumes "lucid_ok (lib H)"
  shows "validate_bcap H x \<Longrightarrow> quote_free x"
    and "validate_ccap H x \<Longrightarrow> quote_free x"
    and "validate_cflag H x \<Longrightarrow> quote_free x"
    and "validate_uname H x \<Longrightarrow> quote_free x"
    and "validate_rlimit H x \<Longrightarrow> quote_free x"
    and "validate_vcd_cap (lib H) x \<Longrightarrow> quote_free x"
  using assms
  by (auto simp: validate_bcap_def validate_ccap_def validate_cflag_def validate_uname_def
      validate_rlimit_def validate_vcd_cap_iff
      dest: vcd_caps_keys_quote_free flist64_getval_key flist32_getval_key
      dest!: list_keys_quote_free)

lemma validate_rlimit_nul_free:
  assumes "lucid_ok (lib H)" and "validate_rlimit H x"
  shows "c_str x = x"
proof -
  have "x \<in> fst ` set (rlimit_list H)"
    using assms flist32_getval_key by (auto simp: validate_rlimit_def)
  then have "CHR 0x00 \<notin> set x" by (auto simp: rlimit_list_def flist32_node1_def)
  then show ?thesis by (rule c_str_id)
qed

end
