(* ===== verification/Vxdb.thy ===== *)
theory Vxdb
  imports Validate
begin

text \<open>
  \<^verbatim>\<open>src/src/vcd/vxdb.c\<close>, the access layer: running statements and queries, reading
  columns, and the lookups of context id, name, directory and group.  A statement whose text is
  altered by a quote in an argument goes to the engine parameter as it is.

  \<^verbatim>\<open>vxdb_step\<close> retries while the database is busy; it is modelled on the sequence of the
  engine's answers, and the other definitions use the answer it ends with.
\<close>

section \<open>Steps and the busy loop\<close>

datatype rc = VXDB_OK | VXDB_DONE | VXDB_ROW | VXDB_BUSY | VXDB_ERROR int

partial_function (option) vxdb_step :: "(nat \<Rightarrow> rc) \<Rightarrow> nat \<Rightarrow> (rc \<times> nat) option" where
  "vxdb_step sqlite3_step i =
     (if sqlite3_step i = VXDB_BUSY then vxdb_step sqlite3_step (i + 1)
      else Some (sqlite3_step i, i + 1))"

section \<open>Statements and queries\<close>

definition vxdb_exec :: "'k host \<Rightarrow> stmt list \<Rightarrow> ('k, bool) handler" where
  "vxdb_exec H sts s =
     (case (if list_all stmt_safe sts then run_stmts (sql H) sts (conn s) (os s)
            else sq_raw_exec (sql H) sts (conn s) (os s)) of
        ((ok, c), k) \<Rightarrow> (Inr ok, s\<lparr>conn := c, os := k\<rparr>))"

definition vxdb_query :: "'k host \<Rightarrow> query \<Rightarrow> ('k, qres) handler" where
  "vxdb_query H q s =
     (case (if query_safe q then run_query (sql H) q (conn s) (os s)
            else sq_raw_query (sql H) q (conn s) (os s)) of
        (r, k) \<Rightarrow> (Inr r, s\<lparr>os := k\<rparr>))"

text \<open>\<^verbatim>\<open>rc == VXDB_OK && vxdb_step(dbr) == VXDB_ROW\<close>\<close>

definition first_row :: "qres \<Rightarrow> sval list option" where
  "first_row r = (if prepared r then (case result r of [] \<Rightarrow> None | x # _ \<Rightarrow> Some x) else None)"

section \<open>Columns\<close>

definition column :: "sval list \<Rightarrow> nat \<Rightarrow> sval" where
  "column r i = (if i < length r then r ! i else SNull)"

fun sval_text :: "sval \<Rightarrow> string option" where
  "sval_text SNull = None"
| "sval_text (SInt i) = Some (dec i)"
| "sval_text (STxt s) = Some (c_str s)"

definition vxdb_column_text :: "sval list \<Rightarrow> nat \<Rightarrow> string option" where
  "vxdb_column_text r i = sval_text (column r i)"

definition scan_or_0 :: "(string \<Rightarrow> int option) \<Rightarrow> string option \<Rightarrow> int" where
  "scan_or_0 sscanf text =
     (case text of None \<Rightarrow> 0 | Some t \<Rightarrow> (case sscanf t of None \<Rightarrow> 0 | Some n \<Rightarrow> n))"

definition vxdb_column_int :: "lucid \<Rightarrow> sval list \<Rightarrow> nat \<Rightarrow> int" where
  "vxdb_column_int L r i = scan_or_0 (sscanf_d L) (vxdb_column_text r i)"

definition vxdb_column_int32 :: "lucid \<Rightarrow> sval list \<Rightarrow> nat \<Rightarrow> int" where
  "vxdb_column_int32 L r i = scan_or_0 (sscanf_i32 L) (vxdb_column_text r i)"

definition vxdb_column_uint32 :: "lucid \<Rightarrow> sval list \<Rightarrow> nat \<Rightarrow> int" where
  "vxdb_column_uint32 L r i = scan_or_0 (sscanf_u32 L) (vxdb_column_text r i)"

definition vxdb_column_uint64 :: "lucid \<Rightarrow> sval list \<Rightarrow> nat \<Rightarrow> 64 word" where
  "vxdb_column_uint64 L r i = word_of_int (scan_or_0 (sscanf_u64 L) (vxdb_column_text r i))"

section \<open>Lookups\<close>

text \<open>A context id is printed with \<^verbatim>\<open>%d\<close>.\<close>

definition xid_lit :: "xid_t \<Rightarrow> sexpr" where
  "xid_lit xid = Lit (SInt (s32 xid))"

definition vxdb_getxid :: "'k host \<Rightarrow> string \<Rightarrow> ('k, xid_t) handler" where
  "vxdb_getxid H name =
     (if \<not> validate_name (lib H) name then ret 0
      else bindM (vxdb_query H (Select [C_xid] T_xid_name_map [(C_name, Lit (STxt name))] Unordered)) (\<lambda>r.
        ret (case first_row r of Some row \<Rightarrow> vxdb_column_uint32 (lib H) row 0 | None \<Rightarrow> 0)))"

definition vxdb_getname :: "'k host \<Rightarrow> xid_t \<Rightarrow> ('k, string option) handler" where
  "vxdb_getname H xid =
     (if \<not> validate_xid xid then ret None
      else bindM (vxdb_query H (Select [C_name] T_xid_name_map [(C_xid, xid_lit xid)] Unordered)) (\<lambda>r.
        ret (case first_row r of Some row \<Rightarrow> vxdb_column_text row 0 | None \<Rightarrow> None)))"

definition vxdb_getvdir :: "'k host \<Rightarrow> string \<Rightarrow> ('k, string option) handler" where
  "vxdb_getvdir H name =
     bindM (vxdb_getxid H name) (\<lambda>xid.
     bindM (if xid \<noteq> 0 then
              bindM (vxdb_query H (Select [C_vdir] T_vdir [(C_xid, xid_lit xid)] Unordered)) (\<lambda>r.
                ret (case first_row r of Some row \<Rightarrow> vxdb_column_text row 0 | None \<Rightarrow> None))
            else ret None) (\<lambda>vdir.
     if str_isempty (lib H) vdir
       then ret (str_path_concat (lib H) (cfg_getstr H ''vbasedir'') name)
       else ret vdir))"

definition vxdb_getgid :: "'k host \<Rightarrow> string \<Rightarrow> ('k, int) handler" where
  "vxdb_getgid H grp =
     (if \<not> validate_group (lib H) grp then ret 0
      else bindM (vxdb_query H (Select [C_gid] T_groups [(C_name, Lit (STxt grp))] Unordered)) (\<lambda>r.
        ret (case first_row r of Some row \<Rightarrow> vxdb_column_int (lib H) row 0 | None \<Rightarrow> 0)))"

section \<open>The busy loop returns\<close>

declare vxdb_step.simps [simp del]

lemma vxdb_step_busy: "ans i = VXDB_BUSY \<Longrightarrow> vxdb_step ans i = vxdb_step ans (Suc i)"
  by (subst vxdb_step.simps) simp

lemma vxdb_step_not_busy: "ans i \<noteq> VXDB_BUSY \<Longrightarrow> vxdb_step ans i = Some (ans i, i + 1)"
  by (subst vxdb_step.simps) simp

lemma vxdb_step_first:
  "(\<And>j. j < n \<Longrightarrow> ans (i + j) = VXDB_BUSY) \<Longrightarrow> ans (i + n) \<noteq> VXDB_BUSY
     \<Longrightarrow> vxdb_step ans i = Some (ans (i + n), i + n + 1)"
proof (induction n arbitrary: i)
  case 0
  then show ?case by (simp add: vxdb_step_not_busy)
next
  case (Suc n)
  have "vxdb_step ans (Suc i) = Some (ans (Suc i + n), Suc i + n + 1)"
  proof (rule Suc.IH)
    fix j assume "j < n"
    then show "ans (Suc i + j) = VXDB_BUSY" using Suc.prems(1) [of "Suc j"] by simp
  next
    show "ans (Suc i + n) \<noteq> VXDB_BUSY" using Suc.prems(2) by simp
  qed
  moreover have "ans i = VXDB_BUSY" using Suc.prems(1) [of 0] by simp
  ultimately show ?case by (simp add: vxdb_step_busy)
qed

lemma vxdb_step_some:
  assumes "vxdb_step ans i = Some r"
  shows "\<exists>n. i \<le> n \<and> ans n \<noteq> VXDB_BUSY"
proof -
  have "\<exists>n. i \<le> n \<and> ans n \<noteq> VXDB_BUSY"
  proof (rule vxdb_step.raw_induct [where P = "\<lambda>ans i r. \<exists>n. i \<le> n \<and> ans n \<noteq> VXDB_BUSY", OF _ assms])
    fix f :: "(nat \<Rightarrow> rc) \<Rightarrow> nat \<Rightarrow> (rc \<times> nat) option" and ans i r
    assume IH: "\<And>ans i r. f ans i = Some r \<Longrightarrow> \<exists>n. i \<le> n \<and> ans n \<noteq> VXDB_BUSY"
      and eq: "(if ans i = VXDB_BUSY then f ans (i + 1) else Some (ans i, i + 1)) = Some r"
    show "\<exists>n. i \<le> n \<and> ans n \<noteq> VXDB_BUSY"
    proof (cases "ans i = VXDB_BUSY")
      case True
      with eq IH [of ans "i + 1" r] obtain n where "i + 1 \<le> n" "ans n \<noteq> VXDB_BUSY" by auto
      then show ?thesis by (intro exI [of _ n]) simp
    qed auto
  qed
  then show ?thesis .
qed

text \<open>
  C27.  A step of a statement returns if and only if the database does not stay busy forever; then it
  returns the first answer that is not \<^verbatim>\<open>VXDB_BUSY\<close>, and has asked no further.
\<close>

theorem vxdb_step_returns:
  "vxdb_step ans i =
     (if \<exists>n. i \<le> n \<and> ans n \<noteq> VXDB_BUSY
      then let n = LEAST n. i \<le> n \<and> ans n \<noteq> VXDB_BUSY in Some (ans n, n + 1)
      else None)"
proof (cases "\<exists>n. i \<le> n \<and> ans n \<noteq> VXDB_BUSY")
  case True
  define n where "n = (LEAST n. i \<le> n \<and> ans n \<noteq> VXDB_BUSY)"
  from True have n: "i \<le> n" "ans n \<noteq> VXDB_BUSY" unfolding n_def by (metis (mono_tags, lifting) LeastI_ex)+
  have "ans (i + j) = VXDB_BUSY" if "j < n - i" for j
  proof -
    from that have "i + j < (LEAST n. i \<le> n \<and> ans n \<noteq> VXDB_BUSY)" unfolding n_def by linarith
    from not_less_Least [OF this] show ?thesis by simp
  qed
  from vxdb_step_first [of "n - i" ans i, OF this] n have "vxdb_step ans i = Some (ans n, n + 1)" by simp
  with True show ?thesis unfolding n_def by (simp only: if_True Let_def)
next
  case False
  with vxdb_step_some have "vxdb_step ans i = None" by (metis option.exhaust)
  with False show ?thesis by (simp only: if_False)
qed

section \<open>What statements and queries do to the state\<close>

lemma run_stmts_inv:
  "run_stmts Q sts c k = ((ok, c'), k') \<Longrightarrow> conn_inv c \<Longrightarrow> conn_inv c'"
proof (induction sts arbitrary: c k)
  case Nil
  then show ?case by simp
next
  case (Cons st sts)
  then show ?case
    by (auto split: prod.splits if_splits option.splits dest: exec_stmt_inv)
qed

lemma run_stmts_True:
  "run_stmts Q [st] c k = ((True, c'), k') \<Longrightarrow> exec_stmt st c = Some c'"
  by (auto split: prod.splits if_splits option.splits)

lemma run_stmts_True_Cons:
  assumes "run_stmts Q (st # sts) c k = ((True, c'), k')"
  obtains c1 k1 where "exec_stmt st c = Some c1" and "run_stmts Q sts c1 k1 = ((True, c'), k')"
  using assms by (auto split: prod.splits if_splits option.splits)

lemma vxdb_exec_one:
  assumes "vxdb_exec H [st] s = (Inr True, s')" and "stmt_safe st"
  shows "exec_stmt st (conn s) = Some (conn s')" and "lockfd s' = lockfd s"
  using assms by (auto simp: vxdb_exec_def split: prod.splits if_splits option.splits)

lemma vxdb_exec_False:
  assumes "vxdb_exec H [st] s = (Inr False, s')" and "stmt_safe st"
  shows "conn s' = conn s" and "lockfd s' = lockfd s"
  using assms by (auto simp: vxdb_exec_def split: prod.splits if_splits option.splits)

lemma vxdb_exec_Inr: "\<exists>ok s'. vxdb_exec H sts s = (Inr ok, s')"
  by (simp add: vxdb_exec_def split: prod.splits)

lemma vxdb_query_Inr: "\<exists>r s'. vxdb_query H q s = (Inr r, s')"
  by (simp add: vxdb_query_def split: prod.splits)

lemma vxdb_query_state: "vxdb_query H q s = (r, s') \<Longrightarrow> conn s' = conn s \<and> lockfd s' = lockfd s"
  by (auto simp: vxdb_query_def split: prod.splits if_splits)

lemma vxdb_query_result:
  assumes "vxdb_query H q s = (Inr r, s')" and "query_safe q" and "prepared r"
  shows "finished r \<Longrightarrow> result r = query_rows (sq_scan (sql H) q) q (db s)"
    and "\<exists>n. result r = take n (query_rows (sq_scan (sql H) q) q (db s))"
  using assms
  by (auto simp: vxdb_query_def run_query_def Let_def split: prod.splits if_splits option.splits
      intro: exI [of _ "length (query_rows (sq_scan (sql H) q) q (db s))"])

lemma first_row_query:
  assumes "vxdb_query H q s = (Inr r, s')" and "query_safe q" and "first_row r = Some row"
  shows "row \<in> set (query_rows (sq_scan (sql H) q) q (db s))"
proof -
  from assms(3) have p: "prepared r" and m: "row \<in> set (result r)"
    by (auto simp: first_row_def split: if_splits list.splits)
  from vxdb_query_result(2) [OF assms(1,2) p] m show ?thesis
    by (auto dest: in_set_takeD)
qed

text \<open>The engine did not answer a query: it refused to prepare it, or a step failed.\<close>

definition unanswered :: "'k host \<Rightarrow> query \<Rightarrow> 'k st \<Rightarrow> bool" where
  "unanswered H q s' \<longleftrightarrow> (\<exists>s r. vxdb_query H q s = (Inr r, s') \<and> \<not> (prepared r \<and> finished r))"

text \<open>A query that answers no row although there are rows has failed.\<close>

lemma no_first_row:
  assumes "vxdb_query H q s = (Inr r, s')" and "query_safe q" and "first_row r = None"
    and "query_rows (sq_scan (sql H) q) q (db s) \<noteq> []"
  shows "unanswered H q s'"
proof -
  have "\<not> (prepared r \<and> finished r)"
    using vxdb_query_result(1) [OF assms(1,2)] assms(3,4) by (auto simp: first_row_def split: list.splits)
  with assms(1) show ?thesis unfolding unanswered_def by blast
qed

lemma ref_answers:
  assumes "vxdb_query H q s = (Inr r, s')" and "sql H = ref_sqlite" and "query_safe q" and "query_ok q (db s')"
  shows "prepared r \<and> finished r"
proof -
  have "query_ok q (db s)" using assms(4) vxdb_query_state [OF assms(1)] by simp
  then have "vxdb_query H q s = (Inr \<lparr>prepared = True, result = query_rows (sq_scan ref_sqlite q) q (db s), finished = True\<rparr>, s)"
    by (simp add: vxdb_query_def assms(2,3)) (simp add: run_query_def ref_sqlite_def)
  with assms(1) show ?thesis by auto
qed

lemma sqlite_ok_set: "sqlite_ok Q \<Longrightarrow> set (sq_scan Q q rs) = set rs"
  by (metis set_mset_mset sqlite_ok_def)

lemma sqlite_ok_Nil: "sqlite_ok Q \<Longrightarrow> sq_scan Q q rs = [] \<longleftrightarrow> rs = []"
  by (metis mset_zero_iff sqlite_ok_def)

lemma sqlite_ok_one: "sqlite_ok Q \<Longrightarrow> length rs \<le> 1 \<Longrightarrow> sq_scan Q q rs = rs"
  by (simp add: mset_eq_short sqlite_ok_def)

lemma vxdb_exec_inv:
  "vxdb_exec H sts s = (r, s') \<Longrightarrow> sqlite_ok (sql H) \<Longrightarrow> conn_inv (conn s) \<Longrightarrow> conn_inv (conn s')"
  by (auto simp: vxdb_exec_def sqlite_ok_def split: prod.splits if_splits dest: run_stmts_inv)
    (metis fst_conv snd_conv)

lemma set_order_rows [simp]: "set (order_rows od rs) = set rs"
  by (cases od) simp_all

lemma first_row_Select:
  assumes "vxdb_query H (Select cs t w od) s = (Inr r, s')" and "sqlite_ok (sql H)"
    and "query_safe (Select cs t w od)" and "first_row r = Some row"
  obtains q where "q \<in> set (rows (db s) t)" and "matches (db s) w q" and "row = map (rget q) cs"
  using first_row_query [OF assms(1,3,4)] assms(2) by (auto simp: sqlite_ok_set)

lemma column_Cons [simp]: "column (v # r) 0 = v" "column (v # r) (Suc i) = column r i"
  by (simp_all add: column_def)

lemma column_num [simp]:
  "column (v # r) (numeral n) = column r (pred_numeral n)" "column (v # r) 1 = column r 0"
  by (simp_all add: column_def numeral_eq_Suc)

section \<open>Lookups return what the database has\<close>

lemma s32_small: "0 \<le> x \<Longrightarrow> x < 2 ^ 31 \<Longrightarrow> s32 x = x"
  by (simp add: s32_def Let_def)

lemma validate_xid_s32: "validate_xid x \<Longrightarrow> s32 x = x"
  by (simp add: validate_xid_def s32_small)

text \<open>Ids are stored as positive integers that fit a 32-bit signed type.\<close>

definition id_ok :: "sval \<Rightarrow> bool" where
  "id_ok v \<longleftrightarrow> (case v of SInt x \<Rightarrow> 0 < x \<and> x < 2 ^ 31 | _ \<Rightarrow> False)"

definition xids_ok :: "vxdb_db \<Rightarrow> bool" where
  "xids_ok d \<longleftrightarrow> list_all (\<lambda>r. id_ok (rget r C_xid)) (rows d T_xid_name_map)"

lemma id_okE:
  assumes "id_ok v"
  obtains x where "v = SInt x" and "0 < x" and "x < 2 ^ 31"
  using assms by (cases v) (auto simp: id_ok_def)

lemma xids_okD: "xids_ok d \<Longrightarrow> r \<in> set (rows d T_xid_name_map) \<Longrightarrow> id_ok (rget r C_xid)"
  by (simp add: xids_ok_def list_all_iff)

lemma column_int_id:
  "lucid_ok L \<Longrightarrow> 0 < x \<Longrightarrow> x < 2 ^ 31 \<Longrightarrow> vxdb_column_int L (SInt x # r) 0 = x"
  "lucid_ok L \<Longrightarrow> 0 < x \<Longrightarrow> x < 2 ^ 31 \<Longrightarrow> vxdb_column_uint32 L (SInt x # r) 0 = x"
  by (simp_all add: vxdb_column_int_def vxdb_column_uint32_def vxdb_column_text_def scan_or_0_def
      lucid_ok_scan)

lemma vxdb_getxid_state:
  "vxdb_getxid H name s = (r, s') \<Longrightarrow> conn s' = conn s \<and> lockfd s' = lockfd s \<and> (\<exists>x. r = Inr x)"
  by (auto simp: vxdb_getxid_def bindM_def prog_simps
      split: if_splits prod.splits sum.splits dest: vxdb_query_state)
    (use vxdb_query_Inr in \<open>metis Inl_Inr_False fst_conv prod.inject\<close>)+

lemma vxdb_getxid_row:
  assumes "vxdb_getxid H name s = (Inr x, s')" and "x \<noteq> 0"
    and "lucid_ok (lib H)" and "sqlite_ok (sql H)" and "xids_ok (db s)"
  shows "validate_name (lib H) name" and "0 < x" and "x < 2 ^ 31"
    and "\<exists>q \<in> set (rows (db s) T_xid_name_map). rget q C_name = STxt name \<and> rget q C_xid = SInt x"
proof -
  have v: "validate_name (lib H) name"
    using assms(1,2) by (auto simp: vxdb_getxid_def prog_simps split: if_splits)
  then show "validate_name (lib H) name" .
  let ?q = "Select [C_xid] T_xid_name_map [(C_name, Lit (STxt name))] Unordered"
  let ?g = "\<lambda>r. case first_row r of Some row \<Rightarrow> vxdb_column_uint32 (lib H) row 0 | None \<Rightarrow> 0"
  from assms(1) v have "bindM (vxdb_query H ?q) (\<lambda>r. ret (?g r)) s = (Inr x, s')"
    by (simp add: vxdb_getxid_def)
  from bindM_ret_InrD [OF this] obtain r where r: "vxdb_query H ?q s = (Inr r, s')"
    and x: "x = ?g r" by blast
  from x assms(2) obtain row where row: "first_row r = Some row"
    and xr: "x = vxdb_column_uint32 (lib H) row 0"
    by (auto split: option.splits)
  have "query_safe ?q"
    using v assms(3) by (simp add: validate_name_quote_free)
  then obtain q where q: "q \<in> set (rows (db s) T_xid_name_map)"
      "matches (db s) [(C_name, Lit (STxt name))] q" "row = map (rget q) [C_xid]"
    by (rule first_row_Select [OF r assms(4) _ row])
  obtain y where y: "rget q C_xid = SInt y" "0 < y" "y < 2 ^ 31"
    using xids_okD [OF assms(5) q(1)] by (rule id_okE)
  with q(3) xr assms(3) have "x = y" by (simp add: column_int_id)
  with y q show "0 < x" "x < 2 ^ 31"
    "\<exists>q \<in> set (rows (db s) T_xid_name_map). rget q C_name = STxt name \<and> rget q C_xid = SInt x"
    by auto
qed

end
