(* ===== verification/Auth.thy ===== *)
theory Auth
  imports Vxdb
begin

text \<open>
  \<^verbatim>\<open>src/src/vcd/auth.c\<close>: who may do what.  Every decision is a query on the tables
  \<open>user\<close>, \<open>user_caps\<close> and \<open>xid_uid_map\<close>; a query that fails counts as a refusal.

  The lemmas show that no decision changes the database or the lock and that a positive answer
  implies the rows that justify it, whatever fails in the engine.
\<close>

section \<open>Decisions\<close>

definition enc_prefix :: string where
  "enc_prefix = ''WHIRLPOOLENC//''"

definition whirlpool_pass :: "lucid \<Rightarrow> string \<Rightarrow> string" where
  "whirlpool_pass L pass =
     (if take 14 pass = enc_prefix then drop 14 pass else whirlpool_digest L pass)"

definition auth_isvalid :: "'k host \<Rightarrow> string \<Rightarrow> string \<Rightarrow> ('k, bool) handler" where
  "auth_isvalid H user pass =
     (if \<not> validate_username (lib H) user \<or> str_isempty (lib H) (Some pass) then ret False
      else bindM (vxdb_query H (Select [C_uid] T_user
                    [(C_name, Lit (STxt user)),
                     (C_password, Lit (STxt (whirlpool_pass (lib H) pass)))] Unordered)) (\<lambda>r.
        ret (first_row r \<noteq> None)))"

definition auth_isadmin :: "'k host \<Rightarrow> string \<Rightarrow> ('k, bool) handler" where
  "auth_isadmin H user =
     (if \<not> validate_username (lib H) user then ret False
      else bindM (vxdb_query H (Select [C_uid] T_user
                    [(C_name, Lit (STxt user)), (C_admin, Lit (SInt 1))] Unordered)) (\<lambda>r.
        ret (first_row r \<noteq> None)))"

definition auth_getuid :: "'k host \<Rightarrow> string \<Rightarrow> ('k, int) handler" where
  "auth_getuid H user =
     (if \<not> validate_username (lib H) user then ret 0
      else bindM (vxdb_query H (Select [C_uid] T_user [(C_name, Lit (STxt user))] Unordered)) (\<lambda>r.
        ret (case first_row r of Some row \<Rightarrow> vxdb_column_int (lib H) row 0 | None \<Rightarrow> 0)))"

definition auth_hascapability :: "'k host \<Rightarrow> string \<Rightarrow> 64 word \<Rightarrow> ('k, bool) handler" where
  "auth_hascapability H user cap =
     bindM (auth_getuid H user) (\<lambda>uid.
     if uid = 0 then ret False
     else case flist64_getkey (lib H) vcd_caps_list cap of
            None \<Rightarrow> ret False
          | Some buf \<Rightarrow>
              bindM (vxdb_query H (Select [C_uid] T_user_caps
                       [(C_uid, Lit (SInt uid)), (C_cap, Lit (STxt buf))] Unordered)) (\<lambda>r.
              ret (first_row r \<noteq> None)))"

fun auth_capable_loop ::
    "'k host \<Rightarrow> string \<Rightarrow> 64 word \<Rightarrow> (string \<times> 64 word) list \<Rightarrow> ('k, bool) handler" where
  "auth_capable_loop H user caps [] = ret True"
| "auth_capable_loop H user caps ((key, val) # l) =
     (if and caps val \<noteq> 0 then
        bindM (auth_hascapability H user val) (\<lambda>b.
        if \<not> b then ret False else auth_capable_loop H user caps l)
      else auth_capable_loop H user caps l)"

definition auth_capable :: "'k host \<Rightarrow> string \<Rightarrow> 64 word \<Rightarrow> ('k, bool) handler" where
  "auth_capable H user caps = auth_capable_loop H user caps vcd_caps_list"

definition auth_isowner :: "'k host \<Rightarrow> string \<Rightarrow> string \<Rightarrow> ('k, bool) handler" where
  "auth_isowner H user name =
     bindM (auth_getuid H user) (\<lambda>uid.
     if uid = 0 then ret False
     else bindM (auth_isadmin H user) (\<lambda>admin.
     if admin then ret True
     else bindM (vxdb_getxid H name) (\<lambda>xid.
     if xid = 0 then ret False
     else bindM (vxdb_query H (Select [C_uid] T_xid_uid_map
                   [(C_uid, Lit (SInt uid)), (C_xid, xid_lit xid)] Unordered)) (\<lambda>r.
       ret (first_row r \<noteq> None)))))"

text \<open>The sum of two \<^verbatim>\<open>int\<close> is taken to wrap around, as it does on the machines the program
  runs on.\<close>

definition auth_getnextuid :: "'k host \<Rightarrow> ('k, int) handler" where
  "auth_getnextuid H =
     bindM (vxdb_query H (SelectLimit1 [C_uid] T_user [] (Desc C_uid))) (\<lambda>r.
     let uid = (case first_row r of Some row \<Rightarrow> vxdb_column_int (lib H) row 0 | None \<Rightarrow> 0) in
     ret (s32 (uid + 1)))"

section \<open>Reading leaves the database alone\<close>

text \<open>A program that only asks questions: the connection and the lock are as before.\<close>

definition same_conn :: "'k st \<Rightarrow> 'k st \<Rightarrow> bool" where
  "same_conn s s' \<longleftrightarrow> conn s' = conn s \<and> lockfd s' = lockfd s"

interpretation sc: step_relation same_conn
  by unfold_locales (auto simp: same_conn_def)

named_theorems reads_intros \<open>operations that only read\<close>

lemma vxdb_query_reads [reads_intros]: "stays same_conn (vxdb_query H q)"
  using vxdb_query_state [OF surjective_pairing, of H q] by (simp add: stays_def same_conn_def)

lemma sysM_reads [reads_intros]: "stays same_conn (sysM f)"
  by (rule staysI) (simp add: sysM_state same_conn_def)

lemma osM_reads [reads_intros]: "stays same_conn (osM f)"
  by (rule staysI) (simp add: osM_apply same_conn_def)

lemma vxdb_getxid_reads [reads_intros]: "stays same_conn (vxdb_getxid H name)"
  unfolding vxdb_getxid_def by (intro sc.stays_rules reads_intros)

lemma vxdb_getname_reads [reads_intros]: "stays same_conn (vxdb_getname H xid)"
  unfolding vxdb_getname_def by (intro sc.stays_rules reads_intros)

lemma vxdb_getvdir_reads [reads_intros]: "stays same_conn (vxdb_getvdir H name)"
  unfolding vxdb_getvdir_def by (intro sc.stays_rules reads_intros)

lemma vxdb_getgid_reads [reads_intros]: "stays same_conn (vxdb_getgid H grp)"
  unfolding vxdb_getgid_def by (intro sc.stays_rules reads_intros)

lemma auth_isvalid_reads [reads_intros]: "stays same_conn (auth_isvalid H user pass)"
  unfolding auth_isvalid_def by (intro sc.stays_rules reads_intros)

lemma auth_isadmin_reads [reads_intros]: "stays same_conn (auth_isadmin H user)"
  unfolding auth_isadmin_def by (intro sc.stays_rules reads_intros)

lemma auth_getuid_reads [reads_intros]: "stays same_conn (auth_getuid H user)"
  unfolding auth_getuid_def by (intro sc.stays_rules reads_intros)

lemma auth_hascapability_reads [reads_intros]: "stays same_conn (auth_hascapability H user cap)"
  unfolding auth_hascapability_def by (intro sc.stays_rules reads_intros)

lemma auth_capable_loop_reads: "stays same_conn (auth_capable_loop H user caps l)"
  by (induction H user caps l rule: auth_capable_loop.induct)
    (auto intro!: sc.stays_rules reads_intros)

lemma auth_capable_reads [reads_intros]: "stays same_conn (auth_capable H user caps)"
  unfolding auth_capable_def by (rule auth_capable_loop_reads)

lemma auth_isowner_reads [reads_intros]: "stays same_conn (auth_isowner H user name)"
  unfolding auth_isowner_def by (intro sc.stays_rules reads_intros)

lemma auth_getnextuid_reads [reads_intros]: "stays same_conn (auth_getnextuid H)"
  unfolding auth_getnextuid_def by (intro sc.stays_rules reads_intros)

lemma reads_conn: "stays same_conn m \<Longrightarrow> m s = (r, s') \<Longrightarrow> conn s' = conn s \<and> lockfd s' = lockfd s"
  by (auto dest: staysD simp: same_conn_def)

section \<open>A positive answer is justified by rows\<close>

definition uids_ok :: "vxdb_db \<Rightarrow> bool" where
  "uids_ok d \<longleftrightarrow> list_all (\<lambda>r. id_ok (rget r C_uid)) (rows d T_user)"

lemma uids_okD: "uids_ok d \<Longrightarrow> r \<in> set (rows d T_user) \<Longrightarrow> id_ok (rget r C_uid)"
  by (simp add: uids_ok_def list_all_iff)

text \<open>\<^verbatim>\<open>rc == VXDB_OK && vxdb_step(dbr) == VXDB_ROW\<close> on a selection: some row matches.\<close>

lemma select_ex_sound:
  assumes "bindM (vxdb_query H (Select cs t w od)) (\<lambda>r. ret (first_row r \<noteq> None)) s = (Inr True, s')"
    and "sqlite_ok (sql H)" and "query_safe (Select cs t w od)"
  shows "\<exists>q \<in> set (rows (db s) t). matches (db s) w q"
proof -
  from assms(1) obtain r s1 where r: "vxdb_query H (Select cs t w od) s = (Inr r, s1)"
    and "first_row r \<noteq> None"
    by (auto elim!: bindM_InrE simp: prog_simps)
  then obtain row where "first_row r = Some row" by blast
  then show ?thesis by (rule first_row_Select [OF r assms(2,3)]) blast
qed

lemma whirlpool_pass_quote_free:
  "lucid_ok L \<Longrightarrow> (take 14 pass = enc_prefix \<longrightarrow> quote_free pass) \<Longrightarrow> quote_free (whirlpool_pass L pass)"
  using lucid_ok_digest [of L pass]
  by (auto simp: whirlpool_pass_def quote_free_def list_all_iff dest: in_set_dropD)

lemma auth_isvalid_sound:
  assumes "auth_isvalid H user pass s = (Inr True, s')" and "lucid_ok (lib H)" and "sqlite_ok (sql H)"
    and "take 14 pass = enc_prefix \<longrightarrow> quote_free pass"
  shows "\<exists>q \<in> set (rows (db s) T_user).
    rget q C_name = STxt user \<and> rget q C_password = STxt (whirlpool_pass (lib H) pass)"
proof -
  have v: "validate_username (lib H) user" and e: "\<not> str_isempty (lib H) (Some pass)"
    using assms(1) by (auto simp: auth_isvalid_def prog_simps split: if_splits)
  from assms(1) show ?thesis
    using select_ex_sound [OF _ assms(3)] v e assms(2,4)
    by (fastforce simp: auth_isvalid_def validate_username_quote_free whirlpool_pass_quote_free)
qed

lemma auth_isadmin_sound:
  assumes "auth_isadmin H user s = (Inr True, s')" and "lucid_ok (lib H)" and "sqlite_ok (sql H)"
  shows "\<exists>q \<in> set (rows (db s) T_user). rget q C_name = STxt user \<and> rget q C_admin = SInt 1"
proof -
  have v: "validate_username (lib H) user"
    using assms(1) by (auto simp: auth_isadmin_def prog_simps split: if_splits)
  from assms(1) show ?thesis
    using select_ex_sound [OF _ assms(3)] v assms(2)
    by (fastforce simp: auth_isadmin_def validate_username_quote_free)
qed

lemma auth_getuid_sound:
  assumes "auth_getuid H user s = (Inr uid, s')" and "uid \<noteq> 0"
    and "lucid_ok (lib H)" and "sqlite_ok (sql H)" and "uids_ok (db s)"
  shows "\<exists>q \<in> set (rows (db s) T_user). rget q C_name = STxt user \<and> rget q C_uid = SInt uid"
proof -
  have v: "validate_username (lib H) user"
    using assms(1,2) by (auto simp: auth_getuid_def prog_simps split: if_splits)
  with assms(1,2) obtain r row where
    r: "vxdb_query H (Select [C_uid] T_user [(C_name, Lit (STxt user))] Unordered) s = (Inr r, s')"
    and f: "first_row r = Some row" and u: "uid = vxdb_column_int (lib H) row 0"
    by (auto simp: auth_getuid_def prog_simps elim!: bindM_InrE split: option.splits)
  from v assms(3) have "quote_free user" by (simp add: validate_username_quote_free)
  then obtain q where q: "q \<in> set (rows (db s) T_user)" "rget q C_name = STxt user"
      "row = [rget q C_uid]"
    using first_row_Select [OF r assms(4) _ f] by auto
  obtain x where "rget q C_uid = SInt x" "0 < x" "x < 2 ^ 31"
    using uids_okD [OF assms(5) q(1)] by (rule id_okE)
  with q u assms(3) show ?thesis by (auto simp: column_int_id)
qed

definition has_cap_row :: "vxdb_db \<Rightarrow> string \<Rightarrow> string \<Rightarrow> bool" where
  "has_cap_row d user cap \<longleftrightarrow>
     (\<exists>q \<in> set (rows d T_user). \<exists>p \<in> set (rows d T_user_caps).
        rget q C_name = STxt user \<and> rget p C_uid = rget q C_uid \<and> rget p C_cap = STxt cap)"

definition has_owner_row :: "vxdb_db \<Rightarrow> string \<Rightarrow> string \<Rightarrow> bool" where
  "has_owner_row d user name \<longleftrightarrow>
     (\<exists>q \<in> set (rows d T_user). \<exists>x \<in> set (rows d T_xid_name_map). \<exists>p \<in> set (rows d T_xid_uid_map).
        rget q C_name = STxt user \<and> rget x C_name = STxt name
        \<and> rget p C_uid = rget q C_uid \<and> rget p C_xid = rget x C_xid)"

lemma auth_hascapability_sound:
  assumes "auth_hascapability H user v s = (Inr True, s')" and "(cap, v) \<in> set vcd_caps_list"
    and "lucid_ok (lib H)" and "sqlite_ok (sql H)" and "uids_ok (db s)"
  shows "has_cap_row (db s) user cap"
proof -
  have key: "flist64_getkey (lib H) vcd_caps_list v = Some cap" and qf: "quote_free cap"
    using assms(2,3) by (simp_all add: vcd_caps_getkey vcd_caps_keys_quote_free)
  from assms(1) obtain uid s1 where u: "auth_getuid H user s = (Inr uid, s1)" "uid \<noteq> 0"
    and ex: "bindM (vxdb_query H (Select [C_uid] T_user_caps
               [(C_uid, Lit (SInt uid)), (C_cap, Lit (STxt cap))] Unordered))
               (\<lambda>r. ret (first_row r \<noteq> None)) s1 = (Inr True, s')"
    by (auto simp: auth_hascapability_def prog_simps key elim!: bindM_InrE [of "auth_getuid H user"]
        split: if_splits)
  have "db s1 = db s" using reads_conn [OF auth_getuid_reads u(1)] by simp
  with select_ex_sound [OF ex assms(4)] qf
  obtain p where "p \<in> set (rows (db s) T_user_caps)" "rget p C_uid = SInt uid" "rget p C_cap = STxt cap"
    by auto
  with auth_getuid_sound [OF u assms(3-5)] show ?thesis
    by (force simp: has_cap_row_def)
qed

lemma auth_capable_loop_sound:
  assumes "auth_capable_loop H user caps l s = (Inr True, s')" and "set l \<subseteq> set vcd_caps_list"
    and "lucid_ok (lib H)" and "sqlite_ok (sql H)" and "uids_ok (db s)"
    and "(cap, v) \<in> set l" and "and caps v \<noteq> 0"
  shows "has_cap_row (db s) user cap"
  using assms
proof (induction l arbitrary: s)
  case Nil
  then show ?case by simp
next
  case (Cons a l)
  obtain key val where a: "a = (key, val)" by (cases a)
  show ?case
  proof (cases "and caps val = 0")
    case True
    with Cons.prems a show ?thesis by (auto intro: Cons.IH)
  next
    case False
    with Cons.prems(1) a obtain s1 where
      h: "auth_hascapability H user val s = (Inr True, s1)"
      and l: "auth_capable_loop H user caps l s1 = (Inr True, s')"
      by (auto elim!: bindM_InrE simp: prog_simps split: if_splits)
    have d: "db s1 = db s" using reads_conn [OF auth_hascapability_reads h] by simp
    show ?thesis
    proof (cases "(cap, v) = (key, val)")
      case True
      with h a Cons.prems show ?thesis by (auto intro: auth_hascapability_sound)
    next
      case False
      with Cons.prems a l d Cons.IH [OF l] show ?thesis by auto
    qed
  qed
qed

lemma auth_capable_sound:
  assumes "auth_capable H user caps s = (Inr True, s')"
    and "lucid_ok (lib H)" and "sqlite_ok (sql H)" and "uids_ok (db s)"
    and "(cap, v) \<in> set vcd_caps_list" and "and caps v \<noteq> 0"
  shows "has_cap_row (db s) user cap"
  using auth_capable_loop_sound [OF assms(1) [unfolded auth_capable_def] subset_refl assms(2-6)] .

lemma auth_isowner_sound:
  assumes "auth_isowner H user name s = (Inr True, s')"
    and "lucid_ok (lib H)" and "sqlite_ok (sql H)" and "uids_ok (db s)" and "xids_ok (db s)"
  shows "(\<exists>q \<in> set (rows (db s) T_user). rget q C_name = STxt user \<and> rget q C_admin = SInt 1)
    \<or> has_owner_row (db s) user name"
proof -
  from assms(1) obtain uid s1 b s2 where u: "auth_getuid H user s = (Inr uid, s1)" "uid \<noteq> 0"
    and b: "auth_isadmin H user s1 = (Inr b, s2)"
    and rest: "(if b then ret True else bindM (vxdb_getxid H name) (\<lambda>xid.
        if xid = 0 then ret False
        else bindM (vxdb_query H (Select [C_uid] T_xid_uid_map
                   [(C_uid, Lit (SInt uid)), (C_xid, xid_lit xid)] Unordered)) (\<lambda>r.
             ret (first_row r \<noteq> None)))) s2 = (Inr True, s')"
    unfolding auth_isowner_def
    by (elim bindM_InrE) (auto simp: prog_simps elim!: bindM_InrE [of "auth_isadmin H user"] split: if_splits)
  have d1: "db s1 = db s" using reads_conn [OF auth_getuid_reads u(1)] by simp
  have d2: "db s2 = db s" using reads_conn [OF auth_isadmin_reads b] d1 by simp
  show ?thesis
  proof (cases b)
    case True
    with auth_isadmin_sound [OF _ assms(2,3)] b d1 show ?thesis by metis
  next
    case False
    with rest obtain xid s3 where x: "vxdb_getxid H name s2 = (Inr xid, s3)" "xid \<noteq> 0"
      and ex: "bindM (vxdb_query H (Select [C_uid] T_xid_uid_map
                   [(C_uid, Lit (SInt uid)), (C_xid, xid_lit xid)] Unordered)) (\<lambda>r.
             ret (first_row r \<noteq> None)) s3 = (Inr True, s')"
      by (auto simp: prog_simps elim!: bindM_InrE [of "vxdb_getxid H name"] split: if_splits)
    note xr = vxdb_getxid_row [OF x assms(2,3), unfolded d2, OF assms(5)]
    have d3: "db s3 = db s" using reads_conn [OF vxdb_getxid_reads x(1)] d2 by simp
    from select_ex_sound [OF ex assms(3)] xr(2,3)
    obtain p where "p \<in> set (rows (db s) T_xid_uid_map)" "rget p C_uid = SInt uid" "rget p C_xid = SInt xid"
      by (auto simp: xid_lit_def s32_small d3)
    with auth_getuid_sound [OF u assms(2-4)] xr(4) show ?thesis
      by (force simp: has_owner_row_def)
  qed
qed

end
