(* ===== verification/Schema.thy ===== *)
theory Schema
  imports Auth
begin

text \<open>
  \<^verbatim>\<open>src/src/vcd/vxdb.c\<close>, the start of the daemon: checking the version of the database,
  creating missing tables and unique indexes, and creating the users every installation needs.
  \<open>Die\<close> is \<^verbatim>\<open>log_error_and_die\<close>; log messages are left out.

  The lemmas show what a successful check guarantees to the rest of the daemon, whatever
  database it started from: every table and every unique index of
  \<^verbatim>\<open>vxdb-tables.h\<close> exists, the version is current, and there are an administrator and a
  \<open>vshelper\<close> user.
\<close>

section \<open>Creating tables, indexes and users\<close>

definition VXDB_VERSION_MAJOR :: int where "VXDB_VERSION_MAJOR = 1"
definition VXDB_VERSION_MINOR :: int where "VXDB_VERSION_MINOR = 1"
definition VXDB_VERSION :: int where
  "VXDB_VERSION = or (push_bit 8 VXDB_VERSION_MAJOR) VXDB_VERSION_MINOR"

definition vxdb_create_table :: "'k host \<Rightarrow> vxdb_table \<Rightarrow> ('k, unit) handler" where
  "vxdb_create_table H table =
     bindM (vxdb_exec H
       ([Begin, CreateTable (tbl_name table) (tbl_columns table)]
        @ map (CreateIndex (tbl_name table)) (tbl_unique table) @ [Commit])) (\<lambda>ok.
     bindM (unlessM ok (Die ''could not create table'')) (\<lambda>_.
     if tbl_name table = T_groups then
       bindM (vxdb_exec H
         [Begin, Insert False T_groups [(C_gid, SInt 1), (C_name, STxt ''onboot'')], Commit]) (\<lambda>ok.
       unlessM ok (Die ''could not insert data on creation of table''))
     else ret ()))"

definition vxdb_create_index :: "'k host \<Rightarrow> table \<Rightarrow> col list \<Rightarrow> ('k, unit) handler" where
  "vxdb_create_index H table columns =
     bindM (vxdb_exec H [CreateIndex table columns]) (\<lambda>ok.
     unlessM ok (Die ''could not create unique index''))"

definition vxdb_sanity_check_unique :: "'k host \<Rightarrow> vxdb_table \<Rightarrow> ('k, unit) handler" where
  "vxdb_sanity_check_unique H table =
     forM (tbl_unique table) (\<lambda>columns.
       bindM (vxdb_query H (MasterIndex (tbl_name table) columns)) (\<lambda>r.
       if first_row r = None then vxdb_create_index H (tbl_name table) columns else ret ()))"

definition vxdb_sanity_check_table :: "'k host \<Rightarrow> vxdb_table \<Rightarrow> ('k, unit) handler" where
  "vxdb_sanity_check_table H table =
     bindM (vxdb_query H (MasterTable (tbl_name table))) (\<lambda>r.
     if first_row r = None then vxdb_create_table H table
     else vxdb_sanity_check_unique H table)"

definition user_cap_row :: "int \<Rightarrow> string \<Rightarrow> stmt" where
  "user_cap_row uid cap = Insert False T_user_caps [(C_uid, SInt uid), (C_cap, STxt cap)]"

definition create_admin_stmts :: "int \<Rightarrow> stmt list" where
  "create_admin_stmts uid =
     Begin
     # Insert False T_user [(C_uid, SInt uid), (C_name, STxt ''admin''), (C_password, STxt ''*''),
         (C_admin, SInt 1)]
     # map (user_cap_row uid)
         [''AUTH'', ''DLIM'', ''INIT'', ''MOUNT'', ''NET'', ''BCAP'', ''CCAP'', ''CFLAG'', ''RLIM'',
          ''SCHED'', ''UNAME'', ''CREATE'', ''EXEC'', ''INFO'']
     @ [Commit]"

definition create_vshelper_stmts :: "int \<Rightarrow> stmt list" where
  "create_vshelper_stmts uid =
     Begin
     # Insert False T_user [(C_uid, SInt uid), (C_name, STxt ''vshelper''),
         (C_password, STxt ''*''), (C_admin, SInt 0)]
     # [user_cap_row uid ''HELPER'', Commit]"

definition vxdb_create_user :: "'k host \<Rightarrow> string \<Rightarrow> ('k, unit) handler" where
  "vxdb_create_user H name =
     bindM (auth_getnextuid H) (\<lambda>uid.
     bindM (if name = ''admin'' then vxdb_exec H (create_admin_stmts uid)
            else if name = ''vshelper'' then vxdb_exec H (create_vshelper_stmts uid)
            else ret True) (\<lambda>ok.
     unlessM ok (Die ''could not create user'')))"

lemma create_user_stmts_safe:
  "list_all stmt_safe (create_admin_stmts uid)" "list_all stmt_safe (create_vshelper_stmts uid)"
  by (simp_all add: create_admin_stmts_def create_vshelper_stmts_def user_cap_row_def quote_free_def)

section \<open>The check at the start\<close>

definition vxdb_check_version :: "'k host \<Rightarrow> ('k, unit) handler" where
  "vxdb_check_version H =
     bindM (vxdb_query H PragmaVersion) (\<lambda>r.
     case first_row r of
       None \<Rightarrow> raise (Die ''could not get database version'')
     | Some row \<Rightarrow>
         let vxdb_version = vxdb_column_int (lib H) row 0;
             vxdb_vmajor = drop_bit 8 vxdb_version;
             vxdb_vminor = and vxdb_version 0xff in
         if vxdb_version = 0 then
           bindM (vxdb_query H MasterAny) (\<lambda>r.
           unlessM (first_row r = None) (Die ''cannot create initial schema''))
         else if vxdb_vmajor < VXDB_VERSION_MAJOR then
           raise (Die ''your database schema needs to be updated manually'')
         else if vxdb_vmajor > VXDB_VERSION_MAJOR \<or> vxdb_vminor > VXDB_VERSION_MINOR then
           raise (Die ''downgrade will not work'')
         else ret ())"

text \<open>One of the checks for users: if the query yields no row, the user is created.\<close>

definition vxdb_ensure_user :: "'k host \<Rightarrow> query \<Rightarrow> string \<Rightarrow> ('k, unit) handler" where
  "vxdb_ensure_user H q name =
     bindM (vxdb_query H q) (\<lambda>r.
     if first_row r = None then vxdb_create_user H name else ret ())"

definition vxdb_sanity_check :: "'k host \<Rightarrow> ('k, unit) handler" where
  "vxdb_sanity_check H =
     bindM (vxdb_check_version H) (\<lambda>_.
     bindM (forM vxdb_tables (vxdb_sanity_check_table H)) (\<lambda>_.
     bindM (vxdb_exec H [SetVersion VXDB_VERSION]) (\<lambda>ok.
     bindM (unlessM ok (Die ''could not set database version'')) (\<lambda>_.
     bindM (vxdb_ensure_user H (SelectLimit1 [C_uid] T_user [] Unordered) ''admin'') (\<lambda>_.
     bindM (vxdb_ensure_user H
       (SelectLimit1 [C_uid] T_user [(C_admin, Lit (SInt 1))] Unordered) ''admin'') (\<lambda>_.
     vxdb_ensure_user H
       (Select [C_uid] T_user [(C_name, Lit (STxt ''vshelper''))] Unordered) ''vshelper''))))))"

section \<open>Sequences of statements\<close>

fun exec_stmts :: "stmt list \<Rightarrow> conn \<Rightarrow> conn option" where
  "exec_stmts [] c = Some c"
| "exec_stmts (st # sts) c =
     (case exec_stmt st c of None \<Rightarrow> None | Some c' \<Rightarrow> exec_stmts sts c')"

lemma exec_stmts_append:
  "exec_stmts (sts @ sts') c =
     (case exec_stmts sts c of None \<Rightarrow> None | Some c' \<Rightarrow> exec_stmts sts' c')"
  by (induction sts arbitrary: c) (auto split: option.splits)

lemma run_stmts_exec:
  "run_stmts Q sts c k = ((True, c'), k') \<Longrightarrow> exec_stmts sts c = Some c'"
  by (induction sts arbitrary: c k) (auto split: prod.splits if_splits option.splits)

lemma vxdb_exec_all:
  assumes "vxdb_exec H sts s = (Inr True, s')" and "list_all stmt_safe sts"
  shows "exec_stmts sts (conn s) = Some (conn s')"
  using assms by (auto simp: vxdb_exec_def split: prod.splits if_splits dest: run_stmts_exec)

lemma exec_stmts_create_index:
  "exec_stmts (map (CreateIndex t) us) c = Some c' \<Longrightarrow>
     set (indexes (cur c')) = set (indexes (cur c)) \<union> {t} \<times> set us
     \<and> schema (cur c') = schema (cur c)"
  by (induction us arbitrary: c) (auto split: option.splits if_splits)

section \<open>The schema only grows\<close>

definition db_grows :: "vxdb_db \<Rightarrow> vxdb_db \<Rightarrow> bool" where
  "db_grows d d' \<longleftrightarrow>
     fst ` set (schema d) \<subseteq> fst ` set (schema d') \<and> set (indexes d) \<subseteq> set (indexes d')"

lemma exec_stmt_grows: "exec_stmt st c = Some c' \<Longrightarrow> db_grows (cur c) (cur c')"
  by (cases st) (auto simp: db_grows_def Let_def split: if_splits option.splits)

lemma db_grows_refl: "db_grows d d"
  by (simp add: db_grows_def)

lemma db_grows_trans: "db_grows d d' \<Longrightarrow> db_grows d' d'' \<Longrightarrow> db_grows d d''"
  unfolding db_grows_def by (meson subset_trans)

lemma run_stmts_grows:
  "run_stmts Q sts c k = ((ok, c'), k') \<Longrightarrow> db_grows (cur c) (cur c')"
proof (induction sts arbitrary: c k)
  case Nil
  then show ?case by (simp add: db_grows_refl)
next
  case (Cons st sts)
  obtain p k1 where p: "sq_perform Q st k = (p, k1)" by fastforce
  show ?case
  proof (cases "\<not> p \<or> exec_stmt st c = None")
    case True
    with Cons.prems p show ?thesis by (auto simp: db_grows_refl split: if_splits)
  next
    case False
    with Cons.prems p obtain c1 where "exec_stmt st c = Some c1"
      "run_stmts Q sts c1 k1 = ((ok, c'), k')" by auto
    then show ?thesis by (blast intro: db_grows_trans exec_stmt_grows Cons.IH)
  qed
qed

definition grows :: "'k st \<Rightarrow> 'k st \<Rightarrow> bool" where
  "grows s s' \<longleftrightarrow> db_grows (db s) (db s')"

interpretation gr: step_relation grows
  by unfold_locales (auto simp: grows_def intro: db_grows_refl db_grows_trans)

named_theorems grows_intros \<open>operations under which the schema grows\<close>

lemma same_conn_grows: "stays same_conn m \<Longrightarrow> stays grows m"
  by (auto simp: stays_def same_conn_def grows_def db_grows_def)

lemma vxdb_exec_grows: "list_all stmt_safe sts \<Longrightarrow> stays grows (vxdb_exec H sts)"
  by (auto simp: stays_def vxdb_exec_def grows_def split: prod.splits dest: run_stmts_grows)

lemmas grows_reads = same_conn_grows [OF vxdb_query_reads] same_conn_grows [OF auth_getnextuid_reads]

lemma vxdb_create_table_grows [grows_intros]: "stays grows (vxdb_create_table H t)"
  unfolding vxdb_create_table_def
  by (intro gr.stays_rules vxdb_exec_grows) (simp_all add: list_all_iff quote_free_def)

lemma vxdb_create_index_grows [grows_intros]: "stays grows (vxdb_create_index H t ix)"
  unfolding vxdb_create_index_def by (intro gr.stays_rules vxdb_exec_grows) simp

lemma vxdb_sanity_check_unique_grows [grows_intros]: "stays grows (vxdb_sanity_check_unique H t)"
  unfolding vxdb_sanity_check_unique_def by (intro gr.stays_rules grows_reads grows_intros)

lemma vxdb_sanity_check_table_grows [grows_intros]: "stays grows (vxdb_sanity_check_table H t)"
  unfolding vxdb_sanity_check_table_def by (intro gr.stays_rules grows_reads grows_intros)

lemma vxdb_create_user_grows [grows_intros]: "stays grows (vxdb_create_user H name)"
  unfolding vxdb_create_user_def
  by (intro gr.stays_rules grows_reads vxdb_exec_grows create_user_stmts_safe)

section \<open>What a successful check guarantees\<close>

definition table_ready :: "vxdb_db \<Rightarrow> vxdb_table \<Rightarrow> bool" where
  "table_ready d t \<longleftrightarrow> tbl_name t \<in> fst ` set (schema d)
     \<and> (\<forall>ix \<in> set (tbl_unique t). (tbl_name t, ix) \<in> set (indexes d))"

lemma table_ready_grows: "db_grows d d' \<Longrightarrow> table_ready d t \<Longrightarrow> table_ready d' t"
  by (auto simp: table_ready_def db_grows_def)

lemma exec_stmts_create_table:
  assumes "exec_stmts ([Begin, CreateTable t cs] @ map (CreateIndex t) us @ [Commit]) c = Some c'"
  shows "t \<in> fst ` set (schema (cur c'))" and "{t} \<times> set us \<subseteq> set (indexes (cur c'))"
  using assms
  by (auto simp: exec_stmts_append split: option.splits if_splits dest!: exec_stmts_create_index)

lemma vxdb_create_table_ready:
  assumes "vxdb_create_table H t s = (Inr (), s')"
  shows "table_ready (db s') t"
proof -
  from assms obtain s1 where ex: "vxdb_exec H ([Begin, CreateTable (tbl_name t) (tbl_columns t)]
        @ map (CreateIndex (tbl_name t)) (tbl_unique t) @ [Commit]) s = (Inr True, s1)"
    and rest: "(if tbl_name t = T_groups then
       bindM (vxdb_exec H
         [Begin, Insert False T_groups [(C_gid, SInt 1), (C_name, STxt ''onboot'')], Commit]) (\<lambda>ok.
       unlessM ok (Die ''could not insert data on creation of table''))
     else ret ()) s1 = (Inr (), s')"
    unfolding vxdb_create_table_def by (elim bindM_InrE unlessM_InrE) auto
  have "exec_stmts ([Begin, CreateTable (tbl_name t) (tbl_columns t)]
        @ map (CreateIndex (tbl_name t)) (tbl_unique t) @ [Commit]) (conn s) = Some (conn s1)"
    using vxdb_exec_all [OF ex] by (simp add: list_all_iff)
  then have r: "table_ready (db s1) t"
    using exec_stmts_create_table [of "tbl_name t"] unfolding table_ready_def by blast
  have "stays grows (if tbl_name t = T_groups then
       bindM (vxdb_exec H
         [Begin, Insert False T_groups [(C_gid, SInt 1), (C_name, STxt ''onboot'')], Commit]) (\<lambda>ok.
       unlessM ok (Die ''could not insert data on creation of table''))
     else ret ())"
    by (intro gr.stays_rules vxdb_exec_grows) (simp add: quote_free_def)
  from staysD [OF this rest] r show ?thesis by (auto simp: grows_def intro: table_ready_grows)
qed

text \<open>A loop whose body makes a property of its element true that later rounds keep makes it true
  of all elements.\<close>

lemma forM_establishes:
  assumes "forM xs f s = (Inr (), s')" and "x \<in> set xs"
    and "\<And>x s s'. f x s = (Inr (), s') \<Longrightarrow> P x s'"
    and "\<And>x y s s' r. f y s = (r, s') \<Longrightarrow> P x s \<Longrightarrow> P x s'"
  shows "P x s'"
  using assms(1,2)
proof (induction xs arbitrary: s)
  case Nil
  then show ?case by simp
next
  case (Cons y ys)
  then obtain s1 where y: "f y s = (Inr (), s1)" and ys: "forM ys f s1 = (Inr (), s')"
    by (auto elim!: bindM_InrE)
  have keep: "P x t' " if "forM zs f t = (r, t')" and "P x t" for zs t t' r
    using that
    by (induction zs arbitrary: t)
      (auto simp: prog_simps bindM_def split: prod.splits sum.splits dest: assms(4))
  show ?case
  proof (cases "x = y")
    case True
    with assms(3) [OF y] keep [OF ys] show ?thesis by simp
  next
    case False
    with Cons ys show ?thesis by simp
  qed
qed

lemma vxdb_sanity_check_unique_ready:
  assumes "vxdb_sanity_check_unique H t s = (Inr (), s')" and "ix \<in> set (tbl_unique t)"
  shows "(tbl_name t, ix) \<in> set (indexes (db s'))"
proof (rule forM_establishes [OF assms [unfolded vxdb_sanity_check_unique_def],
      of "\<lambda>ix s. (tbl_name t, ix) \<in> set (indexes (db s))"])
  fix ix s s'
  let ?m = "\<lambda>ix. bindM (vxdb_query H (MasterIndex (tbl_name t) ix)) (\<lambda>r.
       if first_row r = None then vxdb_create_index H (tbl_name t) ix else ret ())"
  {
    assume "?m ix s = (Inr (), s')"
    then obtain r s1 where r: "vxdb_query H (MasterIndex (tbl_name t) ix) s = (Inr r, s1)"
      and rest: "(if first_row r = None then vxdb_create_index H (tbl_name t) ix else ret ()) s1 = (Inr (), s')"
      by (elim bindM_InrE)
    show "(tbl_name t, ix) \<in> set (indexes (db s'))"
    proof (cases "first_row r = None")
      case True
      with rest have "vxdb_exec H [CreateIndex (tbl_name t) ix] s1 = (Inr True, s')"
        by (auto simp: vxdb_create_index_def elim!: bindM_InrE unlessM_InrE)
      from vxdb_exec_one(1) [OF this, THEN sym] show ?thesis
        by (auto split: if_splits dest!: arg_cong [where f = "\<lambda>c. indexes (cur c)"])
    next
      case False
      then obtain row where row: "first_row r = Some row" by blast
      from first_row_query [OF r _ row] False rest
        conjunct1 [OF reads_conn [OF vxdb_query_reads r]] show ?thesis
        by (auto simp: prog_simps split: if_splits)
    qed
  next
    fix y r
    assume "?m y s = (r, s')" and "(tbl_name t, ix) \<in> set (indexes (db s))"
    moreover have "stays grows (?m y)"
      by (intro gr.stays_rules grows_reads grows_intros)
    ultimately show "(tbl_name t, ix) \<in> set (indexes (db s'))"
      by (auto dest!: staysD simp: grows_def db_grows_def)
  }
qed

lemma vxdb_sanity_check_table_ready:
  assumes "vxdb_sanity_check_table H t s = (Inr (), s')"
  shows "table_ready (db s') t"
proof -
  from assms obtain r s1 where r: "vxdb_query H (MasterTable (tbl_name t)) s = (Inr r, s1)"
    and rest: "(if first_row r = None then vxdb_create_table H t
        else vxdb_sanity_check_unique H t) s1 = (Inr (), s')"
    unfolding vxdb_sanity_check_table_def by (elim bindM_InrE)
  show ?thesis
  proof (cases "first_row r = None")
    case True
    with rest show ?thesis by (simp add: vxdb_create_table_ready)
  next
    case False
    then obtain row where row: "first_row r = Some row" by blast
    with rest have u: "vxdb_sanity_check_unique H t s1 = (Inr (), s')" by simp
    have "map_of (schema (db s)) (tbl_name t) \<noteq> None"
      using first_row_query [OF r _ row] by (auto split: if_splits)
    then have "tbl_name t \<in> fst ` set (schema (db s))"
      by (auto simp: map_of_eq_None_iff)
    moreover have "db_grows (db s) (db s')"
      using staysD [OF vxdb_sanity_check_unique_grows u] reads_conn [OF vxdb_query_reads r]
      by (simp add: grows_def)
    ultimately show ?thesis
      using vxdb_sanity_check_unique_ready [OF u] by (auto simp: table_ready_def db_grows_def)
  qed
qed

section \<open>The users every installation has\<close>

fun appends :: "stmt \<Rightarrow> bool" where
  "appends (Insert orrepl _ _) = (\<not> orrepl)"
| "appends (Update _ _ _) = False"
| "appends (Delete _ _) = False"
| "appends (CreateTable _ _) = False"
| "appends _ = True"

lemma create_user_stmts_append:
  "list_all appends (create_admin_stmts uid)" "list_all appends (create_vshelper_stmts uid)"
  by (simp_all add: create_admin_stmts_def create_vshelper_stmts_def user_cap_row_def)

definition more_rows :: "'k st \<Rightarrow> 'k st \<Rightarrow> bool" where
  "more_rows s s' \<longleftrightarrow> (\<forall>t. set (rows (db s) t) \<subseteq> set (rows (db s') t))"

interpretation mr: step_relation more_rows
  unfolding more_rows_def by unfold_locales (blast+)

lemma exec_stmt_appends:
  "exec_stmt st c = Some c' \<Longrightarrow> appends st \<Longrightarrow> set (rows (cur c) t) \<subseteq> set (rows (cur c') t)"
  by (cases st) (auto simp: Let_def list_ex_iff split: if_splits option.splits)

lemma run_stmts_appends:
  "run_stmts Q sts c k = ((ok, c'), k') \<Longrightarrow> list_all appends sts
     \<Longrightarrow> set (rows (cur c) t) \<subseteq> set (rows (cur c') t)"
proof (induction sts arbitrary: c k)
  case Nil
  then show ?case by simp
next
  case (Cons st sts)
  obtain p k1 where p: "sq_perform Q st k = (p, k1)" by fastforce
  show ?case
  proof (cases "\<not> p \<or> exec_stmt st c = None")
    case True
    with Cons.prems p show ?thesis by (auto split: if_splits)
  next
    case False
    with Cons.prems p obtain c1 where "exec_stmt st c = Some c1"
      "run_stmts Q sts c1 k1 = ((ok, c'), k')" by auto
    with Cons.prems(2) show ?thesis
      by (metis Cons.IH exec_stmt_appends list.pred_inject(2) subset_trans)
  qed
qed

lemma vxdb_exec_more_rows:
  "list_all stmt_safe sts \<Longrightarrow> list_all appends sts \<Longrightarrow> stays more_rows (vxdb_exec H sts)"
  by (auto simp: stays_def vxdb_exec_def more_rows_def split: prod.splits dest: run_stmts_appends)

lemma same_conn_more_rows: "stays same_conn m \<Longrightarrow> stays more_rows m"
  by (auto simp: stays_def same_conn_def more_rows_def)

lemmas more_rows_reads =
  same_conn_more_rows [OF vxdb_query_reads] same_conn_more_rows [OF auth_getnextuid_reads]

lemma vxdb_create_user_more_rows: "stays more_rows (vxdb_create_user H name)"
  unfolding vxdb_create_user_def
  by (intro mr.stays_rules more_rows_reads vxdb_exec_more_rows create_user_stmts_safe
      create_user_stmts_append)

definition has_user :: "vxdb_db \<Rightarrow> col \<Rightarrow> sval \<Rightarrow> bool" where
  "has_user d c v \<longleftrightarrow> (\<exists>q \<in> set (rows d T_user). rget q c = v)"

lemma has_user_more_rows: "more_rows s s' \<Longrightarrow> has_user (db s) c v \<Longrightarrow> has_user (db s') c v"
  by (auto simp: has_user_def more_rows_def)

lemma exec_stmts_keep_rows:
  "exec_stmts sts c = Some c' \<Longrightarrow> list_all appends sts \<Longrightarrow> q \<in> set (rows (cur c) t)
     \<Longrightarrow> q \<in> set (rows (cur c') t)"
  by (induction sts arbitrary: c) (auto split: option.splits dest: exec_stmt_appends)

lemma exec_stmts_insert_second:
  assumes "exec_stmts (Begin # Insert False t r # sts) c = Some c'" and "list_all appends sts"
  shows "r \<in> set (rows (cur c') t)"
  using assms
  by (auto simp: Let_def split: option.splits if_splits intro: exec_stmts_keep_rows)

lemma vxdb_create_user_Inr:
  assumes "vxdb_create_user H name s = (Inr (), s')"
  obtains uid s1 where "name = ''admin'' \<Longrightarrow> vxdb_exec H (create_admin_stmts uid) s1 = (Inr True, s')"
    and "name = ''vshelper'' \<Longrightarrow> vxdb_exec H (create_vshelper_stmts uid) s1 = (Inr True, s')"
  using assms unfolding vxdb_create_user_def
  by (elim bindM_InrE unlessM_InrE) (simp split: if_splits)

lemma vxdb_create_user_admin:
  assumes "vxdb_create_user H ''admin'' s = (Inr (), s')"
  shows "has_user (db s') C_admin (SInt 1)"
proof -
  from assms obtain uid s1 where ex: "vxdb_exec H (create_admin_stmts uid) s1 = (Inr True, s')"
    by (rule vxdb_create_user_Inr) blast
  note exec_stmts_insert_second [OF vxdb_exec_all [OF ex create_user_stmts_safe(1),
      unfolded create_admin_stmts_def]]
  then show ?thesis by (force simp: has_user_def user_cap_row_def)
qed

lemma vxdb_create_user_vshelper:
  assumes "vxdb_create_user H ''vshelper'' s = (Inr (), s')"
  shows "has_user (db s') C_name (STxt ''vshelper'')"
proof -
  from assms obtain uid s1 where ex: "vxdb_exec H (create_vshelper_stmts uid) s1 = (Inr True, s')"
    by (rule vxdb_create_user_Inr) blast
  note exec_stmts_insert_second [OF vxdb_exec_all [OF ex create_user_stmts_safe(2),
      unfolded create_vshelper_stmts_def]]
  then show ?thesis by (force simp: has_user_def user_cap_row_def)
qed

text \<open>The three \<^verbatim>\<open>SELECT ... FROM user\<close> of the check: a row is found, or the user is
  created.\<close>

lemma ensure_user:
  assumes "vxdb_ensure_user H q name s = (Inr (), s')"
    and "query_safe q"
    and "\<And>row. row \<in> set (query_rows (sq_scan (sql H) q) q (db s)) \<Longrightarrow> has_user (db s) c v"
    and "\<And>s s'. vxdb_create_user H name s = (Inr (), s') \<Longrightarrow> has_user (db s') c v"
  shows "has_user (db s') c v"
proof -
  from assms(1) obtain r s1 where r: "vxdb_query H q s = (Inr r, s1)"
    and rest: "(if first_row r = None then vxdb_create_user H name else ret ()) s1 = (Inr (), s')"
    unfolding vxdb_ensure_user_def by (elim bindM_InrE)
  show ?thesis
  proof (cases "first_row r")
    case None
    with rest assms(4) show ?thesis by simp
  next
    case (Some row)
    with rest have "s' = s1" by (simp add: prog_simps)
    with assms(3) [OF first_row_query [OF r assms(2) Some]] reads_conn [OF vxdb_query_reads r]
    show ?thesis by simp
  qed
qed

lemma vxdb_ensure_user_grows [grows_intros]: "stays grows (vxdb_ensure_user H q name)"
  unfolding vxdb_ensure_user_def by (intro gr.stays_rules grows_reads grows_intros)

lemma vxdb_ensure_user_more_rows: "stays more_rows (vxdb_ensure_user H q name)"
  unfolding vxdb_ensure_user_def
  by (intro mr.stays_rules more_rows_reads vxdb_create_user_more_rows)

definition same_version :: "'k st \<Rightarrow> 'k st \<Rightarrow> bool" where
  "same_version s s' \<longleftrightarrow> user_version (db s') = user_version (db s)"

interpretation sv: step_relation same_version
  by unfold_locales (simp_all add: same_version_def)

lemma run_stmts_version:
  "run_stmts Q sts c k = ((ok, c'), k') \<Longrightarrow> list_all (\<lambda>st. \<forall>v. st \<noteq> SetVersion v) sts
     \<Longrightarrow> user_version (cur c') = user_version (cur c)"
proof (induction sts arbitrary: c k)
  case Nil
  then show ?case by simp
next
  case (Cons st sts)
  have "user_version (cur c1) = user_version (cur c)" if "exec_stmt st c = Some c1" for c1
    using that Cons.prems(2)
    by (cases st) (auto simp: Let_def split: if_splits option.splits)
  with Cons show ?case
    by (fastforce split: prod.splits if_splits option.splits)
qed

lemma vxdb_ensure_user_version: "stays same_version (vxdb_ensure_user H q name)"
proof -
  have ex: "stays same_version (vxdb_exec H sts)"
    if "list_all stmt_safe sts" "list_all (\<lambda>st. \<forall>v. st \<noteq> SetVersion v) sts" for sts
    using that
    by (auto simp: stays_def vxdb_exec_def same_version_def split: prod.splits dest: run_stmts_version)
  have rd: "stays same_version m" if "stays same_conn m" for m :: "('a, 'b) handler"
    using that by (auto simp: stays_def same_conn_def same_version_def)
  show ?thesis
    unfolding vxdb_ensure_user_def vxdb_create_user_def
    by (intro sv.stays_rules ex rd [OF vxdb_query_reads] rd [OF auth_getnextuid_reads]
        create_user_stmts_safe)
      (simp_all add: create_admin_stmts_def create_vshelper_stmts_def user_cap_row_def)
qed

lemma sanity_check_guarantees:
  assumes "vxdb_sanity_check H s = (Inr (), s')" and "sqlite_ok (sql H)"
  shows "list_all (table_ready (db s')) vxdb_tables"
    and "user_version (db s') = VXDB_VERSION"
    and "has_user (db s') C_admin (SInt 1)"
    and "has_user (db s') C_name (STxt ''vshelper'')"
proof -
  from assms(1) obtain s1 s2 s3 s4 s5 where
    tabs: "forM vxdb_tables (vxdb_sanity_check_table H) s1 = (Inr (), s2)"
    and ver: "vxdb_exec H [SetVersion VXDB_VERSION] s2 = (Inr True, s3)"
    and any: "vxdb_ensure_user H (SelectLimit1 [C_uid] T_user [] Unordered) ''admin'' s3 = (Inr (), s4)"
    and adm: "vxdb_ensure_user H
       (SelectLimit1 [C_uid] T_user [(C_admin, Lit (SInt 1))] Unordered) ''admin'' s4 = (Inr (), s5)"
    and hlp: "vxdb_ensure_user H
       (Select [C_uid] T_user [(C_name, Lit (STxt ''vshelper''))] Unordered) ''vshelper'' s5 = (Inr (), s')"
    unfolding vxdb_sanity_check_def by (elim bindM_InrE unlessM_InrE) auto
  have g: "db_grows (db s2) (db s')"
    using staysD [OF vxdb_exec_grows ver] staysD [OF vxdb_ensure_user_grows any]
      staysD [OF vxdb_ensure_user_grows adm] staysD [OF vxdb_ensure_user_grows hlp]
    by (auto simp: grows_def intro: db_grows_trans)
  have "table_ready (db s2) t" if "t \<in> set vxdb_tables" for t
    using forM_establishes [OF tabs that, of "\<lambda>t s. table_ready (db s) t"]
      vxdb_sanity_check_table_ready staysD [OF vxdb_sanity_check_table_grows]
    by (metis grows_def table_ready_grows)
  with g show "list_all (table_ready (db s')) vxdb_tables"
    by (auto simp: list_all_iff intro: table_ready_grows)
  have "user_version (db s3) = VXDB_VERSION"
    using vxdb_exec_one(1) [OF ver, THEN sym] by simp
  then show "user_version (db s') = VXDB_VERSION"
    using staysD [OF vxdb_ensure_user_version any] staysD [OF vxdb_ensure_user_version adm]
      staysD [OF vxdb_ensure_user_version hlp] by (simp add: same_version_def)
  have "has_user (db s5) C_admin (SInt 1)"
    by (rule ensure_user [OF adm _ _ vxdb_create_user_admin])
      (use assms(2) in \<open>auto simp: has_user_def sqlite_ok_set dest!: in_set_takeD\<close>)
  then show "has_user (db s') C_admin (SInt 1)"
    using staysD [OF vxdb_ensure_user_more_rows hlp] by (rule has_user_more_rows [rotated])
  show "has_user (db s') C_name (STxt ''vshelper'')"
    by (rule ensure_user [OF hlp _ _ vxdb_create_user_vshelper])
      (use assms(2) in \<open>auto simp: has_user_def sqlite_ok_set quote_free_def\<close>)
qed

text \<open>
  C7.  When the check at the start of the daemon succeeds, whatever the database looked like
  before and whatever the engine did, every table and every unique index of the schema exists,
  the schema version is the current one, there is a user with the administrator flag and there is
  the \<open>vshelper\<close> user.
\<close>

theorem sanity_check_ready:
  assumes "vxdb_sanity_check H s = (Inr (), s')" and "sqlite_ok (sql H)"
  shows "list_all (table_ready (db s')) vxdb_tables
    \<and> user_version (db s') = VXDB_VERSION
    \<and> has_user (db s') C_admin (SInt 1)
    \<and> has_user (db s') C_name (STxt ''vshelper'')"
  using sanity_check_guarantees [OF assms] by blast

theorem sanity_check_ready_witness:
  "vxdb_sanity_check ref_host (ref_state empty_db [])
     = (Inr (), snd (vxdb_sanity_check ref_host (ref_state empty_db [])))
   \<and> user_version (db (snd (vxdb_sanity_check ref_host (ref_state empty_db [])))) = 257"
proof -
  let ?s = "ref_state empty_db []"
  have "fst (vxdb_sanity_check ref_host ?s) = Inr ()" by code_simp
  then have r: "vxdb_sanity_check ref_host ?s = (Inr (), snd (vxdb_sanity_check ref_host ?s))"
    by (metis prod.collapse)
  with sanity_check_ready [OF r] show ?thesis
    by (simp add: ref_sqlite_ok VXDB_VERSION_def VXDB_VERSION_MAJOR_def VXDB_VERSION_MINOR_def)
qed

end
