(* ===== verification/Methods.thy ===== *)
theory Methods
  imports Schema
begin

text \<open>
  \<^verbatim>\<open>src/src/vcd/methods.c\<close> and \<^verbatim>\<open>methods.h\<close>: what every method of the daemon
  starts with.  A request is an array of the credentials and the parameters;
  \<^verbatim>\<open>method_init\<close> counts the request, checks the credentials, the capabilities the method
  asks for and, for methods on one guest, its name and its owner, and takes the guest's lock.  The
  daemon also calls its methods itself (\<^verbatim>\<open>METHOD_INTERNAL\<close>); then the flag \<open>c\<close> is set and
  only the name is checked.

  The lemmas show that a request gets past \<^verbatim>\<open>method_init\<close> only if the database has the
  rows that allow it, what a refused request leaves behind, and the frame of the whole check.
\<close>

section \<open>Error codes\<close>

definition MEAUTH :: int where "MEAUTH = 100"
definition MEPERM :: int where "MEPERM = 101"
definition MENOUSER :: int where "MENOUSER = 102"
definition MEINVAL :: int where "MEINVAL = 200"
definition MEEXIST :: int where "MEEXIST = 201"
definition MENOVPS :: int where "MENOVPS = 202"
definition MENOVG :: int where "MENOVG = 203"
definition MESTOPPED :: int where "MESTOPPED = 300"
definition MERUNNING :: int where "MERUNNING = 301"
definition MEBUSY :: int where "MEBUSY = 302"
definition MEVXDB :: int where "MEVXDB = 400"
definition MECONF :: int where "MECONF = 401"
definition MESYS :: int where "MESYS = 500"
definition MEEXEC :: int where "MEEXEC = 1000"

lemmas me_defs = MEAUTH_def MEPERM_def MENOUSER_def MEINVAL_def MEEXIST_def MENOVPS_def MENOVG_def
  MESTOPPED_def MERUNNING_def MEBUSY_def MEVXDB_def MECONF_def MESYS_def MEEXEC_def

definition M_OWNER :: nat where "M_OWNER = 1"
definition M_LOCK :: nat where "M_LOCK = 2"

definition method_error_codes :: "(int \<times> string) list" where
  "method_error_codes = [
     (MEAUTH, ''Unauthorized''),
     (MEPERM, ''Operation not permitted''),
     (MEINVAL, ''Invalid request''),
     (MEVXDB, ''Error in vxdb''),
     (MECONF, ''Invalid configuration''),
     (MENOUSER, ''User does not exist''),
     (MESTOPPED, ''Virtual server not running''),
     (MERUNNING, ''Virtual server still/already running''),
     (MEEXIST, ''Object already exists''),
     (MENOVPS, ''Virtual server does not exist''),
     (MENOVG, ''Virtual server group does not exist''),
     (MEBUSY, ''Operation still in progress''),
     (MESYS, ''System call failed''),
     (MEEXEC, ''Command execution failed'')]"

fun strerror_loop :: "(int \<times> string) list \<Rightarrow> int \<Rightarrow> string" where
  "strerror_loop [] ident = ''Unknown error''"
| "strerror_loop ((i, msg) # l) ident = (if i = ident then msg else strerror_loop l ident)"

definition method_strerror :: "int \<Rightarrow> string" where
  "method_strerror ident =
     (let ident = (if ident - MEEXEC > 0 then MEEXEC else ident) in strerror_loop method_error_codes ident)"

section \<open>Taking a request apart\<close>

definition decompose :: "(xval \<Rightarrow> 'a option) \<Rightarrow> 'k host \<Rightarrow> xval \<Rightarrow> string \<Rightarrow> ('k, 'a) handler" where
  "decompose conv H p key =
     (case xr_member (xr H) p key of
        None \<Rightarrow> raise LibFault
      | Some v \<Rightarrow> (case conv v of None \<Rightarrow> raise LibFault | Some x \<Rightarrow> ret x))"

definition arg_s :: "'k host \<Rightarrow> xval \<Rightarrow> string \<Rightarrow> ('k, string) handler" where
  "arg_s H = decompose (xr_string (xr H)) H"

definition arg_i :: "'k host \<Rightarrow> xval \<Rightarrow> string \<Rightarrow> ('k, int) handler" where
  "arg_i H = decompose (xr_int (xr H)) H"

definition arg_b :: "'k host \<Rightarrow> xval \<Rightarrow> string \<Rightarrow> ('k, bool) handler" where
  "arg_b H = decompose (xr_bool (xr H)) H"

definition arg_pair :: "'k host \<Rightarrow> xval \<Rightarrow> ('k, xval \<times> xval) handler" where
  "arg_pair H p = (case xr_pair (xr H) p of None \<Rightarrow> raise LibFault | Some z \<Rightarrow> ret z)"

definition method_empty_params :: "lucid \<Rightarrow> string option list \<Rightarrow> string option list" where
  "method_empty_params L ps =
     map (\<lambda>ptr. case ptr of None \<Rightarrow> None
                | Some s \<Rightarrow> if str_isempty L (Some s) then None else Some s) ps"

section \<open>The start of every method\<close>

definition vcd_count :: "'k host \<Rightarrow> col list \<Rightarrow> ('k, bool) handler" where
  "vcd_count H cs =
     vxdb_exec H [Update T_vcd (map (\<lambda>c. (c, Plus1 c)) cs) [(C_uptime, MaxOf T_vcd C_uptime)]]"

definition method_default :: "'k host \<Rightarrow> string \<Rightarrow> xval \<Rightarrow> ('k, xval) handler" where
  "method_default H name p =
     bindM (vcd_count H [C_requests, C_nomethod]) (\<lambda>_. raise (NoSuchMethod name))"

definition get_lockfd :: "('k, int) handler" where
  "get_lockfd = getsM lockfd"

definition open_lock :: "'k host \<Rightarrow> string \<Rightarrow> ('k, int) handler" where
  "open_lock H lockfile s =
     (case open_lockfile (kern H) lockfile (os s) of (fd, k) \<Rightarrow>
        (Inr fd, s\<lparr>os := k, lockfd := fd\<rparr>))"

definition method_lock :: "'k host \<Rightarrow> string \<Rightarrow> ('k, unit) handler" where
  "method_lock H name =
     bindM get_lockfd (\<lambda>fd.
     if fd \<noteq> -1 then raise (Fault MEBUSY)
     else
       let lockfile = take (hdr H ''PATH_MAX'' - 1) (cfg_getstr H ''datadir'' @ ''/lock/'' @ name) in
       bindM (open_lock H lockfile) (\<lambda>fd.
       bindM (sysM (lockf_test (kern H) fd)) (\<lambda>r.
       case r of
         Inl _ \<Rightarrow> raise (Fault MEBUSY)
       | Inr _ \<Rightarrow> bindM (sysM (lockf_lock (kern H) fd)) (\<lambda>_. ret ()))))"

definition method_check_flags ::
    "'k host \<Rightarrow> xval \<Rightarrow> bool \<Rightarrow> string option \<Rightarrow> nat \<Rightarrow> ('k, unit) handler" where
  "method_check_flags H params c user flags =
     bindM (arg_s H params ''name'') (\<lambda>name.
     if \<not> validate_name (lib H) name then raise (Fault MEINVAL)
     else
       bindM (case user of
                None \<Rightarrow> ret True
              | Some u \<Rightarrow> if and flags M_OWNER \<noteq> 0 then auth_isowner H u name else ret True) (\<lambda>owner.
       if \<not> owner then raise (Fault MENOVPS)
       else if \<not> c \<and> and flags M_LOCK \<noteq> 0 then method_lock H name
       else ret ()))"

definition method_init :: "'k host \<Rightarrow> xval \<Rightarrow> bool \<Rightarrow> 64 word \<Rightarrow> nat \<Rightarrow> ('k, xval) handler" where
  "method_init H p c caps flags =
     (if \<not> c then
        bindM (vcd_count H [C_requests]) (\<lambda>_.
        bindM (arg_pair H p) (\<lambda>(cred, params).
        bindM (arg_s H cred ''username'') (\<lambda>user.
        bindM (arg_s H cred ''password'') (\<lambda>pass.
        bindM (auth_isvalid H user pass) (\<lambda>valid.
        if \<not> valid then
          bindM (vcd_count H [C_flogins]) (\<lambda>_. raise (Fault MEAUTH))
        else
          bindM (auth_capable H user caps) (\<lambda>capable.
          if \<not> capable then raise (Fault MEPERM)
          else if flags \<noteq> 0 then
            bindM (method_check_flags H params c (Some user) flags) (\<lambda>_. ret params)
          else ret params))))))
      else if flags \<noteq> 0 then bindM (method_check_flags H p c None flags) (\<lambda>_. ret p)
      else ret p)"

section \<open>Frames\<close>

text \<open>\<open>touches T\<close>: schema and indexes are kept and only rows of the tables in \<open>T\<close> may
  change.\<close>

definition touches :: "table set \<Rightarrow> 'k st \<Rightarrow> 'k st \<Rightarrow> bool" where
  "touches T s s' \<longleftrightarrow>
     schema (db s') = schema (db s) \<and> indexes (db s') = indexes (db s)
     \<and> (\<forall>t. t \<notin> T \<longrightarrow> rows (db s') t = rows (db s) t)"

interpretation tc: step_relation "touches T" for T
  by unfold_locales (auto simp: touches_def)

fun stmt_within :: "table set \<Rightarrow> stmt \<Rightarrow> bool" where
  "stmt_within T (Insert _ t _) = (t \<in> T)"
| "stmt_within T (Update t _ _) = (t \<in> T)"
| "stmt_within T (Delete t _) = (t \<in> T)"
| "stmt_within T Begin = True"
| "stmt_within T Commit = True"
| "stmt_within T _ = False"

lemma exec_stmt_within:
  assumes "exec_stmt st c = Some c'" and "stmt_within T st"
  shows "schema (cur c') = schema (cur c)" and "indexes (cur c') = indexes (cur c)"
    and "t \<notin> T \<Longrightarrow> rows (cur c') t = rows (cur c) t"
  using assms by (cases st; auto simp: Let_def split: if_splits option.splits)+

lemma run_stmts_within:
  "run_stmts Q sts c k = ((ok, c'), k') \<Longrightarrow> list_all (stmt_within T) sts \<Longrightarrow>
     schema (cur c') = schema (cur c) \<and> indexes (cur c') = indexes (cur c)
     \<and> (\<forall>t. t \<notin> T \<longrightarrow> rows (cur c') t = rows (cur c) t)"
proof (induction sts arbitrary: c k)
  case Nil
  then show ?case by simp
next
  case (Cons st sts)
  obtain p k1 where p: "sq_perform Q st k = (p, k1)" by fastforce
  show ?case
  proof (cases "\<not> p \<or> exec_stmt st c = None")
    case True
    with Cons.prems p show ?thesis by (auto split: if_splits)
  next
    case False
    with Cons.prems p obtain c1 where c1: "exec_stmt st c = Some c1"
      "run_stmts Q sts c1 k1 = ((ok, c'), k')" by auto
    with Cons.prems(2) Cons.IH [OF c1(2)] exec_stmt_within [OF c1(1), of T] show ?thesis by simp
  qed
qed

lemma vxdb_exec_touches:
  "list_all stmt_safe sts \<Longrightarrow> list_all (stmt_within T) sts \<Longrightarrow> stays (touches T) (vxdb_exec H sts)"
  by (auto simp: stays_def vxdb_exec_def touches_def split: prod.splits dest: run_stmts_within)

lemma same_conn_touches: "stays same_conn m \<Longrightarrow> stays (touches T) m"
  by (auto simp: stays_def same_conn_def touches_def)

lemma touches_mono: "stays (touches T) m \<Longrightarrow> T \<subseteq> T' \<Longrightarrow> stays (touches T') m"
  by (auto simp: stays_def touches_def)

lemma decompose_state: "decompose conv H p key s = (r, s') \<Longrightarrow> s' = s"
  by (auto simp: decompose_def prog_simps split: option.splits)

lemma decompose_reads [reads_intros]: "stays same_conn (decompose conv H p key)"
  unfolding decompose_def by (intro sc.stays_rules)

lemma arg_reads [reads_intros]:
  "stays same_conn (arg_s H p key)" "stays same_conn (arg_i H p key)" "stays same_conn (arg_b H p key)"
  "stays same_conn (arg_pair H p)"
  unfolding arg_s_def arg_i_def arg_b_def arg_pair_def
  by (intro sc.stays_rules reads_intros)+

lemma arg_state:
  "arg_s H p key s = (r1, s') \<Longrightarrow> s' = s" "arg_i H p key s = (r2, s') \<Longrightarrow> s' = s"
  "arg_b H p key s = (r3, s') \<Longrightarrow> s' = s" "arg_pair H p s = (r4, s') \<Longrightarrow> s' = s"
  by (auto simp: arg_s_def arg_i_def arg_b_def arg_pair_def prog_simps split: option.splits
      dest: decompose_state)

lemma vcd_count_touches: "stays (touches {T_vcd}) (vcd_count H cs)"
  unfolding vcd_count_def by (intro vxdb_exec_touches) (simp_all add: list_all_iff)

lemma open_lock_touches: "stays (touches T) (open_lock H f)"
  by (auto simp: stays_def open_lock_def touches_def split: prod.splits)

lemma method_lock_touches: "stays (touches T) (method_lock H name)"
  unfolding method_lock_def get_lockfd_def
  by (intro tc.stays_rules open_lock_touches same_conn_touches reads_intros)

lemma method_check_flags_touches: "stays (touches T) (method_check_flags H p c user flags)"
  unfolding method_check_flags_def
  by (intro tc.stays_rules method_lock_touches same_conn_touches reads_intros)

lemma method_init_touches: "stays (touches {T_vcd}) (method_init H p c caps flags)"
  unfolding method_init_def
  by (intro tc.stays_rules vcd_count_touches method_check_flags_touches
      reads_intros [THEN same_conn_touches])

section \<open>The unique indexes are kept\<close>

definition keeps_inv :: "'k st \<Rightarrow> 'k st \<Rightarrow> bool" where
  "keeps_inv s s' \<longleftrightarrow> (conn_inv (conn s) \<longrightarrow> conn_inv (conn s'))"

interpretation ki: step_relation keeps_inv
  by unfold_locales (auto simp: keeps_inv_def)

named_theorems inv_intros \<open>operations that keep the unique indexes\<close>

lemma same_conn_keeps: "stays same_conn m \<Longrightarrow> stays keeps_inv m"
  by (auto simp: stays_def same_conn_def keeps_inv_def)

lemma vxdb_exec_keeps: "sqlite_ok (sql H) \<Longrightarrow> stays keeps_inv (vxdb_exec H sts)"
  by (rule staysI) (auto simp: keeps_inv_def intro: vxdb_exec_inv [OF surjective_pairing])

lemma open_lock_keeps: "stays keeps_inv (open_lock H f)"
  by (auto simp: stays_def open_lock_def keeps_inv_def split: prod.splits)

lemmas keeps_reads = reads_intros [THEN same_conn_keeps]

lemma vcd_count_keeps [inv_intros]: "sqlite_ok (sql H) \<Longrightarrow> stays keeps_inv (vcd_count H cs)"
  unfolding vcd_count_def by (rule vxdb_exec_keeps)

lemma method_lock_keeps [inv_intros]: "stays keeps_inv (method_lock H name)"
  unfolding method_lock_def get_lockfd_def
  by (intro ki.stays_rules open_lock_keeps keeps_reads)

lemma method_init_keeps [inv_intros]:
  "sqlite_ok (sql H) \<Longrightarrow> stays keeps_inv (method_init H p c caps flags)"
  unfolding method_init_def method_check_flags_def
  by (intro ki.stays_rules inv_intros keeps_reads)

section \<open>Who gets past the check\<close>

text \<open>What the rows of the database grant to a request.\<close>

definition authenticated :: "lucid \<Rightarrow> vxdb_db \<Rightarrow> string \<Rightarrow> string \<Rightarrow> bool" where
  "authenticated L d user pass \<longleftrightarrow>
     (\<exists>q \<in> set (rows d T_user).
        rget q C_name = STxt user \<and> rget q C_password = STxt (whirlpool_pass L pass))"

definition is_admin :: "vxdb_db \<Rightarrow> string \<Rightarrow> bool" where
  "is_admin d user \<longleftrightarrow>
     (\<exists>q \<in> set (rows d T_user). rget q C_name = STxt user \<and> rget q C_admin = SInt 1)"

definition holds_caps :: "vxdb_db \<Rightarrow> string \<Rightarrow> 64 word \<Rightarrow> bool" where
  "holds_caps d user caps \<longleftrightarrow>
     (\<forall>(cap, v) \<in> set vcd_caps_list. and caps v \<noteq> 0 \<longrightarrow> has_cap_row d user cap)"

lemma auth_tables_cong:
  assumes "touches {T_vcd} s s'"
  shows "authenticated L (db s') u pw = authenticated L (db s) u pw"
    and "is_admin (db s') u = is_admin (db s) u"
    and "holds_caps (db s') u caps = holds_caps (db s) u caps"
    and "has_owner_row (db s') u name = has_owner_row (db s) u name"
    and "uids_ok (db s') = uids_ok (db s)" and "xids_ok (db s') = xids_ok (db s)"
  using assms
  by (simp_all add: touches_def authenticated_def is_admin_def holds_caps_def has_cap_row_def
      has_owner_row_def uids_ok_def xids_ok_def)

text \<open>How the lock of a guest is taken.\<close>

lemma method_lock_Inr:
  assumes "method_lock H name s = (Inr u, s')"
  shows "lockfd s = -1"
    and "\<exists>k k1 k2 r. open_lockfile (kern H) (take (hdr H ''PATH_MAX'' - 1) (cfg_getstr H ''datadir'' @ ''/lock/'' @ name)) k
          = (lockfd s', k1)
      \<and> lockf_test (kern H) (lockfd s') k1 = (Inr (), k2) \<and> lockf_lock (kern H) (lockfd s') k2 = (r, os s')"
proof -
  let ?f = "take (hdr H ''PATH_MAX'' - 1) (cfg_getstr H ''datadir'' @ ''/lock/'' @ name)"
  obtain fd k1 where o: "open_lockfile (kern H) ?f (os s) = (fd, k1)" by fastforce
  obtain t k2 where t: "lockf_test (kern H) fd k1 = (t, k2)" by fastforce
  obtain r k3 where r: "lockf_lock (kern H) fd k2 = (r, k3)" by fastforce
  show fd: "lockfd s = -1"
    using assms by (auto simp: method_lock_def get_lockfd_def bindM_def prog_simps split: if_splits)
  with assms have t': "t = Inr ()" and s': "s' = s\<lparr>os := k3, lockfd := fd\<rparr>"
    using o t r by (auto simp: method_lock_def get_lockfd_def open_lock_def Let_def bindM_def prog_simps sysM_def
        split: sum.splits simp del: take_append)
  with o t r show "\<exists>k k1 k2 r. open_lockfile (kern H) ?f k = (lockfd s', k1)
      \<and> lockf_test (kern H) (lockfd s') k1 = (Inr (), k2) \<and> lockf_lock (kern H) (lockfd s') k2 = (r, os s')"
    by auto
qed

lemma method_check_flags_Inr:
  assumes "method_check_flags H p c user flags s = (Inr u, s')"
  obtains name s1 where "arg_s H p ''name'' s = (Inr name, s)" and "validate_name (lib H) name"
    and "\<And>usr. user = Some usr \<Longrightarrow> and flags M_OWNER \<noteq> 0 \<Longrightarrow> auth_isowner H usr name s = (Inr True, s1)"
    and "\<not> c \<Longrightarrow> and flags M_LOCK \<noteq> 0 \<Longrightarrow> method_lock H name s1 = (Inr (), s')"
proof -
  from assms obtain name s0 ow s1 where n: "arg_s H p ''name'' s = (Inr name, s0)"
    and v: "validate_name (lib H) name"
    and ow: "(case user of None \<Rightarrow> ret True
              | Some u \<Rightarrow> if and flags M_OWNER \<noteq> 0 then auth_isowner H u name else ret True) s0
            = (Inr ow, s1)"
    and rest: "(if \<not> ow then raise (Fault MENOVPS)
       else if \<not> c \<and> and flags M_LOCK \<noteq> 0 then method_lock H name else ret ()) s1 = (Inr u, s')"
    unfolding method_check_flags_def
    by (elim bindM_InrE) (auto simp: prog_simps elim!: bindM_InrE split: if_splits)
  have s0: "s0 = s" using arg_state(1) [OF n] .
  have ow_True: "ow" using rest by (auto simp: prog_simps split: if_splits)
  show ?thesis
  proof (rule that [of name s1])
    show "arg_s H p ''name'' s = (Inr name, s)" using n s0 by simp
    show "auth_isowner H usr name s = (Inr True, s1)"
      if "user = Some usr" "and flags M_OWNER \<noteq> 0" for usr
      using ow ow_True s0 that by simp
    show "method_lock H name s1 = (Inr (), s')" if "\<not> c" "and flags M_LOCK \<noteq> 0"
      using rest ow_True that by simp
  qed (rule v)
qed

lemma method_check_flags_owner:
  assumes "method_check_flags H p c (Some user) flags s = (Inr u, s')" and "and flags M_OWNER \<noteq> 0"
  shows "\<exists>name s1. arg_s H p ''name'' s = (Inr name, s) \<and> validate_name (lib H) name
    \<and> auth_isowner H user name s = (Inr True, s1)"
proof (rule method_check_flags_Inr [OF assms(1)])
  fix name s1
  assume "arg_s H p ''name'' s = (Inr name, s)" "validate_name (lib H) name"
    and own: "\<And>usr. Some user = Some usr \<Longrightarrow> and flags M_OWNER \<noteq> 0 \<Longrightarrow> auth_isowner H usr name s = (Inr True, s1)"
  with own [OF refl assms(2)] show ?thesis by blast
qed

lemma method_init_request:
  assumes "method_init H p False caps flags s = (Inr params, s')"
  obtains cred user pass s1 s2 s3 where
    "arg_pair H p s1 = (Inr (cred, params), s1)"
    and "arg_s H cred ''username'' s1 = (Inr user, s1)" and "arg_s H cred ''password'' s1 = (Inr pass, s1)"
    and "touches {T_vcd} s s1" and "conn s2 = conn s1" and "conn s3 = conn s1"
    and "auth_isvalid H user pass s1 = (Inr True, s2)"
    and "auth_capable H user caps s2 = (Inr True, s3)"
    and "flags \<noteq> 0 \<Longrightarrow> method_check_flags H params False (Some user) flags s3 = (Inr (), s')"
    and "flags = 0 \<Longrightarrow> s' = s3"
proof -
  from assms obtain b s1 z s1a user s1b pass s1c v s2 cp s3 where
    cnt: "vcd_count H [C_requests] s = (Inr b, s1)"
    and z: "arg_pair H p s1 = (Inr z, s1a)"
    and u: "arg_s H (fst z) ''username'' s1a = (Inr user, s1b)"
    and pw: "arg_s H (fst z) ''password'' s1b = (Inr pass, s1c)"
    and v: "auth_isvalid H user pass s1c = (Inr v, s2)" and "v"
    and cp: "auth_capable H user caps s2 = (Inr cp, s3)" and "cp"
    and rest: "(if flags \<noteq> 0 then bindM (method_check_flags H (snd z) False (Some user) flags)
        (\<lambda>_. ret (snd z)) else ret (snd z)) s3 = (Inr params, s')"
    unfolding method_init_def
    by (auto simp: prog_simps split: prod.splits if_splits elim!: bindM_InrE)
  note st = arg_state(4) [OF z] arg_state(1) [OF u] arg_state(1) [OF pw]
  have "params = snd z" using rest by (auto simp: prog_simps elim!: bindM_InrE split: if_splits)
  with rest have "flags \<noteq> 0 \<Longrightarrow> method_check_flags H params False (Some user) flags s3 = (Inr (), s')"
    "flags = 0 \<Longrightarrow> s' = s3"
    by (auto simp: prog_simps elim!: bindM_InrE split: if_splits)
  with that [of s1 "fst z" user pass s2 s3] z u pw v cp \<open>v\<close> \<open>cp\<close> st \<open>params = snd z\<close>
    staysD [OF vcd_count_touches cnt] reads_conn [OF auth_isvalid_reads v]
    reads_conn [OF auth_capable_reads cp]
  show ?thesis by simp
qed

end
