(* ===== verification/Handler.thy ===== *)
theory Handler
  imports Methods
begin

text \<open>
  The idioms the methods share: looking up the context of a guest or failing, answering with one
  row or with all rows of a query, and building the values of an answer; and the invariant of the
  database the methods work on (\<open>db_wf\<close>).

  The lemmas turn each idiom into a statement about the tables: the lookup of a name is the map
  \<open>name_xid\<close>, \<^verbatim>\<open>INSERT OR REPLACE\<close>, \<^verbatim>\<open>DELETE\<close> and \<^verbatim>\<open>SELECT\<close> by a
  full key are the operations of the keyed store \<open>tab\<close>.
\<close>

section \<open>Idioms\<close>

text \<open>\<^verbatim>\<open>if (!(xid = vxdb_getxid(name))) method_return_fault(env, MENOVPS);\<close>\<close>

definition need_xid :: "'k host \<Rightarrow> string \<Rightarrow> ('k, xid_t) handler" where
  "need_xid H name =
     bindM (vxdb_getxid H name) (\<lambda>xid. if xid = 0 then raise (Fault MENOVPS) else ret xid)"

text \<open>\<^verbatim>\<open>if (rc != VXDB_OK) method_return_vxdb_fault(env); return xmlrpc_nil_new(env);\<close>\<close>

definition exec_nil :: "'k host \<Rightarrow> stmt list \<Rightarrow> ('k, xval) handler" where
  "exec_nil H sts =
     bindM (vxdb_exec H sts) (\<lambda>ok. if \<not> ok then raise VxdbFault else ret XNil)"

text \<open>An answer from the first row, with a default when there is none.\<close>

definition answer_row :: "'k host \<Rightarrow> query \<Rightarrow> (sval list \<Rightarrow> xval) \<Rightarrow> xval \<Rightarrow> ('k, xval) handler" where
  "answer_row H q build dflt =
     bindM (vxdb_query H q) (\<lambda>r.
     if \<not> prepared r then raise VxdbFault
     else case result r of
            row # _ \<Rightarrow> ret (build row)
          | [] \<Rightarrow> if finished r then ret dflt else raise VxdbFault)"

text \<open>An array with one element per row (\<^verbatim>\<open>vxdb_foreach_step\<close>).\<close>

definition answer_rows :: "'k host \<Rightarrow> query \<Rightarrow> (sval list \<Rightarrow> xval) \<Rightarrow> ('k, xval) handler" where
  "answer_rows H q build =
     bindM (vxdb_query H q) (\<lambda>r.
     if \<not> prepared r then raise VxdbFault
     else if \<not> finished r then raise VxdbFault
     else ret (XArr (map build (result r))))"

text \<open>
  \<^verbatim>\<open>xmlrpc_build_value(env, "s", text)\<close>.  No statement of the daemon writes NULL, and the
  library is not defined on the null pointer; \<open>XNil\<close> stands for that case.
\<close>

definition build_s :: "string option \<Rightarrow> xval" where
  "build_s text = (case text of None \<Rightarrow> XNil | Some s \<Rightarrow> XStr s)"

definition col_s :: "sval list \<Rightarrow> nat \<Rightarrow> xval" where
  "col_s row i = build_s (vxdb_column_text row i)"

definition col_i :: "'k host \<Rightarrow> sval list \<Rightarrow> nat \<Rightarrow> xval" where
  "col_i H row i = XInt (vxdb_column_int (lib H) row i)"

text \<open>\<^verbatim>\<open>method_empty_params(1, &text)\<close>\<close>

definition empty_param :: "'k host \<Rightarrow> string \<Rightarrow> string option" where
  "empty_param H text = hd (method_empty_params (lib H) [Some text])"

definition or_default :: "string option \<Rightarrow> string \<Rightarrow> string" where
  "or_default text dflt = (case text of None \<Rightarrow> dflt | Some s \<Rightarrow> s)"

definition invalid :: "string \<Rightarrow> string \<Rightarrow> fault" where
  "invalid what value = Faultf MEINVAL (''invalid '' @ what @ '' value: '' @ value)"

definition owner_lock :: nat where
  "owner_lock = or M_OWNER M_LOCK"

section \<open>The database the methods work on\<close>

definition schema_wf :: "vxdb_db \<Rightarrow> bool" where
  "schema_wf d \<longleftrightarrow>
     list_all (\<lambda>t. map_of (schema d) (tbl_name t) = Some (tbl_columns t)
       \<and> table_indexes d (tbl_name t) = tbl_unique t) vxdb_tables"

definition db_wf :: "vxdb_db \<Rightarrow> bool" where
  "db_wf d \<longleftrightarrow> schema_wf d \<and> db_inv d \<and> xids_ok d \<and> uids_ok d"

definition host_ok :: "'k host \<Rightarrow> bool" where
  "host_ok H \<longleftrightarrow> lucid_ok (lib H) \<and> sqlite_ok (sql H)"

lemma host_okD [dest]: "host_ok H \<Longrightarrow> lucid_ok (lib H)" "host_ok H \<Longrightarrow> sqlite_ok (sql H)"
  by (simp_all add: host_ok_def)

lemma db_wfD:
  "db_wf d \<Longrightarrow> schema_wf d" "db_wf d \<Longrightarrow> db_inv d" "db_wf d \<Longrightarrow> xids_ok d" "db_wf d \<Longrightarrow> uids_ok d"
  by (simp_all add: db_wf_def)

lemma schema_wfD:
  "schema_wf d \<Longrightarrow> t \<in> set vxdb_tables \<Longrightarrow> map_of (schema d) (tbl_name t) = Some (tbl_columns t)"
  "schema_wf d \<Longrightarrow> t \<in> set vxdb_tables \<Longrightarrow> table_indexes d (tbl_name t) = tbl_unique t"
  by (auto simp: schema_wf_def list_all_iff)

lemma schema_wf_index:
  assumes "schema_wf d"
  shows "table_indexes d T_dx_limit = [[C_xid]]"
    and "table_indexes d T_init = [[C_xid]]"
    and "table_indexes d T_mount = [[C_xid, C_dst]]"
    and "table_indexes d T_nx_addr = [[C_xid, C_addr]]"
    and "table_indexes d T_nx_broadcast = [[C_xid]]"
    and "table_indexes d T_restart = [[C_xid]]"
    and "table_indexes d T_user = [[C_uid], [C_name]]"
    and "table_indexes d T_user_caps = [[C_uid, C_cap]]"
    and "table_indexes d T_vx_bcaps = [[C_xid, C_bcap]]"
    and "table_indexes d T_vx_ccaps = [[C_xid, C_ccap]]"
    and "table_indexes d T_vx_cpuset = [[C_xid]]"
    and "table_indexes d T_vx_flags = [[C_xid, C_flag]]"
    and "table_indexes d T_vx_limit = [[C_xid, C_type]]"
    and "table_indexes d T_vx_sched = [[C_xid, C_cpuid]]"
    and "table_indexes d T_vx_uname = [[C_xid, C_type]]"
    and "table_indexes d T_xid_gid_map = [[C_xid, C_gid]]"
    and "table_indexes d T_xid_name_map = [[C_xid], [C_name]]"
    and "table_indexes d T_xid_uid_map = [[C_xid, C_uid]]"
  using assms unfolding schema_wf_def vxdb_tables_def by simp_all

lemma uniq_index:
  "db_inv d \<Longrightarrow> ix \<in> set (table_indexes d t) \<Longrightarrow> uniq_rows ix (rows d t)"
  by (simp add: set_table_indexes db_invD)

lemma db_wf_uniq: "db_wf d \<Longrightarrow> ix \<in> set (table_indexes d t) \<Longrightarrow> uniq_rows ix (rows d t)"
  by (rule uniq_index) (simp_all add: db_wf_def)

section \<open>The context of a name\<close>

definition name_xid :: "vxdb_db \<Rightarrow> string \<Rightarrow> xid_t option" where
  "name_xid d name =
     (case row_lookup [C_name] (rows d T_xid_name_map) [STxt name] of
        Some r \<Rightarrow> (case rget r C_xid of SInt x \<Rightarrow> Some x | _ \<Rightarrow> None)
      | None \<Rightarrow> None)"

lemma row_lookup_mem:
  assumes "uniq_rows ix rs" and "q \<in> set rs" and "row_key ix q = k" and "key_valid k"
  shows "row_lookup ix rs k = Some q"
proof -
  have "q \<in> set (filter (\<lambda>q. row_key ix q = k \<and> key_valid k) rs)" using assms by simp
  then show ?thesis unfolding filter_key [OF assms(1)] by (auto split: option.splits)
qed

lemma row_lookup_Some:
  "row_lookup ix rs k = Some q \<Longrightarrow> q \<in> set rs \<and> row_key ix q = k \<and> key_valid k"
  by (auto simp: row_lookup_def find_Some_iff)

lemma need_xid_Inr:
  assumes "need_xid H name s = (Inr xid, s')" and "host_ok H" and "db_wf (db s)"
  shows "name_xid (db s) name = Some xid" and "0 < xid" and "xid < 2 ^ 31" and "s32 xid = xid"
    and "validate_name (lib H) name" and "conn s' = conn s"
proof -
  from assms(1) have x: "vxdb_getxid H name s = (Inr xid, s')" "xid \<noteq> 0"
    by (auto simp: need_xid_def prog_simps elim!: bindM_InrE split: if_splits)
  note row = vxdb_getxid_row [OF x host_okD(1) [OF assms(2)] host_okD(2) [OF assms(2)] db_wfD(3) [OF assms(3)]]
  have "uniq_rows [C_name] (rows (db s) T_xid_name_map)"
    using assms(3) by (intro db_wf_uniq) (simp_all add: db_wf_def schema_wf_index)
  with row(4) show "name_xid (db s) name = Some xid"
    by (auto simp: name_xid_def row_lookup_mem row_key_def key_valid_def)
  show "0 < xid" "xid < 2 ^ 31" "s32 xid = xid" "validate_name (lib H) name"
    using row(1-3) by (simp_all add: s32_small)
  show "conn s' = conn s" using vxdb_getxid_state [OF x(1)] by simp
qed

lemma need_xid_reads [reads_intros]: "stays same_conn (need_xid H name)"
  unfolding need_xid_def by (intro sc.stays_rules reads_intros)

lemma answer_row_reads [reads_intros]: "stays same_conn (answer_row H q f d)"
  unfolding answer_row_def
  by (intro sc.stays_rules reads_intros) (auto split: list.splits intro: sc.stays_rules)

lemma answer_rows_reads [reads_intros]: "stays same_conn (answer_rows H q f)"
  unfolding answer_rows_def by (intro sc.stays_rules reads_intros)

lemma exec_nil_keeps [inv_intros]: "sqlite_ok (sql H) \<Longrightarrow> stays keeps_inv (exec_nil H sts)"
  unfolding exec_nil_def by (intro ki.stays_rules vxdb_exec_keeps)

lemma exec_nil_touches:
  "list_all stmt_safe sts \<Longrightarrow> list_all (stmt_within T) sts \<Longrightarrow> stays (touches T) (exec_nil H sts)"
  unfolding exec_nil_def by (intro tc.stays_rules vxdb_exec_touches)

section \<open>Statements by key\<close>

lemma exec_nil_Inr:
  assumes "exec_nil H [st] s = (Inr v, s')" and "stmt_safe st"
  shows "exec_stmt st (conn s) = Some (conn s')" and "v = XNil" and "lockfd s' = lockfd s"
  using assms vxdb_exec_one [of H st s s']
  by (auto simp: exec_nil_def prog_simps elim!: bindM_InrE split: if_splits)

lemma clashes_one: "table_indexes d t = [ix] \<Longrightarrow> clashes d t r q = conflict ix r q"
  by (simp add: clashes_def)

lemma exec_insert_put:
  assumes "exec_stmt (Insert True t r) c = Some c'" and "table_indexes (cur c) t = [ix]"
  shows "cur c' = set_rows t (row_put ix r (rows (cur c) t)) (cur c)"
  using assms by (auto simp: Let_def row_put_def clashes_one split: if_splits)

lemma matches_key1: "matches d [(c, Lit v)] q \<longleftrightarrow> row_key [c] q = [v] \<and> key_valid [v]"
  by (auto simp: row_key_def key_valid_def)

lemma matches_key2:
  "matches d [(c, Lit v), (c', Lit v')] q \<longleftrightarrow> row_key [c, c'] q = [v, v'] \<and> key_valid [v, v']"
  by (auto simp: row_key_def key_valid_def)

lemma exec_delete_key:
  assumes "exec_stmt (Delete t w) c = Some c'"
    and "\<And>q. matches (cur c) w q \<longleftrightarrow> row_key ix q = k \<and> key_valid k"
  shows "cur c' = set_rows t (row_del ix k (rows (cur c) t)) (cur c)"
  using assms by (auto simp: Let_def row_del_def split: if_splits)

lemma exec_delete:
  assumes "exec_stmt (Delete t w) c = Some c'"
  shows "cur c' = set_rows t (filter (\<lambda>q. \<not> matches (cur c) w q) (rows (cur c) t)) (cur c)"
  using assms by (auto simp: Let_def split: if_splits)

lemma select_key_rows:
  assumes "sqlite_ok (sql H)" and "uniq_rows ix (rows d t)"
    and "\<And>q. matches d w q \<longleftrightarrow> row_key ix q = k \<and> key_valid k"
  shows "query_rows (sq_scan (sql H) (Select cs t w od)) (Select cs t w od) d
    = (case row_lookup ix (rows d t) k of None \<Rightarrow> [] | Some r \<Rightarrow> [map (rget r) cs])"
proof -
  have "filter (matches d w) (rows d t) = (case row_lookup ix (rows d t) k of None \<Rightarrow> [] | Some r \<Rightarrow> [r])"
  proof -
    have "matches d w = (\<lambda>q. row_key ix q = k \<and> key_valid k)"
      by (simp add: fun_eq_iff assms(3))
    with filter_key [OF assms(2), of k] show ?thesis by simp
  qed
  then show ?thesis
    by (cases od) (auto simp: sqlite_ok_one [OF assms(1)] split: option.splits)
qed

lemma answer_row_key:
  assumes "answer_row H (Select cs t w od) build dflt s = (Inr v, s')"
    and "sqlite_ok (sql H)" and "query_safe (Select cs t w od)"
    and "uniq_rows ix (rows (db s) t)"
    and "\<And>q. matches (db s) w q \<longleftrightarrow> row_key ix q = k \<and> key_valid k"
  shows "v = (case row_lookup ix (rows (db s) t) k of None \<Rightarrow> dflt | Some r \<Rightarrow> build (map (rget r) cs))"
proof -
  let ?q = "Select cs t w od"
  from assms(1) obtain r s1 where r: "vxdb_query H ?q s = (Inr r, s1)" and p: "prepared r"
    and v: "(case result r of row # _ \<Rightarrow> ret (build row)
          | [] \<Rightarrow> if finished r then ret dflt else raise VxdbFault) s1 = (Inr v, s')"
    by (auto simp: answer_row_def prog_simps elim!: bindM_InrE split: if_splits)
  note rows = select_key_rows [OF assms(2,4,5), of cs od]
  obtain n where n: "result r = take n (query_rows (sq_scan (sql H) ?q) ?q (db s))"
    using vxdb_query_result(2) [OF r assms(3) p] by blast
  show ?thesis
  proof (cases "result r")
    case Nil
    with v have "finished r" and vd: "v = dflt" by (auto simp: prog_simps split: if_splits)
    with vxdb_query_result(1) [OF r assms(3) p] Nil rows vd show ?thesis
      by (auto split: option.splits)
  next
    case (Cons row rest)
    with v n rows show ?thesis
      by (auto simp: prog_simps take_Cons' split: option.splits if_splits)
  qed
qed

lemma answer_rows_Inr:
  assumes "answer_rows H q build s = (Inr v, s')" and "query_safe q"
  shows "v = XArr (map build (query_rows (sq_scan (sql H) q) q (db s)))" and "conn s' = conn s"
proof -
  from assms(1) obtain r where r: "vxdb_query H q s = (Inr r, s')" and "prepared r" "finished r"
    and v: "v = XArr (map build (result r))"
    by (auto simp: answer_rows_def prog_simps elim!: bindM_InrE split: if_splits)
  with vxdb_query_result(1) [OF r assms(2)] show "v = XArr (map build (query_rows (sq_scan (sql H) q) q (db s)))"
    by simp
  show "conn s' = conn s" using reads_conn [OF vxdb_query_reads r] by simp
qed

section \<open>Parameters of a request\<close>

text \<open>What a method reads from a request: the parameters of a request from outside are the second
  element of the pair, those of an internal call are the request itself.\<close>

definition req_params :: "'k host \<Rightarrow> xval \<Rightarrow> bool \<Rightarrow> xval option" where
  "req_params H p c = (if c then Some p else map_option snd (xr_pair (xr H) p))"

definition get_param :: "(xval \<Rightarrow> 'a option) \<Rightarrow> 'k host \<Rightarrow> xval \<Rightarrow> string \<Rightarrow> 'a option" where
  "get_param conv H ps key = Option.bind (xr_member (xr H) ps key) conv"

definition req_s :: "'k host \<Rightarrow> xval \<Rightarrow> bool \<Rightarrow> string \<Rightarrow> string option" where
  "req_s H p c key = Option.bind (req_params H p c) (\<lambda>ps. get_param (xr_string (xr H)) H ps key)"

definition req_i :: "'k host \<Rightarrow> xval \<Rightarrow> bool \<Rightarrow> string \<Rightarrow> int option" where
  "req_i H p c key = Option.bind (req_params H p c) (\<lambda>ps. get_param (xr_int (xr H)) H ps key)"

definition req_b :: "'k host \<Rightarrow> xval \<Rightarrow> bool \<Rightarrow> string \<Rightarrow> bool option" where
  "req_b H p c key = Option.bind (req_params H p c) (\<lambda>ps. get_param (xr_bool (xr H)) H ps key)"

lemma decompose_Inr:
  "decompose conv H ps key s = (Inr x, s') \<Longrightarrow> s' = s \<and> get_param conv H ps key = Some x"
  by (auto simp: decompose_def get_param_def prog_simps split: option.splits)

lemma arg_sE:
  assumes "arg_s H ps key s = (Inr x, s')"
  obtains "s' = s" and "get_param (xr_string (xr H)) H ps key = Some x"
  using assms by (auto simp: arg_s_def dest: decompose_Inr)

lemma arg_iE:
  assumes "arg_i H ps key s = (Inr x, s')"
  obtains "s' = s" and "get_param (xr_int (xr H)) H ps key = Some x"
  using assms by (auto simp: arg_i_def dest: decompose_Inr)

lemma arg_bE:
  assumes "arg_b H ps key s = (Inr x, s')"
  obtains "s' = s" and "get_param (xr_bool (xr H)) H ps key = Some x"
  using assms by (auto simp: arg_b_def dest: decompose_Inr)

lemma getsM_InrE:
  assumes "getsM f s = (Inr x, s')"
  obtains "s' = s" and "x = f s"
  using assms by (auto simp: getsM_def)

lemmas handlerE = bindM_InrE unlessM_InrE arg_sE arg_iE arg_bE getsM_InrE

lemma method_init_params:
  assumes "method_init H p c caps flags s = (Inr params, s')"
  shows "req_params H p c = Some params"
proof (cases c)
  case True
  with assms show ?thesis
    by (auto simp: method_init_def req_params_def prog_simps elim!: bindM_InrE split: if_splits)
next
  case False
  with assms show ?thesis
    by (auto simp: arg_pair_def req_params_def prog_simps split: option.splits
        elim!: method_init_request [of H p caps flags s params s'])
qed

section \<open>The state between requests\<close>

definition st_wf :: "'k st \<Rightarrow> bool" where
  "st_wf s \<longleftrightarrow> schema_wf (db s) \<and> conn_inv (conn s) \<and> xids_ok (db s) \<and> uids_ok (db s)"

lemma st_wf_db: "st_wf s \<Longrightarrow> db_wf (db s)"
  by (simp add: st_wf_def db_wf_def conn_inv_def)

lemma st_wf_cong: "conn s' = conn s \<Longrightarrow> st_wf s' = st_wf s"
  by (simp add: st_wf_def)

lemma touches_schema_wf: "touches T s s' \<Longrightarrow> schema_wf (db s') = schema_wf (db s)"
  by (simp add: touches_def schema_wf_def table_indexes_def)

lemma touches_rows: "touches T s s' \<Longrightarrow> t \<notin> T \<Longrightarrow> rows (db s') t = rows (db s) t"
  by (simp add: touches_def)

lemma st_wf_touches:
  assumes "st_wf s" and "touches T s s'" and "conn_inv (conn s')"
    and "T_xid_name_map \<notin> T" and "T_user \<notin> T"
  shows "st_wf s'"
  using assms touches_schema_wf [OF assms(2)] touches_rows [OF assms(2)]
  by (simp add: st_wf_def xids_ok_def uids_ok_def)

lemma method_init_wf:
  assumes "method_init H p c caps flags s = (r, s')" and "host_ok H" and "st_wf s"
  shows "touches {T_vcd} s s'" and "st_wf s'"
proof -
  show t: "touches {T_vcd} s s'" by (rule staysD [OF method_init_touches assms(1)])
  have "conn_inv (conn s')"
    using staysD [OF method_init_keeps assms(1)] assms(2,3)
    by (auto simp: keeps_inv_def st_wf_def host_ok_def)
  with assms(3) t show "st_wf s'" by (rule st_wf_touches) simp_all
qed

lemma name_xid_cong: "rows d' T_xid_name_map = rows d T_xid_name_map \<Longrightarrow> name_xid d' = name_xid d"
  by (simp add: fun_eq_iff name_xid_def)

text \<open>The start of a method on one guest: what holds once its context is known.\<close>

lemma init_xid:
  assumes "method_init H p c caps flags s = (Inr params, s1)" and "need_xid H name s1 = (Inr xid, s2)"
    and "host_ok H" and "st_wf s"
  shows "name_xid (db s) name = Some xid" and "0 < xid" and "xid < 2 ^ 31" and "s32 xid = xid"
    and "conn s2 = conn s1" and "touches {T_vcd} s s2" and "st_wf s2"
    and "req_params H p c = Some params" and "validate_name (lib H) name"
proof -
  note w = method_init_wf [OF assms(1,3,4)]
  note x = need_xid_Inr [OF assms(2,3) st_wf_db [OF w(2)]]
  show "name_xid (db s) name = Some xid"
    using x(1) name_xid_cong [OF touches_rows [OF w(1)]] by simp
  show "0 < xid" "xid < 2 ^ 31" "s32 xid = xid" "conn s2 = conn s1" "validate_name (lib H) name"
    using x by simp_all
  then show "touches {T_vcd} s s2" "st_wf s2" using w st_wf_cong [of s2 s1] by (simp_all add: touches_def)
  show "req_params H p c = Some params" by (rule method_init_params [OF assms(1)])
qed

lemma set_rows_touches: "db s' = set_rows t rs (db s) \<Longrightarrow> t \<in> T \<Longrightarrow> touches T s s'"
  by (auto simp: touches_def)

lemma exec_put:
  assumes "exec_nil H [Insert True t r] s = (Inr v, s')" and "stmt_safe (Insert True t r)"
    and "table_indexes (db s) t = [ix]"
  shows "db s' = set_rows t (row_put ix r (rows (db s) t)) (db s)"
  using exec_insert_put [OF exec_nil_Inr(1) [OF assms(1,2)] assms(3)] .

lemma exec_del:
  assumes "exec_nil H [Delete t w] s = (Inr v, s')" and "stmt_safe (Delete t w)"
    and "\<And>q. matches (db s) w q \<longleftrightarrow> row_key ix q = k \<and> key_valid k"
  shows "db s' = set_rows t (row_del ix k (rows (db s) t)) (db s)"
  using exec_delete_key [OF exec_nil_Inr(1) [OF assms(1,2)] assms(3)] .

section \<open>Settings of a guest\<close>

text \<open>
  Most methods read or write one table that has a single unique index.  The interface such a table
  offers to its methods is stated once: under the index the table is a map, a setter puts a row, a
  remover deletes rows, a getter looks up a row or lists rows.
\<close>

definition same_rows :: "table list \<Rightarrow> 'k st \<Rightarrow> 'k st \<Rightarrow> bool" where
  "same_rows ts s s' \<longleftrightarrow> list_all (\<lambda>t. rows (db s') t = rows (db s) t) ts"

locale guest_table =
  fixes t :: table and ix :: "col list"
  assumes table_index: "schema_wf d \<Longrightarrow> table_indexes d t = [ix]"
    and own_table: "t \<noteq> T_vcd" "t \<noteq> T_xid_name_map" "t \<noteq> T_user"
begin

lemma uniq: "st_wf s \<Longrightarrow> uniq_rows ix (rows (db s) t)"
  using db_wf_uniq [OF st_wf_db, of s ix t] table_index [of "db s"] by (simp add: st_wf_def)

lemma exec_effect:
  assumes "method_init H p c caps flags s = (Inr params, s1)" and "need_xid H name s1 = (Inr xid, s2)"
    and "exec_nil H [st] s2 = (Inr v, s')" and "stmt_safe st" and "stmt_within {t} st"
    and "host_ok H" and "st_wf s"
  shows "touches {T_vcd, t} s s'" and "st_wf s'" and "v = XNil"
    and "exec_stmt st (conn s2) = Some (conn s')" and "rows (db s2) t = rows (db s) t"
proof -
  note i = init_xid [OF assms(1,2,6,7)]
  show e: "exec_stmt st (conn s2) = Some (conn s')" and "v = XNil"
    using exec_nil_Inr [OF assms(3,4)] by simp_all
  show "rows (db s2) t = rows (db s) t" using touches_rows [OF i(6)] own_table(1) by simp
  have "touches {t} s2 s'"
    using exec_stmt_within [OF e assms(5)] by (auto simp: touches_def)
  with i(6) show tt: "touches {T_vcd, t} s s'" by (auto simp: touches_def)
  have "conn_inv (conn s')" using exec_stmt_inv [OF e] i(7) by (simp add: st_wf_def)
  with assms(7) tt show "st_wf s'" by (rule st_wf_touches) (use own_table in auto)
qed

lemma put_effect:
  assumes "method_init H p c caps flags s = (Inr params, s1)" and "need_xid H name s1 = (Inr xid, s2)"
    and "exec_nil H [Insert True t r] s2 = (Inr v, s')" and "stmt_safe (Insert True t r)"
    and "host_ok H" and "st_wf s"
  shows "rows (db s') t = row_put ix r (rows (db s) t)" and "touches {T_vcd, t} s s'"
    and "st_wf s'" and "v = XNil"
proof -
  note e = exec_effect [OF assms(1-4) _ assms(5,6), simplified]
  have "table_indexes (db s2) t = [ix]"
    using init_xid(7) [OF assms(1,2,5,6)] by (simp add: st_wf_def table_index)
  with exec_insert_put [OF exec_nil_Inr(1) [OF assms(3,4)]] e(5)
  show "rows (db s') t = row_put ix r (rows (db s) t)" by simp
qed (use exec_effect [OF assms(1-4) _ assms(5,6)] in simp_all)

lemma del_effect:
  assumes "method_init H p c caps flags s = (Inr params, s1)" and "need_xid H name s1 = (Inr xid, s2)"
    and "exec_nil H [Delete t w] s2 = (Inr v, s')" and "stmt_safe (Delete t w)"
    and "host_ok H" and "st_wf s" and "\<And>d q. matches d w q = P q"
  shows "rows (db s') t = filter (\<lambda>q. \<not> P q) (rows (db s) t)" and "touches {T_vcd, t} s s'"
    and "st_wf s'" and "v = XNil"
proof -
  show "rows (db s') t = filter (\<lambda>q. \<not> P q) (rows (db s) t)"
    using exec_delete [OF exec_nil_Inr(1) [OF assms(3,4)]] assms(7)
      exec_effect(5) [OF assms(1-4) _ assms(5,6)] by simp
qed (use exec_effect [OF assms(1-4) _ assms(5,6)] in simp_all)

lemma row_result:
  assumes "method_init H p c caps flags s = (Inr params, s1)" and "need_xid H name s1 = (Inr xid, s2)"
    and "answer_row H (Select cs t w od) build dflt s2 = (Inr v, s')" and "query_safe (Select cs t w od)"
    and "host_ok H" and "st_wf s" and "\<And>d q. matches d w q \<longleftrightarrow> row_key ix q = k \<and> key_valid k"
  shows "v = (case row_lookup ix (rows (db s) t) k of None \<Rightarrow> dflt | Some r \<Rightarrow> build (map (rget r) cs))"
proof -
  note i = init_xid [OF assms(1,2,5,6)]
  have "rows (db s2) t = rows (db s) t" using touches_rows [OF i(6)] own_table(1) by simp
  with answer_row_key [OF assms(3) _ assms(4) uniq [OF i(7)] assms(7)] assms(5) show ?thesis
    by (simp add: host_ok_def)
qed

lemma rows_result:
  assumes "method_init H p c caps flags s = (Inr params, s1)" and "need_xid H name s1 = (Inr xid, s2)"
    and "answer_rows H (Select cs t w od) build s2 = (Inr v, s')" and "query_safe (Select cs t w od)"
    and "host_ok H" and "st_wf s" and "\<And>d q. matches d w q = P q"
  shows "v = XArr (map (\<lambda>r. build (map (rget r) cs))
    (order_rows od (sq_scan (sql H) (Select cs t w od) (filter P (rows (db s) t)))))"
proof -
  note i = init_xid [OF assms(1,2,5,6)]
  have r: "rows (db s2) t = rows (db s) t" using touches_rows [OF i(6)] own_table(1) by simp
  have "matches (db s2) w = P" using assms(7) by (simp add: fun_eq_iff)
  with answer_rows_Inr(1) [OF assms(3,4)] r show ?thesis by (simp add: comp_def)
qed

lemma rows_key_result:
  assumes "method_init H p c caps flags s = (Inr params, s1)" and "need_xid H name s1 = (Inr xid, s2)"
    and "answer_rows H (Select cs t w od) build s2 = (Inr v, s')" and "query_safe (Select cs t w od)"
    and "host_ok H" and "st_wf s" and "\<And>d q. matches d w q \<longleftrightarrow> row_key ix q = k \<and> key_valid k"
  shows "v = XArr (case row_lookup ix (rows (db s) t) k of None \<Rightarrow> [] | Some r \<Rightarrow> [build (map (rget r) cs)])"
proof -
  note i = init_xid [OF assms(1,2,5,6)]
  have r: "rows (db s2) t = rows (db s) t" using touches_rows [OF i(6)] own_table(1) by simp
  have "sqlite_ok (sql H)" using assms(5) by blast
  from select_key_rows [OF this uniq [OF i(7)] assms(7), of cs od] answer_rows_Inr(1) [OF assms(3,4)] r
  show ?thesis by (simp split: option.splits)
qed

end

interpretation dx_limit: guest_table T_dx_limit "[C_xid]"
  by unfold_locales (simp_all add: schema_wf_index)

interpretation init: guest_table T_init "[C_xid]"
  by unfold_locales (simp_all add: schema_wf_index)

interpretation mount: guest_table T_mount "[C_xid, C_dst]"
  by unfold_locales (simp_all add: schema_wf_index)

interpretation nx_addr: guest_table T_nx_addr "[C_xid, C_addr]"
  by unfold_locales (simp_all add: schema_wf_index)

interpretation nx_broadcast: guest_table T_nx_broadcast "[C_xid]"
  by unfold_locales (simp_all add: schema_wf_index)

interpretation vx_bcaps: guest_table T_vx_bcaps "[C_xid, C_bcap]"
  by unfold_locales (simp_all add: schema_wf_index)

interpretation vx_ccaps: guest_table T_vx_ccaps "[C_xid, C_ccap]"
  by unfold_locales (simp_all add: schema_wf_index)

interpretation vx_cpuset: guest_table T_vx_cpuset "[C_xid]"
  by unfold_locales (simp_all add: schema_wf_index)

interpretation vx_flags: guest_table T_vx_flags "[C_xid, C_flag]"
  by unfold_locales (simp_all add: schema_wf_index)

interpretation vx_limit: guest_table T_vx_limit "[C_xid, C_type]"
  by unfold_locales (simp_all add: schema_wf_index)

interpretation vx_sched: guest_table T_vx_sched "[C_xid, C_cpuid]"
  by unfold_locales (simp_all add: schema_wf_index)

interpretation vx_uname: guest_table T_vx_uname "[C_xid, C_type]"
  by unfold_locales (simp_all add: schema_wf_index)

interpretation xid_uid_map: guest_table T_xid_uid_map "[C_xid, C_uid]"
  by unfold_locales (simp_all add: schema_wf_index)

text \<open>Reading under the key of the row put last.\<close>

lemma lookup_put_same:
  "key_valid (row_key ix r) \<Longrightarrow> k = row_key ix r \<Longrightarrow> row_lookup ix (row_put ix r rs) k = Some r"
  by (simp add: row_lookup_put)

lemma matches_xid:
  "s32 xid = xid \<Longrightarrow> matches d [(C_xid, xid_lit xid)] q \<longleftrightarrow> row_key [C_xid] q = [SInt xid] \<and> key_valid [SInt xid]"
  by (auto simp: xid_lit_def row_key_def key_valid_def)

lemma matches_xid2:
  "s32 xid = xid \<Longrightarrow> matches d [(C_xid, xid_lit xid), (c, Lit v)] q
     \<longleftrightarrow> row_key [C_xid, c] q = [SInt xid, v] \<and> key_valid [SInt xid, v]"
  by (auto simp: xid_lit_def row_key_def key_valid_def)

lemma matches_xid_all:
  "s32 xid = xid \<Longrightarrow> matches d [(C_xid, xid_lit xid)] q \<longleftrightarrow> rget q C_xid = SInt xid"
  by (simp add: xid_lit_def)

lemmas col_simps = col_s_def col_i_def vxdb_column_text_def vxdb_column_int_def scan_or_0_def build_s_def

section \<open>The reference instance\<close>

lemma ref_host_ok: "host_ok ref_host"
  by (simp add: host_ok_def ref_lucid_ok ref_sqlite_ok)

lemma ref_st_wf: "st_wf (ref_state ref_db k)"
proof -
  have "schema_wf ref_db" "db_inv ref_db" "xids_ok ref_db" "uids_ok ref_db" by code_simp+
  then show ?thesis by (simp add: st_wf_def ref_state_def conn_inv_def)
qed

text \<open>
  Evaluation of a method on the reference instance: the continuation of a step is left alone until
  the step has been evaluated.
\<close>

lemma bindM_weak_cong: "m = m' \<Longrightarrow> bindM m f = bindM m' f"
  by simp

lemmas eval_rules = bindM_def prog_simps Let_def
  method_init_def method_check_flags_def arg_s_def arg_i_def arg_b_def arg_pair_def decompose_def
  M_OWNER_def M_LOCK_def owner_lock_def ref_sel ref_request_def
  need_xid_def vxdb_getxid_def exec_nil_def answer_row_def answer_rows_def
  validate_name_def str_isalnumextended_def alnumextended_char_def c_char_def u32_def s32_def
  validate_username_def is_alnum_def is_digit_def is_alpha_def is_graph_def is_space_def
  vxdb_query_def vxdb_exec_def run_query_def ref_state_def ref_db_def quote_free_def
  vxdb_tables_def has_cols_def first_row_def vxdb_column_uint32_def vxdb_column_text_def c_str_def
  vxdb_column_int_def scan_or_0_def ref_scan_def undec_dec xid_lit_def
  clashes_def table_indexes_def conflict_def set_rows_def uniq_ok_def uniq_rows_def update_row_def
  empty_param_def method_empty_params_def or_default_def col_s_def col_i_def build_s_def column_def


lemmas eval_auth = auth_isvalid_def auth_isadmin_def auth_getuid_def auth_hascapability_def
  auth_capable_def auth_isowner_def vcd_count_def whirlpool_pass_def enc_prefix_def vcd_caps_list_def
  vcd_cap_defs max_of_def

end
