(* ===== verification/Vxdb_Limits.thy ===== *)
theory Vxdb_Limits
  imports Handler
begin

text \<open>
  The methods on resource limits under \<^verbatim>\<open>src/src/vcd/methods/vxdb/\<close>: disk limits
  (\<^verbatim>\<open>dx.limit\<close>), context limits (\<^verbatim>\<open>vx.limit\<close>), the token bucket scheduler
  (\<^verbatim>\<open>vx.sched\<close>) and processor sets (\<^verbatim>\<open>vx.cpuset\<close>).  One definition per
  method; \<open>p\<close> is the request and \<open>c\<close> the flag of an internal call.

  The lemmas give each setter as an update of its table under the guest's key, each getter as a
  lookup, and from them that reading back returns what was set, with the bounds of the conversion
  between kilobytes and pages.
\<close>

section \<open>Disk limits\<close>

definition m_vxdb_dx_limit_get :: "'k host \<Rightarrow> xval \<Rightarrow> bool \<Rightarrow> ('k, xval) handler" where
  "m_vxdb_dx_limit_get H p c =
     bindM (method_init H p c VCD_CAP_DLIM M_OWNER) (\<lambda>params.
     bindM (arg_s H params ''name'') (\<lambda>name.
     bindM (need_xid H name) (\<lambda>xid.
     answer_row H (Select [C_space, C_inodes, C_reserved] T_dx_limit [(C_xid, xid_lit xid)] Unordered)
       (\<lambda>row. XStruct [(''space'', col_s row 0), (''inodes'', col_s row 1), (''reserved'', col_i H row 2)])
       (XStruct [(''space'', XStr ''''), (''inodes'', XStr ''''), (''reserved'', XInt 0)]))))"

definition m_vxdb_dx_limit_remove :: "'k host \<Rightarrow> xval \<Rightarrow> bool \<Rightarrow> ('k, xval) handler" where
  "m_vxdb_dx_limit_remove H p c =
     bindM (method_init H p c VCD_CAP_DLIM owner_lock) (\<lambda>params.
     bindM (arg_s H params ''name'') (\<lambda>name.
     bindM (need_xid H name) (\<lambda>xid.
     exec_nil H [Delete T_dx_limit [(C_xid, xid_lit xid)]])))"

definition scan_u32 :: "'k host \<Rightarrow> string \<Rightarrow> int \<Rightarrow> int" where
  "scan_u32 H text dflt = (case sscanf_u32 (lib H) text of None \<Rightarrow> dflt | Some n \<Rightarrow> n)"

definition m_vxdb_dx_limit_set :: "'k host \<Rightarrow> xval \<Rightarrow> bool \<Rightarrow> ('k, xval) handler" where
  "m_vxdb_dx_limit_set H p c =
     bindM (method_init H p c VCD_CAP_DLIM owner_lock) (\<lambda>params.
     bindM (arg_s H params ''name'') (\<lambda>name.
     bindM (arg_s H params ''space'') (\<lambda>spacep.
     bindM (arg_s H params ''inodes'') (\<lambda>inodesp.
     bindM (arg_i H params ''reserved'') (\<lambda>reserved.
     bindM (unlessM (str_isdigit (lib H) spacep)
       (Faultf MEINVAL (''space value is not a number: '' @ spacep))) (\<lambda>_.
     bindM (unlessM (str_isdigit (lib H) inodesp)
       (Faultf MEINVAL (''inodes value is not a number: '' @ inodesp))) (\<lambda>_.
     let space = scan_u32 H spacep (u32 (int (hdr H ''CDLIM_KEEP'')));
         inodes = scan_u32 H inodesp (u32 (int (hdr H ''CDLIM_KEEP''))) in
     bindM (unlessM (validate_dlimits H space inodes reserved)
       (Faultf MEINVAL (''invalid limit specification: '' @ dec space @ '','' @ dec inodes @ '','' @
          dec reserved))) (\<lambda>_.
     bindM (need_xid H name) (\<lambda>xid.
     exec_nil H [Insert True T_dx_limit
       [(C_xid, SInt (s32 xid)), (C_space, STxt (dec space)), (C_inodes, STxt (dec inodes)),
        (C_reserved, SInt reserved)]])))))))))"

section \<open>Context limits\<close>

definition LIMTYPE :: "string list" where
  "LIMTYPE = [''ANON'', ''AS'', ''MAPPED'', ''MEMLOCK'', ''RSS'', ''SHMEM'']"

definition pagestobytes :: "'k host \<Rightarrow> 64 word \<Rightarrow> 64 word" where
  "pagestobytes H pages = (pages * pagesize (kern H)) div 1024"

definition bytestopages :: "'k host \<Rightarrow> 64 word \<Rightarrow> 64 word" where
  "bytestopages H bytes = (bytes * 1024) div pagesize (kern H)"

text \<open>The loop over \<^verbatim>\<open>LIMTYPE\<close>: both values are converted when the type is in the list.\<close>

definition limtype_conv ::
    "(64 word \<Rightarrow> 64 word) \<Rightarrow> string \<Rightarrow> 64 word \<times> 64 word \<Rightarrow> 64 word \<times> 64 word" where
  "limtype_conv f type sm =
     foldl (\<lambda>(soft, mx) t. if type = t then (f soft, f mx) else (soft, mx)) sm LIMTYPE"

definition limit_entry :: "'k host \<Rightarrow> sval list \<Rightarrow> xval" where
  "limit_entry H row =
     (let typedb = vxdb_column_text row 0;
          (soft, mx) = limtype_conv (pagestobytes H) (or_default typedb '''')
             (vxdb_column_uint64 (lib H) row 1, vxdb_column_uint64 (lib H) row 2) in
      XStruct [(''type'', build_s typedb), (''soft'', XStr (dec (uint soft))),
               (''max'', XStr (dec (uint mx)))])"

definition m_vxdb_vx_limit_get :: "'k host \<Rightarrow> xval \<Rightarrow> bool \<Rightarrow> ('k, xval) handler" where
  "m_vxdb_vx_limit_get H p c =
     bindM (method_init H p c VCD_CAP_RLIM M_OWNER) (\<lambda>params.
     bindM (arg_s H params ''name'') (\<lambda>name.
     bindM (arg_s H params ''type'') (\<lambda>type.
     let type' = empty_param H type in
     bindM (unlessM (type' = None \<or> validate_rlimit H type) (invalid ''type'' type)) (\<lambda>_.
     bindM (need_xid H name) (\<lambda>xid.
     answer_rows H
       (Select [C_type, C_soft, C_max] T_vx_limit
          (case type' of Some ty \<Rightarrow> [(C_xid, xid_lit xid), (C_type, Lit (STxt ty))]
                       | None \<Rightarrow> [(C_xid, xid_lit xid)]) Unordered)
       (limit_entry H))))))"

definition m_vxdb_vx_limit_remove :: "'k host \<Rightarrow> xval \<Rightarrow> bool \<Rightarrow> ('k, xval) handler" where
  "m_vxdb_vx_limit_remove H p c =
     bindM (method_init H p c VCD_CAP_RLIM owner_lock) (\<lambda>params.
     bindM (arg_s H params ''name'') (\<lambda>name.
     bindM (arg_s H params ''type'') (\<lambda>type.
     let type' = empty_param H type in
     bindM (unlessM (type' = None \<or> validate_rlimit H type) (invalid ''type'' type)) (\<lambda>_.
     bindM (need_xid H name) (\<lambda>xid.
     exec_nil H [Delete T_vx_limit
       (case type' of Some ty \<Rightarrow> [(C_xid, xid_lit xid), (C_type, Lit (STxt ty))]
                    | None \<Rightarrow> [(C_xid, xid_lit xid)])])))))"

definition scan_u64 :: "'k host \<Rightarrow> string \<Rightarrow> 64 word \<Rightarrow> 64 word" where
  "scan_u64 H text dflt = (case sscanf_u64 (lib H) text of None \<Rightarrow> dflt | Some n \<Rightarrow> word_of_int n)"

definition m_vxdb_vx_limit_set :: "'k host \<Rightarrow> xval \<Rightarrow> bool \<Rightarrow> ('k, xval) handler" where
  "m_vxdb_vx_limit_set H p c =
     bindM (method_init H p c VCD_CAP_RLIM owner_lock) (\<lambda>params.
     bindM (arg_s H params ''name'') (\<lambda>name.
     bindM (arg_s H params ''type'') (\<lambda>type.
     bindM (arg_s H params ''soft'') (\<lambda>softp.
     bindM (arg_s H params ''max'') (\<lambda>maxp.
     bindM (unlessM (str_isdigit (lib H) softp)
       (Faultf MEINVAL (''soft value is not a number: '' @ softp))) (\<lambda>_.
     bindM (unlessM (str_isdigit (lib H) maxp)
       (Faultf MEINVAL (''max value is not a number: '' @ maxp))) (\<lambda>_.
     let soft = scan_u64 H softp (of_nat (hdr H ''CRLIM_KEEP''));
         mx = scan_u64 H maxp (of_nat (hdr H ''CRLIM_KEEP'')) in
     bindM (unlessM (validate_rlimit H type) (invalid ''type'' type)) (\<lambda>_.
     bindM (unlessM (validate_rlimits H soft mx)
       (Faultf MEINVAL (''invalid limit specification: '' @ dec (uint soft) @ '','' @ dec (uint mx)))) (\<lambda>_.
     bindM (need_xid H name) (\<lambda>xid.
     let (soft', mx') = limtype_conv (bytestopages H) type (soft, mx) in
     exec_nil H [Insert True T_vx_limit
       [(C_xid, SInt (s32 xid)), (C_type, STxt type), (C_soft, STxt (dec (uint soft'))),
        (C_max, STxt (dec (uint mx')))]]))))))))))"

section \<open>The scheduler\<close>

definition m_vxdb_vx_sched_get :: "'k host \<Rightarrow> xval \<Rightarrow> bool \<Rightarrow> ('k, xval) handler" where
  "m_vxdb_vx_sched_get H p c =
     bindM (method_init H p c VCD_CAP_SCHED M_OWNER) (\<lambda>params.
     bindM (arg_s H params ''name'') (\<lambda>name.
     bindM (arg_i H params ''cpuid'') (\<lambda>cpuid.
     bindM (getsM os) (\<lambda>k.
     bindM (unlessM (validate_cpuid H k cpuid \<or> cpuid = -2)
       (Faultf MEINVAL (''cpuid out of range: '' @ dec cpuid))) (\<lambda>_.
     bindM (need_xid H name) (\<lambda>xid.
     answer_rows H
       (Select [C_cpuid, C_fillrate, C_interval, C_fillrate2, C_interval2, C_tokensmin, C_tokensmax]
          T_vx_sched
          (if cpuid = -2 then [(C_xid, xid_lit xid)]
           else [(C_xid, xid_lit xid), (C_cpuid, Lit (SInt cpuid))]) Unordered)
       (\<lambda>row. XStruct [(''cpuid'', col_i H row 0), (''fillrate'', col_i H row 1),
          (''interval'', col_i H row 2), (''fillrate2'', col_i H row 3), (''interval2'', col_i H row 4),
          (''tokensmin'', col_i H row 5), (''tokensmax'', col_i H row 6)])))))))"

definition m_vxdb_vx_sched_remove :: "'k host \<Rightarrow> xval \<Rightarrow> bool \<Rightarrow> ('k, xval) handler" where
  "m_vxdb_vx_sched_remove H p c =
     bindM (method_init H p c VCD_CAP_SCHED owner_lock) (\<lambda>params.
     bindM (arg_s H params ''name'') (\<lambda>name.
     bindM (arg_i H params ''cpuid'') (\<lambda>cpuid.
     bindM (getsM os) (\<lambda>k.
     bindM (unlessM (validate_cpuid H k cpuid \<or> cpuid = -2)
       (Faultf MEINVAL (''cpuid out of range: '' @ dec cpuid))) (\<lambda>_.
     bindM (need_xid H name) (\<lambda>xid.
     exec_nil H [Delete T_vx_sched
       (if cpuid = -2 then [(C_xid, xid_lit xid)]
        else [(C_xid, xid_lit xid), (C_cpuid, Lit (SInt cpuid))])]))))))"

definition m_vxdb_vx_sched_set :: "'k host \<Rightarrow> xval \<Rightarrow> bool \<Rightarrow> ('k, xval) handler" where
  "m_vxdb_vx_sched_set H p c =
     bindM (method_init H p c VCD_CAP_SCHED owner_lock) (\<lambda>params.
     bindM (arg_s H params ''name'') (\<lambda>name.
     bindM (arg_i H params ''cpuid'') (\<lambda>cpuid.
     bindM (arg_i H params ''fillrate'') (\<lambda>fillrate.
     bindM (arg_i H params ''interval'') (\<lambda>interval.
     bindM (arg_i H params ''fillrate2'') (\<lambda>fillrate2.
     bindM (arg_i H params ''interval2'') (\<lambda>interval2.
     bindM (arg_i H params ''tokensmin'') (\<lambda>tokensmin.
     bindM (arg_i H params ''tokensmax'') (\<lambda>tokensmax.
     bindM (getsM os) (\<lambda>k.
     bindM (unlessM (validate_cpuid H k cpuid)
       (Faultf MEINVAL (''cpuid out of range: '' @ dec cpuid))) (\<lambda>_.
     bindM (unlessM (validate_token_bucket fillrate interval fillrate2 interval2 tokensmin tokensmax)
       (Faultf MEINVAL (''invalid bucket specification: '' @ dec fillrate @ '','' @ dec interval @ '',''
          @ dec fillrate2 @ '','' @ dec interval2 @ '','' @ dec tokensmin @ '','' @ dec tokensmax))) (\<lambda>_.
     bindM (need_xid H name) (\<lambda>xid.
     exec_nil H [Insert True T_vx_sched
       [(C_xid, SInt (s32 xid)), (C_fillrate, SInt fillrate), (C_interval, SInt interval),
        (C_fillrate2, SInt fillrate2), (C_interval2, SInt interval2), (C_tokensmin, SInt tokensmin),
        (C_tokensmax, SInt tokensmax), (C_cpuid, SInt cpuid)]])))))))))))))"

section \<open>Processor sets\<close>

definition m_vxdb_vx_cpuset_get :: "'k host \<Rightarrow> xval \<Rightarrow> bool \<Rightarrow> ('k, xval) handler" where
  "m_vxdb_vx_cpuset_get H p c =
     bindM (method_init H p c VCD_CAP_SCHED M_OWNER) (\<lambda>params.
     bindM (arg_s H params ''name'') (\<lambda>name.
     bindM (need_xid H name) (\<lambda>xid.
     answer_row H (Select [C_cpus, C_mems, C_virtualize] T_vx_cpuset [(C_xid, xid_lit xid)] Unordered)
       (\<lambda>row. XStruct [(''cpus'', col_s row 0), (''mems'', col_s row 1), (''virtualize'', col_i H row 2)])
       (XStruct [(''cpus'', XStr ''''), (''mems'', XStr ''''), (''virtualize'', XInt 0)]))))"

definition m_vxdb_vx_cpuset_remove :: "'k host \<Rightarrow> xval \<Rightarrow> bool \<Rightarrow> ('k, xval) handler" where
  "m_vxdb_vx_cpuset_remove H p c =
     bindM (method_init H p c VCD_CAP_SCHED owner_lock) (\<lambda>params.
     bindM (arg_s H params ''name'') (\<lambda>name.
     bindM (need_xid H name) (\<lambda>xid.
     exec_nil H [Delete T_vx_cpuset [(C_xid, xid_lit xid)]])))"

definition m_vxdb_vx_cpuset_set :: "'k host \<Rightarrow> xval \<Rightarrow> bool \<Rightarrow> ('k, xval) handler" where
  "m_vxdb_vx_cpuset_set H p c =
     bindM (method_init H p c VCD_CAP_SCHED owner_lock) (\<lambda>params.
     bindM (arg_s H params ''name'') (\<lambda>name.
     bindM (arg_s H params ''cpus'') (\<lambda>cpus.
     bindM (arg_s H params ''mems'') (\<lambda>mems.
     bindM (arg_b H params ''virtualize'') (\<lambda>virtualize.
     bindM (getsM os) (\<lambda>k.
     bindM (unlessM (validate_cpuset H k cpus 0)
       (Faultf MEINVAL (''invalid cpus specification: '' @ cpus))) (\<lambda>_.
     bindM (unlessM (validate_cpuset H k mems 1)
       (Faultf MEINVAL (''invalid mems specification: '' @ mems))) (\<lambda>_.
     bindM (need_xid H name) (\<lambda>xid.
     exec_nil H [Insert True T_vx_cpuset
       [(C_xid, SInt (s32 xid)), (C_cpus, STxt cpus), (C_mems, STxt mems),
        (C_virtualize, SInt (if virtualize then 1 else 0))]])))))))))"

lemmas vxdb_limits_defs =
  m_vxdb_dx_limit_get_def m_vxdb_dx_limit_remove_def m_vxdb_dx_limit_set_def
  m_vxdb_vx_limit_get_def m_vxdb_vx_limit_remove_def m_vxdb_vx_limit_set_def
  m_vxdb_vx_sched_get_def m_vxdb_vx_sched_remove_def m_vxdb_vx_sched_set_def
  m_vxdb_vx_cpuset_get_def m_vxdb_vx_cpuset_remove_def m_vxdb_vx_cpuset_set_def

lemma vxdb_limits_keeps [inv_intros]:
  assumes "sqlite_ok (sql H)"
  shows "stays keeps_inv (m_vxdb_dx_limit_get H p c)"
    and "stays keeps_inv (m_vxdb_dx_limit_remove H p c)"
    and "stays keeps_inv (m_vxdb_dx_limit_set H p c)"
    and "stays keeps_inv (m_vxdb_vx_limit_get H p c)"
    and "stays keeps_inv (m_vxdb_vx_limit_remove H p c)"
    and "stays keeps_inv (m_vxdb_vx_limit_set H p c)"
    and "stays keeps_inv (m_vxdb_vx_sched_get H p c)"
    and "stays keeps_inv (m_vxdb_vx_sched_remove H p c)"
    and "stays keeps_inv (m_vxdb_vx_sched_set H p c)"
    and "stays keeps_inv (m_vxdb_vx_cpuset_get H p c)"
    and "stays keeps_inv (m_vxdb_vx_cpuset_remove H p c)"
    and "stays keeps_inv (m_vxdb_vx_cpuset_set H p c)"
  unfolding vxdb_limits_defs
  by (intro ki.stays_rules method_init_keeps exec_nil_keeps reads_intros [THEN same_conn_keeps] assms)+

section \<open>Disk limits: what is set is what is read\<close>

lemma dec_quote_free [simp]: "quote_free (dec i)"
  using dec_nat_digits [of "nat i"] dec_nat_digits [of "nat (- i)"]
  by (auto simp: quote_free_def dec_def list_all_iff is_digit_def)

definition dx_limit_row :: "xid_t \<Rightarrow> int \<Rightarrow> int \<Rightarrow> int \<Rightarrow> row" where
  "dx_limit_row xid space inodes reserved =
     [(C_xid, SInt xid), (C_space, STxt (dec space)), (C_inodes, STxt (dec inodes)),
      (C_reserved, SInt reserved)]"

definition dlimit_value :: "'k host \<Rightarrow> string \<Rightarrow> int" where
  "dlimit_value H text = scan_u32 H text (u32 (int (hdr H ''CDLIM_KEEP'')))"

lemma dx_limit_set_effect:
  assumes "m_vxdb_dx_limit_set H p c s = (Inr v, s')" and "host_ok H" and "st_wf s"
  obtains name xid sp ino rsv where
    "req_s H p c ''name'' = Some name" and "req_s H p c ''space'' = Some sp"
    and "req_s H p c ''inodes'' = Some ino" and "req_i H p c ''reserved'' = Some rsv"
    and "name_xid (db s) name = Some xid"
    and "validate_dlimits H (dlimit_value H sp) (dlimit_value H ino) rsv"
    and "rows (db s') T_dx_limit = row_put [C_xid]
           (dx_limit_row xid (dlimit_value H sp) (dlimit_value H ino) rsv) (rows (db s) T_dx_limit)"
    and "touches {T_vcd, T_dx_limit} s s'" and "st_wf s'"
proof -
  from assms(1) obtain params s1 name sp ino rsv xid s2 where
    i: "method_init H p c VCD_CAP_DLIM owner_lock s = (Inr params, s1)"
    and x: "need_xid H name s1 = (Inr xid, s2)"
    and a: "get_param (xr_string (xr H)) H params ''name'' = Some name"
      "get_param (xr_string (xr H)) H params ''space'' = Some sp"
      "get_param (xr_string (xr H)) H params ''inodes'' = Some ino"
      "get_param (xr_int (xr H)) H params ''reserved'' = Some rsv"
    and val: "validate_dlimits H (dlimit_value H sp) (dlimit_value H ino) rsv"
    and ex: "exec_nil H [Insert True T_dx_limit
       (dx_limit_row (s32 xid) (dlimit_value H sp) (dlimit_value H ino) rsv)] s2 = (Inr v, s')"
    unfolding m_vxdb_dx_limit_set_def Let_def dlimit_value_def dx_limit_row_def
    by (elim handlerE) blast
  have safe: "stmt_safe (Insert True T_dx_limit
      (dx_limit_row (s32 xid) (dlimit_value H sp) (dlimit_value H ino) rsv))"
    by (simp add: dx_limit_row_def)
  from a init_xid [OF i x assms(2,3)] val dx_limit.put_effect [OF i x ex safe assms(2,3)]
  show ?thesis by (intro that) (simp_all add: req_s_def req_i_def)
qed

lemma dx_limit_get_result:
  assumes "m_vxdb_dx_limit_get H p c s = (Inr w, s')" and "host_ok H" and "st_wf s"
  obtains name xid where "req_s H p c ''name'' = Some name" and "name_xid (db s) name = Some xid"
    and "w = (case row_lookup [C_xid] (rows (db s) T_dx_limit) [SInt xid] of
        None \<Rightarrow> XStruct [(''space'', XStr []), (''inodes'', XStr []), (''reserved'', XInt 0)]
      | Some r \<Rightarrow> XStruct [(''space'', col_s [rget r C_space] 0), (''inodes'', col_s [rget r C_inodes] 0),
          (''reserved'', col_i H [rget r C_reserved] 0)])"
proof -
  from assms(1) obtain params s1 name xid s2 where
    i: "method_init H p c VCD_CAP_DLIM M_OWNER s = (Inr params, s1)"
    and x: "need_xid H name s1 = (Inr xid, s2)"
    and a: "get_param (xr_string (xr H)) H params ''name'' = Some name"
    and an: "answer_row H (Select [C_space, C_inodes, C_reserved] T_dx_limit [(C_xid, xid_lit xid)] Unordered)
       (\<lambda>row. XStruct [(''space'', col_s row 0), (''inodes'', col_s row 1), (''reserved'', col_i H row 2)])
       (XStruct [(''space'', XStr []), (''inodes'', XStr []), (''reserved'', XInt 0)]) s2 = (Inr w, s')"
    unfolding m_vxdb_dx_limit_get_def by (elim handlerE) blast
  note n = init_xid [OF i x assms(2,3)]
  show ?thesis
    using dx_limit.row_result [OF i x an _ assms(2,3) matches_xid [OF n(4)]] a n
    by (intro that [of name xid])
      (simp_all add: req_s_def xid_lit_def col_s_def col_i_def vxdb_column_text_def
        vxdb_column_int_def split: option.splits)
qed

text \<open>
  C34.  The disk limits of a guest that were set with \<^verbatim>\<open>vxdb.dx.limit.set\<close> are what
  \<^verbatim>\<open>vxdb.dx.limit.get\<close> answers for the same name, as long as no other request changed the
  limits or the names in between.
\<close>

theorem dx_limit_set_get:
  assumes "m_vxdb_dx_limit_set H p c s = (Inr v, s1)" and "m_vxdb_dx_limit_get H q c' t = (Inr w, t1)"
    and "host_ok H" and "st_wf s" and "st_wf t"
    and "same_rows [T_dx_limit, T_xid_name_map] s1 t"
    and "req_s H q c' ''name'' = req_s H p c ''name''"
    and "req_s H p c ''space'' = Some (dec space)" and "0 \<le> space" and "space < 2 ^ 32"
    and "req_s H p c ''inodes'' = Some (dec inodes)" and "0 \<le> inodes" and "inodes < 2 ^ 32"
    and "req_i H p c ''reserved'' = Some reserved"
  shows "w = XStruct [(''space'', XStr (dec space)), (''inodes'', XStr (dec inodes)),
    (''reserved'', XInt reserved)]"
proof -
  have val: "dlimit_value H (dec n) = n" if "0 \<le> n" "n < 2 ^ 32" for n
    using that assms(3) by (simp add: dlimit_value_def scan_u32_def host_ok_def lucid_ok_scan)
  from assms(1,3,4) obtain name xid where
    n: "req_s H p c ''name'' = Some name" "name_xid (db s) name = Some xid"
    and v: "validate_dlimits H space inodes reserved"
    and r: "rows (db s1) T_dx_limit
      = row_put [C_xid] (dx_limit_row xid space inodes reserved) (rows (db s) T_dx_limit)"
    and t: "touches {T_vcd, T_dx_limit} s s1"
    by (rule dx_limit_set_effect) (use assms(8-14) val in auto)
  from assms(2,3,5) obtain xid' where x': "name_xid (db t) name = Some xid'"
    and w: "w = (case row_lookup [C_xid] (rows (db t) T_dx_limit) [SInt xid'] of
        None \<Rightarrow> XStruct [(''space'', XStr []), (''inodes'', XStr []), (''reserved'', XInt 0)]
      | Some r \<Rightarrow> XStruct [(''space'', col_s [rget r C_space] 0), (''inodes'', col_s [rget r C_inodes] 0),
          (''reserved'', col_i H [rget r C_reserved] 0)])"
    by (rule dx_limit_get_result) (use assms(7) n in auto)
  have rt: "rows (db t) T_dx_limit = rows (db s1) T_dx_limit"
    "rows (db t) T_xid_name_map = rows (db s) T_xid_name_map"
    using assms(6) touches_rows [OF t] by (simp_all add: same_rows_def)
  have "xid' = xid" using name_xid_cong [OF rt(2)] n(2) x' by simp
  moreover have "row_lookup [C_xid] (rows (db t) T_dx_limit) [SInt xid] = Some (dx_limit_row xid space inodes reserved)"
    unfolding rt r by (rule lookup_put_same) (simp_all add: row_key_def key_valid_def dx_limit_row_def)
  moreover have "0 < reserved" "reserved < 100" using v by (simp_all add: validate_dlimits_def)
  ultimately show ?thesis
    using w assms(3) by (simp add: dx_limit_row_def col_simps host_ok_def lucid_ok_scan)
qed

lemma undec_ref: "undec ''1000'' = Some 1000" "undec ''50'' = Some 50" "dec 1000 = ''1000''" "dec 50 = ''50''"
  by code_simp+

theorem dx_limit_set_get_witness:
  "\<exists>s1 t1. m_vxdb_dx_limit_set ref_host
       (XStruct [(''name'', XStr ''guest1''), (''space'', XStr ''1000''), (''inodes'', XStr ''50''),
          (''reserved'', XInt 5)]) True (ref_state ref_db []) = (Inr XNil, s1)
     \<and> m_vxdb_dx_limit_get ref_host (XStruct [(''name'', XStr ''guest1'')]) True s1
       = (Inr (XStruct [(''space'', XStr (dec 1000)), (''inodes'', XStr (dec 50)), (''reserved'', XInt 5)]), t1)"
proof -
  define p where "p = XStruct [(''name'', XStr ''guest1''), (''space'', XStr ''1000''),
    (''inodes'', XStr ''50''), (''reserved'', XInt 5)]"
  define q where "q = XStruct [(''name'', XStr ''guest1'')]"
  let ?s = "ref_state ref_db []"
  let ?s1 = "snd (m_vxdb_dx_limit_set ref_host p True ?s)"
  note eval = eval_rules m_vxdb_dx_limit_set_def m_vxdb_dx_limit_get_def scan_u32_def
    validate_dlimits_def undec_ref(1,2) dec_quote_free [unfolded quote_free_def]
  have "fst (m_vxdb_dx_limit_set ref_host p True ?s) = Inr XNil"
    by (simp add: p_def eval cong: bindM_weak_cong)
  note set = run_value [OF this]
  have "\<not> isl (fst (m_vxdb_dx_limit_get ref_host q True ?s1))"
    by (simp add: p_def q_def eval cong: bindM_weak_cong)
  then obtain w where get: "m_vxdb_dx_limit_get ref_host q True ?s1
      = (Inr w, snd (m_vxdb_dx_limit_get ref_host q True ?s1))"
    by (rule run_ok)
  have wf: "st_wf ?s1" by (rule dx_limit_set_effect [OF set ref_host_ok ref_st_wf])
  have "w = XStruct [(''space'', XStr (dec 1000)), (''inodes'', XStr (dec 50)), (''reserved'', XInt 5)]"
    by (rule dx_limit_set_get [OF set get ref_host_ok ref_st_wf wf])
      (simp_all add: same_rows_def p_def q_def req_s_def req_i_def req_params_def get_param_def
        ref_sel undec_ref)
  with set get show ?thesis unfolding p_def q_def by blast
qed

end
