(* ===== verification/Limit_Laws.thy ===== *)
theory Limit_Laws
  imports Vxdb_Limits
begin

text \<open>
  What \<^verbatim>\<open>vxdb.vx.limit.*\<close> and \<^verbatim>\<open>vxdb.vx.sched.*\<close> promise: a limit that was set
  is read back, rounded to pages where the kernel counts pages, and a token bucket is stored only
  when it is valid.
\<close>

section \<open>Conversion to pages\<close>

lemma limtype_conv_eq:
  "limtype_conv f type (soft, mx) = (if type \<in> set LIMTYPE then (f soft, f mx) else (soft, mx))"
  by (simp add: limtype_conv_def LIMTYPE_def)

text \<open>What is left of a value that is stored and read back.\<close>

definition limit_back :: "'k host \<Rightarrow> string \<Rightarrow> 64 word \<Rightarrow> 64 word" where
  "limit_back H type v = (if type \<in> set LIMTYPE then pagestobytes H (bytestopages H v) else v)"

lemma bytestopages_uint:
  assumes "uint v * 1024 < 2 ^ 64"
  shows "uint (bytestopages H v) = uint v * 1024 div uint (pagesize (kern H))"
  using assms by (simp add: bytestopages_def uint_div_distrib uint_mult_ge0 uint_word_ariths)

lemma pagestobytes_uint:
  assumes "uint n * uint (pagesize (kern H)) < 2 ^ 64"
  shows "uint (pagestobytes H n) = uint n * uint (pagesize (kern H)) div 1024"
  using assms by (simp add: pagestobytes_def uint_div_distrib uint_word_ariths)

section \<open>Limits are read back\<close>

definition limit_value :: "'k host \<Rightarrow> string \<Rightarrow> 64 word" where
  "limit_value H text = scan_u64 H text (of_nat (hdr H ''CRLIM_KEEP''))"

definition vx_limit_row :: "'k host \<Rightarrow> xid_t \<Rightarrow> string \<Rightarrow> 64 word \<Rightarrow> 64 word \<Rightarrow> row" where
  "vx_limit_row H xid type soft mx =
     (let f = (\<lambda>v. STxt (dec (uint (if type \<in> set LIMTYPE then bytestopages H v else v)))) in
      [(C_xid, SInt xid), (C_type, STxt type), (C_soft, f soft), (C_max, f mx)])"

lemma vx_limit_set_effect:
  assumes "m_vxdb_vx_limit_set H p c s = (Inr v, s')" and "host_ok H" and "st_wf s"
  obtains name xid type soft mx where
    "req_s H p c ''name'' = Some name" and "req_s H p c ''type'' = Some type"
    and "req_s H p c ''soft'' = Some soft" and "req_s H p c ''max'' = Some mx"
    and "name_xid (db s) name = Some xid" and "validate_rlimit H type"
    and "validate_rlimits H (limit_value H soft) (limit_value H mx)"
    and "rows (db s') T_vx_limit = row_put [C_xid, C_type]
           (vx_limit_row H xid type (limit_value H soft) (limit_value H mx)) (rows (db s) T_vx_limit)"
    and "touches {T_vcd, T_vx_limit} s s'" and "st_wf s'"
proof -
  from assms(1) obtain params s1 name type soft mx xid s2 where
    i: "method_init H p c VCD_CAP_RLIM owner_lock s = (Inr params, s1)"
    and x: "need_xid H name s1 = (Inr xid, s2)"
    and a: "get_param (xr_string (xr H)) H params ''name'' = Some name"
      "get_param (xr_string (xr H)) H params ''type'' = Some type"
      "get_param (xr_string (xr H)) H params ''soft'' = Some soft"
      "get_param (xr_string (xr H)) H params ''max'' = Some mx"
    and val: "validate_rlimit H type" "validate_rlimits H (limit_value H soft) (limit_value H mx)"
    and ex: "(let (soft', mx') = limtype_conv (bytestopages H) type (limit_value H soft, limit_value H mx) in
       exec_nil H [Insert True T_vx_limit [(C_xid, SInt (s32 xid)), (C_type, STxt type),
         (C_soft, STxt (dec (uint soft'))), (C_max, STxt (dec (uint mx')))]]) s2 = (Inr v, s')"
    unfolding m_vxdb_vx_limit_set_def Let_def limit_value_def
    by (elim handlerE) blast
  have ex': "exec_nil H [Insert True T_vx_limit
      (vx_limit_row H (s32 xid) type (limit_value H soft) (limit_value H mx))] s2 = (Inr v, s')"
    using ex by (simp add: limtype_conv_eq vx_limit_row_def Let_def split: if_splits)
  have safe: "stmt_safe (Insert True T_vx_limit
      (vx_limit_row H (s32 xid) type (limit_value H soft) (limit_value H mx)))"
    using validate_list_quote_free(5) [of H type] val(1) assms(2)
    by (simp add: vx_limit_row_def host_ok_def Let_def)
  from a init_xid [OF i x assms(2,3)] val vx_limit.put_effect [OF i x ex' safe assms(2,3)]
  show ?thesis by (intro that) (simp_all add: req_s_def)
qed

lemma vx_limit_get_result:
  assumes "m_vxdb_vx_limit_get H p c s = (Inr w, s')" and "host_ok H" and "st_wf s"
    and "req_s H p c ''type'' = Some type" and "validate_rlimit H type"
  obtains name xid where "req_s H p c ''name'' = Some name" and "name_xid (db s) name = Some xid"
    and "w = XArr (case row_lookup [C_xid, C_type] (rows (db s) T_vx_limit) [SInt xid, STxt type] of
        None \<Rightarrow> [] | Some r \<Rightarrow> [limit_entry H (map (rget r) [C_type, C_soft, C_max])])"
proof -
  have e: "empty_param H type = Some type"
    using assms(5) by (simp add: empty_param_def method_empty_params_def validate_rlimit_def)
  from assms(1) obtain params s1 name type' xid s2 where
    i: "method_init H p c VCD_CAP_RLIM M_OWNER s = (Inr params, s1)"
    and x: "need_xid H name s1 = (Inr xid, s2)"
    and a: "get_param (xr_string (xr H)) H params ''name'' = Some name"
      "get_param (xr_string (xr H)) H params ''type'' = Some type'"
    and an: "answer_rows H (Select [C_type, C_soft, C_max] T_vx_limit
        (case empty_param H type' of Some ty \<Rightarrow> [(C_xid, xid_lit xid), (C_type, Lit (STxt ty))]
                       | None \<Rightarrow> [(C_xid, xid_lit xid)]) Unordered) (limit_entry H) s2 = (Inr w, s')"
    unfolding m_vxdb_vx_limit_get_def Let_def by (elim handlerE) blast
  note n = init_xid [OF i x assms(2,3)]
  have ty: "type' = type" using a(2) n(8) assms(4) by (simp add: req_s_def)
  have "query_safe (Select [C_type, C_soft, C_max] T_vx_limit [(C_xid, xid_lit xid), (C_type, Lit (STxt type))] Unordered)"
    using validate_list_quote_free(5) [of H type] assms(2,5) by (simp add: host_ok_def xid_lit_def)
  with vx_limit.rows_key_result [OF i x an [unfolded ty e option.case] _ assms(2,3) matches_xid2 [OF n(4)]] a n
  show ?thesis by (intro that [of name xid]) (simp_all add: req_s_def)
qed

lemma limit_value_dec: "host_ok H \<Longrightarrow> limit_value H (dec (uint v)) = v"
  using uint_bounded [of v] by (simp add: limit_value_def scan_u64_def host_ok_def lucid_ok_scan)

lemma column_uint64_dec:
  "host_ok H \<Longrightarrow> vxdb_column_uint64 (lib H) [x, STxt (dec (uint v)), y] (Suc 0) = v"
  "host_ok H \<Longrightarrow> vxdb_column_uint64 (lib H) [x, y, STxt (dec (uint v))] 2 = v"
  using uint_bounded [of v]
  by (simp_all add: vxdb_column_uint64_def vxdb_column_text_def scan_or_0_def column_def host_ok_def
      lucid_ok_scan)

lemma limit_entry_row:
  assumes "host_ok H" and "c_str type = type"
  shows "limit_entry H (map (rget (vx_limit_row H xid type soft mx)) [C_type, C_soft, C_max])
    = XStruct [(''type'', XStr type), (''soft'', XStr (dec (uint (limit_back H type soft)))),
        (''max'', XStr (dec (uint (limit_back H type mx))))]"
  by (simp add: limit_entry_def vx_limit_row_def Let_def column_uint64_dec [OF assms(1)] assms(2) limtype_conv_eq
      limit_back_def vxdb_column_text_def column_def or_default_def build_s_def)

text \<open>
  C35.  A resource limit that was set with \<^verbatim>\<open>vxdb.vx.limit.set\<close> is what
  \<^verbatim>\<open>vxdb.vx.limit.get\<close> answers for the same guest and type, as long as no other request
  changed the limits or the names in between; for the types the kernel counts in pages the value has
  gone through the conversion to pages and back.
\<close>

theorem vx_limit_set_get:
  assumes "m_vxdb_vx_limit_set H p c s = (Inr v, s1)" and "m_vxdb_vx_limit_get H q c' t = (Inr w, t1)"
    and "host_ok H" and "st_wf s" and "st_wf t"
    and "same_rows [T_vx_limit, T_xid_name_map] s1 t"
    and "req_s H q c' ''name'' = req_s H p c ''name''"
    and "req_s H p c ''type'' = Some type" and "req_s H q c' ''type'' = Some type"
    and "req_s H p c ''soft'' = Some (dec (uint soft))" and "req_s H p c ''max'' = Some (dec (uint mx))"
  shows "w = XArr [XStruct [(''type'', XStr type), (''soft'', XStr (dec (uint (limit_back H type soft)))),
    (''max'', XStr (dec (uint (limit_back H type mx))))]]"
proof -
  from assms(1,3,4) obtain name xid where
    n: "req_s H p c ''name'' = Some name" "name_xid (db s) name = Some xid"
    and v: "validate_rlimit H type"
    and r: "rows (db s1) T_vx_limit
      = row_put [C_xid, C_type] (vx_limit_row H xid type soft mx) (rows (db s) T_vx_limit)"
    and t: "touches {T_vcd, T_vx_limit} s s1"
    by (rule vx_limit_set_effect) (use assms(3,8,10,11) in \<open>auto simp: limit_value_dec\<close>)
  from assms(2,3,5,9) v obtain xid' where x': "name_xid (db t) name = Some xid'"
    and w: "w = XArr (case row_lookup [C_xid, C_type] (rows (db t) T_vx_limit) [SInt xid', STxt type] of
        None \<Rightarrow> [] | Some r \<Rightarrow> [limit_entry H (map (rget r) [C_type, C_soft, C_max])])"
    by (rule vx_limit_get_result) (use assms(7) n in auto)
  have rt: "rows (db t) T_vx_limit = rows (db s1) T_vx_limit"
    "rows (db t) T_xid_name_map = rows (db s) T_xid_name_map"
    using assms(6) touches_rows [OF t] by (simp_all add: same_rows_def)
  have "xid' = xid" using name_xid_cong [OF rt(2)] n(2) x' by simp
  moreover have "row_lookup [C_xid, C_type] (rows (db t) T_vx_limit) [SInt xid, STxt type]
      = Some (vx_limit_row H xid type soft mx)"
    unfolding rt r
    by (rule lookup_put_same) (simp_all add: row_key_def key_valid_def vx_limit_row_def Let_def)
  moreover have "c_str type = type"
    using validate_rlimit_nul_free [OF _ v] assms(3) by (simp add: host_ok_def)
  ultimately show ?thesis using w limit_entry_row [OF assms(3)] by simp
qed

text \<open>
  C39.  With pages of \<^verbatim>\<open>k\<close> kilobytes, a limit (in kilobytes) that does not overflow is
  read back rounded down to a multiple of \<^verbatim>\<open>k\<close>, that is, at most \<^verbatim>\<open>k - 1\<close> too low;
  limits of the other types are unchanged.
\<close>

theorem limit_back_bounds:
  assumes "uint (pagesize (kern H)) = 1024 * k" and "0 < k" and "uint v * 1024 < 2 ^ 64"
  shows "uint (limit_back H type v) = (if type \<in> set LIMTYPE then uint v div k * k else uint v)
    \<and> uint (limit_back H type v) \<le> uint v \<and> uint v < uint (limit_back H type v) + k"
proof -
  have pages: "uint (bytestopages H v) = uint v div k"
    using assms by (simp add: bytestopages_uint mult.commute [of _ 1024])
  have "uint v div k * k \<le> uint v" using assms(2) by (metis div_mult_mod_eq le_add_same_cancel1 pos_mod_sign)
  then have "uint (bytestopages H v) * uint (pagesize (kern H)) < 2 ^ 64"
    using assms pages by (simp add: algebra_simps)
  from pagestobytes_uint [OF this] have "uint (pagestobytes H (bytestopages H v)) = uint v div k * k"
    using assms(1) pages by simp
  moreover have "uint v < uint v div k * k + k"
    using assms(2) by (metis add.commute div_mult_mod_eq add_strict_left_mono pos_mod_bound)
  ultimately show ?thesis
    using assms(2) \<open>uint v div k * k \<le> uint v\<close> by (simp add: limit_back_def)
qed

text \<open>
  The multiplication by 1024 wraps around: with pages of four kilobytes a memory limit of
  \<^verbatim>\<open>2^54\<close> kilobytes passes the checks and is stored as 0 pages.
\<close>

theorem limit_wraps:
  assumes "pagesize (kern H) = 4096"
    and "hdr H ''CRLIM_KEEP'' = 18446744073709551614" and "hdr H ''CRLIM_INFINITY'' = 18446744073709551615"
  shows "validate_rlimits H (2 ^ 54) (2 ^ 54) \<and> bytestopages H (2 ^ 54) = 0
    \<and> limit_back H ''RSS'' (2 ^ 54) = 0"
  using assms by (simp add: validate_rlimits_def bytestopages_def limit_back_def LIMTYPE_def pagestobytes_def)

section \<open>The scheduler\<close>

definition sched_row :: "xid_t \<Rightarrow> int \<Rightarrow> int \<Rightarrow> int \<Rightarrow> int \<Rightarrow> int \<Rightarrow> int \<Rightarrow> int \<Rightarrow> row" where
  "sched_row xid cpuid fr iv fr2 iv2 tmin tmax =
     [(C_xid, SInt xid), (C_fillrate, SInt fr), (C_interval, SInt iv), (C_fillrate2, SInt fr2),
      (C_interval2, SInt iv2), (C_tokensmin, SInt tmin), (C_tokensmax, SInt tmax), (C_cpuid, SInt cpuid)]"

lemma vx_sched_set_effect:
  assumes "m_vxdb_vx_sched_set H p c s = (Inr v, s')" and "host_ok H" and "st_wf s"
  obtains name xid cpuid fr iv fr2 iv2 tmin tmax where
    "req_s H p c ''name'' = Some name" and "name_xid (db s) name = Some xid"
    and "validate_token_bucket fr iv fr2 iv2 tmin tmax" and "-1 \<le> cpuid"
    and "rows (db s') T_vx_sched = row_put [C_xid, C_cpuid] (sched_row xid cpuid fr iv fr2 iv2 tmin tmax)
      (rows (db s) T_vx_sched)"
    and "touches {T_vcd, T_vx_sched} s s'" and "st_wf s'"
proof -
  from assms(1) obtain params s1 name xid s2 cpuid fr iv fr2 iv2 tmin tmax k where
    i: "method_init H p c VCD_CAP_SCHED owner_lock s = (Inr params, s1)"
    and x: "need_xid H name s1 = (Inr xid, s2)"
    and a: "get_param (xr_string (xr H)) H params ''name'' = Some name"
    and val: "validate_cpuid H k cpuid" "validate_token_bucket fr iv fr2 iv2 tmin tmax"
    and ex: "exec_nil H [Insert True T_vx_sched (sched_row (s32 xid) cpuid fr iv fr2 iv2 tmin tmax)] s2
      = (Inr v, s')"
    unfolding m_vxdb_vx_sched_set_def sched_row_def by (elim handlerE) blast
  have safe: "stmt_safe (Insert True T_vx_sched (sched_row (s32 xid) cpuid fr iv fr2 iv2 tmin tmax))"
    by (simp add: sched_row_def)
  from a init_xid [OF i x assms(2,3)] val vx_sched.put_effect [OF i x ex safe assms(2,3)]
  show ?thesis by (intro that) (simp_all add: req_s_def validate_cpuid_def)
qed

text \<open>What the kernel needs of a bucket: it can be filled and holds what is filled in.\<close>

definition bucket_ok :: "row \<Rightarrow> bool" where
  "bucket_ok r \<longleftrightarrow> (case map (rget r) [C_fillrate, C_interval, C_tokensmin, C_tokensmax, C_cpuid] of
     [SInt fr, SInt iv, SInt tmin, SInt tmax, SInt cpu] \<Rightarrow> 1 \<le> fr \<and> fr \<le> iv \<and> fr \<le> tmax \<and> tmin \<le> tmax \<and> -1 \<le> cpu
   | _ \<Rightarrow> False)"

text \<open>
  \<^verbatim>\<open>vxdb.vx.sched.set\<close> stores valid buckets only: if every row of the table is a bucket
  with a positive fill rate that neither the interval nor the size of the bucket is below, with the
  minimum not above the size, the same holds after the request.
\<close>

theorem vx_sched_set_valid:
  assumes "m_vxdb_vx_sched_set H p c s = (Inr v, s')" and "host_ok H" and "st_wf s"
    and "\<forall>r \<in> set (rows (db s) T_vx_sched). bucket_ok r"
  shows "\<forall>r \<in> set (rows (db s') T_vx_sched). bucket_ok r"
proof -
  from assms(1-3) obtain xid cpuid fr iv fr2 iv2 tmin tmax where
    v: "validate_token_bucket fr iv fr2 iv2 tmin tmax" "-1 \<le> cpuid"
    and r: "rows (db s') T_vx_sched = row_put [C_xid, C_cpuid] (sched_row xid cpuid fr iv fr2 iv2 tmin tmax)
      (rows (db s) T_vx_sched)"
    by (rule vx_sched_set_effect) blast
  from v have "bucket_ok (sched_row xid cpuid fr iv fr2 iv2 tmin tmax)"
    by (simp add: bucket_ok_def sched_row_def validate_token_bucket_def)
  with assms(4) show ?thesis by (auto simp: r row_put_def)
qed

section \<open>Witnesses\<close>

lemma undec_limits: "undec ''1001'' = Some 1001" "undec ''2000'' = Some 2000" "dec 1001 = ''1001''" "dec 2000 = ''2000''"
  by code_simp+

theorem vx_limit_set_get_witness:
  "\<exists>s1 t1. m_vxdb_vx_limit_set ref_host
       (XStruct [(''name'', XStr ''guest1''), (''type'', XStr ''RSS''), (''soft'', XStr ''1001''), (''max'', XStr ''2000'')])
       True (ref_state ref_db []) = (Inr XNil, s1)
     \<and> m_vxdb_vx_limit_get ref_host (XStruct [(''name'', XStr ''guest1''), (''type'', XStr ''RSS'')]) True s1
       = (Inr (XArr [XStruct [(''type'', XStr ''RSS''), (''soft'', XStr ''1000''), (''max'', XStr ''2000'')]]), t1)"
proof -
  define p where "p = XStruct [(''name'', XStr ''guest1''), (''type'', XStr ''RSS''), (''soft'', XStr ''1001''),
    (''max'', XStr ''2000'')]"
  define q where "q = XStruct [(''name'', XStr ''guest1''), (''type'', XStr ''RSS'')]"
  let ?s = "ref_state ref_db []"
  let ?s1 = "snd (m_vxdb_vx_limit_set ref_host p True ?s)"
  note eval = eval_rules m_vxdb_vx_limit_set_def m_vxdb_vx_limit_get_def scan_u64_def
    validate_rlimit_def validate_rlimits_def rlimit_list_def flist32_node1_def limtype_conv_eq LIMTYPE_def
    undec_limits(1,2) dec_quote_free [unfolded quote_free_def]
  have "fst (m_vxdb_vx_limit_set ref_host p True ?s) = Inr XNil"
    by (simp add: p_def eval cong: bindM_weak_cong)
  note set = run_value [OF this]
  have "\<not> isl (fst (m_vxdb_vx_limit_get ref_host q True ?s1))"
    by (simp add: p_def q_def eval cong: bindM_weak_cong)
  then obtain w where get: "m_vxdb_vx_limit_get ref_host q True ?s1
      = (Inr w, snd (m_vxdb_vx_limit_get ref_host q True ?s1))"
    by (rule run_ok)
  have wf: "st_wf ?s1" by (rule vx_limit_set_effect [OF set ref_host_ok ref_st_wf])
  have "w = XArr [XStruct [(''type'', XStr ''RSS''), (''soft'', XStr (dec (uint (limit_back ref_host ''RSS'' 1001)))),
      (''max'', XStr (dec (uint (limit_back ref_host ''RSS'' 2000))))]]"
    by (rule vx_limit_set_get [OF set get ref_host_ok ref_st_wf wf])
      (simp_all add: same_rows_def p_def q_def req_s_def req_params_def get_param_def ref_sel undec_limits)
  moreover have "limit_back ref_host ''RSS'' 1001 = 1000" "limit_back ref_host ''RSS'' 2000 = 2000"
    by (simp_all add: limit_back_def LIMTYPE_def pagestobytes_def bytestopages_def ref_sel)
  moreover have "dec 1000 = ''1000''" by code_simp
  ultimately show ?thesis using set get unfolding p_def q_def by (auto simp: undec_limits)
qed

theorem limit_back_bounds_witness: "uint (limit_back ref_host ''RSS'' 1001) = 1000"
  using limit_back_bounds [of ref_host 4 1001 "''RSS''"] by (simp add: ref_sel LIMTYPE_def)

theorem limit_wraps_witness: "limit_back ref_host ''RSS'' (2 ^ 54) = 0"
  using limit_wraps [of ref_host] by (simp add: ref_sel)

theorem vx_sched_set_valid_witness:
  "\<exists>s1. m_vxdb_vx_sched_set ref_host
       (XStruct [(''name'', XStr ''guest1''), (''cpuid'', XInt 0), (''fillrate'', XInt 1), (''interval'', XInt 4),
          (''fillrate2'', XInt 0), (''interval2'', XInt 0), (''tokensmin'', XInt 10), (''tokensmax'', XInt 100)])
       True (ref_state ref_db []) = (Inr XNil, s1)
     \<and> rows (db s1) T_vx_sched \<noteq> [] \<and> (\<forall>r \<in> set (rows (db s1) T_vx_sched). bucket_ok r)"
proof -
  define p where "p = XStruct [(''name'', XStr ''guest1''), (''cpuid'', XInt 0), (''fillrate'', XInt 1),
    (''interval'', XInt 4), (''fillrate2'', XInt 0), (''interval2'', XInt 0), (''tokensmin'', XInt 10),
    (''tokensmax'', XInt 100)]"
  let ?s = "ref_state ref_db []"
  let ?s1 = "snd (m_vxdb_vx_sched_set ref_host p True ?s)"
  have "fst (m_vxdb_vx_sched_set ref_host p True ?s) = Inr XNil"
    by (simp add: p_def eval_rules m_vxdb_vx_sched_set_def validate_cpuid_def validate_token_bucket_def
        cong: bindM_weak_cong)
  note run = run_value [OF this]
  have "\<forall>r \<in> set (rows (db ?s1) T_vx_sched). bucket_ok r"
    by (rule vx_sched_set_valid [OF run ref_host_ok ref_st_wf]) (simp add: ref_state_def ref_db_def)
  moreover have "rows (db ?s1) T_vx_sched \<noteq> []"
    by (rule vx_sched_set_effect [OF run ref_host_ok ref_st_wf]) (simp add: row_put_def)
  ultimately show ?thesis using run unfolding p_def by blast
qed

end
