(* ===== verification/Vxdb_Caps.thy ===== *)
theory Vxdb_Caps
  imports Handler
begin

text \<open>
  The methods on capabilities, flags and names of the host under
  \<^verbatim>\<open>src/src/vcd/methods/vxdb/\<close>: \<^verbatim>\<open>vx.bcaps\<close>, \<^verbatim>\<open>vx.ccaps\<close>,
  \<^verbatim>\<open>vx.flags\<close> and \<^verbatim>\<open>vx.uname\<close>.  The first three keep a set of names per guest,
  the last a value per guest and field.
\<close>

section \<open>System capabilities\<close>

definition m_vxdb_vx_bcaps_add :: "'k host \<Rightarrow> xval \<Rightarrow> bool \<Rightarrow> ('k, xval) handler" where
  "m_vxdb_vx_bcaps_add H p c =
     bindM (method_init H p c VCD_CAP_BCAP owner_lock) (\<lambda>params.
     bindM (arg_s H params ''name'') (\<lambda>name.
     bindM (arg_s H params ''bcap'') (\<lambda>bcap.
     bindM (unlessM (validate_bcap H bcap) (invalid ''bcap'' bcap)) (\<lambda>_.
     bindM (need_xid H name) (\<lambda>xid.
     exec_nil H [Insert True T_vx_bcaps [(C_xid, SInt (s32 xid)), (C_bcap, STxt bcap)]])))))"

definition m_vxdb_vx_bcaps_get :: "'k host \<Rightarrow> xval \<Rightarrow> bool \<Rightarrow> ('k, xval) handler" where
  "m_vxdb_vx_bcaps_get H p c =
     bindM (method_init H p c VCD_CAP_BCAP M_OWNER) (\<lambda>params.
     bindM (arg_s H params ''name'') (\<lambda>name.
     bindM (need_xid H name) (\<lambda>xid.
     answer_rows H (Select [C_bcap] T_vx_bcaps [(C_xid, xid_lit xid)] Unordered)
       (\<lambda>row. col_s row 0))))"

definition m_vxdb_vx_bcaps_remove :: "'k host \<Rightarrow> xval \<Rightarrow> bool \<Rightarrow> ('k, xval) handler" where
  "m_vxdb_vx_bcaps_remove H p c =
     bindM (method_init H p c VCD_CAP_BCAP owner_lock) (\<lambda>params.
     bindM (arg_s H params ''name'') (\<lambda>name.
     bindM (arg_s H params ''bcap'') (\<lambda>bcap.
     let bcap' = empty_param H bcap in
     bindM (unlessM (bcap' = None \<or> validate_bcap H bcap) (invalid ''bcap'' bcap)) (\<lambda>_.
     bindM (need_xid H name) (\<lambda>xid.
     exec_nil H [Delete T_vx_bcaps
       (case bcap' of Some t \<Rightarrow> [(C_xid, xid_lit xid), (C_bcap, Lit (STxt t))]
                   | None \<Rightarrow> [(C_xid, xid_lit xid)])])))))"

section \<open>Context capabilities\<close>

definition m_vxdb_vx_ccaps_add :: "'k host \<Rightarrow> xval \<Rightarrow> bool \<Rightarrow> ('k, xval) handler" where
  "m_vxdb_vx_ccaps_add H p c =
     bindM (method_init H p c VCD_CAP_CCAP owner_lock) (\<lambda>params.
     bindM (arg_s H params ''name'') (\<lambda>name.
     bindM (arg_s H params ''ccap'') (\<lambda>ccap.
     bindM (unlessM (validate_ccap H ccap) (invalid ''ccap'' ccap)) (\<lambda>_.
     bindM (need_xid H name) (\<lambda>xid.
     exec_nil H [Insert True T_vx_ccaps [(C_xid, SInt (s32 xid)), (C_ccap, STxt ccap)]])))))"

definition m_vxdb_vx_ccaps_get :: "'k host \<Rightarrow> xval \<Rightarrow> bool \<Rightarrow> ('k, xval) handler" where
  "m_vxdb_vx_ccaps_get H p c =
     bindM (method_init H p c VCD_CAP_CCAP M_OWNER) (\<lambda>params.
     bindM (arg_s H params ''name'') (\<lambda>name.
     bindM (need_xid H name) (\<lambda>xid.
     answer_rows H (Select [C_ccap] T_vx_ccaps [(C_xid, xid_lit xid)] Unordered)
       (\<lambda>row. col_s row 0))))"

definition m_vxdb_vx_ccaps_remove :: "'k host \<Rightarrow> xval \<Rightarrow> bool \<Rightarrow> ('k, xval) handler" where
  "m_vxdb_vx_ccaps_remove H p c =
     bindM (method_init H p c VCD_CAP_CCAP owner_lock) (\<lambda>params.
     bindM (arg_s H params ''name'') (\<lambda>name.
     bindM (arg_s H params ''ccap'') (\<lambda>ccap.
     let ccap' = empty_param H ccap in
     bindM (unlessM (ccap' = None \<or> validate_ccap H ccap) (invalid ''ccap'' ccap)) (\<lambda>_.
     bindM (need_xid H name) (\<lambda>xid.
     exec_nil H [Delete T_vx_ccaps
       (case ccap' of Some t \<Rightarrow> [(C_xid, xid_lit xid), (C_ccap, Lit (STxt t))]
                   | None \<Rightarrow> [(C_xid, xid_lit xid)])])))))"

section \<open>Context flags\<close>

definition m_vxdb_vx_flags_add :: "'k host \<Rightarrow> xval \<Rightarrow> bool \<Rightarrow> ('k, xval) handler" where
  "m_vxdb_vx_flags_add H p c =
     bindM (method_init H p c VCD_CAP_CFLAG owner_lock) (\<lambda>params.
     bindM (arg_s H params ''name'') (\<lambda>name.
     bindM (arg_s H params ''flag'') (\<lambda>flag.
     bindM (unlessM (validate_cflag H flag) (invalid ''flag'' flag)) (\<lambda>_.
     bindM (need_xid H name) (\<lambda>xid.
     exec_nil H [Insert True T_vx_flags [(C_xid, SInt (s32 xid)), (C_flag, STxt flag)]])))))"

definition m_vxdb_vx_flags_get :: "'k host \<Rightarrow> xval \<Rightarrow> bool \<Rightarrow> ('k, xval) handler" where
  "m_vxdb_vx_flags_get H p c =
     bindM (method_init H p c VCD_CAP_CFLAG M_OWNER) (\<lambda>params.
     bindM (arg_s H params ''name'') (\<lambda>name.
     bindM (need_xid H name) (\<lambda>xid.
     answer_rows H (Select [C_flag] T_vx_flags [(C_xid, xid_lit xid)] Unordered)
       (\<lambda>row. col_s row 0))))"

definition m_vxdb_vx_flags_remove :: "'k host \<Rightarrow> xval \<Rightarrow> bool \<Rightarrow> ('k, xval) handler" where
  "m_vxdb_vx_flags_remove H p c =
     bindM (method_init H p c VCD_CAP_CFLAG owner_lock) (\<lambda>params.
     bindM (arg_s H params ''name'') (\<lambda>name.
     bindM (arg_s H params ''flag'') (\<lambda>flag.
     let flag' = empty_param H flag in
     bindM (unlessM (flag' = None \<or> validate_cflag H flag) (invalid ''flag'' flag)) (\<lambda>_.
     bindM (need_xid H name) (\<lambda>xid.
     exec_nil H [Delete T_vx_flags
       (case flag' of Some t \<Rightarrow> [(C_xid, xid_lit xid), (C_flag, Lit (STxt t))]
                   | None \<Rightarrow> [(C_xid, xid_lit xid)])])))))"

section \<open>Host names\<close>

definition m_vxdb_vx_uname_get :: "'k host \<Rightarrow> xval \<Rightarrow> bool \<Rightarrow> ('k, xval) handler" where
  "m_vxdb_vx_uname_get H p c =
     bindM (method_init H p c VCD_CAP_UNAME M_OWNER) (\<lambda>params.
     bindM (arg_s H params ''name'') (\<lambda>name.
     bindM (arg_s H params ''type'') (\<lambda>type.
     let type' = empty_param H type in
     bindM (unlessM (type' = None \<or> validate_uname H type) (invalid ''type'' type)) (\<lambda>_.
     bindM (need_xid H name) (\<lambda>xid.
     answer_rows H
       (Select [C_type, C_value] T_vx_uname
          (case type' of Some ty \<Rightarrow> [(C_xid, xid_lit xid), (C_type, Lit (STxt ty))]
                       | None \<Rightarrow> [(C_xid, xid_lit xid)]) Unordered)
       (\<lambda>row. XStruct [(''type'', col_s row 0), (''value'', col_s row 1)]))))))"

definition m_vxdb_vx_uname_remove :: "'k host \<Rightarrow> xval \<Rightarrow> bool \<Rightarrow> ('k, xval) handler" where
  "m_vxdb_vx_uname_remove H p c =
     bindM (method_init H p c VCD_CAP_UNAME owner_lock) (\<lambda>params.
     bindM (arg_s H params ''name'') (\<lambda>name.
     bindM (arg_s H params ''type'') (\<lambda>type.
     let type' = empty_param H type in
     bindM (unlessM (type' = None \<or> validate_uname H type) (invalid ''type'' type)) (\<lambda>_.
     bindM (need_xid H name) (\<lambda>xid.
     exec_nil H [Delete T_vx_uname
       (case type' of Some ty \<Rightarrow> [(C_xid, xid_lit xid), (C_type, Lit (STxt ty))]
                    | None \<Rightarrow> [(C_xid, xid_lit xid)])])))))"

definition m_vxdb_vx_uname_set :: "'k host \<Rightarrow> xval \<Rightarrow> bool \<Rightarrow> ('k, xval) handler" where
  "m_vxdb_vx_uname_set H p c =
     bindM (method_init H p c VCD_CAP_UNAME owner_lock) (\<lambda>params.
     bindM (arg_s H params ''name'') (\<lambda>name.
     bindM (arg_s H params ''type'') (\<lambda>type.
     bindM (arg_s H params ''value'') (\<lambda>value.
     bindM (unlessM (validate_uname H type) (invalid ''type'' type)) (\<lambda>_.
     bindM (unlessM (validate_uname_value (lib H) value) (invalid ''uname-value'' value)) (\<lambda>_.
     bindM (need_xid H name) (\<lambda>xid.
     exec_nil H [Insert True T_vx_uname
       [(C_xid, SInt (s32 xid)), (C_type, STxt type), (C_value, STxt value)]])))))))"

lemmas vxdb_caps_defs =
  m_vxdb_vx_bcaps_add_def
  m_vxdb_vx_bcaps_get_def
  m_vxdb_vx_bcaps_remove_def
  m_vxdb_vx_ccaps_add_def
  m_vxdb_vx_ccaps_get_def
  m_vxdb_vx_ccaps_remove_def
  m_vxdb_vx_flags_add_def
  m_vxdb_vx_flags_get_def
  m_vxdb_vx_flags_remove_def
  m_vxdb_vx_uname_get_def
  m_vxdb_vx_uname_remove_def
  m_vxdb_vx_uname_set_def

lemma vxdb_caps_keeps [inv_intros]:
  assumes "sqlite_ok (sql H)"
  shows "stays keeps_inv (m_vxdb_vx_bcaps_add H p c)"
    and "stays keeps_inv (m_vxdb_vx_bcaps_get H p c)"
    and "stays keeps_inv (m_vxdb_vx_bcaps_remove H p c)"
    and "stays keeps_inv (m_vxdb_vx_ccaps_add H p c)"
    and "stays keeps_inv (m_vxdb_vx_ccaps_get H p c)"
    and "stays keeps_inv (m_vxdb_vx_ccaps_remove H p c)"
    and "stays keeps_inv (m_vxdb_vx_flags_add H p c)"
    and "stays keeps_inv (m_vxdb_vx_flags_get H p c)"
    and "stays keeps_inv (m_vxdb_vx_flags_remove H p c)"
    and "stays keeps_inv (m_vxdb_vx_uname_get H p c)"
    and "stays keeps_inv (m_vxdb_vx_uname_remove H p c)"
    and "stays keeps_inv (m_vxdb_vx_uname_set H p c)"
  unfolding vxdb_caps_defs
  by (intro ki.stays_rules method_init_keeps exec_nil_keeps reads_intros [THEN same_conn_keeps] assms)+

end
