(* ===== verification/Cap_Laws.thy ===== *)
theory Cap_Laws
  imports Vxdb_Caps
begin

text \<open>
  The capabilities and flags of guests.  The three families of methods
  (\<^verbatim>\<open>vxdb.vx.bcaps\<close>, \<^verbatim>\<open>vxdb.vx.ccaps\<close> and \<^verbatim>\<open>vxdb.vx.flags\<close>) have the same
  contract: seen from outside each is a map from contexts to sets of names, with operations to add
  a name, to remove a name or all of them, and to list.  The locale \<open>flag_family\<close> states what the
  methods are built from and proves the contract once; it is interpreted for the three families.
\<close>

section \<open>The abstract view\<close>

definition flags_of :: "table \<Rightarrow> col \<Rightarrow> vxdb_db \<Rightarrow> xid_t \<Rightarrow> string set" where
  "flags_of t col d xid = {b. \<exists>r \<in> set (rows d t). rget r C_xid = SInt xid \<and> rget r col = STxt b}"

lemma flags_of_put:
  assumes "rows d' t = row_put [C_xid, col] [(C_xid, SInt xid), (col, STxt b)] (rows d t)" and "col \<noteq> C_xid"
  shows "flags_of t col d' = (flags_of t col d)(xid := insert b (flags_of t col d xid))"
proof (rule ext)
  fix x
  show "flags_of t col d' x = ((flags_of t col d)(xid := insert b (flags_of t col d xid))) x"
    using assms(2) by (auto simp: flags_of_def assms(1) row_put_def conflict_def)
qed

lemma flags_of_remove:
  assumes "rows d' t = filter (\<lambda>q. \<not> (rget q C_xid = SInt xid \<and> rget q col = STxt b)) (rows d t)"
  shows "flags_of t col d' = (flags_of t col d)(xid := flags_of t col d xid - {b})"
  by (rule ext) (auto simp: flags_of_def assms)

lemma flags_of_clear:
  assumes "rows d' t = filter (\<lambda>q. rget q C_xid \<noteq> SInt xid) (rows d t)"
  shows "flags_of t col d' = (flags_of t col d)(xid := {})"
  by (rule ext) (auto simp: flags_of_def assms)

section \<open>The contract of a family\<close>

locale flag_family = guest_table t "[C_xid, col]" for t :: table and col :: col +
  fixes key :: string and caps :: "64 word" and valid :: "'k host \<Rightarrow> string \<Rightarrow> bool"
    and add_m get_m remove_m :: "'k host \<Rightarrow> xval \<Rightarrow> bool \<Rightarrow> ('k, xval) handler"
  assumes col: "col \<noteq> C_xid"
    and valid_quote: "lucid_ok (lib H) \<Longrightarrow> valid H b \<Longrightarrow> quote_free b"
    and valid_nonempty: "valid H b \<Longrightarrow> \<not> str_isempty (lib H) (Some b)"
    and add_m: "add_m H p c =
       bindM (method_init H p c caps owner_lock) (\<lambda>params.
       bindM (arg_s H params ''name'') (\<lambda>name.
       bindM (arg_s H params key) (\<lambda>b.
       bindM (unlessM (valid H b) (invalid key b)) (\<lambda>_.
       bindM (need_xid H name) (\<lambda>xid.
       exec_nil H [Insert True t [(C_xid, SInt (s32 xid)), (col, STxt b)]])))))"
    and get_m: "get_m H p c =
       bindM (method_init H p c caps M_OWNER) (\<lambda>params.
       bindM (arg_s H params ''name'') (\<lambda>name.
       bindM (need_xid H name) (\<lambda>xid.
       answer_rows H (Select [col] t [(C_xid, xid_lit xid)] Unordered) (\<lambda>row. col_s row 0))))"
    and remove_m: "remove_m H p c =
       bindM (method_init H p c caps owner_lock) (\<lambda>params.
       bindM (arg_s H params ''name'') (\<lambda>name.
       bindM (arg_s H params key) (\<lambda>b.
       let b' = empty_param H b in
       bindM (unlessM (b' = None \<or> valid H b) (invalid key b)) (\<lambda>_.
       bindM (need_xid H name) (\<lambda>xid.
       exec_nil H [Delete t
         (case b' of Some x \<Rightarrow> [(C_xid, xid_lit xid), (col, Lit (STxt x))]
                   | None \<Rightarrow> [(C_xid, xid_lit xid)])])))))"
begin

lemma add_law:
  assumes "add_m H p c s = (Inr v, s')" and "host_ok H" and "st_wf s"
  shows "\<exists>name xid b. req_s H p c ''name'' = Some name \<and> name_xid (db s) name = Some xid
    \<and> req_s H p c key = Some b \<and> valid H b
    \<and> flags_of t col (db s') = (flags_of t col (db s))(xid := insert b (flags_of t col (db s) xid))
    \<and> touches {T_vcd, t} s s' \<and> st_wf s'"
proof -
  from assms(1) obtain params s1 name b xid s2 where
    i: "method_init H p c caps owner_lock s = (Inr params, s1)" and x: "need_xid H name s1 = (Inr xid, s2)"
    and a: "get_param (xr_string (xr H)) H params ''name'' = Some name"
      "get_param (xr_string (xr H)) H params key = Some b"
    and val: "valid H b"
    and ex: "exec_nil H [Insert True t [(C_xid, SInt (s32 xid)), (col, STxt b)]] s2 = (Inr v, s')"
    unfolding add_m by (elim handlerE) blast
  note n = init_xid [OF i x assms(2,3)]
  have safe: "stmt_safe (Insert True t [(C_xid, SInt (s32 xid)), (col, STxt b)])"
    using valid_quote [OF _ val] assms(2) by (simp add: host_ok_def)
  note e = put_effect [OF i x ex safe assms(2,3), unfolded n(4)]
  from a n val e flags_of_put [OF e(1) col] show ?thesis
    by (intro exI [of _ name] exI [of _ xid] exI [of _ b]) (simp add: req_s_def)
qed

lemma remove_law:
  assumes "remove_m H p c s = (Inr v, s')" and "host_ok H" and "st_wf s"
  shows "\<exists>name xid b. req_s H p c ''name'' = Some name \<and> name_xid (db s) name = Some xid
    \<and> req_s H p c key = Some b
    \<and> flags_of t col (db s') = (flags_of t col (db s))(xid :=
        (if str_isempty (lib H) (Some b) then {} else flags_of t col (db s) xid - {b}))
    \<and> touches {T_vcd, t} s s' \<and> st_wf s'"
proof -
  from assms(1) obtain params s1 name b xid s2 where
    i: "method_init H p c caps owner_lock s = (Inr params, s1)" and x: "need_xid H name s1 = (Inr xid, s2)"
    and a: "get_param (xr_string (xr H)) H params ''name'' = Some name"
      "get_param (xr_string (xr H)) H params key = Some b"
    and val: "empty_param H b = None \<or> valid H b"
    and ex: "exec_nil H [Delete t (case empty_param H b of Some x \<Rightarrow> [(C_xid, xid_lit xid), (col, Lit (STxt x))]
                   | None \<Rightarrow> [(C_xid, xid_lit xid)])] s2 = (Inr v, s')"
    unfolding remove_m Let_def by (elim handlerE) blast
  note n = init_xid [OF i x assms(2,3)]
  show ?thesis
  proof (cases "str_isempty (lib H) (Some b)")
    case True
    then have "empty_param H b = None" by (simp add: empty_param_def method_empty_params_def)
    note e = del_effect [OF i x ex [unfolded this option.case] _ assms(2,3) matches_xid_all [OF n(4)]]
    have safe: "stmt_safe (Delete t [(C_xid, xid_lit xid)])" by (simp add: xid_lit_def)
    from a n True e [OF safe] flags_of_clear [OF e(1) [OF safe]] show ?thesis
      by (intro exI [of _ name] exI [of _ xid] exI [of _ b]) (simp add: req_s_def)
  next
    case False
    then have b: "empty_param H b = Some b" by (simp add: empty_param_def method_empty_params_def)
    have m: "matches d [(C_xid, xid_lit xid), (col, Lit (STxt b))] q
        \<longleftrightarrow> rget q C_xid = SInt xid \<and> rget q col = STxt b" for d q
      by (simp add: xid_lit_def n(4))
    note e = del_effect [OF i x ex [unfolded b option.case] _ assms(2,3) m]
    have safe: "stmt_safe (Delete t [(C_xid, xid_lit xid), (col, Lit (STxt b))])"
      using valid_quote [of H b] val b assms(2) by (simp add: xid_lit_def host_ok_def)
    from a n False e [OF safe] flags_of_remove [OF e(1) [OF safe]] show ?thesis
      by (intro exI [of _ name] exI [of _ xid] exI [of _ b]) (simp add: req_s_def)
  qed
qed

lemma get_law:
  assumes "get_m H p c s = (Inr v, s')" and "host_ok H" and "st_wf s"
    and "\<forall>r \<in> set (rows (db s) t). \<exists>b. rget r col = STxt b \<and> CHR 0x00 \<notin> set b"
  shows "\<exists>name xid bs. req_s H p c ''name'' = Some name \<and> name_xid (db s) name = Some xid
    \<and> v = XArr (map XStr bs) \<and> set bs = flags_of t col (db s) xid"
proof -
  from assms(1) obtain params s1 name xid s2 where
    i: "method_init H p c caps M_OWNER s = (Inr params, s1)" and x: "need_xid H name s1 = (Inr xid, s2)"
    and a: "get_param (xr_string (xr H)) H params ''name'' = Some name"
    and an: "answer_rows H (Select [col] t [(C_xid, xid_lit xid)] Unordered) (\<lambda>row. col_s row 0) s2 = (Inr v, s')"
    unfolding get_m by (elim handlerE) blast
  note n = init_xid [OF i x assms(2,3)]
  have safe: "query_safe (Select [col] t [(C_xid, xid_lit xid)] Unordered)" by (simp add: xid_lit_def)
  define rs where "rs = sq_scan (sql H) (Select [col] t [(C_xid, xid_lit xid)] Unordered)
    (filter (\<lambda>q. rget q C_xid = SInt xid) (rows (db s) t))"
  define txt_of where "txt_of r = (case rget r col of STxt b \<Rightarrow> b | _ \<Rightarrow> [])" for r
  have rs: "set rs = {r \<in> set (rows (db s) t). rget r C_xid = SInt xid}"
    using assms(2) by (auto simp: rs_def host_ok_def sqlite_ok_set)
  have "v = XArr (map (\<lambda>r. col_s (map (rget r) [col]) 0) rs)"
    using rows_result [OF i x an safe assms(2,3) matches_xid_all [OF n(4)]] by (simp add: rs_def)
  moreover have tx: "rget r col = STxt (txt_of r) \<and> c_str (txt_of r) = txt_of r" if "r \<in> set rs" for r
    using that rs assms(4) by (fastforce simp: txt_of_def c_str_id)
  ultimately have "v = XArr (map XStr (map txt_of rs))"
    by (simp add: col_s_def vxdb_column_text_def build_s_def)
  moreover have "set (map txt_of rs) = {b. \<exists>r \<in> set rs. rget r col = STxt b}"
    using tx by auto
  then have "set (map txt_of rs) = flags_of t col (db s) xid"
    unfolding flags_of_def rs by blast
  ultimately show ?thesis using a n
    by (intro exI [of _ name] exI [of _ xid] exI [of _ "map txt_of rs"]) (simp add: req_s_def)
qed

end

section \<open>The three families\<close>

interpretation bcaps: flag_family T_vx_bcaps C_bcap "''bcap''" VCD_CAP_BCAP validate_bcap
  m_vxdb_vx_bcaps_add m_vxdb_vx_bcaps_get m_vxdb_vx_bcaps_remove
  by unfold_locales
    (simp_all add: m_vxdb_vx_bcaps_add_def m_vxdb_vx_bcaps_get_def m_vxdb_vx_bcaps_remove_def
      validate_list_quote_free validate_bcap_def)

interpretation ccaps: flag_family T_vx_ccaps C_ccap "''ccap''" VCD_CAP_CCAP validate_ccap
  m_vxdb_vx_ccaps_add m_vxdb_vx_ccaps_get m_vxdb_vx_ccaps_remove
  by unfold_locales
    (simp_all add: m_vxdb_vx_ccaps_add_def m_vxdb_vx_ccaps_get_def m_vxdb_vx_ccaps_remove_def
      validate_list_quote_free validate_ccap_def)

interpretation flags: flag_family T_vx_flags C_flag "''flag''" VCD_CAP_CFLAG validate_cflag
  m_vxdb_vx_flags_add m_vxdb_vx_flags_get m_vxdb_vx_flags_remove
  by unfold_locales
    (simp_all add: m_vxdb_vx_flags_add_def m_vxdb_vx_flags_get_def m_vxdb_vx_flags_remove_def
      validate_list_quote_free validate_cflag_def)

text \<open>
  C36.  Adding a capability or flag to a guest: seen as a map from contexts to sets of names, the
  table has the name added to the set of this guest and is unchanged for all others; names that are
  not in the kernel's list are refused.  The same holds for the three families.
\<close>

theorem flags_add_refines:
  assumes "(add_m, valid, t, col, key) \<in> {(m_vxdb_vx_bcaps_add, validate_bcap, T_vx_bcaps, C_bcap, ''bcap''),
      (m_vxdb_vx_ccaps_add, validate_ccap, T_vx_ccaps, C_ccap, ''ccap''),
      (m_vxdb_vx_flags_add, validate_cflag, T_vx_flags, C_flag, ''flag'')}"
    and "add_m H p c s = (Inr v, s')" and "host_ok H" and "st_wf s"
  shows "\<exists>name xid b. req_s H p c ''name'' = Some name \<and> name_xid (db s) name = Some xid
    \<and> req_s H p c key = Some b \<and> valid H b
    \<and> flags_of t col (db s') = (flags_of t col (db s))(xid := insert b (flags_of t col (db s) xid))
    \<and> touches {T_vcd, t} s s' \<and> st_wf s'"
proof -
  from assms(1) consider
    (bcaps) "add_m = m_vxdb_vx_bcaps_add" "valid = validate_bcap" "t = T_vx_bcaps" "col = C_bcap" "key = ''bcap''"
    | (ccaps) "add_m = m_vxdb_vx_ccaps_add" "valid = validate_ccap" "t = T_vx_ccaps" "col = C_ccap" "key = ''ccap''"
    | (flags) "add_m = m_vxdb_vx_flags_add" "valid = validate_cflag" "t = T_vx_flags" "col = C_flag" "key = ''flag''"
    by auto
  then show ?thesis
  proof cases
    case bcaps
    from assms(2-) show ?thesis unfolding bcaps by (rule bcaps.add_law)
  next
    case ccaps
    from assms(2-) show ?thesis unfolding ccaps by (rule ccaps.add_law)
  next
    case flags
    from assms(2-) show ?thesis unfolding flags by (rule flags.add_law)
  qed
qed

text \<open>
  C37.  Removing a capability or flag: the name is gone from the set of this guest, or the set is
  empty when the request names none, and nothing changes for other guests or in other tables.
\<close>

theorem flags_remove_refines:
  assumes "(remove_m, t, col, key) \<in> {(m_vxdb_vx_bcaps_remove, T_vx_bcaps, C_bcap, ''bcap''),
      (m_vxdb_vx_ccaps_remove, T_vx_ccaps, C_ccap, ''ccap''),
      (m_vxdb_vx_flags_remove, T_vx_flags, C_flag, ''flag'')}"
    and "remove_m H p c s = (Inr v, s')" and "host_ok H" and "st_wf s"
  shows "\<exists>name xid b. req_s H p c ''name'' = Some name \<and> name_xid (db s) name = Some xid
    \<and> req_s H p c key = Some b
    \<and> flags_of t col (db s') = (flags_of t col (db s))(xid :=
        (if str_isempty (lib H) (Some b) then {} else flags_of t col (db s) xid - {b}))
    \<and> touches {T_vcd, t} s s' \<and> st_wf s'"
proof -
  from assms(1) consider
    (bcaps) "remove_m = m_vxdb_vx_bcaps_remove" "t = T_vx_bcaps" "col = C_bcap" "key = ''bcap''"
    | (ccaps) "remove_m = m_vxdb_vx_ccaps_remove" "t = T_vx_ccaps" "col = C_ccap" "key = ''ccap''"
    | (flags) "remove_m = m_vxdb_vx_flags_remove" "t = T_vx_flags" "col = C_flag" "key = ''flag''"
    by auto
  then show ?thesis
  proof cases
    case bcaps
    from assms(2-) show ?thesis unfolding bcaps by (rule bcaps.remove_law)
  next
    case ccaps
    from assms(2-) show ?thesis unfolding ccaps by (rule ccaps.remove_law)
  next
    case flags
    from assms(2-) show ?thesis unfolding flags by (rule flags.remove_law)
  qed
qed

text \<open>
  C38.  Listing answers exactly the names in the set of the guest.
\<close>

theorem flags_get_refines:
  assumes "(get_m, t, col) \<in> {(m_vxdb_vx_bcaps_get, T_vx_bcaps, C_bcap), (m_vxdb_vx_ccaps_get, T_vx_ccaps, C_ccap),
      (m_vxdb_vx_flags_get, T_vx_flags, C_flag)}"
    and "get_m H p c s = (Inr v, s')" and "host_ok H" and "st_wf s"
    and "\<forall>r \<in> set (rows (db s) t). \<exists>b. rget r col = STxt b \<and> CHR 0x00 \<notin> set b"
  shows "\<exists>name xid bs. req_s H p c ''name'' = Some name \<and> name_xid (db s) name = Some xid
    \<and> v = XArr (map XStr bs) \<and> set bs = flags_of t col (db s) xid"
proof -
  from assms(1) consider
    (bcaps) "get_m = m_vxdb_vx_bcaps_get" "t = T_vx_bcaps" "col = C_bcap"
    | (ccaps) "get_m = m_vxdb_vx_ccaps_get" "t = T_vx_ccaps" "col = C_ccap"
    | (flags) "get_m = m_vxdb_vx_flags_get" "t = T_vx_flags" "col = C_flag"
    by auto
  then show ?thesis
  proof cases
    case bcaps
    from assms(2-) show ?thesis unfolding bcaps by (rule bcaps.get_law)
  next
    case ccaps
    from assms(2-) show ?thesis unfolding ccaps by (rule ccaps.get_law)
  next
    case flags
    from assms(2-) show ?thesis unfolding flags by (rule flags.get_law)
  qed
qed

section \<open>Witnesses\<close>

definition flag_request :: "string \<Rightarrow> xval" where
  "flag_request b = XStruct [(''name'', XStr ''guest1''), (''bcap'', XStr b)]"

lemma ref_bcaps_add:
  "m_vxdb_vx_bcaps_add ref_host (flag_request ''CHOWN'') True (ref_state ref_db [])
     = (Inr XNil, snd (m_vxdb_vx_bcaps_add ref_host (flag_request ''CHOWN'') True (ref_state ref_db [])))"
  by (rule run_value)
    (simp add: flag_request_def eval_rules m_vxdb_vx_bcaps_add_def validate_bcap_def bcaps_list_def
      flist64_node1_def cong: bindM_weak_cong)

abbreviation ref_chown :: "xid_t list st" where
  "ref_chown \<equiv> snd (m_vxdb_vx_bcaps_add ref_host (flag_request ''CHOWN'') True (ref_state ref_db []))"

lemma ref_chown_wf: "st_wf ref_chown"
  using bcaps.add_law [OF ref_bcaps_add ref_host_ok ref_st_wf] by blast

theorem flags_add_refines_witness: "\<exists>xid. ''CHOWN'' \<in> flags_of T_vx_bcaps C_bcap (db ref_chown) xid"
proof -
  have "req_s ref_host (flag_request ''CHOWN'') True ''bcap'' = Some ''CHOWN''"
    by (simp add: flag_request_def req_s_def req_params_def get_param_def ref_sel)
  with flags_add_refines [where add_m = m_vxdb_vx_bcaps_add and valid = validate_bcap and t = T_vx_bcaps
      and col = C_bcap and key = "''bcap''", OF _ ref_bcaps_add ref_host_ok ref_st_wf]
  show ?thesis by auto
qed

theorem flags_remove_refines_witness:
  "\<exists>s'. m_vxdb_vx_bcaps_remove ref_host (flag_request []) True ref_chown = (Inr XNil, s')
     \<and> (\<exists>xid. flags_of T_vx_bcaps C_bcap (db s') xid = {})"
proof -
  have "fst (m_vxdb_vx_bcaps_remove ref_host (flag_request []) True ref_chown) = Inr XNil"
    by (simp add: flag_request_def eval_rules m_vxdb_vx_bcaps_add_def m_vxdb_vx_bcaps_remove_def
        validate_bcap_def bcaps_list_def flist64_node1_def cong: bindM_weak_cong)
  note run = run_value [OF this]
  have "req_s ref_host (flag_request []) True ''bcap'' = Some []"
    by (simp add: flag_request_def req_s_def req_params_def get_param_def ref_sel)
  with flags_remove_refines [where remove_m = m_vxdb_vx_bcaps_remove and t = T_vx_bcaps and col = C_bcap
      and key = "''bcap''", OF _ run ref_host_ok ref_chown_wf]
  obtain xid where "flags_of T_vx_bcaps C_bcap
      (db (snd (m_vxdb_vx_bcaps_remove ref_host (flag_request []) True ref_chown)))
    = (flags_of T_vx_bcaps C_bcap (db ref_chown))(xid := {})"
    by (auto simp: ref_sel)
  then have "\<exists>xid. flags_of T_vx_bcaps C_bcap
      (db (snd (m_vxdb_vx_bcaps_remove ref_host (flag_request []) True ref_chown))) xid = {}"
    by (intro exI [of _ xid]) simp
  with run show ?thesis by blast
qed

theorem flags_get_refines_witness:
  "\<exists>s' bs xid. m_vxdb_vx_bcaps_get ref_host (flag_request []) True ref_chown = (Inr (XArr (map XStr bs)), s')
     \<and> set bs = flags_of T_vx_bcaps C_bcap (db ref_chown) xid"
proof -
  note eval = flag_request_def eval_rules m_vxdb_vx_bcaps_add_def m_vxdb_vx_bcaps_get_def
        validate_bcap_def bcaps_list_def flist64_node1_def
  have "\<not> isl (fst (m_vxdb_vx_bcaps_get ref_host (flag_request []) True ref_chown))"
    by (simp add: eval cong: bindM_weak_cong)
  then obtain v where run: "m_vxdb_vx_bcaps_get ref_host (flag_request []) True ref_chown
    = (Inr v, snd (m_vxdb_vx_bcaps_get ref_host (flag_request []) True ref_chown))"
    by (rule run_ok)
  have "\<forall>r \<in> set (rows (db ref_chown) T_vx_bcaps). \<exists>b. rget r C_bcap = STxt b \<and> CHR 0x00 \<notin> set b"
    by (simp add: eval cong: bindM_weak_cong)
  with run flags_get_refines [where get_m = m_vxdb_vx_bcaps_get and t = T_vx_bcaps and col = C_bcap,
      OF _ run ref_host_ok ref_chown_wf] show ?thesis by auto
qed

end
