(* ===== verification/Access.thy ===== *)
theory Access
  imports Handler
begin

text \<open>
  What the check at the start of every method guarantees: who gets past it, and what a request
  that does not get past it leaves behind.
\<close>

section \<open>Requests that are let through\<close>

text \<open>
  What a user needs for a request beside the password: the listed capabilities and, where the method
  is for owners of the guest, a valid name and the administrator bit or an owner row.
\<close>

definition has_rights :: "'k host \<Rightarrow> xval \<Rightarrow> string \<Rightarrow> 64 word \<Rightarrow> nat \<Rightarrow> 'k st \<Rightarrow> bool" where
  "has_rights H params user caps flags s \<longleftrightarrow>
     holds_caps (db s) user caps
     \<and> (and flags M_OWNER \<noteq> 0 \<longrightarrow> (\<exists>name. arg_s H params ''name'' s = (Inr name, s)
          \<and> validate_name (lib H) name
          \<and> (is_admin (db s) user \<or> has_owner_row (db s) user name)))"

text \<open>
  What lets a request through: the user row with this name and password digest, and the rights of
  the user.
\<close>

definition permitted :: "'k host \<Rightarrow> xval \<Rightarrow> 64 word \<Rightarrow> nat \<Rightarrow> 'k st \<Rightarrow> bool" where
  "permitted H p caps flags s \<longleftrightarrow> (\<exists>cred params user pass.
     xr_pair (xr H) p = Some (cred, params)
     \<and> arg_s H cred ''username'' s = (Inr user, s) \<and> arg_s H cred ''password'' s = (Inr pass, s)
     \<and> authenticated (lib H) (db s) user pass
     \<and> has_rights H params user caps flags s)"

text \<open>
  A password that skips the digest is put into the query as it is: with a quote in it the query is
  not the one that looks for the password.
\<close>

definition altered_query :: "string \<Rightarrow> bool" where
  "altered_query pass \<longleftrightarrow> take 14 pass = enc_prefix \<and> \<not> quote_free pass"

definition plain_password :: "'k host \<Rightarrow> xval \<Rightarrow> 'k st \<Rightarrow> bool" where
  "plain_password H p s \<longleftrightarrow> (\<forall>cred params pass.
     xr_pair (xr H) p = Some (cred, params) \<longrightarrow> arg_s H cred ''password'' s = (Inr pass, s)
     \<longrightarrow> \<not> altered_query pass)"

lemma arg_s_any: "arg_s H x key s = (Inr y, s) \<Longrightarrow> arg_s H x key s' = (Inr y, s')"
  by (auto simp: arg_s_def decompose_def prog_simps split: option.splits)

lemma method_init_granted:
  assumes "method_init H p False caps flags s = (Inr params, s')"
    and "lucid_ok (lib H)" and "sqlite_ok (sql H)" and "uids_ok (db s)" and "xids_ok (db s)"
  obtains cred user pass where "xr_pair (xr H) p = Some (cred, params)"
    and "arg_s H cred ''username'' s = (Inr user, s)" and "arg_s H cred ''password'' s = (Inr pass, s)"
    and "authenticated (lib H) (db s) user pass \<or> altered_query pass"
    and "has_rights H params user caps flags s"
  using assms(1)
proof (rule method_init_request)
  fix cred user pass s1 s2 s3
  assume z: "arg_pair H p s1 = (Inr (cred, params), s1)"
    and u: "arg_s H cred ''username'' s1 = (Inr user, s1)"
    and pw: "arg_s H cred ''password'' s1 = (Inr pass, s1)"
    and t: "touches {T_vcd} s s1" and c2: "conn s2 = conn s1" and c3: "conn s3 = conn s1"
    and v: "auth_isvalid H user pass s1 = (Inr True, s2)"
    and cp: "auth_capable H user caps s2 = (Inr True, s3)"
    and fl: "flags \<noteq> 0 \<Longrightarrow> method_check_flags H params False (Some user) flags s3 = (Inr (), s')"
  note eqs = auth_tables_cong [OF t]
  have pair: "xr_pair (xr H) p = Some (cred, params)"
    using z by (auto simp: arg_pair_def prog_simps split: option.splits)
  have auth: "authenticated (lib H) (db s) user pass \<or> altered_query pass"
    using auth_isvalid_sound [OF v assms(2,3)] eqs(1) by (auto simp: authenticated_def altered_query_def)
  have "holds_caps (db s1) user caps"
    using auth_capable_sound [OF cp assms(2,3)] assms(4) eqs(5) c2
    by (auto simp: holds_caps_def)
  then have caps: "holds_caps (db s) user caps" by (simp add: eqs(3))
  have own: "\<exists>name. arg_s H params ''name'' s = (Inr name, s) \<and> validate_name (lib H) name
       \<and> (is_admin (db s) user \<or> has_owner_row (db s) user name)" if ow: "and flags M_OWNER \<noteq> 0"
  proof -
    from ow have "flags \<noteq> 0" by (intro notI) simp
    from method_check_flags_owner [OF fl [OF this] ow] obtain name s4 where
      nm: "arg_s H params ''name'' s3 = (Inr name, s3)" and vn: "validate_name (lib H) name"
      and ownr: "auth_isowner H user name s3 = (Inr True, s4)"
      by blast
    have "is_admin (db s3) user \<or> has_owner_row (db s3) user name"
      using auth_isowner_sound [OF ownr assms(2,3)] assms(4,5) eqs(5,6) c3 by (simp add: is_admin_def)
    with arg_s_any [OF nm] vn eqs(2,4) c3 show ?thesis by auto
  qed
  from that [OF pair arg_s_any [OF u] arg_s_any [OF pw] auth] caps own show thesis
    unfolding has_rights_def by blast
qed

lemma method_init_access:
  assumes "method_init H p False caps flags s = (Inr params, s')"
    and "lucid_ok (lib H)" and "sqlite_ok (sql H)" and "uids_ok (db s)" and "xids_ok (db s)"
    and "plain_password H p s"
  shows "permitted H p caps flags s"
  using assms(1-5)
proof (rule method_init_granted)
  fix cred user pass
  assume "xr_pair (xr H) p = Some (cred, params)" and "arg_s H cred ''password'' s = (Inr pass, s)"
    and "arg_s H cred ''username'' s = (Inr user, s)" and "authenticated (lib H) (db s) user pass \<or> altered_query pass"
    and "has_rights H params user caps flags s"
  with assms(6) show ?thesis unfolding permitted_def plain_password_def by blast
qed

section \<open>Requests that are refused\<close>

lemma auth_isvalid_Inr: "\<exists>b s'. auth_isvalid H user pass s = (Inr b, s')"
proof (cases "\<not> validate_username (lib H) user \<or> str_isempty (lib H) (Some pass)")
  case True
  then show ?thesis by (auto simp: auth_isvalid_def prog_simps)
next
  case False
  then show ?thesis
    using vxdb_query_Inr [of H "Select [C_uid] T_user [(C_name, Lit (STxt user)),
        (C_password, Lit (STxt (whirlpool_pass (lib H) pass)))] Unordered" s]
    by (auto simp: auth_isvalid_def bindM_def prog_simps)
qed

lemma vcd_count_run: "\<exists>b s'. vcd_count H cs s = (Inr b, s') \<and> lockfd s' = lockfd s"
  unfolding vcd_count_def vxdb_exec_def by (auto split: prod.splits)

lemma method_init_refuses:
  assumes "xr_pair (xr H) p = Some (cred, params)"
    and "arg_s H cred ''username'' s = (Inr user, s)" and "arg_s H cred ''password'' s = (Inr pass, s)"
    and "\<not> authenticated (lib H) (db s) user pass"
    and "host_ok H" and "\<not> altered_query pass"
  shows "\<exists>s'. method_init H p False caps flags s = (Inl (Fault MEAUTH), s')
    \<and> touches {T_vcd} s s' \<and> lockfd s' = lockfd s"
proof -
  obtain b s1 where c1: "vcd_count H [C_requests] s = (Inr b, s1)" and l1: "lockfd s1 = lockfd s"
    using vcd_count_run by blast
  have t1: "touches {T_vcd} s s1" by (rule staysD [OF vcd_count_touches c1])
  obtain v s2 where v: "auth_isvalid H user pass s1 = (Inr v, s2)" using auth_isvalid_Inr by blast
  have "\<not> v"
  proof
    assume "v"
    with v have "auth_isvalid H user pass s1 = (Inr True, s2)" by simp
    from auth_isvalid_sound [OF this] assms(4-6) auth_tables_cong(1) [OF t1]
    show False by (auto simp: host_ok_def authenticated_def altered_query_def)
  qed
  note r2 = reads_conn [OF auth_isvalid_reads v]
  obtain b3 s3 where c3: "vcd_count H [C_flogins] s2 = (Inr b3, s3)" and l3: "lockfd s3 = lockfd s2"
    using vcd_count_run by blast
  have "touches {T_vcd} s2 s3" by (rule staysD [OF vcd_count_touches c3])
  with t1 r2 have "touches {T_vcd} s s3" by (auto simp: touches_def)
  moreover have "method_init H p False caps flags s = (Inl (Fault MEAUTH), s3)"
    using assms(1) arg_s_any [OF assms(2), of s1] arg_s_any [OF assms(3), of s1] v \<open>\<not> v\<close> c1 c3
    by (simp add: method_init_def bindM_Inr arg_pair_def prog_simps cong: bindM_weak_cong)
  ultimately show ?thesis using l1 l3 r2 by auto
qed

text \<open>
  C40.  The capability that protects the methods of the kernel's helper is not in the list the
  check walks over, so it is never asked for: the check with it is the check with no capability.
\<close>

theorem helper_capability_never_checked:
  "method_init H p c VCD_CAP_HELPER flags = method_init H p c 0 flags"
proof -
  have "auth_capable_loop H user VCD_CAP_HELPER l = auth_capable_loop H user 0 l"
    if "set l \<subseteq> set vcd_caps_list" for user l
    using that by (induction l) (auto simp: helper_not_in_caps)
  then have "auth_capable H user VCD_CAP_HELPER = auth_capable H user 0" for user
    by (simp add: auth_capable_def)
  then show ?thesis unfolding method_init_def by (simp only:)
qed

end
