(* ===== verification/Transactions.thy ===== *)
theory Transactions
  imports Handler
begin

text \<open>
  Groups of statements between \<^verbatim>\<open>BEGIN\<close> and \<^verbatim>\<open>COMMIT\<close>, as \<^verbatim>\<open>vx.remove\<close>,
  \<^verbatim>\<open>vcd.user.remove\<close>, \<^verbatim>\<open>vg.remove\<close> and \<^verbatim>\<open>vx.create\<close> send them, and what a
  unique index says about the rows that are found through it.
\<close>

section \<open>Runs of statements\<close>

lemma run_stmts_append:
  assumes "run_stmts Q (sts @ sts') c k = ((True, c'), k')"
  obtains c1 k1 where "run_stmts Q sts c k = ((True, c1), k1)" and "run_stmts Q sts' c1 k1 = ((True, c'), k')"
  using assms
proof (induction sts arbitrary: c k thesis)
  case Nil
  then show ?case by simp
next
  case (Cons st sts)
  from Cons.prems(2) obtain p k1 c1 where p: "sq_perform Q st k = (p, k1)" "p" "exec_stmt st c = Some c1"
    and r: "run_stmts Q (sts @ sts') c1 k1 = ((True, c'), k')"
    by (auto split: prod.splits if_splits option.splits)
  from Cons.IH [OF _ r] obtain c2 k2 where "run_stmts Q sts c1 k1 = ((True, c2), k2)"
    "run_stmts Q sts' c2 k2 = ((True, c'), k')" by blast
  with p show ?case by (intro Cons.prems(1)) auto
qed

lemma exec_nil_run:
  assumes "exec_nil H sts s = (Inr v, s')" and "list_all stmt_safe sts"
  shows "run_stmts (sql H) sts (conn s) (os s) = ((True, conn s'), os s')" and "v = XNil"
    and "lockfd s' = lockfd s"
  using assms by (auto simp: exec_nil_def vxdb_exec_def prog_simps elim!: bindM_InrE
      split: if_splits prod.splits)

lemma run_transaction:
  assumes "run_stmts Q (Begin # sts @ [Commit]) c k = ((True, c'), k')"
  obtains c1 k1 k2 where "run_stmts Q sts (c\<lparr>saved := Some (cur c)\<rparr>) k1 = ((True, c1), k2)"
    and "cur c' = cur c1" and "saved c = None" and "saved c' = None"
proof -
  from assms obtain cb kb where b: "exec_stmt Begin c = Some cb"
    and r: "run_stmts Q (sts @ [Commit]) cb kb = ((True, c'), k')"
    by (rule run_stmts_True_Cons)
  from r obtain c1 k1 where r1: "run_stmts Q sts cb kb = ((True, c1), k1)"
    and r2: "run_stmts Q [Commit] c1 k1 = ((True, c'), k')"
    by (rule run_stmts_append)
  from r2 have "exec_stmt Commit c1 = Some c'" by (rule run_stmts_True)
  with b r1 that [of kb c1 k1] show ?thesis by (auto split: option.splits)
qed

lemma run_deletes:
  assumes "run_stmts Q (map (\<lambda>t. Delete t w) ts) c k = ((True, c'), k')" and "\<And>d q. matches d w q = P q"
  shows "schema (cur c') = schema (cur c) \<and> indexes (cur c') = indexes (cur c)
    \<and> (\<forall>t. rows (cur c') t = (if t \<in> set ts then filter (\<lambda>q. \<not> P q) (rows (cur c) t) else rows (cur c) t))"
  using assms(1)
proof (induction ts arbitrary: c k)
  case Nil
  then show ?case by simp
next
  case (Cons u ts)
  then obtain c1 k1 where e: "exec_stmt (Delete u w) c = Some c1"
    and r: "run_stmts Q (map (\<lambda>t. Delete t w) ts) c1 k1 = ((True, c'), k')"
    by (auto elim: run_stmts_True_Cons simp del: exec_stmt.simps run_stmts.simps)
  from Cons.IH [OF r] exec_delete [OF e] assms(2) show ?case by auto
qed

text \<open>A transaction that deletes the rows with one condition from several tables.\<close>

lemma exec_nil_deletes:
  assumes "exec_nil H (Begin # map (\<lambda>t. Delete t w) ts @ [Commit]) s = (Inr v, s')"
    and "\<And>d q. matches d w q = P q" and "list_all (\<lambda>(c, e). sexpr_safe e) w"
  shows "rows (db s') t = (if t \<in> set ts then filter (\<lambda>q. \<not> P q) (rows (db s) t) else rows (db s) t)"
    and "touches (set ts) s s'" and "saved (conn s') = None" and "v = XNil" and "lockfd s' = lockfd s"
proof -
  have safe: "list_all stmt_safe (Begin # map (\<lambda>t. Delete t w) ts @ [Commit])"
    using assms(3) by (simp add: list_all_iff)
  note run = exec_nil_run [OF assms(1) safe]
  from run(1) obtain c1 k1 k2 where
    r: "run_stmts (sql H) (map (\<lambda>t. Delete t w) ts) (conn s\<lparr>saved := Some (db s)\<rparr>) k1 = ((True, c1), k2)"
    and c: "db s' = cur c1" and sv: "saved (conn s') = None"
    by (rule run_transaction)
  note d = run_deletes [OF r assms(2)]
  show "rows (db s') t = (if t \<in> set ts then filter (\<lambda>q. \<not> P q) (rows (db s) t) else rows (db s) t)"
    using d c by simp
  show "touches (set ts) s s'" using d c by (simp add: touches_def)
  show "saved (conn s') = None" "v = XNil" "lockfd s' = lockfd s" using run sv by simp_all
qed

section \<open>Rows found through a unique index\<close>

lemma uniq_same_row:
  assumes "uniq_rows [c] rs" and "q \<in> set rs" and "r \<in> set rs" and "rget q c = rget r c" and "rget q c \<noteq> SNull"
  shows "q = r"
proof -
  have k: "row_key [c] q = [rget q c]" "row_key [c] r = [rget q c]" "key_valid [rget q c]"
    using assms(4,5) by (simp_all add: row_key_def key_valid_def)
  with row_lookup_mem [OF assms(1,2) k(1,3)] row_lookup_mem [OF assms(1,3) k(2,3)] show ?thesis by simp
qed

lemma user_uniq:
  assumes "st_wf s"
  shows "uniq_rows [C_uid] (rows (db s) T_user)" and "uniq_rows [C_name] (rows (db s) T_user)"
    and "uniq_rows [C_xid] (rows (db s) T_xid_name_map)" and "uniq_rows [C_name] (rows (db s) T_xid_name_map)"
  using assms by (auto intro!: db_wf_uniq st_wf_db simp: st_wf_def schema_wf_index)

text \<open>The user of a name and of an id.\<close>

lemma user_row_name:
  "st_wf s \<Longrightarrow> q \<in> set (rows (db s) T_user) \<Longrightarrow> r \<in> set (rows (db s) T_user)
     \<Longrightarrow> rget q C_name = STxt u \<Longrightarrow> rget r C_name = STxt u \<Longrightarrow> q = r"
  using uniq_same_row [OF user_uniq(2)] by force

lemma user_row_uid:
  "st_wf s \<Longrightarrow> q \<in> set (rows (db s) T_user) \<Longrightarrow> r \<in> set (rows (db s) T_user)
     \<Longrightarrow> rget q C_uid = SInt u \<Longrightarrow> rget r C_uid = SInt u \<Longrightarrow> q = r"
  using uniq_same_row [OF user_uniq(1)] by force

lemma guest_row_name:
  "st_wf s \<Longrightarrow> q \<in> set (rows (db s) T_xid_name_map) \<Longrightarrow> r \<in> set (rows (db s) T_xid_name_map)
     \<Longrightarrow> rget q C_name = STxt n \<Longrightarrow> rget r C_name = STxt n \<Longrightarrow> q = r"
  using uniq_same_row [OF user_uniq(4)] by force

lemma guest_row_xid:
  "st_wf s \<Longrightarrow> q \<in> set (rows (db s) T_xid_name_map) \<Longrightarrow> r \<in> set (rows (db s) T_xid_name_map)
     \<Longrightarrow> rget q C_xid = SInt x \<Longrightarrow> rget r C_xid = SInt x \<Longrightarrow> q = r"
  using uniq_same_row [OF user_uniq(3)] by force

lemma name_xid_row:
  assumes "st_wf s"
  shows "name_xid (db s) name = Some x \<longleftrightarrow>
    (\<exists>r \<in> set (rows (db s) T_xid_name_map). rget r C_name = STxt name \<and> rget r C_xid = SInt x)"
proof
  assume "name_xid (db s) name = Some x"
  then show "\<exists>r \<in> set (rows (db s) T_xid_name_map). rget r C_name = STxt name \<and> rget r C_xid = SInt x"
    by (auto simp: name_xid_def row_key_def split: option.splits sval.splits dest!: row_lookup_Some)
next
  assume "\<exists>r \<in> set (rows (db s) T_xid_name_map). rget r C_name = STxt name \<and> rget r C_xid = SInt x"
  then show "name_xid (db s) name = Some x"
    using row_lookup_mem [OF user_uniq(4) [OF assms]]
    by (auto simp: name_xid_def row_key_def key_valid_def)
qed

section \<open>One statement on a well-formed state\<close>

lemma exec_one_wf:
  assumes "exec_nil H [st] s = (Inr v, s')" and "stmt_safe st" and "stmt_within {t} st" and "st_wf s"
    and "t \<noteq> T_xid_name_map" and "t \<noteq> T_user"
  shows "touches {t} s s'" and "st_wf s'" and "v = XNil"
proof -
  note e = exec_nil_Inr [OF assms(1,2)]
  show t: "touches {t} s s'" using exec_stmt_within [OF e(1) assms(3)] by (auto simp: touches_def)
  have "conn_inv (conn s')" using exec_stmt_inv [OF e(1)] assms(4) by (simp add: st_wf_def)
  with assms(4) t show "st_wf s'" by (rule st_wf_touches) (use assms(5,6) in auto)
  show "v = XNil" by (rule e(2))
qed

lemma exec_put_wf:
  assumes "exec_nil H [Insert True t r] s = (Inr v, s')" and "stmt_safe (Insert True t r)" and "st_wf s"
    and "table_indexes (db s) t = [ix]" and "t \<noteq> T_xid_name_map" and "t \<noteq> T_user"
  shows "rows (db s') t = row_put ix r (rows (db s) t)" and "touches {t} s s'" and "st_wf s'"
  using exec_put [OF assms(1,2,4)] exec_one_wf [OF assms(1,2) _ assms(3,5,6)] by simp_all

lemma exec_del_wf:
  assumes "exec_nil H [Delete t w] s = (Inr v, s')" and "stmt_safe (Delete t w)" and "st_wf s"
    and "\<And>q. matches (db s) w q = P q" and "t \<noteq> T_xid_name_map" and "t \<noteq> T_user"
  shows "rows (db s') t = filter (\<lambda>q. \<not> P q) (rows (db s) t)" and "touches {t} s s'" and "st_wf s'"
  using exec_delete [OF exec_nil_Inr(1) [OF assms(1,2)]] exec_one_wf [OF assms(1,2) _ assms(3,5,6)] assms(4)
  by simp_all

lemma touches_trans: "touches T s t \<Longrightarrow> touches U t u \<Longrightarrow> touches (T \<union> U) s u"
  by (auto simp: touches_def)

text \<open>A read after the check of a request.\<close>

lemma reads_wf:
  assumes "stays same_conn m" and "m s1 = (r, s2)" and "touches {T_vcd} s s1" and "st_wf s1"
  shows "touches {T_vcd} s s2" and "st_wf s2"
  using reads_conn [OF assms(1,2)] assms(3,4) st_wf_cong [of s2 s1] by (simp_all add: touches_def)

lemma need_xid_name:
  assumes "need_xid H name s1 = (Inr xid, s2)" and "host_ok H" and "touches {T_vcd} s s1" and "st_wf s1"
  shows "name_xid (db s) name = Some xid" and "s32 xid = xid" and "validate_name (lib H) name" and "0 < xid"
  using need_xid_Inr [OF assms(1,2) st_wf_db [OF assms(4)]] name_xid_cong [OF touches_rows [OF assms(3)]]
  by simp_all

lemma empty_param_iff: "empty_param H text = (if str_isempty (lib H) (Some text) then None else Some text)"
  by (simp add: empty_param_def method_empty_params_def)

section \<open>Plain inserts and updates\<close>

lemma exec_insert:
  assumes "exec_stmt (Insert False t r) c = Some c'"
  shows "\<not> list_ex (clashes (cur c) t r) (rows (cur c) t)" and "cur c' = set_rows t (rows (cur c) t @ [r]) (cur c)"
proof -
  show no: "\<not> list_ex (clashes (cur c) t r) (rows (cur c) t)"
    using assms by (auto simp: Let_def split: if_splits)
  then have "filter (\<lambda>q. \<not> clashes (cur c) t r q) (rows (cur c) t) = rows (cur c) t"
    by (intro filter_True) (auto simp: list_ex_iff)
  with assms show "cur c' = set_rows t (rows (cur c) t @ [r]) (cur c)" by (auto simp: Let_def split: if_splits)
qed

lemma exec_update:
  assumes "exec_stmt (Update t sets w) c = Some c'"
  shows "cur c' = set_rows t (map (\<lambda>r. if matches (cur c) w r then update_row (cur c) sets r else r) (rows (cur c) t)) (cur c)"
  using assms by (auto simp: Let_def split: if_splits)

lemma update_row_Lit: "update_row d [(c, Lit v)] r = AList.update c v r"
  by (simp add: update_row_def)

section \<open>Successful runs through branches\<close>

lemma case_sum_InrE:
  assumes "(case r of Inl a \<Rightarrow> f a | Inr b \<Rightarrow> g b) s = (Inr v, s')"
  obtains a where "r = Inl a" and "f a s = (Inr v, s')" | b where "r = Inr b" and "g b s = (Inr v, s')"
  using assms by (cases r) simp_all

lemma case_option_InrE:
  assumes "(case r of None \<Rightarrow> f | Some b \<Rightarrow> g b) s = (Inr v, s')"
  obtains "r = None" and "f s = (Inr v, s')" | b where "r = Some b" and "g b s = (Inr v, s')"
  using assms by (cases r) simp_all

lemma if_InrE:
  assumes "(if b then f else g) s = (Inr v, s')"
  obtains "b" and "f s = (Inr v, s')" | "\<not> b" and "g s = (Inr v, s')"
  using assms by (cases b) simp_all

lemma raise_InrE: "raise e s = (Inr v, s') \<Longrightarrow> P"
  by (simp add: prog_simps)

lemma ret_InrE:
  assumes "ret x s = (Inr v, s')"
  obtains "v = x" and "s' = s"
  using assms by (simp add: prog_simps)

lemma sysM_InrE:
  assumes "sysM f s = (Inr r, s')"
  obtains k where "f (os s) = (r, k)" and "s' = s\<lparr>os := k\<rparr>"
  using assms by (auto simp: sysM_def split: prod.splits)

lemmas runE = raise_InrE ret_InrE bindM_InrE unlessM_InrE arg_sE arg_iE arg_bE getsM_InrE case_sum_InrE
  case_option_InrE if_InrE

lemma option_eqI: "(\<And>x. a = Some x \<longleftrightarrow> b = Some x) \<Longrightarrow> a = b"
  by (metis not_None_eq)

end
