(* ===== verification/Vcd_Methods.thy ===== *)
theory Vcd_Methods
  imports Handler
begin

text \<open>
  The methods on the daemon and its users under \<^verbatim>\<open>src/src/vcd/methods/vcd/\<close>.  The
  password of a user is stored as its digest; a password that starts with
  \<^verbatim>\<open>WHIRLPOOLENC//\<close> is taken as a digest already (\<open>whirlpool_pass\<close>).
\<close>

section \<open>The daemon\<close>

definition m_vcd_hostinfo :: "'k host \<Rightarrow> xval \<Rightarrow> bool \<Rightarrow> ('k, xval) handler" where
  "m_vcd_hostinfo H p c =
     bindM (method_init H p c VCD_CAP_INFO 0) (\<lambda>_.
     bindM (getsM os) (\<lambda>k.
     ret (XStruct [(''vbasedir'', XStr (cfg_getstr H ''vbasedir'')),
       (''cpus'', XInt (s32 (nprocessors (kern H) k))),
       (''memnodes'', XInt (s32 (max_mem_node H k + 1)))])))"

definition m_vcd_login :: "'k host \<Rightarrow> xval \<Rightarrow> bool \<Rightarrow> ('k, xval) handler" where
  "m_vcd_login H p c =
     bindM (method_init H p c 0 0) (\<lambda>_. ret XNil)"

definition m_vcd_status :: "'k host \<Rightarrow> xval \<Rightarrow> bool \<Rightarrow> ('k, xval) handler" where
  "m_vcd_status H p c =
     bindM (method_init H p c VCD_CAP_INFO 0) (\<lambda>_.
     bindM (getsM os) (\<lambda>k.
     answer_row H
       (SelectLimit1 [C_uptime, C_requests, C_flogins, C_nomethod] T_vcd [] (Desc C_uptime))
       (\<lambda>row. XStruct [(''uptime'', XInt (s32 (time_now (kern H) k - vxdb_column_int (lib H) row 0))),
          (''requests'', col_i H row 1), (''flogins'', col_i H row 2), (''nomethod'', col_i H row 3)])
       XNil))"

section \<open>Capabilities of users\<close>

text \<open>\<^verbatim>\<open>if (!(uid = auth_getuid(user))) method_return_fault(env, MENOUSER);\<close>\<close>

definition need_uid :: "'k host \<Rightarrow> string \<Rightarrow> ('k, int) handler" where
  "need_uid H user =
     bindM (auth_getuid H user) (\<lambda>uid. if uid = 0 then raise (Fault MENOUSER) else ret uid)"

definition m_vcd_user_caps_add :: "'k host \<Rightarrow> xval \<Rightarrow> bool \<Rightarrow> ('k, xval) handler" where
  "m_vcd_user_caps_add H p c =
     bindM (method_init H p c VCD_CAP_AUTH 0) (\<lambda>params.
     bindM (arg_s H params ''username'') (\<lambda>user.
     bindM (arg_s H params ''cap'') (\<lambda>cap.
     bindM (unlessM (validate_vcd_cap (lib H) cap) (invalid ''cap'' cap)) (\<lambda>_.
     bindM (need_uid H user) (\<lambda>uid.
     exec_nil H [Insert True T_user_caps [(C_uid, SInt uid), (C_cap, STxt cap)]])))))"

definition m_vcd_user_caps_get :: "'k host \<Rightarrow> xval \<Rightarrow> bool \<Rightarrow> ('k, xval) handler" where
  "m_vcd_user_caps_get H p c =
     bindM (method_init H p c VCD_CAP_AUTH 0) (\<lambda>params.
     bindM (arg_s H params ''username'') (\<lambda>user.
     bindM (need_uid H user) (\<lambda>uid.
     answer_rows H (Select [C_cap] T_user_caps [(C_uid, Lit (SInt uid))] Unordered)
       (\<lambda>row. col_s row 0))))"

definition m_vcd_user_caps_remove :: "'k host \<Rightarrow> xval \<Rightarrow> bool \<Rightarrow> ('k, xval) handler" where
  "m_vcd_user_caps_remove H p c =
     bindM (method_init H p c VCD_CAP_AUTH 0) (\<lambda>params.
     bindM (arg_s H params ''username'') (\<lambda>user.
     bindM (arg_s H params ''cap'') (\<lambda>cap.
     let cap' = empty_param H cap in
     bindM (unlessM (cap' = None \<or> validate_vcd_cap (lib H) cap) (invalid ''cap'' cap)) (\<lambda>_.
     bindM (need_uid H user) (\<lambda>uid.
     exec_nil H [Delete T_user_caps
       (case cap' of Some t \<Rightarrow> [(C_uid, Lit (SInt uid)), (C_cap, Lit (STxt t))]
                   | None \<Rightarrow> [(C_uid, Lit (SInt uid))])])))))"

section \<open>Users\<close>

definition m_vcd_user_get :: "'k host \<Rightarrow> xval \<Rightarrow> bool \<Rightarrow> ('k, xval) handler" where
  "m_vcd_user_get H p c =
     bindM (method_init H p c VCD_CAP_AUTH 0) (\<lambda>params.
     bindM (arg_s H params ''username'') (\<lambda>usern.
     let user = empty_param H usern in
     bindM (unlessM (user = None \<or> validate_username (lib H) usern) (invalid ''username'' usern)) (\<lambda>_.
     answer_rows H
       (case user of
          Some u \<Rightarrow> Select [C_name, C_uid, C_admin] T_user [(C_name, Lit (STxt u))] Unordered
        | None \<Rightarrow> Select [C_name, C_uid, C_admin] T_user [] (Asc C_uid))
       (\<lambda>row. XStruct [(''username'', col_s row 0), (''uid'', col_i H row 1),
          (''admin'', col_i H row 2)]))))"

definition user_remove_stmts :: "int \<Rightarrow> stmt list" where
  "user_remove_stmts uid =
     [Begin,
      Delete T_xid_uid_map [(C_uid, Lit (SInt uid))],
      Delete T_user_caps [(C_uid, Lit (SInt uid))],
      Delete T_user [(C_uid, Lit (SInt uid))],
      Commit]"

definition m_vcd_user_remove :: "'k host \<Rightarrow> xval \<Rightarrow> bool \<Rightarrow> ('k, xval) handler" where
  "m_vcd_user_remove H p c =
     bindM (method_init H p c VCD_CAP_AUTH 0) (\<lambda>params.
     bindM (arg_s H params ''username'') (\<lambda>user.
     bindM (need_uid H user) (\<lambda>uid.
     exec_nil H (user_remove_stmts uid))))"

definition invalid_password :: fault where
  "invalid_password = Faultf MEINVAL ''invalid password value''"

definition user_create :: "'k host \<Rightarrow> string \<Rightarrow> string \<Rightarrow> int \<Rightarrow> ('k, xval) handler" where
  "user_create H user pass admin =
     bindM (unlessM (validate_password (lib H) (empty_param H pass)) invalid_password) (\<lambda>_.
     bindM (auth_getnextuid H) (\<lambda>uid.
     exec_nil H [Insert False T_user
       [(C_uid, SInt uid), (C_name, STxt user), (C_password, STxt (whirlpool_pass (lib H) pass)),
        (C_admin, SInt admin)]]))"

definition user_change :: "'k host \<Rightarrow> int \<Rightarrow> string \<Rightarrow> int \<Rightarrow> ('k, xval) handler" where
  "user_change H uid pass admin =
     bindM (exec_nil H [Update T_user [(C_admin, Lit (SInt admin))] [(C_uid, Lit (SInt uid))]]) (\<lambda>v.
     if empty_param H pass = None then ret v
     else
       bindM (unlessM (validate_password (lib H) (empty_param H pass)) invalid_password) (\<lambda>_.
       exec_nil H [Update T_user [(C_password, Lit (STxt (whirlpool_pass (lib H) pass)))]
         [(C_uid, Lit (SInt uid))]]))"

definition m_vcd_user_set :: "'k host \<Rightarrow> xval \<Rightarrow> bool \<Rightarrow> ('k, xval) handler" where
  "m_vcd_user_set H p c =
     bindM (method_init H p c VCD_CAP_AUTH 0) (\<lambda>params.
     bindM (arg_s H params ''username'') (\<lambda>user.
     bindM (arg_s H params ''password'') (\<lambda>pass.
     bindM (arg_b H params ''admin'') (\<lambda>admin.
     bindM (unlessM (validate_username (lib H) user) (invalid ''username'' user)) (\<lambda>_.
     bindM (auth_getuid H user) (\<lambda>uid.
     if uid = 0 then user_create H user pass (if admin then 1 else 0)
     else user_change H uid pass (if admin then 1 else 0)))))))"

lemma need_uid_reads [reads_intros]: "stays same_conn (need_uid H user)"
  unfolding need_uid_def by (intro sc.stays_rules reads_intros)

lemmas vcd_methods_defs =
  m_vcd_hostinfo_def
  m_vcd_login_def
  m_vcd_status_def
  m_vcd_user_caps_add_def
  m_vcd_user_caps_get_def
  m_vcd_user_caps_remove_def
  m_vcd_user_get_def
  m_vcd_user_remove_def
  m_vcd_user_set_def
  user_create_def
  user_change_def

lemma vcd_methods_keeps [inv_intros]:
  assumes "sqlite_ok (sql H)"
  shows "stays keeps_inv (m_vcd_hostinfo H p c)"
    and "stays keeps_inv (m_vcd_login H p c)"
    and "stays keeps_inv (m_vcd_status H p c)"
    and "stays keeps_inv (m_vcd_user_caps_add H p c)"
    and "stays keeps_inv (m_vcd_user_caps_get H p c)"
    and "stays keeps_inv (m_vcd_user_caps_remove H p c)"
    and "stays keeps_inv (m_vcd_user_get H p c)"
    and "stays keeps_inv (m_vcd_user_remove H p c)"
    and "stays keeps_inv (m_vcd_user_set H p c)"
  unfolding vcd_methods_defs
  by (intro ki.stays_rules method_init_keeps exec_nil_keeps reads_intros [THEN same_conn_keeps] assms)+

end
