(* ===== verification/Vxdb_Index.thy ===== *)
theory Vxdb_Index
  imports Handler
begin

text \<open>
  The methods on the index of guests under \<^verbatim>\<open>src/src/vcd/methods/vxdb/\<close>: names and
  context ids (\<^verbatim>\<open>name.get\<close>, \<^verbatim>\<open>xid.get\<close>), directories (\<^verbatim>\<open>vdir.get\<close>), the
  list of guests (\<^verbatim>\<open>list\<close>) and the owners (\<^verbatim>\<open>owner\<close>).
\<close>

section \<open>Names, contexts and directories\<close>

definition m_vxdb_name_get :: "'k host \<Rightarrow> xval \<Rightarrow> bool \<Rightarrow> ('k, xval) handler" where
  "m_vxdb_name_get H p c =
     bindM (method_init H p c VCD_CAP_INFO 0) (\<lambda>params.
     bindM (arg_i H params ''xid'') (\<lambda>xid.
     bindM (vxdb_getname H (u32 xid)) (\<lambda>name.
     case name of None \<Rightarrow> raise (Fault MENOVPS) | Some n \<Rightarrow> ret (XStr n))))"

definition m_vxdb_xid_get :: "'k host \<Rightarrow> xval \<Rightarrow> bool \<Rightarrow> ('k, xval) handler" where
  "m_vxdb_xid_get H p c =
     bindM (method_init H p c VCD_CAP_INFO 0) (\<lambda>params.
     bindM (arg_s H params ''name'') (\<lambda>name.
     bindM (need_xid H name) (\<lambda>xid.
     ret (XInt (s32 xid)))))"

definition m_vxdb_vdir_get :: "'k host \<Rightarrow> xval \<Rightarrow> bool \<Rightarrow> ('k, xval) handler" where
  "m_vxdb_vdir_get H p c =
     bindM (method_init H p c VCD_CAP_INFO 0) (\<lambda>params.
     bindM (arg_s H params ''name'') (\<lambda>name.
     bindM (need_xid H name) (\<lambda>_.
     bindM (vxdb_getvdir H name) (\<lambda>vdir.
     ret (build_s vdir)))))"

section \<open>The list of guests\<close>

text \<open>
  Whose guests are listed: 0 stands for all.  An empty answer is a fault, also when the
  query broke off.
\<close>

definition list_uid :: "'k host \<Rightarrow> string \<Rightarrow> string option \<Rightarrow> ('k, int) handler" where
  "list_uid H curuser user =
     bindM (auth_isadmin H curuser) (\<lambda>admin.
     if admin then (case user of None \<Rightarrow> ret 0 | Some u \<Rightarrow> auth_getuid H u)
     else case user of
            Some u \<Rightarrow> if curuser \<noteq> u then raise (Faultf MEPERM (''cannot list foreign user: '' @ u))
                      else auth_getuid H curuser
          | None \<Rightarrow> auth_getuid H curuser)"

definition list_query :: "int \<Rightarrow> query" where
  "list_query uid =
     (if uid \<noteq> 0 then
        SelectJoin [C_name] T_xid_name_map T_xid_uid_map C_xid [(C_uid, Lit (SInt uid))] (Asc C_name)
      else Select [C_name] T_xid_name_map [] (Asc C_name))"

definition m_vxdb_list :: "'k host \<Rightarrow> xval \<Rightarrow> bool \<Rightarrow> ('k, xval) handler" where
  "m_vxdb_list H p c =
     bindM (method_init H p c VCD_CAP_INFO 0) (\<lambda>_.
     bindM (arg_pair H p) (\<lambda>(cred, params).
     bindM (arg_s H cred ''username'') (\<lambda>curuser.
     bindM (arg_s H params ''username'') (\<lambda>usern.
     let user = empty_param H usern in
     bindM (unlessM (user = None \<or> validate_username (lib H) usern) (invalid ''username'' usern)) (\<lambda>_.
     bindM (list_uid H curuser user) (\<lambda>uid.
     bindM (vxdb_query H (list_query uid)) (\<lambda>r.
     if \<not> prepared r then raise VxdbFault
     else if result r = [] then raise (Faultf MENOVPS ''no virtual servers found'')
     else if \<not> finished r then raise VxdbFault
     else ret (XArr (map (\<lambda>row. col_s row 0) (result r))))))))))"

section \<open>Owners\<close>

definition m_vxdb_owner_add :: "'k host \<Rightarrow> xval \<Rightarrow> bool \<Rightarrow> ('k, xval) handler" where
  "m_vxdb_owner_add H p c =
     bindM (method_init H p c VCD_CAP_AUTH 0) (\<lambda>params.
     bindM (arg_s H params ''name'') (\<lambda>name.
     bindM (arg_s H params ''username'') (\<lambda>user.
     bindM (auth_getuid H user) (\<lambda>uid.
     if uid = 0 then raise (Faultf MENOUSER (''user does not exist: '' @ user))
     else
       bindM (need_xid H name) (\<lambda>xid.
       exec_nil H [Insert True T_xid_uid_map [(C_xid, SInt (s32 xid)), (C_uid, SInt uid)]])))))"

definition m_vxdb_owner_get :: "'k host \<Rightarrow> xval \<Rightarrow> bool \<Rightarrow> ('k, xval) handler" where
  "m_vxdb_owner_get H p c =
     bindM (method_init H p c VCD_CAP_AUTH 0) (\<lambda>params.
     bindM (arg_s H params ''name'') (\<lambda>name.
     bindM (need_xid H name) (\<lambda>xid.
     answer_rows H
       (SelectJoin [C_name] T_user T_xid_uid_map C_uid [(C_xid, xid_lit xid)] Unordered)
       (\<lambda>row. col_s row 0))))"

definition m_vxdb_owner_remove :: "'k host \<Rightarrow> xval \<Rightarrow> bool \<Rightarrow> ('k, xval) handler" where
  "m_vxdb_owner_remove H p c =
     bindM (method_init H p c VCD_CAP_AUTH 0) (\<lambda>params.
     bindM (arg_s H params ''name'') (\<lambda>name.
     bindM (arg_s H params ''username'') (\<lambda>usern.
     let user = empty_param H usern in
     bindM (need_xid H name) (\<lambda>xid.
     bindM (case user of None \<Rightarrow> ret 0 | Some u \<Rightarrow> auth_getuid H u) (\<lambda>uid.
     if user \<noteq> None \<and> uid = 0 then raise (Faultf MENOUSER (''user does not exist: '' @ usern))
     else if uid \<noteq> 0 then exec_nil H [Delete T_xid_uid_map [(C_xid, xid_lit xid), (C_uid, Lit (SInt uid))]]
     else exec_nil H [Delete T_xid_uid_map [(C_xid, xid_lit xid)]])))))"

lemma list_uid_reads [reads_intros]: "stays same_conn (list_uid H curuser user)"
  unfolding list_uid_def by (intro sc.stays_rules reads_intros)

lemmas vxdb_index_defs =
  m_vxdb_name_get_def
  m_vxdb_xid_get_def
  m_vxdb_vdir_get_def
  m_vxdb_list_def
  m_vxdb_owner_add_def
  m_vxdb_owner_get_def
  m_vxdb_owner_remove_def

lemma vxdb_index_keeps [inv_intros]:
  assumes "sqlite_ok (sql H)"
  shows "stays keeps_inv (m_vxdb_name_get H p c)"
    and "stays keeps_inv (m_vxdb_xid_get H p c)"
    and "stays keeps_inv (m_vxdb_vdir_get H p c)"
    and "stays keeps_inv (m_vxdb_list H p c)"
    and "stays keeps_inv (m_vxdb_owner_add H p c)"
    and "stays keeps_inv (m_vxdb_owner_get H p c)"
    and "stays keeps_inv (m_vxdb_owner_remove H p c)"
  unfolding vxdb_index_defs
  by (intro ki.stays_rules method_init_keeps exec_nil_keeps reads_intros [THEN same_conn_keeps] assms)+

end
