(* ===== verification/User_Laws.thy ===== *)
theory User_Laws
  imports Transactions Vcd_Methods Vxdb_Index
begin

text \<open>
  What the methods on users, their capabilities and the owners of guests do to the rights the
  database grants.  The rights are the four relations the checks of a request are sound for:
  \<open>authenticated\<close>, \<open>is_admin\<close>, \<open>has_cap_row\<close> and \<open>has_owner_row\<close>; each method is described by how
  it changes them.
\<close>

section \<open>The user of a request\<close>

lemma auth_getuid_valid:
  "auth_getuid H user s = (Inr uid, s') \<Longrightarrow> uid \<noteq> 0 \<Longrightarrow> validate_username (lib H) user"
  by (auto simp: auth_getuid_def prog_simps split: if_splits)

lemma need_uid_Inr:
  assumes "need_uid H user s = (Inr uid, s')" and "host_ok H" and "st_wf s"
  shows "\<exists>q \<in> set (rows (db s) T_user). rget q C_name = STxt user \<and> rget q C_uid = SInt uid"
    and "conn s' = conn s" and "validate_username (lib H) user" and "uid \<noteq> 0"
proof -
  from assms(1) have u: "auth_getuid H user s = (Inr uid, s')" "uid \<noteq> 0"
    by (auto simp: need_uid_def prog_simps elim!: bindM_InrE split: if_splits)
  show "\<exists>q \<in> set (rows (db s) T_user). rget q C_name = STxt user \<and> rget q C_uid = SInt uid"
    using auth_getuid_sound [OF u] assms(2,3) by (auto simp: host_ok_def st_wf_def)
  show "conn s' = conn s" using reads_conn [OF auth_getuid_reads u(1)] by simp
  show "validate_username (lib H) user" by (rule auth_getuid_valid [OF u])
  show "uid \<noteq> 0" by (rule u(2))
qed

lemma init_uid:
  assumes "method_init H p c caps flags s = (Inr params, s1)" and "need_uid H user s1 = (Inr uid, s2)"
    and "host_ok H" and "st_wf s"
  shows "\<exists>q \<in> set (rows (db s) T_user). rget q C_name = STxt user \<and> rget q C_uid = SInt uid"
    and "touches {T_vcd} s s2" and "st_wf s2" and "req_params H p c = Some params"
    and "validate_username (lib H) user"
proof -
  note w = method_init_wf [OF assms(1,3,4)]
  note u = need_uid_Inr [OF assms(2,3) w(2)]
  show "\<exists>q \<in> set (rows (db s) T_user). rget q C_name = STxt user \<and> rget q C_uid = SInt uid"
    using u(1) touches_rows [OF w(1), of T_user] by simp
  show "touches {T_vcd} s s2" "st_wf s2" using w u(2) st_wf_cong [of s2 s1] by (simp_all add: touches_def)
  show "req_params H p c = Some params" by (rule method_init_params [OF assms(1)])
  show "validate_username (lib H) user" by (rule u(3))
qed

section \<open>Rights as relations\<close>

text \<open>The id of a user, and the rows of the two tables that grant rights as relations on ids.\<close>

definition user_uid :: "vxdb_db \<Rightarrow> string \<Rightarrow> int option" where
  "user_uid d user =
     (case row_lookup [C_name] (rows d T_user) [STxt user] of
        Some r \<Rightarrow> (case rget r C_uid of SInt x \<Rightarrow> Some x | _ \<Rightarrow> None)
      | None \<Rightarrow> None)"

definition owners :: "vxdb_db \<Rightarrow> (xid_t \<times> int) set" where
  "owners d = {(x, u). \<exists>r \<in> set (rows d T_xid_uid_map). rget r C_xid = SInt x \<and> rget r C_uid = SInt u}"

definition granted :: "vxdb_db \<Rightarrow> (int \<times> string) set" where
  "granted d = {(u, cap). \<exists>r \<in> set (rows d T_user_caps). rget r C_uid = SInt u \<and> rget r C_cap = STxt cap}"

lemma user_uid_row:
  assumes "st_wf s"
  shows "user_uid (db s) user = Some x \<longleftrightarrow>
    (\<exists>r \<in> set (rows (db s) T_user). rget r C_name = STxt user \<and> rget r C_uid = SInt x)"
proof
  assume "user_uid (db s) user = Some x"
  then show "\<exists>r \<in> set (rows (db s) T_user). rget r C_name = STxt user \<and> rget r C_uid = SInt x"
    by (auto simp: user_uid_def row_key_def split: option.splits sval.splits dest!: row_lookup_Some)
next
  assume "\<exists>r \<in> set (rows (db s) T_user). rget r C_name = STxt user \<and> rget r C_uid = SInt x"
  then show "user_uid (db s) user = Some x"
    using row_lookup_mem [OF user_uniq(2) [OF assms]]
    by (auto simp: user_uid_def row_key_def key_valid_def)
qed

lemma user_uid_inj:
  assumes "st_wf s" and "user_uid (db s) u = Some x" and "user_uid (db s) u' = Some x"
  shows "u = u'"
  using assms user_row_uid [OF assms(1)] by (fastforce simp: user_uid_row)

lemma name_xid_inj:
  assumes "st_wf s" and "name_xid (db s) n = Some x" and "name_xid (db s) n' = Some x"
  shows "n = n'"
  using assms guest_row_xid [OF assms(1)] by (fastforce simp: name_xid_row)

lemma user_row_id:
  assumes "st_wf s" and "q \<in> set (rows (db s) T_user)" and "rget q C_name = STxt u"
  obtains x where "rget q C_uid = SInt x" and "user_uid (db s) u = Some x"
proof -
  have "id_ok (rget q C_uid)" using assms(1,2) by (auto simp: st_wf_def dest: uids_okD)
  then obtain x where "rget q C_uid = SInt x" by (rule id_okE)
  with assms that show ?thesis by (auto simp: user_uid_row)
qed

lemma guest_row_id:
  assumes "st_wf s" and "q \<in> set (rows (db s) T_xid_name_map)" and "rget q C_name = STxt n"
  obtains x where "rget q C_xid = SInt x" and "name_xid (db s) n = Some x"
proof -
  have "id_ok (rget q C_xid)" using assms(1,2) by (auto simp: st_wf_def dest: xids_okD)
  then obtain x where "rget q C_xid = SInt x" by (rule id_okE)
  with assms that show ?thesis by (auto simp: name_xid_row)
qed

lemma has_cap_iff:
  assumes "st_wf s"
  shows "has_cap_row (db s) u cap \<longleftrightarrow> (\<exists>x. user_uid (db s) u = Some x \<and> (x, cap) \<in> granted (db s))"
proof
  assume "has_cap_row (db s) u cap"
  then obtain q r where q: "q \<in> set (rows (db s) T_user)" "rget q C_name = STxt u"
    and r: "r \<in> set (rows (db s) T_user_caps)" "rget r C_uid = rget q C_uid" "rget r C_cap = STxt cap"
    by (auto simp: has_cap_row_def)
  from assms q obtain x where "rget q C_uid = SInt x" "user_uid (db s) u = Some x" by (rule user_row_id)
  with r show "\<exists>x. user_uid (db s) u = Some x \<and> (x, cap) \<in> granted (db s)" by (auto simp: granted_def)
next
  assume "\<exists>x. user_uid (db s) u = Some x \<and> (x, cap) \<in> granted (db s)"
  then show "has_cap_row (db s) u cap"
    using assms by (auto simp: granted_def user_uid_row has_cap_row_def) metis
qed

lemma has_owner_iff:
  assumes "st_wf s"
  shows "has_owner_row (db s) u n \<longleftrightarrow>
    (\<exists>x y. user_uid (db s) u = Some x \<and> name_xid (db s) n = Some y \<and> (y, x) \<in> owners (db s))"
proof
  assume "has_owner_row (db s) u n"
  then obtain q g r where q: "q \<in> set (rows (db s) T_user)" "rget q C_name = STxt u"
    and g: "g \<in> set (rows (db s) T_xid_name_map)" "rget g C_name = STxt n"
    and r: "r \<in> set (rows (db s) T_xid_uid_map)" "rget r C_uid = rget q C_uid" "rget r C_xid = rget g C_xid"
    by (auto simp: has_owner_row_def)
  from assms q obtain x where "rget q C_uid = SInt x" "user_uid (db s) u = Some x" by (rule user_row_id)
  moreover from assms g obtain y where "rget g C_xid = SInt y" "name_xid (db s) n = Some y" by (rule guest_row_id)
  ultimately show "\<exists>x y. user_uid (db s) u = Some x \<and> name_xid (db s) n = Some y \<and> (y, x) \<in> owners (db s)"
    using r by (auto simp: owners_def)
next
  assume "\<exists>x y. user_uid (db s) u = Some x \<and> name_xid (db s) n = Some y \<and> (y, x) \<in> owners (db s)"
  then obtain x y q g r where "q \<in> set (rows (db s) T_user)" "rget q C_name = STxt u" "rget q C_uid = SInt x"
    "g \<in> set (rows (db s) T_xid_name_map)" "rget g C_name = STxt n" "rget g C_xid = SInt y"
    "r \<in> set (rows (db s) T_xid_uid_map)" "rget r C_xid = SInt y" "rget r C_uid = SInt x"
    using assms by (auto simp: owners_def user_uid_row name_xid_row)
  then show "has_owner_row (db s) u n"
    by (intro has_owner_row_def [THEN iffD2] bexI [of _ q] bexI [of _ g] bexI [of _ r]) simp_all
qed

lemma user_uid_cong: "rows d' T_user = rows d T_user \<Longrightarrow> user_uid d' = user_uid d"
  by (simp add: fun_eq_iff user_uid_def)

section \<open>Removing a user\<close>

text \<open>The rights once the rows of one user id are gone.\<close>

lemma rights_without_uid:
  assumes "st_wf s" and q: "q \<in> set (rows (db s) T_user)" "rget q C_name = STxt user" "rget q C_uid = SInt uid"
    and r: "\<And>t. t \<in> {T_user, T_user_caps, T_xid_uid_map}
        \<Longrightarrow> rows (db s') t = filter (\<lambda>r. rget r C_uid \<noteq> SInt uid) (rows (db s) t)"
    and n: "rows (db s') T_xid_name_map = rows (db s) T_xid_name_map"
  shows "authenticated L (db s') u pw \<longleftrightarrow> u \<noteq> user \<and> authenticated L (db s) u pw"
    and "is_admin (db s') u \<longleftrightarrow> u \<noteq> user \<and> is_admin (db s) u"
    and "has_cap_row (db s') u cap \<longleftrightarrow> u \<noteq> user \<and> has_cap_row (db s) u cap"
    and "has_owner_row (db s') u name \<longleftrightarrow> u \<noteq> user \<and> has_owner_row (db s) u name"
proof -
  have key: "rget x C_uid = SInt uid \<longleftrightarrow> u = user"
    if "x \<in> set (rows (db s) T_user)" "rget x C_name = STxt u" for x u
    using user_row_name [OF assms(1) that(1) q(1)] user_row_uid [OF assms(1) that(1) q(1)] that q by auto
  show "authenticated L (db s') u pw \<longleftrightarrow> u \<noteq> user \<and> authenticated L (db s) u pw"
    using key by (auto simp: authenticated_def r)
  show "is_admin (db s') u \<longleftrightarrow> u \<noteq> user \<and> is_admin (db s) u"
    using key by (auto simp: is_admin_def r)
  show "has_cap_row (db s') u cap \<longleftrightarrow> u \<noteq> user \<and> has_cap_row (db s) u cap"
    using key unfolding has_cap_row_def by (simp add: r) metis
  show "has_owner_row (db s') u name \<longleftrightarrow> u \<noteq> user \<and> has_owner_row (db s) u name"
  proof
    assume "has_owner_row (db s') u name"
    then obtain y x z where "y \<in> set (rows (db s) T_user)" "rget y C_uid \<noteq> SInt uid" "rget y C_name = STxt u"
      "x \<in> set (rows (db s) T_xid_name_map)" "rget x C_name = STxt name"
      "z \<in> set (rows (db s) T_xid_uid_map)" "rget z C_uid = rget y C_uid" "rget z C_xid = rget x C_xid"
      by (auto simp: has_owner_row_def r n)
    with key [of y u] show "u \<noteq> user \<and> has_owner_row (db s) u name"
      unfolding has_owner_row_def by blast
  next
    assume "u \<noteq> user \<and> has_owner_row (db s) u name"
    then obtain y x z where "u \<noteq> user" "y \<in> set (rows (db s) T_user)" "rget y C_name = STxt u"
      "x \<in> set (rows (db s) T_xid_name_map)" "rget x C_name = STxt name"
      "z \<in> set (rows (db s) T_xid_uid_map)" "rget z C_uid = rget y C_uid" "rget z C_xid = rget x C_xid"
      by (auto simp: has_owner_row_def)
    with key [of y u] show "has_owner_row (db s') u name"
      by (intro bexI [of _ y] bexI [of _ x] bexI [of _ z] has_owner_row_def [THEN iffD2]) (auto simp: r n)
  qed
qed

lemma user_remove_effect:
  assumes "m_vcd_user_remove H p c s = (Inr v, s')" and "host_ok H" and "st_wf s"
  obtains user uid q where "req_s H p c ''username'' = Some user"
    and "q \<in> set (rows (db s) T_user)" "rget q C_name = STxt user" "rget q C_uid = SInt uid"
    and "\<And>t. t \<in> {T_user, T_user_caps, T_xid_uid_map}
        \<Longrightarrow> rows (db s') t = filter (\<lambda>r. rget r C_uid \<noteq> SInt uid) (rows (db s) t)"
    and "touches {T_vcd, T_user, T_user_caps, T_xid_uid_map} s s'"
proof -
  from assms(1) obtain params s1 user uid s2 where
    i: "method_init H p c VCD_CAP_AUTH 0 s = (Inr params, s1)"
    and a: "get_param (xr_string (xr H)) H params ''username'' = Some user"
    and u: "need_uid H user s1 = (Inr uid, s2)"
    and ex: "exec_nil H (user_remove_stmts uid) s2 = (Inr v, s')"
    unfolding m_vcd_user_remove_def by (elim handlerE) blast
  note n = init_uid [OF i u assms(2,3)]
  have sts: "user_remove_stmts uid = Begin # map (\<lambda>t. Delete t [(C_uid, Lit (SInt uid))])
      [T_xid_uid_map, T_user_caps, T_user] @ [Commit]"
    by (simp add: user_remove_stmts_def)
  have m: "matches d [(C_uid, Lit (SInt uid))] r \<longleftrightarrow> rget r C_uid = SInt uid" for d r by simp
  note e = exec_nil_deletes [OF ex [unfolded sts] m]
  have "rows (db s2) t = rows (db s) t" if "t \<noteq> T_vcd" for t using touches_rows [OF n(2)] that by simp
  moreover have "rows (db s') t = filter (\<lambda>r. rget r C_uid \<noteq> SInt uid) (rows (db s2) t)"
    if "t \<in> {T_user, T_user_caps, T_xid_uid_map}" for t using e(1) [of t] that by auto
  ultimately have "rows (db s') t = filter (\<lambda>r. rget r C_uid \<noteq> SInt uid) (rows (db s) t)"
    if "t \<in> {T_user, T_user_caps, T_xid_uid_map}" for t using that by auto
  moreover have "touches {T_vcd, T_user, T_user_caps, T_xid_uid_map} s s'"
    using n(2) e(2) by (auto simp: touches_def)
  moreover have "req_s H p c ''username'' = Some user" using n(4) a by (simp add: req_s_def)
  ultimately show thesis using n(1) that by blast
qed

text \<open>
  C8.  After \<^verbatim>\<open>vcd.user.remove\<close> the user has no rights left: no password logs in, it is no
  administrator, holds no capability and owns no guest.  No row in any of the three tables refers to
  its id, and the rights of all other users are what they were.
\<close>

theorem user_remove_revokes:
  assumes "m_vcd_user_remove H p c s = (Inr v, s')" and "host_ok H" and "st_wf s"
  shows "\<exists>user uid. req_s H p c ''username'' = Some user
    \<and> (\<forall>u pw. authenticated L (db s') u pw \<longleftrightarrow> u \<noteq> user \<and> authenticated L (db s) u pw)
    \<and> (\<forall>u. is_admin (db s') u \<longleftrightarrow> u \<noteq> user \<and> is_admin (db s) u)
    \<and> (\<forall>u cap. has_cap_row (db s') u cap \<longleftrightarrow> u \<noteq> user \<and> has_cap_row (db s) u cap)
    \<and> (\<forall>u name. has_owner_row (db s') u name \<longleftrightarrow> u \<noteq> user \<and> has_owner_row (db s) u name)
    \<and> list_all (\<lambda>t. list_all (\<lambda>r. rget r C_uid \<noteq> SInt uid) (rows (db s') t)) [T_user, T_user_caps, T_xid_uid_map]
    \<and> touches {T_vcd, T_user, T_user_caps, T_xid_uid_map} s s'"
  using assms
proof (rule user_remove_effect)
  fix user uid q
  assume e: "req_s H p c ''username'' = Some user" "q \<in> set (rows (db s) T_user)"
    "rget q C_name = STxt user" "rget q C_uid = SInt uid"
    "\<And>t. t \<in> {T_user, T_user_caps, T_xid_uid_map}
        \<Longrightarrow> rows (db s') t = filter (\<lambda>r. rget r C_uid \<noteq> SInt uid) (rows (db s) t)"
    and t: "touches {T_vcd, T_user, T_user_caps, T_xid_uid_map} s s'"
  note r = rights_without_uid [OF assms(3) e(2-5) touches_rows [OF t]]
  have "list_all (\<lambda>t. list_all (\<lambda>r. rget r C_uid \<noteq> SInt uid) (rows (db s') t)) [T_user, T_user_caps, T_xid_uid_map]"
    by (simp add: e(5) list_all_iff)
  with e(1) r t show ?thesis by (intro exI [of _ user] exI [of _ uid]) simp
qed

section \<open>Capabilities of users\<close>

lemma granted_put:
  assumes "rows d' T_user_caps = row_put [C_uid, C_cap] [(C_uid, SInt x), (C_cap, STxt cap)] (rows d T_user_caps)"
  shows "granted d' = insert (x, cap) (granted d)"
  by (auto simp: granted_def assms row_put_def conflict_def)

lemma granted_filter:
  assumes "rows d' T_user_caps = filter (\<lambda>q. \<not> (rget q C_uid = SInt x \<and> P (rget q C_cap))) (rows d T_user_caps)"
  shows "granted d' = {(u, cap) \<in> granted d. \<not> (u = x \<and> P (STxt cap))}"
  by (auto simp: granted_def assms)

lemma vcd_cap_quote_free: "lucid_ok L \<Longrightarrow> validate_vcd_cap L cap \<Longrightarrow> quote_free cap"
  by (auto simp: validate_vcd_cap_def dest: vcd_caps_keys_quote_free dest!: flist64_getval_key)

text \<open>
  C11.  \<^verbatim>\<open>vcd.user.caps.add\<close> gives the user exactly the named capability, which has to be one
  of the list, and changes no other right.
\<close>

theorem user_caps_add_grants:
  assumes "m_vcd_user_caps_add H p c s = (Inr v, s')" and "host_ok H" and "st_wf s"
  shows "\<exists>user cap. req_s H p c ''username'' = Some user \<and> req_s H p c ''cap'' = Some cap
    \<and> validate_vcd_cap (lib H) cap
    \<and> (\<forall>u k. has_cap_row (db s') u k \<longleftrightarrow> has_cap_row (db s) u k \<or> u = user \<and> k = cap)
    \<and> touches {T_vcd, T_user_caps} s s' \<and> st_wf s'"
proof -
  from assms(1) obtain params s1 user cap uid s2 where
    i: "method_init H p c VCD_CAP_AUTH 0 s = (Inr params, s1)"
    and a: "get_param (xr_string (xr H)) H params ''username'' = Some user"
      "get_param (xr_string (xr H)) H params ''cap'' = Some cap"
    and cap: "validate_vcd_cap (lib H) cap" and u: "need_uid H user s1 = (Inr uid, s2)"
    and ex: "exec_nil H [Insert True T_user_caps [(C_uid, SInt uid), (C_cap, STxt cap)]] s2 = (Inr v, s')"
    unfolding m_vcd_user_caps_add_def by (elim handlerE) blast
  note n = init_uid [OF i u assms(2,3)]
  have "quote_free cap" using vcd_cap_quote_free cap assms(2) by blast
  moreover have "table_indexes (db s2) T_user_caps = [[C_uid, C_cap]]"
    using n(3) by (simp add: st_wf_def schema_wf_index)
  ultimately have e: "rows (db s') T_user_caps
      = row_put [C_uid, C_cap] [(C_uid, SInt uid), (C_cap, STxt cap)] (rows (db s2) T_user_caps)"
    "touches {T_user_caps} s2 s'" "st_wf s'"
    using exec_put_wf [OF ex _ n(3), of "[C_uid, C_cap]"] by simp_all
  have t: "touches {T_vcd, T_user_caps} s s'" using touches_trans [OF n(2) e(2)] by (simp add: insert_commute)
  have "granted (db s') = insert (uid, cap) (granted (db s))"
    using granted_put [of "db s'" uid cap "db s"] e(1) touches_rows [OF n(2), of T_user_caps] by simp
  moreover have ids: "user_uid (db s') = user_uid (db s)"
    by (rule user_uid_cong) (use touches_rows [OF t, of T_user] in simp)
  moreover have "user_uid (db s) user = Some uid" using n(1) assms(3) by (auto simp: user_uid_row)
  ultimately have "has_cap_row (db s') u k \<longleftrightarrow> has_cap_row (db s) u k \<or> u = user \<and> k = cap" for u k
    using user_uid_inj [OF assms(3), of u uid user] unfolding has_cap_iff [OF e(3)] has_cap_iff [OF assms(3)]
    by auto
  with a n(4) cap t e(3) show ?thesis by (intro exI [of _ user] exI [of _ cap]) (simp add: req_s_def)
qed

text \<open>
  C12.  \<^verbatim>\<open>vcd.user.caps.remove\<close> takes the named capability from the user, or all of them when
  none is named, and changes no other right.
\<close>

theorem user_caps_remove_revokes:
  assumes "m_vcd_user_caps_remove H p c s = (Inr v, s')" and "host_ok H" and "st_wf s"
  shows "\<exists>user cap. req_s H p c ''username'' = Some user \<and> req_s H p c ''cap'' = Some cap
    \<and> (\<forall>u k. has_cap_row (db s') u k \<longleftrightarrow>
         has_cap_row (db s) u k \<and> \<not> (u = user \<and> (str_isempty (lib H) (Some cap) \<or> k = cap)))
    \<and> touches {T_vcd, T_user_caps} s s' \<and> st_wf s'"
proof -
  from assms(1) obtain params s1 user cap uid s2 where
    i: "method_init H p c VCD_CAP_AUTH 0 s = (Inr params, s1)"
    and a: "get_param (xr_string (xr H)) H params ''username'' = Some user"
      "get_param (xr_string (xr H)) H params ''cap'' = Some cap"
    and cap: "empty_param H cap = None \<or> validate_vcd_cap (lib H) cap" and u: "need_uid H user s1 = (Inr uid, s2)"
    and ex: "exec_nil H [Delete T_user_caps
       (case empty_param H cap of Some t \<Rightarrow> [(C_uid, Lit (SInt uid)), (C_cap, Lit (STxt t))]
                   | None \<Rightarrow> [(C_uid, Lit (SInt uid))])] s2 = (Inr v, s')"
    unfolding m_vcd_user_caps_remove_def Let_def by (elim handlerE) blast
  note n = init_uid [OF i u assms(2,3)]
  let ?P = "\<lambda>k. str_isempty (lib H) (Some cap) \<or> k = STxt cap"
  let ?w = "case empty_param H cap of Some t \<Rightarrow> [(C_uid, Lit (SInt uid)), (C_cap, Lit (STxt t))]
                   | None \<Rightarrow> [(C_uid, Lit (SInt uid))]"
  have m: "matches (db s2) ?w q \<longleftrightarrow> rget q C_uid = SInt uid \<and> ?P (rget q C_cap)" for q
    by (auto simp: empty_param_iff)
  have "stmt_safe (Delete T_user_caps ?w)"
    using cap vcd_cap_quote_free [of "lib H" cap] assms(2) by (auto simp: empty_param_iff host_ok_def)
  from exec_del_wf [OF ex this n(3) m]
  have e: "rows (db s') T_user_caps
      = filter (\<lambda>q. \<not> (rget q C_uid = SInt uid \<and> ?P (rget q C_cap))) (rows (db s2) T_user_caps)"
    "touches {T_user_caps} s2 s'" "st_wf s'" by simp_all
  have t: "touches {T_vcd, T_user_caps} s s'" using touches_trans [OF n(2) e(2)] by (simp add: insert_commute)
  have "granted (db s') = {(u, k) \<in> granted (db s). \<not> (u = uid \<and> ?P (STxt k))}"
    by (rule granted_filter) (use e(1) touches_rows [OF n(2), of T_user_caps] in simp)
  moreover have "user_uid (db s') = user_uid (db s)"
    by (rule user_uid_cong) (use touches_rows [OF t, of T_user] in simp)
  moreover have "user_uid (db s) user = Some uid" using n(1) assms(3) by (auto simp: user_uid_row)
  ultimately have "has_cap_row (db s') u k \<longleftrightarrow>
      has_cap_row (db s) u k \<and> \<not> (u = user \<and> (str_isempty (lib H) (Some cap) \<or> k = cap))" for u k
    using user_uid_inj [OF assms(3), of u uid user] unfolding has_cap_iff [OF e(3)] has_cap_iff [OF assms(3)]
    by auto
  with a n(4) t e(3) show ?thesis by (intro exI [of _ user] exI [of _ cap]) (simp add: req_s_def)
qed

section \<open>Owners of guests\<close>

lemma owners_put:
  assumes "rows d' T_xid_uid_map = row_put [C_xid, C_uid] [(C_xid, SInt x), (C_uid, SInt u)] (rows d T_xid_uid_map)"
  shows "owners d' = insert (x, u) (owners d)"
  by (auto simp: owners_def assms row_put_def conflict_def)

lemma owners_filter:
  assumes "rows d' T_xid_uid_map = filter (\<lambda>q. \<not> (rget q C_xid = SInt x \<and> P (rget q C_uid))) (rows d T_xid_uid_map)"
  shows "owners d' = {(y, u) \<in> owners d. \<not> (y = x \<and> P (SInt u))}"
  by (auto simp: owners_def assms)

text \<open>Relations between names given by relations between ids.\<close>

lemma named_insert:
  assumes "\<And>u. f u = Some x \<longleftrightarrow> u = user" and "\<And>k. g k = Some y \<longleftrightarrow> k = name"
  shows "(\<exists>a b. f u = Some a \<and> g k = Some b \<and> (b, a) \<in> insert (y, x) R)
    \<longleftrightarrow> (\<exists>a b. f u = Some a \<and> g k = Some b \<and> (b, a) \<in> R) \<or> u = user \<and> k = name"
  using assms(1) [of u] assms(2) [of k] by (cases "f u"; cases "g k") auto

lemma named_remove:
  assumes "\<And>k. g k = Some y \<longleftrightarrow> k = name" and "\<And>a. f u = Some a \<Longrightarrow> P a = Q"
  shows "(\<exists>a b. f u = Some a \<and> g k = Some b \<and> (b, a) \<in> {(b, a) \<in> R. \<not> (b = y \<and> P a)})
    \<longleftrightarrow> (\<exists>a b. f u = Some a \<and> g k = Some b \<and> (b, a) \<in> R) \<and> \<not> (k = name \<and> Q)"
  using assms(1) [of k] assms(2) by (cases "f u"; cases "g k") auto

lemma user_uid_iff: "st_wf s \<Longrightarrow> user_uid (db s) user = Some x \<Longrightarrow> user_uid (db s) u = Some x \<longleftrightarrow> u = user"
  using user_uid_inj by blast

lemma name_xid_iff: "st_wf s \<Longrightarrow> name_xid (db s) name = Some x \<Longrightarrow> name_xid (db s) k = Some x \<longleftrightarrow> k = name"
  using name_xid_inj by blast

lemma auth_getuid_uid:
  assumes "auth_getuid H user s1 = (Inr uid, s2)" and "uid \<noteq> 0" and "host_ok H" and "touches {T_vcd} s s1"
    and "st_wf s1" and "st_wf s"
  shows "user_uid (db s) user = Some uid"
  using auth_getuid_sound [OF assms(1,2)] assms(3-6) touches_rows [OF assms(4), of T_user]
  by (auto simp: user_uid_row host_ok_def st_wf_def)

text \<open>
  C13.  \<^verbatim>\<open>vxdb.owner.add\<close> makes the user an owner of the guest, and of no other, and changes
  the ownership of no other user.
\<close>

theorem owner_add_grants:
  assumes "m_vxdb_owner_add H p c s = (Inr v, s')" and "host_ok H" and "st_wf s"
  shows "\<exists>name user. req_s H p c ''name'' = Some name \<and> req_s H p c ''username'' = Some user
    \<and> (\<forall>u n. has_owner_row (db s') u n \<longleftrightarrow> has_owner_row (db s) u n \<or> u = user \<and> n = name)
    \<and> touches {T_vcd, T_xid_uid_map} s s' \<and> st_wf s'"
proof -
  from assms(1) obtain params s1 name user uid s2 where
    i: "method_init H p c VCD_CAP_AUTH 0 s = (Inr params, s1)"
    and a: "get_param (xr_string (xr H)) H params ''name'' = Some name"
      "get_param (xr_string (xr H)) H params ''username'' = Some user"
    and u: "auth_getuid H user s1 = (Inr uid, s2)"
    and rest: "(if uid = 0 then raise (Faultf MENOUSER (''user does not exist: '' @ user))
     else bindM (need_xid H name) (\<lambda>xid.
       exec_nil H [Insert True T_xid_uid_map [(C_xid, SInt (s32 xid)), (C_uid, SInt uid)]])) s2 = (Inr v, s')"
    unfolding m_vxdb_owner_add_def by (elim handlerE) blast
  from rest obtain xid s3 where "uid \<noteq> 0" and x: "need_xid H name s2 = (Inr xid, s3)"
    and ex: "exec_nil H [Insert True T_xid_uid_map [(C_xid, SInt (s32 xid)), (C_uid, SInt uid)]] s3 = (Inr v, s')"
    by (auto simp: prog_simps elim!: bindM_InrE split: if_splits)
  note w1 = method_init_wf [OF i assms(2,3)]
  note w2 = reads_wf [OF auth_getuid_reads u w1]
  note w3 = reads_wf [OF need_xid_reads x w2]
  note n = need_xid_name [OF x assms(2) w2] auth_getuid_uid [OF u \<open>uid \<noteq> 0\<close> assms(2) w1 assms(3)]
  have "table_indexes (db s3) T_xid_uid_map = [[C_xid, C_uid]]"
    using w3(2) by (simp add: st_wf_def schema_wf_index)
  then have e: "rows (db s') T_xid_uid_map
      = row_put [C_xid, C_uid] [(C_xid, SInt xid), (C_uid, SInt uid)] (rows (db s3) T_xid_uid_map)"
    "touches {T_xid_uid_map} s3 s'" "st_wf s'"
    using exec_put_wf [OF ex _ w3(2), of "[C_xid, C_uid]"] n(2) by simp_all
  have t: "touches {T_vcd, T_xid_uid_map} s s'" using touches_trans [OF w3(1) e(2)] by (simp add: insert_commute)
  have "owners (db s') = insert (xid, uid) (owners (db s))"
    by (rule owners_put) (use e(1) touches_rows [OF w3(1), of T_xid_uid_map] in simp)
  moreover have "user_uid (db s') = user_uid (db s)" "name_xid (db s') = name_xid (db s)"
    using user_uid_cong [OF touches_rows [OF t]] name_xid_cong [OF touches_rows [OF t]] by simp_all
  moreover note named_insert [of "user_uid (db s)" uid user "name_xid (db s)" xid name,
    OF user_uid_iff [OF assms(3) n(5)] name_xid_iff [OF assms(3) n(1)]]
  ultimately have "has_owner_row (db s') u k \<longleftrightarrow> has_owner_row (db s) u k \<or> u = user \<and> k = name" for u k
    unfolding has_owner_iff [OF e(3)] has_owner_iff [OF assms(3)]
    by simp
  with a method_init_params [OF i] t e(3) show ?thesis
    by (intro exI [of _ name] exI [of _ user]) (simp add: req_s_def)
qed

text \<open>Whose rows are removed: those of the named user, or of all when none is named.\<close>

lemma remove_target:
  assumes "(case empty_param H user of None \<Rightarrow> ret 0 | Some u \<Rightarrow> auth_getuid H u) s2 = (Inr uid, s3)"
    and "empty_param H user \<noteq> None \<Longrightarrow> uid \<noteq> 0"
    and "host_ok H" and "touches {T_vcd} s s2" and "st_wf s2" and "st_wf s" and "user_uid (db s) u = Some y"
  shows "uid = 0 \<or> y = uid \<longleftrightarrow> str_isempty (lib H) (Some user) \<or> u = user"
proof (cases "str_isempty (lib H) (Some user)")
  case True
  with assms(1) show ?thesis by (simp add: empty_param_iff prog_simps)
next
  case False
  with assms(1,2) have "user_uid (db s) user = Some uid" "uid \<noteq> 0"
    using auth_getuid_uid [OF _ _ assms(3-6)] by (auto simp: empty_param_iff)
  with False assms(7) user_uid_inj [OF assms(6), of u uid user] show ?thesis by auto
qed

text \<open>
  C14.  \<^verbatim>\<open>vxdb.owner.remove\<close> ends the ownership of the user, or of all users when none is named,
  for this guest and for no other.
\<close>

theorem owner_remove_revokes:
  assumes "m_vxdb_owner_remove H p c s = (Inr v, s')" and "host_ok H" and "st_wf s"
  shows "\<exists>name user. req_s H p c ''name'' = Some name \<and> req_s H p c ''username'' = Some user
    \<and> (\<forall>u n. has_owner_row (db s') u n \<longleftrightarrow>
         has_owner_row (db s) u n \<and> \<not> (n = name \<and> (str_isempty (lib H) (Some user) \<or> u = user)))
    \<and> touches {T_vcd, T_xid_uid_map} s s' \<and> st_wf s'"
proof -
  from assms(1) obtain params s1 name user xid s2 uid s3 where
    i: "method_init H p c VCD_CAP_AUTH 0 s = (Inr params, s1)"
    and a: "get_param (xr_string (xr H)) H params ''name'' = Some name"
      "get_param (xr_string (xr H)) H params ''username'' = Some user"
    and x: "need_xid H name s1 = (Inr xid, s2)"
    and u: "(case empty_param H user of None \<Rightarrow> ret 0 | Some u \<Rightarrow> auth_getuid H u) s2 = (Inr uid, s3)"
    and rest: "(if empty_param H user \<noteq> None \<and> uid = 0 then raise (Faultf MENOUSER (''user does not exist: '' @ user))
     else if uid \<noteq> 0 then exec_nil H [Delete T_xid_uid_map [(C_xid, xid_lit xid), (C_uid, Lit (SInt uid))]]
     else exec_nil H [Delete T_xid_uid_map [(C_xid, xid_lit xid)]]) s3 = (Inr v, s')"
    unfolding m_vxdb_owner_remove_def Let_def by (elim handlerE) blast
  have rd: "stays same_conn (case empty_param H user of None \<Rightarrow> ret 0 | Some u \<Rightarrow> auth_getuid H u)"
    by (intro sc.stays_rules reads_intros)
  note w1 = method_init_wf [OF i assms(2,3)]
  note w2 = reads_wf [OF need_xid_reads x w1]
  note w3 = reads_wf [OF rd u w2]
  note n = need_xid_name [OF x assms(2) w1]
  let ?P = "\<lambda>y. uid = 0 \<or> y = SInt uid"
  let ?w = "if uid = 0 then [(C_xid, xid_lit xid)] else [(C_xid, xid_lit xid), (C_uid, Lit (SInt uid))]"
  have ex: "exec_nil H [Delete T_xid_uid_map ?w] s3 = (Inr v, s')"
    and nz: "empty_param H user \<noteq> None \<Longrightarrow> uid \<noteq> 0"
    using rest by (auto simp: prog_simps split: if_splits)
  have m: "matches (db s3) ?w q \<longleftrightarrow> rget q C_xid = SInt xid \<and> ?P (rget q C_uid)" for q
    using n(2) by (auto simp: xid_lit_def)
  have e: "rows (db s') T_xid_uid_map
      = filter (\<lambda>q. \<not> (rget q C_xid = SInt xid \<and> ?P (rget q C_uid))) (rows (db s3) T_xid_uid_map)"
    "touches {T_xid_uid_map} s3 s'" "st_wf s'"
    using exec_del_wf [OF ex _ w3(2) m] by (simp_all add: xid_lit_def)
  have t: "touches {T_vcd, T_xid_uid_map} s s'" using touches_trans [OF w3(1) e(2)] by (simp add: insert_commute)
  have ow: "owners (db s') = {(y, u) \<in> owners (db s). \<not> (y = xid \<and> ?P (SInt u))}"
    by (rule owners_filter) (use e(1) touches_rows [OF w3(1), of T_xid_uid_map] in simp)
  have cong: "user_uid (db s') = user_uid (db s)" "name_xid (db s') = name_xid (db s)"
    using user_uid_cong [OF touches_rows [OF t]] name_xid_cong [OF touches_rows [OF t]] by simp_all
  have "has_owner_row (db s') u k \<longleftrightarrow>
      has_owner_row (db s) u k \<and> \<not> (k = name \<and> (str_isempty (lib H) (Some user) \<or> u = user))" for u k
    unfolding has_owner_iff [OF e(3)] has_owner_iff [OF assms(3)] cong ow
    by (rule named_remove [of "name_xid (db s)", OF name_xid_iff [OF assms(3) n(1)]])
      (use remove_target [OF u nz assms(2) w2 assms(3)] in simp)
  with a method_init_params [OF i] t e(3) show ?thesis
    by (intro exI [of _ name] exI [of _ user]) (simp add: req_s_def)
qed

section \<open>Setting a user\<close>

text \<open>One column of the row of one user is set.\<close>

definition set_user :: "int \<Rightarrow> col \<Rightarrow> sval \<Rightarrow> row \<Rightarrow> row" where
  "set_user uid col v r = (if rget r C_uid = SInt uid then AList.update col v r else r)"

definition user_has :: "vxdb_db \<Rightarrow> string \<Rightarrow> col \<Rightarrow> sval \<Rightarrow> bool" where
  "user_has d u k w \<longleftrightarrow> (\<exists>q \<in> set (rows d T_user). rget q C_name = STxt u \<and> rget q k = w)"

lemma user_has_rights:
  "is_admin d u = user_has d u C_admin (SInt 1)"
  "authenticated L d u pw = user_has d u C_password (STxt (whirlpool_pass L pw))"
  by (simp_all add: is_admin_def authenticated_def user_has_def)

lemma rget_set_user:
  "rget (set_user uid col v r) k = (if k = col \<and> rget r C_uid = SInt uid then v else rget r k)"
  by (simp add: set_user_def)

lemma set_user_col:
  assumes "st_wf s" and "user_uid (db s) user = Some uid" and "col \<notin> {C_uid, C_name}"
    and "set (rows d' T_user) = set_user uid col v ` set (rows (db s) T_user)"
  shows "user_has d' u k w \<longleftrightarrow> (if u = user \<and> k = col then w = v else user_has (db s) u k w)"
proof -
  obtain q where q: "q \<in> set (rows (db s) T_user)" "rget q C_name = STxt user" "rget q C_uid = SInt uid"
    using assms(1,2) by (auto simp: user_uid_row)
  have key: "rget x C_uid = SInt uid \<longleftrightarrow> u = user"
    if "x \<in> set (rows (db s) T_user)" "rget x C_name = STxt u" for x
    using user_row_name [OF assms(1) that(1) q(1)] user_row_uid [OF assms(1) that(1) q(1)] that q by auto
  have "user_has d' u k w \<longleftrightarrow> (\<exists>x \<in> set (rows (db s) T_user). rget x C_name = STxt u
          \<and> (if k = col \<and> u = user then v else rget x k) = w)"
    using assms(3) key unfolding user_has_def assms(4) by (auto simp: rget_set_user split: if_splits)
  then show ?thesis using q by (auto simp: user_has_def)
qed

lemma exec_set_user:
  assumes "exec_nil H [Update T_user [(col, Lit v)] [(C_uid, Lit (SInt uid))]] s = (Inr x, s')"
    and "sval_safe v" and "st_wf s" and "col \<notin> {C_uid, C_name}"
  shows "set (rows (db s') T_user) = set_user uid col v ` set (rows (db s) T_user)" and "touches {T_user} s s'"
    and "st_wf s'" and "user_uid (db s') = user_uid (db s)"
proof -
  let ?st = "Update T_user [(col, Lit v)] [(C_uid, Lit (SInt uid))]"
  have safe: "stmt_safe ?st" using assms(2) by simp
  note e = exec_nil_Inr [OF assms(1) safe]
  have "rows (db s') T_user = map (set_user uid col v) (rows (db s) T_user)"
    using exec_update [OF e(1)] by (simp add: set_user_def update_row_Lit)
  then show r: "set (rows (db s') T_user) = set_user uid col v ` set (rows (db s) T_user)" by simp
  show t: "touches {T_user} s s'" using exec_stmt_within [OF e(1), of "{T_user}"] by (auto simp: touches_def)
  have "conn_inv (conn s')" using exec_stmt_inv [OF e(1)] assms(3) by (simp add: st_wf_def)
  moreover have "uids_ok (db s')"
    using assms(3,4) by (auto simp: st_wf_def uids_ok_def r list_all_iff rget_set_user)
  ultimately show w: "st_wf s'"
    using assms(3) touches_schema_wf [OF t] touches_rows [OF t, of T_xid_name_map]
    by (simp add: st_wf_def xids_ok_def)
  have "user_uid (db s') u = Some y \<longleftrightarrow> user_uid (db s) u = Some y" for u y
    using assms(4) unfolding user_uid_row [OF w] user_uid_row [OF assms(3)] r by (auto simp: rget_set_user)
  then show "user_uid (db s') = user_uid (db s)" by (metis option.exhaust ext)
qed

definition is_user :: "vxdb_db \<Rightarrow> string \<Rightarrow> bool" where
  "is_user d u \<longleftrightarrow> (\<exists>q \<in> set (rows d T_user). rget q C_name = STxt u)"

lemma is_user_set:
  "set (rows d' T_user) = set_user uid col v ` set (rows d T_user) \<Longrightarrow> col \<noteq> C_name \<Longrightarrow> is_user d' u = is_user d u"
  by (auto simp: is_user_def rget_set_user)

lemma user_uid_is_user: "st_wf s \<Longrightarrow> user_uid (db s) u = Some x \<Longrightarrow> is_user (db s) u"
  by (auto simp: is_user_def user_uid_row)

text \<open>Who is a user and an administrator and which digest logs in, once a user has been set;
  \<open>None\<close> keeps the digest.\<close>

definition user_set_to :: "lucid \<Rightarrow> vxdb_db \<Rightarrow> vxdb_db \<Rightarrow> string \<Rightarrow> bool \<Rightarrow> string option \<Rightarrow> bool" where
  "user_set_to L d d' user admin digest \<longleftrightarrow>
     (\<forall>u. is_user d' u \<longleftrightarrow> u = user \<or> is_user d u)
     \<and> (\<forall>u. is_admin d' u \<longleftrightarrow> (if u = user then admin else is_admin d u))
     \<and> (\<forall>u pw. authenticated L d' u pw \<longleftrightarrow>
          (if u = user \<and> digest \<noteq> None then digest = Some (whirlpool_pass L pw) else authenticated L d u pw))"

lemma set_user_new:
  assumes "exec_nil H [Insert False T_user [(C_uid, SInt uid), (C_name, STxt user), (C_password, STxt digest),
      (C_admin, SInt (if admin then 1 else 0))]] s = (Inr v, s')"
    and "quote_free user" and "quote_free digest" and "st_wf s"
  shows "user_set_to L (db s) (db s') user admin (Some digest)" and "touches {T_user} s s'"
proof -
  let ?r = "[(C_uid, SInt uid), (C_name, STxt user), (C_password, STxt digest),
      (C_admin, SInt (if admin then 1 else 0))]"
  have safe: "stmt_safe (Insert False T_user ?r)" using assms(2,3) by simp
  note e = exec_nil_Inr [OF assms(1) safe]
  have ix: "table_indexes (db s) T_user = [[C_uid], [C_name]]" using assms(4) by (simp add: st_wf_def schema_wf_index)
  note no = exec_insert(1) [OF e(1)]
  have r: "rows (db s') T_user = rows (db s) T_user @ [?r]" using exec_insert(2) [OF e(1)] by simp
  have free: "rget q C_name \<noteq> STxt user" if "q \<in> set (rows (db s) T_user)" for q
    using no that by (auto simp: list_ex_iff clashes_def ix conflict_def)
  show "touches {T_user} s s'" using exec_stmt_within [OF e(1), of "{T_user}"] by (auto simp: touches_def)
  show "user_set_to L (db s) (db s') user admin (Some digest)"
    using free by (auto simp: user_set_to_def is_user_def is_admin_def authenticated_def r)
qed

lemma set_user_old:
  assumes "exec_nil H [Update T_user [(C_admin, Lit (SInt (if admin then 1 else 0)))] [(C_uid, Lit (SInt uid))]] s
      = (Inr v, s')" and "user_uid (db s) user = Some uid" and "st_wf s"
  shows "user_set_to L (db s) (db s') user admin None" and "touches {T_user} s s'" and "st_wf s'"
    and "user_uid (db s') user = Some uid"
proof -
  note e = exec_set_user [OF assms(1) _ assms(3), simplified]
  note col = set_user_col [OF assms(3,2) _ e(1), simplified]
  show "user_set_to L (db s) (db s') user admin None"
    unfolding user_set_to_def user_has_rights col
    using is_user_set [OF e(1)] user_uid_is_user [OF assms(3,2)] by auto
  show "touches {T_user} s s'" "st_wf s'" "user_uid (db s') user = Some uid" using e(2-4) assms(2) by simp_all
qed

lemma set_user_password:
  assumes "exec_nil H [Update T_user [(C_password, Lit (STxt digest))] [(C_uid, Lit (SInt uid))]] s = (Inr v, s')"
    and "quote_free digest" and "user_uid (db s) user = Some uid" and "st_wf s"
    and "user_set_to L d (db s) user admin None"
  shows "user_set_to L d (db s') user admin (Some digest)" and "touches {T_user} s s'"
proof -
  note e = exec_set_user [OF assms(1) _ assms(4), simplified, OF assms(2)]
  note col = set_user_col [OF assms(4,3) _ e(1), simplified]
  show "user_set_to L d (db s') user admin (Some digest)"
    using assms(5) is_user_set [OF e(1)] unfolding user_set_to_def user_has_rights col by auto
  show "touches {T_user} s s'" by (rule e(2))
qed

lemma user_set_to_cong:
  "touches {T_vcd} s t \<Longrightarrow> user_set_to L (db t) d' user admin x = user_set_to L (db s) d' user admin x"
  by (simp add: user_set_to_def auth_tables_cong is_user_def touches_rows)

lemma user_create_effect:
  assumes "user_create H user pass (if admin then 1 else 0) s = (Inr v, s')" and "st_wf s"
    and "quote_free user" and "quote_free (whirlpool_pass (lib H) pass)"
  shows "user_set_to L (db s) (db s') user admin (Some (whirlpool_pass (lib H) pass))"
    and "\<not> str_isempty (lib H) (Some pass)" and "touches {T_user} s s'"
proof -
  from assms(1) obtain uid s1 where val: "validate_password (lib H) (empty_param H pass)"
    and nx: "auth_getnextuid H s = (Inr uid, s1)"
    and ex: "exec_nil H [Insert False T_user [(C_uid, SInt uid), (C_name, STxt user),
       (C_password, STxt (whirlpool_pass (lib H) pass)), (C_admin, SInt (if admin then 1 else 0))]] s1 = (Inr v, s')"
    unfolding user_create_def by (elim handlerE) blast
  have c: "db s1 = db s" "st_wf s1"
    using reads_conn [OF auth_getnextuid_reads nx] st_wf_cong [of s1 s] assms(2) by simp_all
  from set_user_new [OF ex assms(3,4) c(2)] c
  show "user_set_to L (db s) (db s') user admin (Some (whirlpool_pass (lib H) pass))" "touches {T_user} s s'"
    by (simp_all add: touches_def)
  show "\<not> str_isempty (lib H) (Some pass)"
    using val by (auto simp: empty_param_iff validate_password_def split: if_splits)
qed

lemma user_change_effect:
  assumes "user_change H uid pass (if admin then 1 else 0) s = (Inr v, s')" and "st_wf s"
    and "user_uid (db s) user = Some uid" and "quote_free (whirlpool_pass (lib H) pass)"
  shows "user_set_to L (db s) (db s') user admin
      (if str_isempty (lib H) (Some pass) then None else Some (whirlpool_pass (lib H) pass))"
    and "touches {T_user} s s'"
proof -
  let ?upd = "exec_nil H [Update T_user [(C_password, Lit (STxt (whirlpool_pass (lib H) pass)))]
      [(C_uid, Lit (SInt uid))]]"
  from assms(1) obtain v1 s1 where
    ex: "exec_nil H [Update T_user [(C_admin, Lit (SInt (if admin then 1 else 0)))] [(C_uid, Lit (SInt uid))]] s
      = (Inr v1, s1)"
    and r: "(if empty_param H pass = None then ret v1
       else bindM (unlessM (validate_password (lib H) (empty_param H pass)) invalid_password) (\<lambda>_. ?upd)) s1
       = (Inr v, s')"
    unfolding user_change_def by (elim bindM_InrE) blast
  note o1 = set_user_old [OF ex assms(3,2)]
  have "user_set_to L (db s) (db s') user admin
      (if str_isempty (lib H) (Some pass) then None else Some (whirlpool_pass (lib H) pass))
    \<and> touches {T_user} s s'"
  proof (cases "str_isempty (lib H) (Some pass)")
    case True
    with r o1 show ?thesis by (simp add: prog_simps empty_param_iff)
  next
    case False
    with r have "?upd s1 = (Inr v, s')" by (auto simp: empty_param_iff elim!: bindM_InrE unlessM_InrE)
    from set_user_password [OF this assms(4) o1(4,3,1)] o1(2) False show ?thesis by (auto simp: touches_def)
  qed
  then show "user_set_to L (db s) (db s') user admin
      (if str_isempty (lib H) (Some pass) then None else Some (whirlpool_pass (lib H) pass))"
    "touches {T_user} s s'" by simp_all
qed

text \<open>
  C9.  After \<^verbatim>\<open>vcd.user.set\<close> the user exists, and is an administrator exactly if the request says
  so.  With a password in the request, a password logs in afterwards exactly if its digest is the one of
  this password, where the digest of a password that begins with \<^verbatim>\<open>WHIRLPOOLENC//\<close> is what
  follows; without a password in the request the old one is kept.  No other user is made or affected.  A
  password of the request that begins with \<^verbatim>\<open>WHIRLPOOLENC//\<close> has no quote in it.
\<close>

theorem user_set_login:
  assumes "m_vcd_user_set H p c s = (Inr v, s')" and "host_ok H" and "st_wf s"
    and "req_s H p c ''password'' = Some pass" and "take 14 pass = enc_prefix \<longrightarrow> quote_free pass"
  shows "\<exists>user admin. req_s H p c ''username'' = Some user \<and> req_b H p c ''admin'' = Some admin
    \<and> user_set_to (lib H) (db s) (db s') user admin
        (if str_isempty (lib H) (Some pass) then None else Some (whirlpool_pass (lib H) pass))
    \<and> touches {T_vcd, T_user} s s'"
proof -
  from assms(1) obtain params s1 user pass' admin uid s2 where
    i: "method_init H p c VCD_CAP_AUTH 0 s = (Inr params, s1)"
    and a: "get_param (xr_string (xr H)) H params ''username'' = Some user"
      "get_param (xr_string (xr H)) H params ''password'' = Some pass'"
      "get_param (xr_bool (xr H)) H params ''admin'' = Some admin"
    and val: "validate_username (lib H) user" and u: "auth_getuid H user s1 = (Inr uid, s2)"
    and rest: "(if uid = 0 then user_create H user pass' (if admin then 1 else 0)
      else user_change H uid pass' (if admin then 1 else 0)) s2 = (Inr v, s')"
    unfolding m_vcd_user_set_def by (elim handlerE) blast
  note pr = method_init_params [OF i]
  have [simp]: "pass' = pass" using a(2) pr assms(4) by (simp add: req_s_def)
  note w1 = method_init_wf [OF i assms(2,3)]
  note w2 = reads_wf [OF auth_getuid_reads u w1]
  have qf: "quote_free user" "quote_free (whirlpool_pass (lib H) pass)"
    using val assms(2,5) by (auto simp: validate_username_quote_free whirlpool_pass_quote_free)
  have "user_set_to (lib H) (db s2) (db s') user admin
      (if str_isempty (lib H) (Some pass) then None else Some (whirlpool_pass (lib H) pass)) \<and> touches {T_user} s2 s'"
  proof (cases "uid = 0")
    case True
    with rest user_create_effect [of H user pass admin s2 v s'] w2(2) qf show ?thesis by simp
  next
    case False
    have "user_uid (db s2) user = Some uid"
      by (rule auth_getuid_uid [OF u False assms(2) _ w1(2) w2(2)])
        (use reads_conn [OF auth_getuid_reads u] in \<open>simp add: touches_def\<close>)
    with rest False user_change_effect [of H uid pass admin s2 v s' user] w2(2) qf show ?thesis by simp
  qed
  with a pr user_set_to_cong [OF w2(1)] touches_trans [OF w2(1), of "{T_user}" s'] show ?thesis
    by (intro exI [of _ user] exI [of _ admin]) (simp add: req_s_def req_b_def insert_commute)
qed

section \<open>Witnesses\<close>

lemmas user_eval = eval_rules eval_auth need_uid_def auth_getnextuid_def exec_stmt.simps vxdb_query_def

lemmas ref_req = req_s_def req_b_def req_params_def get_param_def ref_sel

theorem user_remove_revokes_witness:
  "\<exists>s'. m_vcd_user_remove ref_host (XStruct [(''username'', XStr ''bob'')]) True (ref_state ref_db []) = (Inr XNil, s')
     \<and> \<not> authenticated ref_lucid (db s') ''bob'' ''password'' \<and> \<not> has_owner_row (db s') ''bob'' ''guest1''"
proof -
  let ?p = "XStruct [(''username'', XStr ''bob'')]"
  have "fst (m_vcd_user_remove ref_host ?p True (ref_state ref_db [])) = Inr XNil"
    by (simp add: m_vcd_user_remove_def user_remove_stmts_def user_eval cong: bindM_weak_cong)
  note run = run_value [OF this]
  have "req_s ref_host ?p True ''username'' = Some ''bob''" by (simp add: ref_req)
  with user_remove_revokes [OF run ref_host_ok ref_st_wf, of ref_lucid] run show ?thesis by auto
qed

theorem user_caps_add_grants_witness:
  "\<exists>s'. m_vcd_user_caps_add ref_host (XStruct [(''username'', XStr ''bob''), (''cap'', XStr ''NET'')]) True
       (ref_state ref_db []) = (Inr XNil, s') \<and> has_cap_row (db s') ''bob'' ''NET''"
proof -
  let ?p = "XStruct [(''username'', XStr ''bob''), (''cap'', XStr ''NET'')]"
  have "fst (m_vcd_user_caps_add ref_host ?p True (ref_state ref_db [])) = Inr XNil"
    by (simp add: m_vcd_user_caps_add_def validate_vcd_cap_def user_eval cong: bindM_weak_cong)
  note run = run_value [OF this]
  have "req_s ref_host ?p True ''username'' = Some ''bob''" "req_s ref_host ?p True ''cap'' = Some ''NET''"
    by (simp_all add: ref_req)
  with user_caps_add_grants [OF run ref_host_ok ref_st_wf] run show ?thesis by auto
qed

theorem user_caps_remove_revokes_witness:
  "\<exists>s'. m_vcd_user_caps_remove ref_host (XStruct [(''username'', XStr ''bob''), (''cap'', XStr ''DLIM'')]) True
       (ref_state ref_db []) = (Inr XNil, s') \<and> \<not> has_cap_row (db s') ''bob'' ''DLIM''"
proof -
  let ?p = "XStruct [(''username'', XStr ''bob''), (''cap'', XStr ''DLIM'')]"
  have "fst (m_vcd_user_caps_remove ref_host ?p True (ref_state ref_db [])) = Inr XNil"
    by (simp add: m_vcd_user_caps_remove_def validate_vcd_cap_def user_eval cong: bindM_weak_cong)
  note run = run_value [OF this]
  have "req_s ref_host ?p True ''username'' = Some ''bob''" "req_s ref_host ?p True ''cap'' = Some ''DLIM''"
    by (simp_all add: ref_req)
  with user_caps_remove_revokes [OF run ref_host_ok ref_st_wf] run show ?thesis by auto
qed

theorem owner_add_grants_witness:
  "\<exists>s'. m_vxdb_owner_add ref_host (XStruct [(''name'', XStr ''guest2''), (''username'', XStr ''bob'')]) True
       (ref_state ref_db []) = (Inr XNil, s') \<and> has_owner_row (db s') ''bob'' ''guest2''"
proof -
  let ?p = "XStruct [(''name'', XStr ''guest2''), (''username'', XStr ''bob'')]"
  have "fst (m_vxdb_owner_add ref_host ?p True (ref_state ref_db [])) = Inr XNil"
    by (simp add: m_vxdb_owner_add_def user_eval cong: bindM_weak_cong)
  note run = run_value [OF this]
  have "req_s ref_host ?p True ''name'' = Some ''guest2''" "req_s ref_host ?p True ''username'' = Some ''bob''"
    by (simp_all add: ref_req)
  with owner_add_grants [OF run ref_host_ok ref_st_wf] run show ?thesis by auto
qed

theorem owner_remove_revokes_witness:
  "\<exists>s'. m_vxdb_owner_remove ref_host (XStruct [(''name'', XStr ''guest1''), (''username'', XStr ''bob'')]) True
       (ref_state ref_db []) = (Inr XNil, s') \<and> \<not> has_owner_row (db s') ''bob'' ''guest1''"
proof -
  let ?p = "XStruct [(''name'', XStr ''guest1''), (''username'', XStr ''bob'')]"
  have "fst (m_vxdb_owner_remove ref_host ?p True (ref_state ref_db [])) = Inr XNil"
    by (simp add: m_vxdb_owner_remove_def user_eval cong: bindM_weak_cong)
  note run = run_value [OF this]
  have "req_s ref_host ?p True ''name'' = Some ''guest1''" "req_s ref_host ?p True ''username'' = Some ''bob''"
    by (simp_all add: ref_req)
  with owner_remove_revokes [OF run ref_host_ok ref_st_wf] run show ?thesis by auto
qed

theorem user_set_login_witness:
  "\<exists>s'. m_vcd_user_set ref_host (XStruct [(''username'', XStr ''eve''), (''password'', XStr ''longenough''),
       (''admin'', XBool False)]) True (ref_state ref_db []) = (Inr XNil, s')
     \<and> authenticated ref_lucid (db s') ''eve'' ''longenough''"
proof -
  let ?p = "XStruct [(''username'', XStr ''eve''), (''password'', XStr ''longenough''), (''admin'', XBool False)]"
  have "fst (m_vcd_user_set ref_host ?p True (ref_state ref_db [])) = Inr XNil"
    by (simp add: m_vcd_user_set_def user_create_def validate_password_def user_eval less_eq_sval_def cong: bindM_weak_cong)
  note run = run_value [OF this]
  have "req_s ref_host ?p True ''username'' = Some ''eve''" "req_s ref_host ?p True ''password'' = Some ''longenough''"
    "\<not> str_isempty (lib ref_host) (Some ''longenough'')" "lib ref_host = ref_lucid"
    by (simp_all add: ref_req is_space_def)
  with user_set_login [OF run ref_host_ok ref_st_wf, of "''longenough''"] run show ?thesis
    by (auto simp: user_set_to_def enc_prefix_def)
qed

end
