(* ===== verification/Vx_Methods.thy ===== *)
theory Vx_Methods
  imports Vxdb_Limits
begin

text \<open>
  The methods on guests under \<^verbatim>\<open>src/src/vcd/methods/vx/\<close>: starting, stopping and
  signalling a context, running a command in it, its status, and renaming and removing a guest.
  The kernel is a parameter; a system call that fails gives a \<open>SysFault\<close> with its name.
\<close>

section \<open>Is the context there?\<close>

text \<open>\<^verbatim>\<open>if (vx_info(xid, NULL) == -1)\<close> and the two faults it leads to.\<close>

definition need_running :: "'k host \<Rightarrow> xid_t \<Rightarrow> ('k, unit) handler" where
  "need_running H xid =
     bindM (sysM (vx_info (kern H) xid)) (\<lambda>r.
     case r of
       Inl ESRCH \<Rightarrow> raise (Fault MESTOPPED)
     | Inl e \<Rightarrow> raise (SysFault ''vx_info'' e)
     | Inr _ \<Rightarrow> ret ())"

definition sys_or_fault :: "string \<Rightarrow> ('k, 'a) syscall \<Rightarrow> ('k, 'a) handler" where
  "sys_or_fault what f =
     bindM (sysM f) (\<lambda>r. case r of Inl e \<Rightarrow> raise (SysFault what e) | Inr x \<Rightarrow> ret x)"

section \<open>Signals and commands\<close>

definition m_vx_kill :: "'k host \<Rightarrow> xval \<Rightarrow> bool \<Rightarrow> ('k, xval) handler" where
  "m_vx_kill H p c =
     bindM (method_init H p c VCD_CAP_INIT owner_lock) (\<lambda>params.
     bindM (arg_s H params ''name'') (\<lambda>name.
     bindM (arg_i H params ''pid'') (\<lambda>pid.
     bindM (arg_i H params ''sig'') (\<lambda>sig.
     bindM (need_xid H name) (\<lambda>xid.
     bindM (need_running H xid) (\<lambda>_.
     bindM (sys_or_fault ''vx_kill'' (vx_kill (kern H) xid pid sig)) (\<lambda>_.
     ret XNil)))))))"

text \<open>The child of \<^verbatim>\<open>vx.exec\<close>.  What it logs is not part of its output.\<close>

definition vx_exec_child :: "'k host \<Rightarrow> xid_t \<Rightarrow> string \<Rightarrow> 'k child" where
  "vx_exec_child H xid command k =
     (case act (kern H) (Vx_migrate xid 0) k of
        (Inl _, k1) \<Rightarrow> (([], WExited 1), k1)
      | (Inr _, k1) \<Rightarrow>
          (case exec_replace (kern H) command k1 of
             (Inl _, k2) \<Rightarrow> (([], WExited 1), k2)
           | (Inr z, k2) \<Rightarrow> (z, k2)))"

definition m_vx_exec :: "'k host \<Rightarrow> xval \<Rightarrow> bool \<Rightarrow> ('k, xval) handler" where
  "m_vx_exec H p c =
     bindM (method_init H p c VCD_CAP_EXEC M_OWNER) (\<lambda>params.
     bindM (arg_s H params ''name'') (\<lambda>name.
     bindM (arg_s H params ''command'') (\<lambda>command.
     bindM (need_xid H name) (\<lambda>xid.
     bindM (need_running H xid) (\<lambda>_.
     bindM (vxdb_getvdir H name) (\<lambda>v.
     case v of
       None \<Rightarrow> raise (Faultf MECONF ''invalid vdir: (null)'')
     | Some vdir \<Rightarrow>
         bindM (sys_or_fault ''ns_enter'' (ns_enter (kern H) xid)) (\<lambda>_.
         bindM (sys_or_fault ''chroot_secure_chdir'' (chroot_secure_chdir (kern H) vdir ''/'')) (\<lambda>_.
         bindM (sys_or_fault ''chroot'' (chroot (kern H) ''.'')) (\<lambda>_.
         bindM (sys_or_fault ''nx_migrate'' (nx_migrate (kern H) xid)) (\<lambda>_.
         bindM (sys_or_fault ''pipe'' (pipe (kern H))) (\<lambda>_.
         bindM (sys_or_fault ''fork'' (fork_run (kern H) (vx_exec_child H xid command))) (\<lambda>_.
         bindM (sys_or_fault ''str_readfile'' (read_child (kern H))) (\<lambda>output.
         bindM (sys_or_fault ''waitpid'' (wait_child (kern H))) (\<lambda>status.
         case status of
           WExited n \<Rightarrow> if n \<noteq> 0 then raise (Faultf (MEEXEC + n) output) else ret (XStr output)
         | WSignaled _ \<Rightarrow> ret (XStr output)))))))))))))))"

definition m_vx_reboot :: "'k host \<Rightarrow> xval \<Rightarrow> bool \<Rightarrow> ('k, xval) handler" where
  "m_vx_reboot H p c =
     bindM (method_init H p c VCD_CAP_INIT owner_lock) (\<lambda>params.
     bindM (arg_s H params ''name'') (\<lambda>name.
     bindM (need_xid H name) (\<lambda>xid.
     bindM (need_running H xid) (\<lambda>_.
     bindM (vxdb_query H (Select [C_reboot] T_init [(C_xid, xid_lit xid)] Unordered)) (\<lambda>r.
     bindM (unlessM (prepared r \<and> finished r) VxdbFault) (\<lambda>_.
     let reboot = foldl (\<lambda>_ row. or_default (vxdb_column_text row 0) '''') ''/sbin/reboot'' (result r) in
     m_vx_exec H (XStruct [(''name'', XStr name), (''command'', XStr reboot)]) True))))))"

section \<open>Stopping\<close>

fun vx_stop_wait :: "'k host \<Rightarrow> xid_t \<Rightarrow> nat \<Rightarrow> ('k, xval) handler" where
  "vx_stop_wait H xid 0 = raise (Faultf MEBUSY ''vx still alive after timeout (-1)'')"
| "vx_stop_wait H xid (Suc timeout) =
     bindM (sysM (vx_info (kern H) xid)) (\<lambda>r.
     case r of
       Inl ESRCH \<Rightarrow> ret XNil
     | Inl e \<Rightarrow> raise (SysFault ''vx_info'' e)
     | Inr _ \<Rightarrow> bindM (osM (sleep1 (kern H))) (\<lambda>_. vx_stop_wait H xid timeout))"

definition halt_timeout :: "'k host \<Rightarrow> sval list list \<Rightarrow> string \<times> int" where
  "halt_timeout H rs =
     foldl (\<lambda>_ row.
       (or_default (vxdb_column_text row 0) '''',
        let timeout = vxdb_column_int (lib H) row 1 in if timeout < 1 then 15 else timeout))
       (''/sbin/halt'', 15) rs"

definition m_vx_stop :: "'k host \<Rightarrow> xval \<Rightarrow> bool \<Rightarrow> ('k, xval) handler" where
  "m_vx_stop H p c =
     bindM (method_init H p c VCD_CAP_INIT owner_lock) (\<lambda>params.
     bindM (arg_s H params ''name'') (\<lambda>name.
     bindM (need_xid H name) (\<lambda>xid.
     bindM (need_running H xid) (\<lambda>_.
     bindM (vxdb_query H (Select [C_halt, C_timeout] T_init [(C_xid, xid_lit xid)] Unordered)) (\<lambda>r.
     bindM (unlessM (prepared r \<and> finished r) VxdbFault) (\<lambda>_.
     let (halt, timeout) = halt_timeout H (result r) in
     bindM (m_vx_exec H (XStruct [(''name'', XStr name), (''command'', XStr halt)]) True) (\<lambda>_.
     vx_stop_wait H xid (nat timeout))))))))"

section \<open>Starting\<close>

definition hdr64 :: "'k host \<Rightarrow> string list \<Rightarrow> 64 word" where
  "hdr64 H ns = foldl (\<lambda>w n. or w (of_nat (hdr H n))) 0 ns"

text \<open>The child of \<^verbatim>\<open>vx.start\<close>.  Its messages name the wrong calls, and it always ends
  with success.\<close>

definition vx_start_child :: "'k host \<Rightarrow> xid_t \<Rightarrow> 'k child" where
  "vx_start_child H xid k =
     (let ncf = hdr64 H [''NXF_PERSISTENT'', ''NXF_STATE_ADMIN'', ''NXF_SC_HELPER''];
          vcf = hdr64 H [''VXF_PERSISTENT'', ''VXF_STATE_ADMIN'', ''VXF_SC_HELPER'', ''VXF_INFO_INIT'',
              ''VXF_REBOOT_KILL''];
          msg = (\<lambda>call r. case r of
                   Inl e \<Rightarrow> call @ ''('' @ dec (s32 xid) @ ''): '' @ strerror (kern H) e
                 | Inr () \<Rightarrow> []);
          (r1, k1) = act (kern H) (Nx_create xid ncf) k;
          (r2, k2) = act (kern H) (Vx_create xid vcf) k1 in
      ((msg ''vx_create'' r1 @ msg ''nx_create'' r2, WExited 0), k2))"

definition m_vx_start :: "'k host \<Rightarrow> xval \<Rightarrow> bool \<Rightarrow> ('k, xval) handler" where
  "m_vx_start H p c =
     bindM (method_init H p c VCD_CAP_INIT owner_lock) (\<lambda>params.
     bindM (arg_s H params ''name'') (\<lambda>name.
     bindM (need_xid H name) (\<lambda>xid.
     bindM (sysM (nx_flags_set (kern H) xid 0 (hdr64 H [''NXF_PERSISTENT'']))) (\<lambda>_.
     bindM (sysM (vx_flags_set (kern H) xid 0 (hdr64 H [''VXF_PERSISTENT'']))) (\<lambda>_.
     bindM (sysM (vx_info (kern H) xid)) (\<lambda>r.
     case r of
       Inr _ \<Rightarrow> raise (Fault MERUNNING)
     | Inl _ \<Rightarrow>
         bindM (sys_or_fault ''pipe'' (pipe (kern H))) (\<lambda>_.
         bindM (sys_or_fault ''fork'' (fork_run (kern H) (vx_start_child H xid))) (\<lambda>_.
         bindM (sysM (read_child (kern H))) (\<lambda>rd.
         bindM (sysM (wait_child (kern H))) (\<lambda>w.
         let buf = (case rd of Inl _ \<Rightarrow> ''(null)'' | Inr b \<Rightarrow> b) in
         case w of
           Inl e \<Rightarrow> raise (SysFault ''waitpid'' e)
         | Inr status \<Rightarrow>
             if (case status of WExited n \<Rightarrow> n \<noteq> 0 | WSignaled _ \<Rightarrow> False)
             then raise (Faultf MESYS (''startup failed: '' @ buf))
             else (case rd of Inl e \<Rightarrow> raise (SysFault ''str_readfile'' e) | Inr _ \<Rightarrow> ret XNil)))))))))))"

definition m_vx_restart :: "'k host \<Rightarrow> xval \<Rightarrow> bool \<Rightarrow> ('k, xval) handler" where
  "m_vx_restart H p c =
     bindM (method_init H p c VCD_CAP_INIT owner_lock) (\<lambda>params.
     bindM (m_vx_stop H params True) (\<lambda>_.
     m_vx_start H params True))"

section \<open>Renaming and removing\<close>

definition m_vx_rename :: "'k host \<Rightarrow> xval \<Rightarrow> bool \<Rightarrow> ('k, xval) handler" where
  "m_vx_rename H p c =
     bindM (method_init H p c VCD_CAP_CREATE owner_lock) (\<lambda>params.
     bindM (arg_s H params ''name'') (\<lambda>name.
     bindM (arg_s H params ''newname'') (\<lambda>newname.
     bindM (unlessM (validate_name (lib H) newname) (invalid ''newname'' newname)) (\<lambda>_.
     bindM (vxdb_getxid H newname) (\<lambda>taken.
     bindM (unlessM (taken = 0) (Fault MEEXIST)) (\<lambda>_.
     bindM (need_xid H name) (\<lambda>xid.
     bindM (exec_nil H [Update T_xid_name_map [(C_name, Lit (STxt newname))] [(C_xid, xid_lit xid)]]) (\<lambda>v.
     bindM (vxdb_getvdir H newname) (\<lambda>vdir.
     let context = take 64 (newname @ '':'' @ or_default vdir ''(null)'') in
     bindM (sysM (vx_info (kern H) xid)) (\<lambda>r.
     case r of
       Inl _ \<Rightarrow> ret v
     | Inr _ \<Rightarrow>
         bindM (sys_or_fault ''vx_uname_set''
           (vx_uname_set (kern H) xid (int (hdr H ''VHIN_CONTEXT'')) context)) (\<lambda>_. ret v)))))))))))"

definition vx_remove_tables :: "table list" where
  "vx_remove_tables =
     [T_dx_limit, T_init, T_mount, T_nx_addr, T_nx_broadcast, T_restart, T_vdir, T_vx_bcaps,
      T_vx_ccaps, T_vx_flags, T_vx_limit, T_vx_sched, T_vx_uname, T_xid_gid_map, T_xid_name_map,
      T_xid_uid_map]"

definition vx_remove_stmts :: "xid_t \<Rightarrow> stmt list" where
  "vx_remove_stmts xid =
     Begin # map (\<lambda>t. Delete t [(C_xid, xid_lit xid)]) vx_remove_tables @ [Commit]"

definition m_vx_remove :: "'k host \<Rightarrow> xval \<Rightarrow> bool \<Rightarrow> ('k, xval) handler" where
  "m_vx_remove H p c =
     bindM (method_init H p c VCD_CAP_CREATE owner_lock) (\<lambda>params.
     bindM (arg_s H params ''name'') (\<lambda>name.
     bindM (need_xid H name) (\<lambda>xid.
     bindM (sysM (vx_info (kern H) xid)) (\<lambda>r.
     case r of
       Inr _ \<Rightarrow> raise (Fault MERUNNING)
     | Inl _ \<Rightarrow>
         bindM (vxdb_getvdir H name) (\<lambda>v.
         case v of
           None \<Rightarrow> raise (Faultf MECONF ''invalid vdir: (null)'')
         | Some vdir \<Rightarrow>
             bindM (exec_nil H (vx_remove_stmts xid)) (\<lambda>nil.
             bindM (sys_or_fault ''runlink'' (runlink (kern H) vdir)) (\<lambda>_.
             bindM (getsM os) (\<lambda>k.
             if isdir (kern H) vdir k \<and> \<not> ismount (kern H) vdir k
             then raise (Faultf MEEXIST (''vdir still exists after runlink: '' @ vdir))
             else ret nil))))))))"

section \<open>Status\<close>

definition pretty_load :: "int \<Rightarrow> string" where
  "pretty_load load =
     (let frac = drop_bit 11 (and load (push_bit 11 1 - 1) * 100) in
      dec (drop_bit 11 load) @ ''.'' @ (if 0 \<le> frac \<and> frac < 10 then ''0'' else '''') @ dec frac)"

definition status_answer ::
    "int \<Rightarrow> vx_stat_t option \<Rightarrow> string option \<Rightarrow> string option \<Rightarrow> string option \<Rightarrow> xval" where
  "status_answer running st l1 l5 l15 =
     (let f = (\<lambda>sel. XInt (case st of None \<Rightarrow> 0 | Some b \<Rightarrow> s32 (sel b))) in
      XStruct [(''running'', XInt running), (''thr_total'', f nr_threads), (''thr_running'', f nr_running),
        (''thr_unintr'', f nr_unintr), (''thr_onhold'', f nr_onhold), (''forks_total'', f nr_forks),
        (''uptime'', f (\<lambda>b. vs_uptime b div 1000000000)),
        (''load1m'', build_s l1), (''load5m'', build_s l5), (''load15m'', build_s l15)])"

definition m_vx_status :: "'k host \<Rightarrow> xval \<Rightarrow> bool \<Rightarrow> ('k, xval) handler" where
  "m_vx_status H p c =
     bindM (method_init H p c VCD_CAP_INFO M_OWNER) (\<lambda>params.
     bindM (arg_s H params ''name'') (\<lambda>name.
     bindM (need_xid H name) (\<lambda>xid.
     bindM (sysM (vx_info (kern H) xid)) (\<lambda>r.
     case r of
       Inl ESRCH \<Rightarrow> ret (status_answer 0 None (Some ''0'') (Some ''0'') (Some ''0''))
     | Inl e \<Rightarrow> raise (SysFault ''vx_info'' e)
     | Inr _ \<Rightarrow>
         bindM (sysM (vx_stat (kern H) xid)) (\<lambda>st.
         case st of
           Inl _ \<Rightarrow> ret (status_answer 0 None None None None)
         | Inr b \<Rightarrow> ret (status_answer 1 (Some b) (Some (pretty_load (load1 b)))
                      (Some (pretty_load (load5 b))) (Some (pretty_load (load15 b)))))))))"

definition LIMIT :: "(string \<times> string \<times> bool) list" where
  "LIMIT =
     [(''RLIMIT_AS'', ''mem_AS'', True), (''RLIMIT_CORE'', ''sys_CORE'', False),
      (''RLIMIT_CPU'', ''sys_CPU'', False), (''RLIMIT_DATA'', ''sys_DATA'', False),
      (''RLIMIT_FSIZE'', ''file_FSIZE'', False), (''RLIMIT_LOCKS'', ''file_LOCKS'', False),
      (''RLIMIT_MEMLOCK'', ''mem_MEMLOCK'', True), (''RLIMIT_MSGQUEUE'', ''ipc_MSGQUEUE'', False),
      (''RLIMIT_NOFILE'', ''file_NOFILE'', False), (''RLIMIT_NPROC'', ''sys_NPROC'', False),
      (''RLIMIT_RSS'', ''mem_RSS'', True), (''RLIMIT_SIGPENDING'', ''ipc_SIGPENDING'', False),
      (''RLIMIT_STACK'', ''mem_STACK'', False), (''VLIMIT_ANON'', ''mem_ANON'', True),
      (''VLIMIT_DENTRY'', ''file_DENTRY'', False), (''VLIMIT_MAPPED'', ''sys_MAPPED'', True),
      (''VLIMIT_NSEMS'', ''ipc_NSEMS'', False), (''VLIMIT_NSOCK'', ''file_NSOCK'', False),
      (''VLIMIT_OPENFD'', ''file_OPENFD'', False), (''VLIMIT_SEMARY'', ''ipc_SEMARY'', False),
      (''VLIMIT_SHMEM'', ''ipc_SHMEM'', True)]"

text \<open>A loop that appends one item per element to the answer.\<close>

fun collectM :: "'a list \<Rightarrow> ('a \<Rightarrow> ('k, xval) handler) \<Rightarrow> ('k, xval list) handler" where
  "collectM [] f = ret []"
| "collectM (x # xs) f = bindM (f x) (\<lambda>v. bindM (collectM xs f) (\<lambda>vs. ret (v # vs)))"

definition limit_item :: "'k host \<Rightarrow> xid_t \<Rightarrow> string \<times> string \<times> bool \<Rightarrow> ('k, xval) handler" where
  "limit_item H xid = (\<lambda>(idn, type, conv).
     bindM (sysM (vx_limit_stat (kern H) xid (int (hdr H idn)))) (\<lambda>r.
     let g = word_of_int (garbage H);
         (mn, cr, mx) = (case r of Inl _ \<Rightarrow> (g, g, g) | Inr t \<Rightarrow> t);
         f = (\<lambda>w. XStr (dec (uint (if conv then pagestobytes H w else w)))) in
     ret (XStruct [(''type'', XStr type), (''min'', f mn), (''cur'', f cr), (''max'', f mx)])))"

definition m_vx_limstatus :: "'k host \<Rightarrow> xval \<Rightarrow> bool \<Rightarrow> ('k, xval) handler" where
  "m_vx_limstatus H p c =
     bindM (method_init H p c VCD_CAP_INFO M_OWNER) (\<lambda>params.
     bindM (arg_s H params ''name'') (\<lambda>name.
     bindM (need_xid H name) (\<lambda>xid.
     bindM (need_running H xid) (\<lambda>_.
     bindM (collectM LIMIT (limit_item H xid)) (\<lambda>vs. ret (XArr vs))))))"

definition NET :: "(string \<times> string) list" where
  "NET = [(''NXA_SOCK_UNSPEC'', ''net_UNSPEC''), (''NXA_SOCK_UNIX'', ''net_UNIX''),
     (''NXA_SOCK_INET'', ''net_INET''), (''NXA_SOCK_INET6'', ''net_INET6''),
     (''NXA_SOCK_PACKET'', ''net_PACKET''), (''NXA_SOCK_OTHER'', ''net_OTHER'')]"

definition net_item :: "'k host \<Rightarrow> xid_t \<Rightarrow> string \<times> string \<Rightarrow> ('k, xval) handler" where
  "net_item H xid = (\<lambda>(idn, type).
     bindM (sysM (nx_sock_stat (kern H) xid (int (hdr H idn)))) (\<lambda>r.
     let g = (word_of_int (garbage H), word_of_int (garbage H));
         stats = (case r of Inl _ \<Rightarrow> [] | Inr l \<Rightarrow> l);
         at = (\<lambda>i. if i < length stats then stats ! i else g);
         cnt = (\<lambda>i. XStr (dec (uint (fst (at i)))));
         tot = (\<lambda>i. XStr (dec (uint (snd (at i))))) in
     ret (XStruct [(''type'', XStr type), (''recvp'', cnt 0), (''recvb'', tot 0), (''sendp'', cnt 1),
       (''sendb'', tot 1), (''failp'', cnt (2::nat)), (''failb'', tot 2)])))"

definition m_vx_netstatus :: "'k host \<Rightarrow> xval \<Rightarrow> bool \<Rightarrow> ('k, xval) handler" where
  "m_vx_netstatus H p c =
     bindM (method_init H p c VCD_CAP_INFO M_OWNER) (\<lambda>params.
     bindM (arg_s H params ''name'') (\<lambda>name.
     bindM (need_xid H name) (\<lambda>xid.
     bindM (need_running H xid) (\<lambda>_.
     bindM (collectM NET (net_item H xid)) (\<lambda>vs. ret (XArr vs))))))"

section \<open>Frames of the helpers\<close>

lemma stays_errno:
  "stays R m \<Longrightarrow> (\<And>e. stays R (f e)) \<Longrightarrow>
     stays R (case e of ESRCH \<Rightarrow> m | ENOENT \<Rightarrow> f ENOENT | Errno i \<Rightarrow> f (Errno i))"
  by (cases e) simp_all

lemma need_running_reads [reads_intros]: "stays same_conn (need_running H xid)"
  unfolding need_running_def by (intro sc.stays_rules stays_errno reads_intros)

lemma sys_or_fault_reads [reads_intros]: "stays same_conn (sys_or_fault what f)"
  unfolding sys_or_fault_def by (intro sc.stays_rules reads_intros)

lemma vx_stop_wait_reads [reads_intros]: "stays same_conn (vx_stop_wait H xid n)"
  by (induction n) (auto intro!: sc.stays_rules stays_errno reads_intros)

lemma collectM_reads [reads_intros]: "(\<And>x. stays same_conn (f x)) \<Longrightarrow> stays same_conn (collectM xs f)"
  by (induction xs) (auto intro!: sc.stays_rules)

lemma limit_item_reads [reads_intros]: "stays same_conn (limit_item H xid z)"
  unfolding limit_item_def by (intro sc.stays_rules reads_intros)

lemma net_item_reads [reads_intros]: "stays same_conn (net_item H xid z)"
  unfolding net_item_def by (intro sc.stays_rules reads_intros)

section \<open>The unique indexes are kept\<close>

lemmas vx_keeps_rules = ki.stays_rules method_init_keeps exec_nil_keeps stays_errno
  reads_intros [THEN same_conn_keeps]

lemma stays_wstatus:
  "(\<And>i. stays R (f i)) \<Longrightarrow> (\<And>i. stays R (g i)) \<Longrightarrow>
     stays R (case w of WExited i \<Rightarrow> f i | WSignaled i \<Rightarrow> g i)"
  by (cases w) simp_all

lemma m_vx_exec_keeps [inv_intros]: "sqlite_ok (sql H) \<Longrightarrow> stays keeps_inv (m_vx_exec H p c)"
  unfolding m_vx_exec_def by (intro vx_keeps_rules stays_wstatus)

lemma m_vx_start_keeps [inv_intros]: "sqlite_ok (sql H) \<Longrightarrow> stays keeps_inv (m_vx_start H p c)"
  unfolding m_vx_start_def by (intro vx_keeps_rules stays_wstatus)

lemma m_vx_stop_keeps [inv_intros]: "sqlite_ok (sql H) \<Longrightarrow> stays keeps_inv (m_vx_stop H p c)"
  unfolding m_vx_stop_def by (intro vx_keeps_rules m_vx_exec_keeps)

lemma vx_methods_keeps [inv_intros]:
  assumes "sqlite_ok (sql H)"
  shows "stays keeps_inv (m_vx_kill H p c)"
    and "stays keeps_inv (m_vx_reboot H p c)"
    and "stays keeps_inv (m_vx_restart H p c)"
    and "stays keeps_inv (m_vx_rename H p c)"
    and "stays keeps_inv (m_vx_remove H p c)"
    and "stays keeps_inv (m_vx_status H p c)"
    and "stays keeps_inv (m_vx_limstatus H p c)"
    and "stays keeps_inv (m_vx_netstatus H p c)"
  unfolding m_vx_kill_def m_vx_reboot_def m_vx_restart_def m_vx_rename_def m_vx_remove_def
    m_vx_status_def m_vx_limstatus_def m_vx_netstatus_def
  by (intro vx_keeps_rules m_vx_exec_keeps m_vx_stop_keeps m_vx_start_keeps limit_item_reads
      net_item_reads assms)+

end
