(* ===== verification/Guest_Laws.thy ===== *)
theory Guest_Laws
  imports Access User_Laws Vx_Methods
begin

text \<open>
  What the methods on whole guests do: removing and renaming a guest, stopping it, the list of
  guests, and the maps between names and context ids, which are inverse to each other.
\<close>

section \<open>Removing a guest\<close>

lemma vx_remove_steps:
  assumes "m_vx_remove H p c s = (Inr v, s')" and "host_ok H" and "st_wf s"
  obtains name xid s3 s4 e k k' where "req_s H p c ''name'' = Some name"
    and "name_xid (db s) name = Some xid" and "s32 xid = xid"
    and "vx_info (kern H) xid k = (Inl e, k')"
    and "touches {T_vcd} s s3" and "st_wf s3"
    and "exec_nil H (vx_remove_stmts xid) s3 = (Inr v, s4)" and "conn s' = conn s4"
proof -
  from assms(1) obtain params s1 name xid s2 e s3 vd vdir s4 s5 u where
    i: "method_init H p c VCD_CAP_CREATE owner_lock s = (Inr params, s1)"
    and a: "get_param (xr_string (xr H)) H params ''name'' = Some name"
    and x: "need_xid H name s1 = (Inr xid, s2)"
    and r: "sysM (vx_info (kern H) xid) s2 = (Inr (Inl e), s3)"
    and vd: "vxdb_getvdir H name s3 = (Inr vd, s4)"
    and ex: "exec_nil H (vx_remove_stmts xid) s4 = (Inr v, s5)"
    and un: "sys_or_fault ''runlink'' (runlink (kern H) vdir) s5 = (Inr u, s')"
    unfolding m_vx_remove_def by (elim runE) blast
  note w1 = method_init_wf [OF i assms(2,3)]
  note w2 = reads_wf [OF need_xid_reads x w1]
  note w3 = reads_wf [OF sysM_reads r w2]
  note w4 = reads_wf [OF vxdb_getvdir_reads vd w3]
  have "\<exists>k. vx_info (kern H) xid (os s2) = (Inl e, k)"
    using r by (elim sysM_InrE) blast
  with that [of name xid] need_xid_name [OF x assms(2) w1] w4 ex reads_conn [OF sys_or_fault_reads un]
    a method_init_params [OF i] show ?thesis
    by (auto simp: req_s_def)
qed

text \<open>The map from names after the rows of one context are gone.\<close>

lemma name_xid_without:
  assumes "st_wf s" and "st_wf s'" and "name_xid (db s) name = Some xid"
    and "rows (db s') T_xid_name_map = filter (\<lambda>r. rget r C_xid \<noteq> SInt xid) (rows (db s) T_xid_name_map)"
  shows "name_xid (db s') = (name_xid (db s))(name := None)"
proof -
  have A: "name_xid (db s') n = Some x \<longleftrightarrow> name_xid (db s) n = Some x \<and> x \<noteq> xid" for n x
    unfolding name_xid_row [OF assms(1)] name_xid_row [OF assms(2)] assms(4) by auto
  show ?thesis
  proof (rule ext, rule option_eqI)
    fix n x
    show "name_xid (db s') n = Some x \<longleftrightarrow> ((name_xid (db s))(name := None)) n = Some x"
      using name_xid_iff [OF assms(1,3), of n] assms(3) unfolding A by (cases "n = name"; cases "x = xid") simp_all
  qed
qed

text \<open>
  C18.  \<^verbatim>\<open>vx.remove\<close> succeeds only for a guest whose context is not there.  Afterwards none of the
  sixteen tables it empties has a row of the guest, the name is free, and nothing else has changed:
  in particular the guest's row in \<^verbatim>\<open>vx_cpuset\<close>, which it does not empty, stays.
\<close>

theorem vx_remove_clears:
  assumes "m_vx_remove H p c s = (Inr v, s')" and "host_ok H" and "st_wf s"
  shows "\<exists>name xid e k k'. req_s H p c ''name'' = Some name \<and> name_xid (db s) name = Some xid
    \<and> vx_info (kern H) xid k = (Inl e, k')
    \<and> (\<forall>t. t \<noteq> T_vcd \<longrightarrow> rows (db s') t = (if t \<in> set vx_remove_tables
          then filter (\<lambda>r. rget r C_xid \<noteq> SInt xid) (rows (db s) t) else rows (db s) t))
    \<and> rows (db s') T_vx_cpuset = rows (db s) T_vx_cpuset
    \<and> name_xid (db s') = (name_xid (db s))(name := None)
    \<and> st_wf s'"
  using assms
proof (rule vx_remove_steps)
  fix name xid s3 s4 e k k'
  assume n: "req_s H p c ''name'' = Some name" "name_xid (db s) name = Some xid" "s32 xid = xid"
    "vx_info (kern H) xid k = (Inl e, k')"
    and t: "touches {T_vcd} s s3" and w: "st_wf s3"
    and ex: "exec_nil H (vx_remove_stmts xid) s3 = (Inr v, s4)" and c: "conn s' = conn s4"
  have safe: "list_all (\<lambda>(c, e). sexpr_safe e) [(C_xid, xid_lit xid)]" by (simp add: xid_lit_def)
  note e = exec_nil_deletes [OF ex [unfolded vx_remove_stmts_def] matches_xid_all [OF n(3)] safe]
  have r: "rows (db s') t = (if t \<in> set vx_remove_tables
      then filter (\<lambda>r. rget r C_xid \<noteq> SInt xid) (rows (db s) t) else rows (db s) t)" if "t \<noteq> T_vcd" for t
    using e(1) [of t] touches_rows [OF t, of t] that c by simp
  have cpu: "rows (db s') T_vx_cpuset = rows (db s) T_vx_cpuset"
    using r [of T_vx_cpuset] by (simp add: vx_remove_tables_def)
  have users: "rows (db s') T_user = rows (db s) T_user"
    using r [of T_user] by (simp add: vx_remove_tables_def)
  have names: "rows (db s') T_xid_name_map = filter (\<lambda>r. rget r C_xid \<noteq> SInt xid) (rows (db s) T_xid_name_map)"
    using r [of T_xid_name_map] by (simp add: vx_remove_tables_def)
  have "conn_inv (conn s4)"
    using staysD [OF exec_nil_keeps ex] assms(2) w by (auto simp: keeps_inv_def st_wf_def)
  then have wf: "st_wf s'"
    using assms(3) c touches_schema_wf [OF t] touches_schema_wf [OF e(2)] users names
    by (auto simp: st_wf_def xids_ok_def uids_ok_def list_all_iff)
  from n r cpu wf name_xid_without [OF assms(3) wf n(2) names] show ?thesis by blast
qed

section \<open>Renaming a guest\<close>

definition rename_row :: "xid_t \<Rightarrow> string \<Rightarrow> row \<Rightarrow> row" where
  "rename_row xid name r = (if rget r C_xid = SInt xid then AList.update C_name (STxt name) r else r)"

lemma rget_rename_row:
  "rget (rename_row xid name r) c = (if c = C_name \<and> rget r C_xid = SInt xid then STxt name else rget r c)"
  by (simp add: rename_row_def)

lemma exec_rename:
  assumes "exec_nil H [Update T_xid_name_map [(C_name, Lit (STxt new))] [(C_xid, xid_lit xid)]] s = (Inr v, s')"
    and "quote_free new" and "s32 xid = xid" and "st_wf s"
  shows "set (rows (db s') T_xid_name_map) = rename_row xid new ` set (rows (db s) T_xid_name_map)"
    and "touches {T_xid_name_map} s s'" and "st_wf s'" and "v = XNil"
proof -
  let ?st = "Update T_xid_name_map [(C_name, Lit (STxt new))] [(C_xid, xid_lit xid)]"
  have safe: "stmt_safe ?st" using assms(2) by (simp add: xid_lit_def)
  note e = exec_nil_Inr [OF assms(1) safe]
  have "rows (db s') T_xid_name_map = map (rename_row xid new) (rows (db s) T_xid_name_map)"
    using exec_update [OF e(1)] assms(3) by (simp add: rename_row_def update_row_Lit xid_lit_def)
  then show r: "set (rows (db s') T_xid_name_map) = rename_row xid new ` set (rows (db s) T_xid_name_map)" by simp
  show t: "touches {T_xid_name_map} s s'"
    using exec_stmt_within [OF e(1), of "{T_xid_name_map}"] by (auto simp: touches_def)
  have "conn_inv (conn s')" using exec_stmt_inv [OF e(1)] assms(4) by (simp add: st_wf_def)
  moreover have "xids_ok (db s')"
    using assms(4) by (auto simp: st_wf_def xids_ok_def r list_all_iff rget_rename_row)
  ultimately show "st_wf s'"
    using assms(4) touches_schema_wf [OF t] touches_rows [OF t, of T_user] by (simp add: st_wf_def uids_ok_def)
  show "v = XNil" by (rule e(2))
qed

lemma name_xid_renamed:
  assumes "st_wf s" and "st_wf s'" and "name_xid (db s) name = Some xid"
    and "set (rows (db s') T_xid_name_map) = rename_row xid new ` set (rows (db s) T_xid_name_map)"
  shows "name_xid (db s') = (name_xid (db s))(name := None, new := Some xid)"
    and "name_xid (db s) new \<in> {None, Some xid}"
proof -
  obtain r where r: "r \<in> set (rows (db s) T_xid_name_map)" "rget r C_name = STxt name" "rget r C_xid = SInt xid"
    using assms(3) by (auto simp: name_xid_row [OF assms(1)])
  have new: "name_xid (db s') new = Some xid"
    unfolding name_xid_row [OF assms(2)] assms(4) using r by (auto simp: rget_rename_row intro!: bexI [of _ r])
  have A: "name_xid (db s') n = Some x \<longleftrightarrow> name_xid (db s) n = Some x" if "x \<noteq> xid" for n x
    unfolding name_xid_row [OF assms(1)] name_xid_row [OF assms(2)] assms(4) using that
    by (auto simp: rget_rename_row) (metis sval.inject(1))
  show "name_xid (db s) new \<in> {None, Some xid}"
    using A [of "the (name_xid (db s) new)" new] new by (cases "name_xid (db s) new") auto
  show "name_xid (db s') = (name_xid (db s))(name := None, new := Some xid)"
  proof (rule ext, rule option_eqI)
    fix n x
    show "name_xid (db s') n = Some x \<longleftrightarrow> ((name_xid (db s))(name := None, new := Some xid)) n = Some x"
      using name_xid_iff [OF assms(1,3), of n] name_xid_iff [OF assms(2) new, of n] assms(3) new A [of x n]
      by (cases "n = new"; cases "n = name"; cases "x = xid") simp_all
  qed
qed

text \<open>
  C19.  A renamed guest keeps its context and is found under the new name only; no other guest has
  had that name, and the names of the others stay.
\<close>

theorem vx_rename_renames:
  assumes "m_vx_rename H p c s = (Inr v, s')" and "host_ok H" and "st_wf s"
  shows "\<exists>name new xid. req_s H p c ''name'' = Some name \<and> req_s H p c ''newname'' = Some new
    \<and> validate_name (lib H) new \<and> name_xid (db s) name = Some xid \<and> name_xid (db s) new \<in> {None, Some xid}
    \<and> name_xid (db s') = (name_xid (db s))(name := None, new := Some xid)
    \<and> touches {T_vcd, T_xid_name_map} s s' \<and> st_wf s'"
proof -
  from assms(1) obtain params s1 name new taken s2 xid s3 v1 s4 vdir s5 r s6 where
    i: "method_init H p c VCD_CAP_CREATE owner_lock s = (Inr params, s1)"
    and a: "get_param (xr_string (xr H)) H params ''name'' = Some name"
      "get_param (xr_string (xr H)) H params ''newname'' = Some new"
    and val: "validate_name (lib H) new"
    and tk: "vxdb_getxid H new s1 = (Inr taken, s2)" and x: "need_xid H name s2 = (Inr xid, s3)"
    and ex: "exec_nil H [Update T_xid_name_map [(C_name, Lit (STxt new))] [(C_xid, xid_lit xid)]] s3 = (Inr v1, s4)"
    and vd: "vxdb_getvdir H new s4 = (Inr vdir, s5)" and q: "sysM (vx_info (kern H) xid) s5 = (Inr r, s6)"
    and rest: "(case r of Inl _ \<Rightarrow> ret v1 | Inr _ \<Rightarrow>
         bindM (sys_or_fault ''vx_uname_set'' (vx_uname_set (kern H) xid (int (hdr H ''VHIN_CONTEXT''))
           (take 64 (new @ '':'' @ or_default vdir ''(null)'')))) (\<lambda>_. ret v1)) s6 = (Inr v, s')"
    unfolding m_vx_rename_def Let_def by (elim handlerE) blast
  have rd: "stays same_conn (case r of Inl _ \<Rightarrow> ret v1 | Inr _ \<Rightarrow>
         bindM (sys_or_fault ''vx_uname_set'' (vx_uname_set (kern H) xid (int (hdr H ''VHIN_CONTEXT''))
           (take 64 (new @ '':'' @ or_default vdir ''(null)'')))) (\<lambda>_. ret v1))"
    by (intro sc.stays_rules reads_intros)
  have c: "conn s' = conn s4"
    using reads_conn [OF vxdb_getvdir_reads vd] reads_conn [OF sysM_reads q] reads_conn [OF rd rest] by simp
  note w1 = method_init_wf [OF i assms(2,3)]
  note w2 = reads_wf [OF vxdb_getxid_reads tk w1]
  note w3 = reads_wf [OF need_xid_reads x w2]
  note n = need_xid_name [OF x assms(2) w2]
  have "quote_free new" using val assms(2) by (auto simp: validate_name_quote_free)
  note e = exec_rename [OF ex this n(2) w3(2)]
  have wf: "st_wf s'" using e(3) st_wf_cong [of s' s4] c by simp
  have r: "set (rows (db s') T_xid_name_map) = rename_row xid new ` set (rows (db s) T_xid_name_map)"
    using e(1) touches_rows [OF w3(1), of T_xid_name_map] c by simp
  have "touches {T_vcd, T_xid_name_map} s s'"
    using touches_trans [OF w3(1) e(2)] c by (simp add: touches_def insert_commute)
  with a method_init_params [OF i] val n wf name_xid_renamed [OF assms(3) wf n(1) r] show ?thesis
    by (intro exI [of _ name] exI [of _ new] exI [of _ xid]) (simp add: req_s_def)
qed

section \<open>Stopping a guest\<close>

lemma vx_stop_wait_Inr:
  "vx_stop_wait H xid n s = (Inr v, s') \<Longrightarrow> \<exists>k. vx_info (kern H) xid k = (Inl ESRCH, os s')"
proof (induction n arbitrary: s)
  case 0
  then show ?case by (simp add: prog_simps)
next
  case (Suc n)
  then obtain r s1 where r: "sysM (vx_info (kern H) xid) s = (Inr r, s1)"
    and c: "(case r of Inl ESRCH \<Rightarrow> ret XNil | Inl e \<Rightarrow> raise (SysFault ''vx_info'' e)
       | Inr _ \<Rightarrow> bindM (osM (sleep1 (kern H))) (\<lambda>_. vx_stop_wait H xid n)) s1 = (Inr v, s')"
    by (auto elim: bindM_InrE)
  show ?case
  proof (cases r)
    case (Inl e)
    with c have "e = ESRCH" "s' = s1" by (auto simp: prog_simps split: errno.splits)
    with r Inl show ?thesis by (auto elim!: sysM_InrE)
  next
    case (Inr u)
    with c show ?thesis by (auto elim!: bindM_InrE intro: Suc.IH)
  qed
qed

text \<open>
  C20.  When \<^verbatim>\<open>vx.stop\<close> answers without a fault the context is gone: the last thing the method
  has seen is the kernel's answer that there is no such context.
\<close>

theorem vx_stop_gone:
  assumes "m_vx_stop H p c s = (Inr v, s')" and "host_ok H" and "st_wf s"
  shows "\<exists>name xid k. req_s H p c ''name'' = Some name \<and> name_xid (db s) name = Some xid
    \<and> vx_info (kern H) xid k = (Inl ESRCH, os s')"
proof -
  from assms(1) obtain params s1 name xid s2 n s3 where
    i: "method_init H p c VCD_CAP_INIT owner_lock s = (Inr params, s1)"
    and a: "get_param (xr_string (xr H)) H params ''name'' = Some name"
    and x: "need_xid H name s1 = (Inr xid, s2)"
    and w: "vx_stop_wait H xid n s3 = (Inr v, s')"
    unfolding m_vx_stop_def Let_def by (elim handlerE) (auto split: prod.splits elim!: bindM_InrE)
  from init_xid [OF i x assms(2,3)] a vx_stop_wait_Inr [OF w] show ?thesis by (auto simp: req_s_def)
qed

section \<open>The list of guests\<close>

definition uid_query :: "string \<Rightarrow> query" where
  "uid_query user = Select [C_uid] T_user [(C_name, Lit (STxt user))] Unordered"

text \<open>The lookup of a user finds the id, or 0 when there is none or the engine fails on the query.\<close>

lemma auth_getuid_cases:
  assumes "auth_getuid H user s = (Inr uid, s')" and "validate_username (lib H) user" and "host_ok H" and "st_wf s"
  shows "uid \<noteq> 0 \<Longrightarrow> user_uid (db s) user = Some uid"
    and "uid = 0 \<Longrightarrow> user_uid (db s) user = None \<or> unanswered H (uid_query user) s'"
proof -
  from assms(1,2) obtain r where r: "vxdb_query H (uid_query user) s = (Inr r, s')"
    and u: "uid = (case first_row r of Some row \<Rightarrow> vxdb_column_int (lib H) row 0 | None \<Rightarrow> 0)"
    by (auto simp: auth_getuid_def uid_query_def dest!: bindM_ret_InrD)
  have safe: "query_safe (uid_query user)" using assms(2,3) by (auto simp: uid_query_def validate_username_quote_free)
  have ok: "sqlite_ok (sql H)" "lucid_ok (lib H)" using assms(3) by (simp_all add: host_ok_def)
  have found: "user_uid (db s) user = Some uid \<and> uid \<noteq> 0" if row: "first_row r = Some row" for row
  proof -
    from first_row_Select [OF r [unfolded uid_query_def] ok(1) safe [unfolded uid_query_def] row] obtain q where
      q: "q \<in> set (rows (db s) T_user)" "rget q C_name = STxt user" "row = [rget q C_uid]" by auto
    from user_row_id [OF assms(4) q(1,2)] obtain x where x: "rget q C_uid = SInt x" "user_uid (db s) user = Some x" .
    have "0 < x" "x < 2 ^ 31"
      using uids_okD [of "db s" q] q(1) x(1) assms(4) by (auto simp: st_wf_def id_ok_def)
    with x u row q(3) ok(2) show ?thesis by (simp add: column_int_id)
  qed
  show "uid \<noteq> 0 \<Longrightarrow> user_uid (db s) user = Some uid" using found u by (cases "first_row r") auto
  show "user_uid (db s) user = None \<or> unanswered H (uid_query user) s'" if "uid = 0"
  proof (cases "user_uid (db s) user")
    case (Some x)
    then obtain q where "q \<in> set (rows (db s) T_user)" "rget q C_name = STxt user" by (auto simp: user_uid_row [OF assms(4)])
    then have "query_rows (sq_scan (sql H) (uid_query user)) (uid_query user) (db s) \<noteq> []"
      using ok(1) by (auto simp: uid_query_def sqlite_ok_Nil filter_empty_conv)
    moreover have "first_row r = None" using found that by fastforce
    ultimately show ?thesis using no_first_row [OF r safe] by simp
  qed simp
qed

text \<open>The rows the list is made from: those of the guests of the user, or of all guests.\<close>

definition owned_rows :: "vxdb_db \<Rightarrow> string \<Rightarrow> row set" where
  "owned_rows d user = {g \<in> set (rows d T_xid_name_map).
     \<exists>q \<in> set (rows d T_user). \<exists>p \<in> set (rows d T_xid_uid_map).
        rget q C_name = STxt user \<and> rget p C_uid = rget q C_uid \<and> rget p C_xid = rget g C_xid}"

lemma has_owner_owned: "has_owner_row d user n \<longleftrightarrow> (\<exists>g \<in> owned_rows d user. rget g C_name = STxt n)"
  by (auto simp: has_owner_row_def owned_rows_def)

lemma list_query_rows:
  assumes "host_ok H" and "st_wf s"
  shows "user_uid (db s) u = Some x \<Longrightarrow> x \<noteq> 0 \<Longrightarrow> set (query_rows (sq_scan (sql H) (list_query x)) (list_query x) (db s))
      = (\<lambda>g. [rget g C_name]) ` owned_rows (db s) u"
    and "set (query_rows (sq_scan (sql H) (list_query 0)) (list_query 0) (db s))
      = (\<lambda>g. [rget g C_name]) ` set (rows (db s) T_xid_name_map)"
proof -
  have ok: "sqlite_ok (sql H)" using assms(1) by (simp add: host_ok_def)
  show "set (query_rows (sq_scan (sql H) (list_query 0)) (list_query 0) (db s))
      = (\<lambda>g. [rget g C_name]) ` set (rows (db s) T_xid_name_map)"
    by (simp add: list_query_def sqlite_ok_set [OF ok])
  assume x: "user_uid (db s) u = Some x" "x \<noteq> 0"
  then obtain q0 where q0: "q0 \<in> set (rows (db s) T_user)" "rget q0 C_name = STxt u" "rget q0 C_uid = SInt x"
    by (auto simp: user_uid_row [OF assms(2)])
  have id: "rget q C_uid = SInt x" if "q \<in> set (rows (db s) T_user)" "rget q C_name = STxt u" for q
    using user_row_name [OF assms(2) q0(1) that(1)] q0(2,3) that(2) by simp
  have null: "rget g C_xid \<noteq> SNull" if "g \<in> set (rows (db s) T_xid_name_map)" for g
    using assms(2) xids_okD [OF _ that] by (auto simp: st_wf_def id_ok_def)
  have "set (join_rows (db s) T_xid_name_map T_xid_uid_map C_xid [(C_uid, Lit (SInt x))]) = owned_rows (db s) u"
    using q0 id null by (auto simp: join_rows_def owned_rows_def image_iff) (metis id)+
  then show "set (query_rows (sq_scan (sql H) (list_query x)) (list_query x) (db s))
      = (\<lambda>g. [rget g C_name]) ` owned_rows (db s) u"
    using x(2) by (simp add: list_query_def sqlite_ok_set [OF ok])
qed

lemma method_init_username:
  assumes "method_init H p False caps flags s = (Inr ps, s')" and "xr_pair (xr H) p = Some (cred, params)"
    and "get_param (xr_string (xr H)) H cred ''username'' = Some me"
  shows "validate_username (lib H) me"
  using assms(1)
proof (rule method_init_request)
  fix cred' user pass s1 s2
  assume z: "arg_pair H p s1 = (Inr (cred', ps), s1)" and u: "arg_s H cred' ''username'' s1 = (Inr user, s1)"
    and v: "auth_isvalid H user pass s1 = (Inr True, s2)"
  from z assms(2) have "cred' = cred" by (simp add: arg_pair_def prog_simps)
  with u assms(3) have "user = me" by (auto elim: arg_sE)
  with v show ?thesis by (auto simp: auth_isvalid_def prog_simps split: if_splits)
qed

lemma list_uid_own:
  assumes "list_uid H me user s = (Inr uid, s')" and "\<not> is_admin (db s) me" and "host_ok H"
  obtains s1 where "auth_getuid H me s1 = (Inr uid, s')" and "conn s1 = conn s"
proof -
  from assms(1) obtain b s1 where b: "auth_isadmin H me s = (Inr b, s1)"
    and rest: "(if b then (case user of None \<Rightarrow> ret 0 | Some u \<Rightarrow> auth_getuid H u)
     else case user of
            Some u \<Rightarrow> if me \<noteq> u then raise (Faultf MEPERM (''cannot list foreign user: '' @ u))
                      else auth_getuid H me
          | None \<Rightarrow> auth_getuid H me) s1 = (Inr uid, s')"
    unfolding list_uid_def by (elim bindM_InrE)
  have "\<not> b"
    using auth_isadmin_sound [of H me s s1] b assms(2,3) by (cases b) (auto simp: is_admin_def host_ok_def)
  with rest have g: "auth_getuid H me s1 = (Inr uid, s')"
    by (auto simp: prog_simps split: option.splits if_splits)
  with reads_conn [OF auth_isadmin_reads b] that show thesis by blast
qed

lemma m_vxdb_list_steps:
  assumes "m_vxdb_list H p False s = (Inr v, s')" and "xr_pair (xr H) p = Some (cred, params)"
    and "get_param (xr_string (xr H)) H cred ''username'' = Some me"
  obtains ps s1 user uid s2 r where "method_init H p False VCD_CAP_INFO 0 s = (Inr ps, s1)"
    and "list_uid H me user s1 = (Inr uid, s2)" and "vxdb_query H (list_query uid) s2 = (Inr r, s')"
    and "prepared r" and "finished r" and "v = XArr (map (\<lambda>row. col_s row 0) (result r))"
proof -
  from assms(1) obtain ps s1 z s2 where i: "method_init H p False VCD_CAP_INFO 0 s = (Inr ps, s1)"
    and z: "arg_pair H p s1 = (Inr z, s2)"
    and rest: "(case z of (cred, params) \<Rightarrow>
     bindM (arg_s H cred ''username'') (\<lambda>curuser.
     bindM (arg_s H params ''username'') (\<lambda>usern.
     bindM (unlessM (empty_param H usern = None \<or> validate_username (lib H) usern) (invalid ''username'' usern)) (\<lambda>_.
     bindM (list_uid H curuser (empty_param H usern)) (\<lambda>uid.
     bindM (vxdb_query H (list_query uid)) (\<lambda>r.
     if \<not> prepared r then raise VxdbFault
     else if result r = [] then raise (Faultf MENOVPS ''no virtual servers found'')
     else if \<not> finished r then raise VxdbFault
     else ret (XArr (map (\<lambda>row. col_s row 0) (result r))))))))) s2 = (Inr v, s')"
    unfolding m_vxdb_list_def Let_def by (elim bindM_InrE [of "method_init H p False VCD_CAP_INFO 0"]
      bindM_InrE [of "arg_pair H p"]) blast
  have zz: "z = (cred, params)" "s2 = s1" using z assms(2) by (simp_all add: arg_pair_def prog_simps)
  from rest [unfolded zz prod.case] obtain curuser usern uid s3 r where
    me: "get_param (xr_string (xr H)) H cred ''username'' = Some curuser"
    and "list_uid H curuser (empty_param H usern) s1 = (Inr uid, s3)" "vxdb_query H (list_query uid) s3 = (Inr r, s')"
      "prepared r" "finished r" "v = XArr (map (\<lambda>row. col_s row 0) (result r))"
    by (elim runE) blast+
  with i assms(3) show ?thesis by (intro that) auto
qed

text \<open>How the row of a guest appears in the answer.\<close>

definition listed :: "row \<Rightarrow> xval" where
  "listed g = col_s [rget g C_name] 0"

text \<open>
  C32.  A user who is not an administrator is listed exactly the guests it owns, whichever user the
  request asks about, with one exception: when it has no row, or the engine fails on the lookup of its
  id, all guests are listed.
\<close>

theorem list_own_guests:
  assumes "m_vxdb_list H p False s = (Inr v, s')" and "xr_pair (xr H) p = Some (cred, params)"
    and "get_param (xr_string (xr H)) H cred ''username'' = Some me" and "\<not> is_admin (db s) me"
    and "host_ok H" and "st_wf s"
  shows "\<exists>vs. v = XArr vs \<and>
    (set vs = listed ` owned_rows (db s) me
     \<or> set vs = listed ` set (rows (db s) T_xid_name_map)
       \<and> (\<exists>u r. vxdb_query H (list_query 0) u = (Inr r, s')
            \<and> (user_uid (db s) me = None \<or> unanswered H (uid_query me) u)))"
  using assms(1-3)
proof (rule m_vxdb_list_steps)
  fix ps s1 user uid s2 r
  assume i: "method_init H p False VCD_CAP_INFO 0 s = (Inr ps, s1)"
    and l: "list_uid H me user s1 = (Inr uid, s2)" and q: "vxdb_query H (list_query uid) s2 = (Inr r, s')"
    and r: "prepared r" "finished r" and v: "v = XArr (map (\<lambda>row. col_s row 0) (result r))"
  note w1 = method_init_wf [OF i assms(5,6)]
  note w2 = reads_wf [OF list_uid_reads l w1]
  have rows: "rows (db s2) t = rows (db s) t" if "t \<in> {T_user, T_xid_name_map, T_xid_uid_map}" for t
    using touches_rows [OF w2(1), of t] that by auto
  then have same: "owned_rows (db s2) me = owned_rows (db s) me" "user_uid (db s2) me = user_uid (db s) me"
    by (simp_all add: owned_rows_def user_uid_def)
  have "\<not> is_admin (db s1) me" using assms(4) auth_tables_cong(2) [OF w1(1)] by simp
  from list_uid_own [OF l this assms(5)] obtain sg where g: "auth_getuid H me sg = (Inr uid, s2)" "conn sg = conn s1" .
  have "conn s2 = conn s1" using reads_conn [OF list_uid_reads l] by simp
  with g(2) have sg: "db sg = db s2" "st_wf sg" using st_wf_cong [of sg s1] w1(2) by simp_all
  note getuid = auth_getuid_cases [OF g(1) method_init_username [OF i assms(2,3)] assms(5) sg(2), unfolded sg(1) same(2)]
  have "query_safe (list_query uid)" by (simp add: list_query_def)
  from vxdb_query_result(1) [OF q this r] have rs: "result r = query_rows (sq_scan (sql H) (list_query uid)) (list_query uid) (db s2)" .
  let ?vs = "map (\<lambda>row. col_s row 0) (result r)"
  have "set ?vs = listed ` owned_rows (db s) me
     \<or> set ?vs = listed ` set (rows (db s) T_xid_name_map)
       \<and> (\<exists>u r. vxdb_query H (list_query 0) u = (Inr r, s')
            \<and> (user_uid (db s) me = None \<or> unanswered H (uid_query me) u))"
  proof (cases "uid = 0")
    case True
    have "set ?vs = listed ` set (rows (db s) T_xid_name_map)"
      using list_query_rows(2) [OF assms(5) w2(2)] rows True by (auto simp: rs listed_def image_image)
    with True q getuid(2) show ?thesis by blast
  next
    case False
    with getuid(1) same(2) have "user_uid (db s2) me = Some uid" by simp
    from list_query_rows(1) [OF assms(5) w2(2) this False] show ?thesis
      by (auto simp: rs same(1) listed_def image_image)
  qed
  with v show ?thesis by blast
qed

section \<open>Names and context ids\<close>

text \<open>
  Looking up a name and then the context id it answered gives the name back, as long as the
  database answers and the id is in the range the daemon accepts.
\<close>

theorem xid_name_inverse:
  assumes "m_vxdb_xid_get H p c s = (Inr (XInt x), s1)" and "m_vxdb_name_get H q c' t = (Inr w, t1)"
    and "host_ok H" and "st_wf s" and "st_wf t" and "same_rows [T_xid_name_map] s1 t"
    and "req_i H q c' ''xid'' = Some x"
  shows "\<exists>name. req_s H p c ''name'' = Some name \<and> w = XStr name \<and> validate_xid x"
proof -
  from assms(1) obtain params s2 name xid where
    i: "method_init H p c VCD_CAP_INFO 0 s = (Inr params, s2)"
    and a: "get_param (xr_string (xr H)) H params ''name'' = Some name"
    and x: "need_xid H name s2 = (Inr xid, s1)" and xx: "x = s32 xid"
    unfolding m_vxdb_xid_get_def by (elim runE) blast
  note n = init_xid [OF i x assms(3,4)]
  from assms(2) obtain ps t2 x' nm where
    i2: "method_init H q c' VCD_CAP_INFO 0 t = (Inr ps, t2)"
    and a2: "get_param (xr_int (xr H)) H ps ''xid'' = Some x'"
    and g: "vxdb_getname H (u32 x') t2 = (Inr (Some nm), t1)" and w: "w = XStr nm"
    unfolding m_vxdb_name_get_def by (elim runE) blast
  have [simp]: "x' = xid" "x = xid" "u32 xid = xid"
    using a2 method_init_params [OF i2] assms(7) xx n(2-4) by (simp_all add: req_i_def u32_def)
  note w2 = method_init_wf [OF i2 assms(3,5)]
  let ?q = "Select [C_name] T_xid_name_map [(C_xid, xid_lit x)] Unordered"
  from g have val: "validate_xid x" by (auto simp: vxdb_getname_def prog_simps split: if_splits)
  with g obtain r row where r: "vxdb_query H ?q t2 = (Inr r, t1)" and row: "first_row r = Some row"
    and nm: "vxdb_column_text row 0 = Some nm"
    by (auto simp: vxdb_getname_def prog_simps elim!: bindM_InrE split: option.splits)
  have "query_safe ?q" by (simp add: xid_lit_def)
  from first_row_Select [OF r _ this row] assms(3) n(4) obtain g' where
    g': "g' \<in> set (rows (db t2) T_xid_name_map)" "rget g' C_xid = SInt x" "row = [rget g' C_name]"
    by (auto simp: xid_lit_def host_ok_def)
  have same: "rows (db t2) T_xid_name_map = rows (db s) T_xid_name_map"
    using touches_rows [OF w2(1), of T_xid_name_map] assms(6) touches_rows [OF n(6), of T_xid_name_map]
      need_xid_reads [of H name] x
    by (auto simp: same_rows_def)
  obtain g0 where "g0 \<in> set (rows (db s) T_xid_name_map)" "rget g0 C_xid = SInt x" "rget g0 C_name = STxt name"
    using n(1) by (auto simp: name_xid_row [OF assms(4)])
  with g' same guest_row_xid [OF assms(4)] have "row = [STxt name]" by metis
  moreover have "c_str name = name"
    using validate_name_nul_free [OF _ n(9)] assms(3) by (simp add: host_ok_def c_str_id)
  ultimately show ?thesis using nm w a n(8) val by (auto simp: vxdb_column_text_def req_s_def)
qed

section \<open>The lock of a guest\<close>


section \<open>Witnesses\<close>

lemmas guest_eval = user_eval ref_ctx_def vxdb_getvdir_def sys_or_fault_def

theorem vx_remove_clears_witness:
  "\<exists>s'. m_vx_remove ref_host (XStruct [(''name'', XStr ''guest2'')]) True (ref_state ref_db []) = (Inr XNil, s')
     \<and> name_xid (db s') ''guest2'' = None"
proof -
  let ?p = "XStruct [(''name'', XStr ''guest2'')]"
  have "fst (m_vx_remove ref_host ?p True (ref_state ref_db [])) = Inr XNil"
    by (simp add: m_vx_remove_def vx_remove_stmts_def vx_remove_tables_def guest_eval cong: bindM_weak_cong)
  note run = run_value [OF this]
  have "req_s ref_host ?p True ''name'' = Some ''guest2''" by (simp add: ref_req)
  with vx_remove_clears [OF run ref_host_ok ref_st_wf] run show ?thesis by auto
qed

theorem vx_rename_renames_witness:
  "\<exists>s'. m_vx_rename ref_host (XStruct [(''name'', XStr ''guest2''), (''newname'', XStr ''web'')]) True
       (ref_state ref_db []) = (Inr XNil, s') \<and> name_xid (db s') ''guest2'' = None
     \<and> (\<exists>xid. name_xid (db s') ''web'' = Some xid)"
proof -
  let ?p = "XStruct [(''name'', XStr ''guest2''), (''newname'', XStr ''web'')]"
  have "fst (m_vx_rename ref_host ?p True (ref_state ref_db [])) = Inr XNil"
    by (simp add: m_vx_rename_def guest_eval cong: bindM_weak_cong)
  note run = run_value [OF this]
  have "req_s ref_host ?p True ''name'' = Some ''guest2''" "req_s ref_host ?p True ''newname'' = Some ''web''"
    by (simp_all add: ref_req)
  with vx_rename_renames [OF run ref_host_ok ref_st_wf] run show ?thesis by auto
qed

theorem vx_stop_gone_witness:
  "\<exists>s'. m_vx_stop ref_host (XStruct [(''name'', XStr ''guest1'')]) True (ref_state ref_db [2]) = (Inr XNil, s')
     \<and> (\<exists>xid k. vx_info ref_kernel xid k = (Inl ESRCH, os s'))"
proof -
  let ?p = "XStruct [(''name'', XStr ''guest1'')]"
  have "fst (m_vx_stop ref_host ?p True (ref_state ref_db [2])) = Inr XNil"
    by (simp add: m_vx_stop_def m_vx_exec_def halt_timeout_def need_running_def guest_eval numeral_eq_Suc
        cong: bindM_weak_cong)
  note run = run_value [OF this]
  from vx_stop_gone [OF run ref_host_ok ref_st_wf] run show ?thesis by auto
qed

theorem list_own_guests_witness:
  "\<exists>vs s'. m_vxdb_list ref_host (ref_request ''bob'' ''password'' [(''username'', XStr '''')]) False
       (ref_state ref_db []) = (Inr (XArr vs), s') \<and> set vs = listed ` owned_rows ref_db ''bob''"
proof -
  let ?p = "ref_request ''bob'' ''password'' [(''username'', XStr '''')]"
  let ?s = "ref_state ref_db []"
  have "\<not> isl (fst (m_vxdb_list ref_host ?p False ?s))"
    by (simp add: m_vxdb_list_def list_uid_def list_query_def join_rows_def less_eq_sval_def guest_eval cong: bindM_weak_cong)
  then obtain v where run: "m_vxdb_list ref_host ?p False ?s = (Inr v, snd (m_vxdb_list ref_host ?p False ?s))"
    by (rule run_ok)
  let ?cred = "XStruct [(''username'', XStr ''bob''), (''password'', XStr ''password'')]"
  have "xr_pair (xr ref_host) ?p = Some (?cred, XStruct [(''username'', XStr '''')])"
    "get_param (xr_string (xr ref_host)) ref_host ?cred ''username'' = Some ''bob''" "\<not> is_admin (db ?s) ''bob''"
    by (simp_all add: ref_request_def ref_req ref_state_def ref_db_def is_admin_def)
  from list_own_guests [OF run this ref_host_ok ref_st_wf] obtain vs where vs: "v = XArr vs"
    and c: "set vs = listed ` owned_rows (db ?s) ''bob''
     \<or> set vs = listed ` set (rows (db ?s) T_xid_name_map)" by blast
  have "v = XArr [XStr ''guest1'']"
    using run by (simp add: m_vxdb_list_def list_uid_def list_query_def join_rows_def less_eq_sval_def guest_eval
        cong: bindM_weak_cong)
  moreover have "XStr ''guest2'' \<in> listed ` set (rows (db ?s) T_xid_name_map)"
    by (simp add: ref_state_def ref_db_def listed_def col_s_def build_s_def vxdb_column_text_def c_str_def)
  ultimately have "XStr ''guest2'' \<notin> set vs" "XStr ''guest2'' \<in> listed ` set (rows (db ?s) T_xid_name_map)"
    using vs by auto
  with c have "set vs = listed ` owned_rows (db ?s) ''bob''" by metis
  with run vs show ?thesis by (auto simp: ref_state_def)
qed

theorem xid_name_inverse_witness:
  "\<exists>s1 t1. m_vxdb_xid_get ref_host (XStruct [(''name'', XStr ''guest1'')]) True (ref_state ref_db []) = (Inr (XInt 2), s1)
     \<and> m_vxdb_name_get ref_host (XStruct [(''xid'', XInt 2)]) True (ref_state ref_db []) = (Inr (XStr ''guest1''), t1)"
proof -
  let ?p = "XStruct [(''name'', XStr ''guest1'')]" and ?q = "XStruct [(''xid'', XInt 2)]" and ?s = "ref_state ref_db []"
  have "fst (m_vxdb_xid_get ref_host ?p True ?s) = Inr (XInt 2)"
    by (simp add: m_vxdb_xid_get_def guest_eval cong: bindM_weak_cong)
  note get = run_value [OF this]
  have "\<not> isl (fst (m_vxdb_name_get ref_host ?q True ?s))"
    by (simp add: m_vxdb_name_get_def vxdb_getname_def validate_xid_def guest_eval cong: bindM_weak_cong)
  then obtain w where run: "m_vxdb_name_get ref_host ?q True ?s = (Inr w, snd (m_vxdb_name_get ref_host ?q True ?s))"
    by (rule run_ok)
  have "same_rows [T_xid_name_map] (snd (m_vxdb_xid_get ref_host ?p True ?s)) ?s"
    by (simp add: m_vxdb_xid_get_def same_rows_def guest_eval cong: bindM_weak_cong)
  from xid_name_inverse [OF get run ref_host_ok ref_st_wf ref_st_wf this] get run show ?thesis
    by (auto simp: ref_req req_i_def)
qed


end
