(* ===== verification/Vg_Methods.thy ===== *)
theory Vg_Methods
  imports Vx_Methods
begin

text \<open>
  The methods on groups of guests under \<^verbatim>\<open>src/src/vcd/methods/vg/\<close>.  Adding to and
  removing from a group change the tables \<open>groups\<close> and \<open>xid_gid_map\<close>; the methods
  \<^verbatim>\<open>vg.vx.*\<close> apply a method to every guest of a group.

  These loops share one XML-RPC environment: once the method has failed for a guest, the
  environment holds a fault, and the method does nothing for the guests that follow
  (\<^verbatim>\<open>method_check_flags\<close> returns at once when there is a fault), while the loop itself
  goes on asking whether they run.  \<open>vg_loop\<close> and \<open>vg_start_loop\<close> carry that fault.
\<close>

section \<open>Membership\<close>

definition next_gid :: "'k host \<Rightarrow> ('k, int) handler" where
  "next_gid H =
     bindM (vxdb_query H (SelectLimit1 [C_gid] T_groups [] (Desc C_gid))) (\<lambda>r.
     ret (case first_row r of Some row \<Rightarrow> s32 (vxdb_column_int (lib H) row 0 + 1) | None \<Rightarrow> 1))"

definition m_vg_add :: "'k host \<Rightarrow> xval \<Rightarrow> bool \<Rightarrow> ('k, xval) handler" where
  "m_vg_add H p c =
     bindM (method_init H p c VCD_CAP_AUTH 0) (\<lambda>params.
     bindM (arg_s H params ''group'') (\<lambda>grp.
     bindM (arg_s H params ''name'') (\<lambda>name.
     bindM (unlessM (validate_group (lib H) grp) (invalid ''group'' grp)) (\<lambda>_.
     if grp = ''all'' then ret XNil
     else
       bindM (vxdb_getgid H grp) (\<lambda>g.
       bindM (if g = 0 then
                bindM (next_gid H) (\<lambda>gid.
                bindM (exec_nil H [Insert False T_groups [(C_gid, SInt gid), (C_name, STxt grp)]]) (\<lambda>_.
                ret gid))
              else ret g) (\<lambda>gid.
       if str_isempty (lib H) (Some name) then ret XNil
       else
         bindM (unlessM (validate_name (lib H) name) (invalid ''name'' name)) (\<lambda>_.
         bindM (need_xid H name) (\<lambda>xid.
         exec_nil H [Insert False T_xid_gid_map [(C_xid, SInt (s32 xid)), (C_gid, SInt gid)]]))))))))"

text \<open>\<^verbatim>\<open>if (!(gid = vxdb_getgid(group))) method_return_fault(env, MENOVG);\<close>\<close>

definition need_gid :: "'k host \<Rightarrow> string \<Rightarrow> ('k, int) handler" where
  "need_gid H grp =
     bindM (vxdb_getgid H grp) (\<lambda>gid. if gid = 0 then raise (Fault MENOVG) else ret gid)"

definition m_vg_list :: "'k host \<Rightarrow> xval \<Rightarrow> bool \<Rightarrow> ('k, xval) handler" where
  "m_vg_list H p c =
     bindM (method_init H p c VCD_CAP_AUTH 0) (\<lambda>params.
     bindM (arg_s H params ''group'') (\<lambda>grp.
     if str_isempty (lib H) (Some grp) then
       answer_rows H (Select [C_name] T_groups [] (Asc C_name)) (\<lambda>row. col_s row 0)
     else
       bindM (unlessM (validate_group (lib H) grp) (invalid ''group'' grp)) (\<lambda>_.
       bindM (unlessM (grp \<noteq> ''all'')
         (Faultf MEINVAL (''cannot list group '' @ [CHR 0x27] @ grp @ [CHR 0x27] @ '', use vxdb.list instead''))) (\<lambda>_.
       bindM (need_gid H grp) (\<lambda>gid.
       answer_rows H
         (SelectJoin [C_name] T_xid_name_map T_xid_gid_map C_xid [(C_gid, Lit (SInt gid))] (Asc C_name))
         (\<lambda>row. col_s row 0))))))"

definition group_remove_stmts :: "int \<Rightarrow> stmt list" where
  "group_remove_stmts gid =
     [Begin,
      Delete T_xid_gid_map [(C_gid, Lit (SInt gid))],
      Delete T_groups [(C_gid, Lit (SInt gid))],
      Commit]"

definition m_vg_remove :: "'k host \<Rightarrow> xval \<Rightarrow> bool \<Rightarrow> ('k, xval) handler" where
  "m_vg_remove H p c =
     bindM (method_init H p c VCD_CAP_AUTH 0) (\<lambda>params.
     bindM (arg_s H params ''group'') (\<lambda>grp.
     bindM (arg_s H params ''name'') (\<lambda>name.
     bindM (unlessM (validate_group (lib H) grp) (invalid ''group'' grp)) (\<lambda>_.
     bindM (unlessM (grp \<noteq> ''all'')
       (Faultf MEINVAL (''cannot remove reserved group '' @ [CHR 0x27] @ grp @ [CHR 0x27]))) (\<lambda>_.
     bindM (need_gid H grp) (\<lambda>gid.
     if \<not> str_isempty (lib H) (Some name) then
       bindM (unlessM (validate_name (lib H) name) (invalid ''name'' name)) (\<lambda>_.
       bindM (need_xid H name) (\<lambda>xid.
       exec_nil H [Delete T_xid_gid_map [(C_xid, xid_lit xid), (C_gid, Lit (SInt gid))]]))
     else exec_nil H (group_remove_stmts gid)))))))"

section \<open>The guests of a group\<close>

text \<open>\<^verbatim>\<open>list_add\<close> puts each row in front of the list, so the order is reversed.\<close>

definition vg_list_init :: "'k host \<Rightarrow> string \<Rightarrow> ('k, (xid_t \<times> string) list) handler" where
  "vg_list_init H grp =
     bindM (unlessM (validate_group (lib H) grp) (invalid ''group'' grp)) (\<lambda>_.
     bindM (if grp = ''all'' then vxdb_query H (Select [C_xid, C_name] T_xid_name_map [] Unordered)
            else
              bindM (need_gid H grp) (\<lambda>gid.
              vxdb_query H
                (SelectJoin [C_xid, C_name] T_xid_name_map T_xid_gid_map C_xid [(C_gid, Lit (SInt gid))]
                   Unordered))) (\<lambda>r.
     if \<not> prepared r then raise VxdbFault
     else if \<not> finished r then raise VxdbFault
     else ret (rev (map (\<lambda>row. (u32 (vxdb_column_int (lib H) row 0),
                                or_default (vxdb_column_text row 1) '''')) (result r)))))"

definition name_params :: "string \<Rightarrow> xval" where
  "name_params name = XStruct [(''name'', XStr name)]"

section \<open>Applying a method to the guests of a group\<close>

text \<open>Run a method and keep its fault as a value.\<close>

definition tryM :: "('k, 'a) handler \<Rightarrow> ('k, fault option) handler" where
  "tryM m s = (case m s of (Inl f, s') \<Rightarrow> (Inr (Some f), s') | (Inr _, s') \<Rightarrow> (Inr None, s'))"

fun vg_loop :: "'k host \<Rightarrow> ('k host \<Rightarrow> xval \<Rightarrow> bool \<Rightarrow> ('k, xval) handler) \<Rightarrow> (xid_t \<times> string) list
    \<Rightarrow> fault option \<Rightarrow> ('k, fault option) handler" where
  "vg_loop H m [] flt = ret flt"
| "vg_loop H m ((xid, name) # vxs) flt =
     bindM (sysM (vx_info (kern H) xid)) (\<lambda>r.
     case r of
       Inl _ \<Rightarrow> vg_loop H m vxs flt
     | Inr _ \<Rightarrow>
         (case flt of
            Some f \<Rightarrow> vg_loop H m vxs flt
          | None \<Rightarrow> bindM (tryM (m H (name_params name) True)) (\<lambda>flt'. vg_loop H m vxs flt')))"

fun vg_start_loop :: "'k host \<Rightarrow> (xid_t \<times> string) list \<Rightarrow> fault option \<Rightarrow> ('k, fault option) handler" where
  "vg_start_loop H [] flt = ret flt"
| "vg_start_loop H ((xid, name) # vxs) flt =
     bindM (sysM (vx_info (kern H) xid)) (\<lambda>r.
     case r of
       Inr _ \<Rightarrow> vg_start_loop H vxs flt
     | Inl ESRCH \<Rightarrow>
         (case flt of
            Some f \<Rightarrow> vg_start_loop H vxs flt
          | None \<Rightarrow> bindM (tryM (m_vx_start H (name_params name) True)) (\<lambda>flt'. vg_start_loop H vxs flt'))
     | Inl e \<Rightarrow> ret (Some (SysFault ''vx_info'' e)))"

definition vg_answer :: "fault option \<Rightarrow> ('k, xval) handler" where
  "vg_answer flt = (case flt of Some f \<Rightarrow> raise f | None \<Rightarrow> ret XNil)"

definition m_vg_vx_reboot :: "'k host \<Rightarrow> xval \<Rightarrow> bool \<Rightarrow> ('k, xval) handler" where
  "m_vg_vx_reboot H p c =
     bindM (method_init H p c VCD_CAP_INIT 0) (\<lambda>params.
     bindM (arg_s H params ''group'') (\<lambda>grp.
     bindM (vg_list_init H grp) (\<lambda>vxs.
     bindM (vg_loop H m_vx_reboot vxs None) vg_answer)))"

definition m_vg_vx_restart :: "'k host \<Rightarrow> xval \<Rightarrow> bool \<Rightarrow> ('k, xval) handler" where
  "m_vg_vx_restart H p c =
     bindM (method_init H p c VCD_CAP_INIT 0) (\<lambda>params.
     bindM (arg_s H params ''group'') (\<lambda>grp.
     bindM (vg_list_init H grp) (\<lambda>vxs.
     bindM (vg_loop H m_vx_restart vxs None) vg_answer)))"

definition m_vg_vx_start :: "'k host \<Rightarrow> xval \<Rightarrow> bool \<Rightarrow> ('k, xval) handler" where
  "m_vg_vx_start H p c =
     bindM (method_init H p c VCD_CAP_INIT 0) (\<lambda>params.
     bindM (arg_s H params ''group'') (\<lambda>grp.
     bindM (vg_list_init H grp) (\<lambda>vxs.
     bindM (vg_start_loop H vxs None) vg_answer)))"

definition m_vg_vx_stop :: "'k host \<Rightarrow> xval \<Rightarrow> bool \<Rightarrow> ('k, xval) handler" where
  "m_vg_vx_stop H p c =
     bindM (method_init H p c VCD_CAP_INIT 0) (\<lambda>params.
     bindM (arg_s H params ''group'') (\<lambda>grp.
     bindM (vg_list_init H grp) (\<lambda>vxs.
     bindM (vg_loop H m_vx_stop vxs None) vg_answer)))"

section \<open>Frames\<close>

lemma next_gid_reads [reads_intros]: "stays same_conn (next_gid H)"
  unfolding next_gid_def by (intro sc.stays_rules reads_intros)

lemma need_gid_reads [reads_intros]: "stays same_conn (need_gid H grp)"
  unfolding need_gid_def by (intro sc.stays_rules reads_intros)

lemma vg_list_init_reads [reads_intros]: "stays same_conn (vg_list_init H grp)"
  unfolding vg_list_init_def by (intro sc.stays_rules reads_intros)

lemma stays_tryM: "stays R m \<Longrightarrow> stays R (tryM m)"
  by (auto simp: stays_def tryM_def split: prod.splits sum.splits) (metis snd_conv)+

lemma vg_loop_keeps:
  assumes "\<And>p. stays keeps_inv (m H p True)"
  shows "stays keeps_inv (vg_loop H m vxs flt)"
proof (induction vxs arbitrary: flt)
  case (Cons a vxs)
  then show ?case
    by (cases a) (auto intro!: vx_keeps_rules stays_tryM assms)
qed (auto intro: ki.stays_rules)

lemma vg_start_loop_keeps:
  assumes "sqlite_ok (sql H)"
  shows "stays keeps_inv (vg_start_loop H vxs flt)"
proof (induction vxs arbitrary: flt)
  case (Cons a vxs)
  then show ?case
    by (cases a) (auto intro!: vx_keeps_rules stays_tryM m_vx_start_keeps assms)
qed (auto intro: ki.stays_rules)

lemma vg_answer_keeps: "stays keeps_inv (vg_answer flt)"
  unfolding vg_answer_def by (intro ki.stays_rules)

lemma vg_methods_keeps [inv_intros]:
  assumes "sqlite_ok (sql H)"
  shows "stays keeps_inv (m_vg_add H p c)"
    and "stays keeps_inv (m_vg_list H p c)"
    and "stays keeps_inv (m_vg_remove H p c)"
    and "stays keeps_inv (m_vg_vx_reboot H p c)"
    and "stays keeps_inv (m_vg_vx_restart H p c)"
    and "stays keeps_inv (m_vg_vx_start H p c)"
    and "stays keeps_inv (m_vg_vx_stop H p c)"
  unfolding m_vg_add_def m_vg_list_def m_vg_remove_def m_vg_vx_reboot_def m_vg_vx_restart_def
    m_vg_vx_start_def m_vg_vx_stop_def
  by (intro vx_keeps_rules vg_loop_keeps vg_start_loop_keeps vg_answer_keeps assms vx_methods_keeps
      m_vx_stop_keeps reads_intros [THEN same_conn_keeps])+

end
