(* ===== verification/Group_Laws.thy ===== *)
theory Group_Laws
  imports User_Laws Vg_Methods
begin

text \<open>
  What the methods on groups promise: the loops over the guests of a group stop at the first fault,
  and \<^verbatim>\<open>vg.add\<close> puts a guest into a group.
\<close>

section \<open>One guest after the other\<close>

text \<open>
  What the loops come to: the guests in their order; one that runs has the method applied to it; with
  the first fault the loop is left, and from there on the kernel is only asked whether the guests that
  remain are running.
\<close>

fun asked :: "'k host \<Rightarrow> (xid_t \<times> string) list \<Rightarrow> 'k \<Rightarrow> 'k" where
  "asked H [] k = k"
| "asked H ((xid, name) # vxs) k = asked H vxs (snd (vx_info (kern H) xid k))"

definition leave_by :: "('k \<Rightarrow> 'k) \<Rightarrow> ('k, 'a) handler \<Rightarrow> ('k, 'a) handler" where
  "leave_by g m s = (case m s of (Inl f, s') \<Rightarrow> (Inl f, s'\<lparr>os := g (os s')\<rparr>) | (Inr x, s') \<Rightarrow> (Inr x, s'))"

fun in_turn ::
    "'k host \<Rightarrow> ('k host \<Rightarrow> xval \<Rightarrow> bool \<Rightarrow> ('k, xval) handler) \<Rightarrow> (xid_t \<times> string) list \<Rightarrow> ('k, xval) handler" where
  "in_turn H m [] = ret XNil"
| "in_turn H m ((xid, name) # vxs) =
     bindM (sysM (vx_info (kern H) xid)) (\<lambda>r.
     case r of
       Inl _ \<Rightarrow> in_turn H m vxs
     | Inr _ \<Rightarrow> bindM (leave_by (asked H vxs) (m H (name_params name) True)) (\<lambda>_. in_turn H m vxs))"

definition group_method ::
    "'k host \<Rightarrow> ('k host \<Rightarrow> xval \<Rightarrow> bool \<Rightarrow> ('k, xval) handler) \<Rightarrow> xval \<Rightarrow> bool \<Rightarrow> ('k, xval) handler" where
  "group_method H m p c =
     bindM (method_init H p c VCD_CAP_INIT 0) (\<lambda>params.
     bindM (arg_s H params ''group'') (\<lambda>grp.
     bindM (vg_list_init H grp) (\<lambda>vxs.
     in_turn H m vxs)))"

lemma sysM_snd: "sysM f s = (Inr (fst (f (os s))), s\<lparr>os := snd (f (os s))\<rparr>)"
  by (simp add: sysM_def split: prod.split)

lemma vg_loop_after_fault: "vg_loop H m vxs (Some f) s = (Inr (Some f), s\<lparr>os := asked H vxs (os s)\<rparr>)"
proof (induction vxs arbitrary: s)
  case Nil
  show ?case by (simp add: prog_simps)
next
  case (Cons a vxs)
  show ?case by (cases a) (auto simp: bindM_def sysM_snd Cons.IH split: sum.split)
qed

lemma vg_loop_in_turn: "bindM (vg_loop H m vxs None) vg_answer = in_turn H m vxs"
proof (induction vxs)
  case Nil
  show ?case by (simp add: vg_answer_def)
next
  case (Cons a vxs)
  obtain xid name where a: "a = (xid, name)" by (cases a)
  have IH: "(case vg_loop H m vxs None t of (Inl e, u) \<Rightarrow> (Inl e, u) | (Inr x, u) \<Rightarrow> vg_answer x u) = in_turn H m vxs t" for t
    using Cons.IH unfolding bindM_def by (rule fun_cong)
  show ?case
  proof
    fix s
    obtain z s2 where z: "m H (name_params name) True (s\<lparr>os := snd (vx_info (kern H) xid (os s))\<rparr>) = (z, s2)"
      by fastforce
    show "bindM (vg_loop H m (a # vxs) None) vg_answer s = in_turn H m (a # vxs) s"
    proof (cases "fst (vx_info (kern H) xid (os s))")
      case (Inl e)
      then show ?thesis by (simp add: a bindM_def sysM_snd IH)
    next
      case (Inr u)
      with z IH show ?thesis
        by (cases z) (simp_all add: a bindM_def sysM_snd tryM_def leave_by_def vg_loop_after_fault vg_answer_def prog_simps)
    qed
  qed
qed

text \<open>
  C25.  \<^verbatim>\<open>vg.vx.stop\<close>, \<^verbatim>\<open>vg.vx.restart\<close> and \<^verbatim>\<open>vg.vx.reboot\<close> are equivalent to a loop
  that applies the method to the running guests of the group one after the other and leaves at the
  first fault with this fault: answer, database and system are the same.  After the fault the only
  thing that happens is that the kernel is asked about the guests that remain.
\<close>

theorem group_stops_at_fault:
  "m_vg_vx_stop H p c = group_method H m_vx_stop p c
   \<and> m_vg_vx_restart H p c = group_method H m_vx_restart p c
   \<and> m_vg_vx_reboot H p c = group_method H m_vx_reboot p c"
  by (simp add: m_vg_vx_stop_def m_vg_vx_restart_def m_vg_vx_reboot_def group_method_def vg_loop_in_turn)

section \<open>Membership\<close>

definition group_gids :: "vxdb_db \<Rightarrow> (string \<times> int) set" where
  "group_gids d = {(grp, g). \<exists>r \<in> set (rows d T_groups). rget r C_name = STxt grp \<and> rget r C_gid = SInt g}"

definition joined :: "vxdb_db \<Rightarrow> (xid_t \<times> int) set" where
  "joined d = {(x, g). \<exists>r \<in> set (rows d T_xid_gid_map). rget r C_xid = SInt x \<and> rget r C_gid = SInt g}"

definition gids_ok :: "vxdb_db \<Rightarrow> bool" where
  "gids_ok d \<longleftrightarrow> (\<forall>r \<in> set (rows d T_groups). id_ok (rget r C_gid))"

lemma vxdb_getgid_row:
  assumes "vxdb_getgid H grp s = (Inr g, s')" and "g \<noteq> 0" and "host_ok H" and "gids_ok (db s)"
  shows "(grp, g) \<in> group_gids (db s)" and "0 < g" and "g < 2 ^ 31"
proof -
  let ?q = "Select [C_gid] T_groups [(C_name, Lit (STxt grp))] Unordered"
  from assms(1,2) obtain r row s1 where v: "validate_group (lib H) grp"
    and r: "vxdb_query H ?q s = (Inr r, s1)" and row: "first_row r = Some row"
    and g: "g = vxdb_column_int (lib H) row 0"
    by (auto simp: vxdb_getgid_def prog_simps elim!: bindM_InrE split: if_splits option.splits)
  have safe: "query_safe ?q" using v assms(3) by (auto simp: host_ok_def validate_group_quote_free)
  from assms(3) have "sqlite_ok (sql H)" by (simp add: host_ok_def)
  from first_row_Select [OF r this safe row] obtain q where q: "q \<in> set (rows (db s) T_groups)"
    "matches (db s) [(C_name, Lit (STxt grp))] q" "row = map (rget q) [C_gid]" .
  from assms(4) q(1) have "id_ok (rget q C_gid)" by (simp add: gids_ok_def)
  then obtain y where y: "rget q C_gid = SInt y" "0 < y" "y < 2 ^ 31" by (rule id_okE)
  with g q(3) assms(3) have "g = y" by (simp add: column_int_id host_ok_def)
  with y show "0 < g" "g < 2 ^ 31" by simp_all
  show "(grp, g) \<in> group_gids (db s)" using q y \<open>g = y\<close> by (auto simp: group_gids_def)
qed

text \<open>An insertion that is not one of a row with the same key.\<close>

lemma exec_append:
  assumes "exec_nil H [Insert False t r] s = (Inr v, s')" and "stmt_safe (Insert False t r)"
  shows "rows (db s') = (rows (db s))(t := rows (db s) t @ [r])"
  using exec_insert(2) [OF exec_nil_Inr(1) [OF assms]] by (simp add: set_rows_def)

text \<open>The two halves of \<^verbatim>\<open>vg.add\<close>.\<close>

abbreviation (input) find_group :: "'k host \<Rightarrow> string \<Rightarrow> ('k, int) handler" where
  "find_group H grp \<equiv>
     bindM (vxdb_getgid H grp) (\<lambda>g.
       if g = 0 then
         bindM (next_gid H) (\<lambda>gid.
         bindM (exec_nil H [Insert False T_groups [(C_gid, SInt gid), (C_name, STxt grp)]]) (\<lambda>_. ret gid))
       else ret g)"

abbreviation (input) join_group :: "'k host \<Rightarrow> string \<Rightarrow> int \<Rightarrow> ('k, xval) handler" where
  "join_group H name gid \<equiv>
     (if str_isempty (lib H) (Some name) then ret XNil
      else
        bindM (unlessM (validate_name (lib H) name) (invalid ''name'' name)) (\<lambda>_.
        bindM (need_xid H name) (\<lambda>xid.
        exec_nil H [Insert False T_xid_gid_map [(C_xid, SInt (s32 xid)), (C_gid, SInt gid)]])))"

text \<open>The group is looked up or made, and has an entry afterwards.\<close>

lemma vg_group_ready:
  assumes "find_group H grp s = (Inr g, s')"
    and "validate_group (lib H) grp" and "host_ok H" and "gids_ok (db s)" and "st_wf s"
  shows "group_gids (db s') = insert (grp, g) (group_gids (db s))" and "touches {T_groups} s s'" and "st_wf s'"
proof -
  from assms(1) obtain g0 s1 where g0: "vxdb_getgid H grp s = (Inr g0, s1)"
    and rest: "(if g0 = 0 then
         bindM (next_gid H) (\<lambda>gid.
         bindM (exec_nil H [Insert False T_groups [(C_gid, SInt gid), (C_name, STxt grp)]]) (\<lambda>_. ret gid))
       else ret g0) s1 = (Inr g, s')"
    by (auto elim: bindM_InrE)
  have c1: "conn s1 = conn s" using reads_conn [OF vxdb_getgid_reads g0] by simp
  have "group_gids (db s') = insert (grp, g) (group_gids (db s)) \<and> touches {T_groups} s s' \<and> st_wf s'"
  proof (cases "g0 = 0")
    case True
    with rest obtain s2 v where n: "next_gid H s1 = (Inr g, s2)"
      and ex: "exec_nil H [Insert False T_groups [(C_gid, SInt g), (C_name, STxt grp)]] s2 = (Inr v, s')"
      by (auto simp: prog_simps elim!: bindM_InrE)
    have c2: "conn s2 = conn s" using reads_conn [OF next_gid_reads n] c1 by simp
    have w2: "st_wf s2" using assms(5) st_wf_cong [OF c2] by simp
    have safe: "stmt_safe (Insert False T_groups [(C_gid, SInt g), (C_name, STxt grp)])"
      using assms(2,3) by (auto simp: host_ok_def validate_group_quote_free)
    note e = exec_one_wf [OF ex safe _ w2, of T_groups]
    have "group_gids (db s') = insert (grp, g) (group_gids (db s))"
      using exec_append [OF ex safe] c2 by (auto simp: group_gids_def)
    moreover have "touches {T_groups} s s'" using e(1) c2 by (simp add: touches_def)
    ultimately show ?thesis using e(2) by simp
  next
    case False
    with rest have "g = g0" "s' = s1" by (simp_all add: prog_simps)
    with vxdb_getgid_row(1) [OF g0 False assms(3,4)] c1 assms(5) st_wf_cong [OF c1] show ?thesis
      by (auto simp: touches_def)
  qed
  then show "group_gids (db s') = insert (grp, g) (group_gids (db s))" "touches {T_groups} s s'" "st_wf s'" by simp_all
qed

lemma vg_join_effect:
  assumes "join_group H name g s = (Inr v, s')" and "host_ok H" and "st_wf s"
  shows "touches {T_xid_gid_map} s s'"
    and "if str_isempty (lib H) (Some name) then joined (db s') = joined (db s)
      else \<exists>x. name_xid (db s) name = Some x \<and> joined (db s') = insert (x, g) (joined (db s))"
proof -
  have "touches {T_xid_gid_map} s s' \<and> (if str_isempty (lib H) (Some name) then joined (db s') = joined (db s)
      else \<exists>x. name_xid (db s) name = Some x \<and> joined (db s') = insert (x, g) (joined (db s)))"
  proof (cases "str_isempty (lib H) (Some name)")
    case True
    with assms(1) show ?thesis by (simp add: prog_simps touches_def)
  next
    case False
    with assms(1) obtain x s3 where x: "need_xid H name s = (Inr x, s3)"
      and ex: "exec_nil H [Insert False T_xid_gid_map [(C_xid, SInt (s32 x)), (C_gid, SInt g)]] s3 = (Inr v, s')"
      by (auto elim!: bindM_InrE unlessM_InrE)
    note n = need_xid_Inr [OF x assms(2) st_wf_db [OF assms(3)]]
    have "st_wf s3" using assms(3) st_wf_cong [OF n(6)] by simp
    from exec_one_wf(1) [OF ex _ _ this, of T_xid_gid_map] have "touches {T_xid_gid_map} s s'"
      using n(6) by (simp add: touches_def)
    moreover have "joined (db s') = insert (x, g) (joined (db s))"
      using exec_append [OF ex] n(4,6) by (auto simp: joined_def)
    ultimately show ?thesis using n(1) False by simp
  qed
  then show "touches {T_xid_gid_map} s s'"
    "if str_isempty (lib H) (Some name) then joined (db s') = joined (db s)
      else \<exists>x. name_xid (db s) name = Some x \<and> joined (db s') = insert (x, g) (joined (db s))" by simp_all
qed

text \<open>
  C26.  \<^verbatim>\<open>vg.add\<close> makes sure that the group exists, and with a name puts exactly this guest into
  it; the name must be that of a guest.  The group all is never written.
\<close>

theorem vg_add_joins:
  assumes "m_vg_add H p c s = (Inr v, s')" and "host_ok H" and "st_wf s" and "gids_ok (db s)"
  shows "\<exists>grp name. req_s H p c ''group'' = Some grp \<and> req_s H p c ''name'' = Some name
    \<and> touches {T_vcd, T_groups, T_xid_gid_map} s s'
    \<and> (if grp = ''all'' then group_gids (db s') = group_gids (db s) \<and> joined (db s') = joined (db s)
       else \<exists>g. group_gids (db s') = insert (grp, g) (group_gids (db s))
         \<and> (if str_isempty (lib H) (Some name) then joined (db s') = joined (db s)
            else \<exists>x. name_xid (db s) name = Some x \<and> joined (db s') = insert (x, g) (joined (db s))))"
proof -
  have assoc: "bindM (bindM m f) g = bindM m (\<lambda>x. bindM (f x) g)" for m :: "('a, int) handler" and f g
    by (auto simp: fun_eq_iff bindM_def split: prod.split sum.split)
  from assms(1) obtain params s1 grp name where
    i: "method_init H p c VCD_CAP_AUTH 0 s = (Inr params, s1)"
    and a: "get_param (xr_string (xr H)) H params ''group'' = Some grp"
      "get_param (xr_string (xr H)) H params ''name'' = Some name"
    and val: "validate_group (lib H) grp"
    and rest: "(if grp = ''all'' then ret XNil else bindM (find_group H grp) (join_group H name)) s1 = (Inr v, s')"
    unfolding m_vg_add_def assoc by (elim handlerE) blast
  note w1 = method_init_wf [OF i assms(2,3)]
  have req: "req_s H p c ''group'' = Some grp" "req_s H p c ''name'' = Some name"
    using a method_init_params [OF i] by (simp_all add: req_s_def)
  have eq: "group_gids (db s1) = group_gids (db s)" "joined (db s1) = joined (db s)"
    "name_xid (db s1) = name_xid (db s)" "gids_ok (db s1)"
    using touches_rows [OF w1(1)] name_xid_cong [OF touches_rows [OF w1(1)]] assms(4)
    by (simp_all add: group_gids_def joined_def gids_ok_def)
  show ?thesis
  proof (cases "grp = ''all''")
    case True
    with rest have "s' = s1" by (simp add: prog_simps)
    with req True eq w1(1) show ?thesis by (intro exI [of _ grp] exI [of _ name]) (auto simp: touches_def)
  next
    case False
    with rest obtain g s2 where m: "find_group H grp s1 = (Inr g, s2)" and j: "join_group H name g s2 = (Inr v, s')"
      by (auto elim: bindM_InrE)
    note f = vg_group_ready [OF m val assms(2) eq(4) w1(2)]
    note e = vg_join_effect [OF j assms(2) f(3)]
    have "joined (db s2) = joined (db s)" "name_xid (db s2) = name_xid (db s)"
      using touches_rows [OF f(2)] name_xid_cong [OF touches_rows [OF f(2)]] eq by (simp_all add: joined_def)
    moreover have "group_gids (db s') = insert (grp, g) (group_gids (db s))"
      using touches_rows [OF e(1), of T_groups] f(1) eq(1) by (simp add: group_gids_def)
    moreover have "touches {T_vcd, T_groups, T_xid_gid_map} s s'"
      using touches_trans [OF touches_trans [OF w1(1) f(2)] e(1)] by (simp add: insert_commute)
    ultimately show ?thesis using req False e(2) by (intro exI [of _ grp] exI [of _ name]) auto
  qed
qed

section \<open>Witnesses\<close>

theorem vg_add_joins_witness:
  "\<exists>s'. m_vg_add ref_host (XStruct [(''group'', XStr ''web''), (''name'', XStr ''guest2'')]) True (ref_state ref_db [])
       = (Inr XNil, s') \<and> (\<exists>g. (''web'', g) \<in> group_gids (db s') \<and> (3, g) \<in> joined (db s'))"
proof -
  let ?p = "XStruct [(''group'', XStr ''web''), (''name'', XStr ''guest2'')]" and ?s = "ref_state ref_db []"
  have "fst (m_vg_add ref_host ?p True ?s) = Inr XNil" by code_simp
  note run = run_value [OF this]
  have "req_s ref_host ?p True ''group'' = Some ''web''" "req_s ref_host ?p True ''name'' = Some ''guest2''"
    "\<not> str_isempty (lib ref_host) (Some ''guest2'')" "name_xid (db ?s) ''guest2'' = Some 3" "gids_ok (db ?s)"
    by (simp add: ref_req, simp add: ref_req, code_simp+)
  with vg_add_joins [OF run ref_host_ok ref_st_wf] run show ?thesis by fastforce
qed

end
