(* ===== verification/Create.thy ===== *)
theory Create
  imports Vx_Methods
begin

text \<open>
  \<^verbatim>\<open>src/src/vcd/methods/vx/vx_create.c\<close> and \<^verbatim>\<open>vx_templates.c\<close>: building a guest from
  a template.  The template is copied or linked file by file, device nodes are made, and the rows
  of the guest are written in one transaction.  The static variables of the source file are
  arguments here: a process takes the lock of the method at most once, so each of its runs starts
  with their initial values.
\<close>

section \<open>Defaults\<close>

definition DEFAULT_BCAPS :: "string list" where
  "DEFAULT_BCAPS = [''CHOWN'', ''DAC_OVERRIDE'', ''DAC_READ_SEARCH'', ''FOWNER'', ''FSETID'', ''KILL'', ''SETGID'',
     ''SETUID'', ''NET_BIND_SERVICE'', ''SYS_CHROOT'', ''SYS_PTRACE'', ''SYS_BOOT'', ''SYS_TTY_CONFIG'', ''LEASE'']"

definition DEFAULT_CCAPS :: "string list" where
  "DEFAULT_CCAPS = [''SET_UTSNAME'', ''RAW_ICMP'']"

definition DEFAULT_FLAGS :: "string list" where
  "DEFAULT_FLAGS = [''VIRT_MEM'', ''VIRT_UPTIME'', ''VIRT_CPU'', ''VIRT_LOAD'', ''HIDE_NETIF'']"

text \<open>An option of the configuration with its default.\<close>

definition cfg_opt :: "'a option \<Rightarrow> 'a \<Rightarrow> 'a" where
  "cfg_opt x dflt = (case x of None \<Rightarrow> dflt | Some y \<Rightarrow> y)"

section \<open>Copying the template\<close>

definition hdr32 :: "'k host \<Rightarrow> string list \<Rightarrow> 32 word" where
  "hdr32 H ns = foldl (\<lambda>w n. or w (of_nat (hdr H n))) 0 ns"

definition on_path :: "string \<Rightarrow> string \<Rightarrow> string" where
  "on_path call path = call @ ''('' @ path @ '')''"

definition copy_regular :: "'k host \<Rightarrow> string \<Rightarrow> ('k, unit) handler" where
  "copy_regular H fpath =
     bindM (sys_or_fault (on_path ''open'' fpath) (act (kern H) (Open_read fpath))) (\<lambda>_.
     bindM (sys_or_fault (on_path ''openat'' fpath) (act (kern H) (Openat_excl fpath 128))) (\<lambda>_.
     sys_or_fault (on_path ''copy_file'' fpath) (act (kern H) (Copy_file fpath))))"

definition link_regular :: "'k host \<Rightarrow> string \<Rightarrow> ('k, unit) handler" where
  "link_regular H fpath =
     (let flags = hdr32 H [''IATTR_IUNLINK'', ''IATTR_IMMUTABLE''] in
      bindM (sys_or_fault (on_path ''ix_attr_set'' fpath) (act (kern H) (Ix_attr_set fpath 0 flags flags))) (\<lambda>_.
      sys_or_fault (on_path ''linkat'' fpath) (act (kern H) (Linkat fpath))))"

definition copy_symlink :: "'k host \<Rightarrow> string \<Rightarrow> ('k, unit) handler" where
  "copy_symlink H fpath =
     bindM (sys_or_fault (on_path ''readsymlink'' fpath) (readsymlink (kern H) fpath)) (\<lambda>buf.
     sys_or_fault (''symlinkat('' @ buf @ '', '' @ fpath @ '')'') (act (kern H) (Symlinkat buf fpath)))"

text \<open>
  What is made of one file and whether its owner, mode and context are set afterwards.  A file
  of an unknown type sets a fault and the walk goes on; \<open>flt\<close> is the fault set so far.
\<close>

definition make_file :: "'k host \<Rightarrow> bool \<Rightarrow> ftw \<Rightarrow> fault option
    \<Rightarrow> ('k, fault option \<times> bool \<times> bool \<times> bool) handler" where
  "make_file H copy f flt =
     (case ft_type f of
        FTW_D \<Rightarrow>
          bindM (sys_or_fault (on_path ''mkdirat'' (ft_path f)) (act (kern H) (Mkdirat (ft_path f) (st_mode f)))) (\<lambda>_.
          ret (flt, True, False, True))
      | FTW_F \<Rightarrow>
          if copy then bindM (copy_regular H (ft_path f)) (\<lambda>_. ret (flt, True, True, True))
          else bindM (link_regular H (ft_path f)) (\<lambda>_. ret (flt, False, False, False))
      | FTW_SL \<Rightarrow> bindM (copy_symlink H (ft_path f)) (\<lambda>_. ret (flt, True, False, True))
      | FTW_OTHER n \<Rightarrow>
          ret (Some (Faultf MESYS (''nftw returned '' @ dec n @ '' on '' @ ft_path f)), False, False, False))"

definition create_handle_file :: "'k host \<Rightarrow> xid_t \<Rightarrow> string \<Rightarrow> bool \<Rightarrow> bool \<Rightarrow> ftw \<Rightarrow> fault option
    \<Rightarrow> ('k, fault option) handler" where
  "create_handle_file H xid vdir copy has_tagxid f flt =
     (if ft_level f < 1 then ret flt
      else if st_kind f \<in> {S_CHR, S_BLK, S_FIFO, S_SOCK} then ret flt
      else
        bindM (make_file H copy f flt) (\<lambda>(flt, do_chown, do_chmod, do_chxid).
        bindM (if do_chown then sys_or_fault (on_path ''fchownat'' (ft_path f))
                 (act (kern H) (Fchownat (ft_path f) (st_uid f) (st_gid f))) else ret ()) (\<lambda>_.
        bindM (if do_chmod then sys_or_fault (on_path ''fchmodat'' (ft_path f))
                 (act (kern H) (Fchmodat (ft_path f) (st_mode f))) else ret ()) (\<lambda>_.
        bindM (if do_chxid \<and> has_tagxid then sys_or_fault (on_path ''ix_attr_set'' (ft_path f))
                 (act (kern H) (Ix_attr_set (vdir @ ''/'' @ ft_path f) xid (hdr32 H [''IATTR_TAG''])
                    (hdr32 H [''IATTR_TAG'']))) else ret ()) (\<lambda>_.
        ret flt)))))"

fun create_walk :: "'k host \<Rightarrow> xid_t \<Rightarrow> string \<Rightarrow> bool \<Rightarrow> bool \<Rightarrow> ftw list \<Rightarrow> fault option
    \<Rightarrow> ('k, fault option) handler" where
  "create_walk H xid vdir copy tag [] flt = ret flt"
| "create_walk H xid vdir copy tag (f # fs) flt =
     bindM (create_handle_file H xid vdir copy tag f flt) (create_walk H xid vdir copy tag fs)"

definition make_vserver_filesystem :: "'k host \<Rightarrow> xid_t \<Rightarrow> string \<Rightarrow> string \<Rightarrow> bool \<Rightarrow> ('k, unit) handler" where
  "make_vserver_filesystem H xid vdir tdir copy =
     bindM (sys_or_fault ''chroot_secure_chdir'' (chroot_secure_chdir (kern H) vdir ''/'')) (\<lambda>_.
     bindM (sysM (act (kern H) (Open_read ''.''))) (\<lambda>_.
     bindM (sys_or_fault ''ix_attr_get'' (ix_attr_get (kern H) ''.'')) (\<lambda>attr.
     let has_tagxid = (and (ia_mask attr) (hdr32 H [''IATTR_TAG'']) \<noteq> 0) in
     bindM (sysM (act (kern H) (Chdir tdir))) (\<lambda>_.
     bindM (if copy then ret True
            else
              bindM (sys_or_fault ''fstat'' (stat_dev (kern H) vdir)) (\<lambda>vdev.
              bindM (sys_or_fault ''lstat'' (stat_dev (kern H) ''.'')) (\<lambda>tdev.
              ret (vdev \<noteq> tdev)))) (\<lambda>copy.
     bindM (getsM os) (\<lambda>k.
     bindM (create_walk H xid vdir copy has_tagxid (nftw (kern H) ''.'' k) None) (\<lambda>flt.
     case flt of None \<Rightarrow> ret () | Some f \<Rightarrow> raise f)))))))"

section \<open>A free context id\<close>

fun free_loop :: "'k host \<Rightarrow> nat \<Rightarrow> xid_t \<Rightarrow> ('k, xid_t) handler" where
  "free_loop H 0 i = ret 0"
| "free_loop H (Suc n) i =
     bindM (vxdb_getname H i) (\<lambda>nm. if nm = None then ret i else free_loop H n (i + 1))"

text \<open>
  The id and whether the last step of the query said it is done.  \<^verbatim>\<open>vxdb_getname\<close> uses and
  finalizes the statement of this query, so after the search the step is one of a finalized
  statement.
\<close>

definition pick_xid :: "'k host \<Rightarrow> qres \<Rightarrow> ('k, xid_t \<times> bool) handler" where
  "pick_xid H r =
     (case first_row r of
        None \<Rightarrow> ret (0, prepared r \<and> finished r)
      | Some row \<Rightarrow>
          let cnt = vxdb_column_int (lib H) row 0;
              mx = vxdb_column_int (lib H) row 1 in
          if cnt < 1 then ret (2, finished r)
          else if mx < 65535 then ret (u32 (mx + 1), finished r)
          else if cnt < 65535 then
            bindM (free_loop H 65533 2) (\<lambda>i. ret (i, sq_stale_done (sql H)))
          else ret (0, finished r))"

definition find_free_xid :: "'k host \<Rightarrow> xid_t \<Rightarrow> string \<Rightarrow> ('k, xid_t) handler" where
  "find_free_xid H xid name =
     (if xid \<noteq> 0 then ret xid
      else
        bindM (vxdb_query H (SelectCountMax C_xid T_xid_name_map)) (\<lambda>r.
        bindM (pick_xid H r) (\<lambda>(xid, done).
        if xid = 0 then raise (Faultf MEVXDB (''no free context id available: '' @ name))
        else if \<not> done then raise VxdbFault
        else ret xid)))"

section \<open>The root directory\<close>

text \<open>Run \<open>h\<close> after a fault of \<open>m\<close>, which stays.\<close>

definition on_fault :: "('k, 'a) handler \<Rightarrow> ('k, unit) handler \<Rightarrow> ('k, 'a) handler" where
  "on_fault m h s =
     (case m s of (Inl f, s') \<Rightarrow> (Inl f, snd (h s')) | (Inr x, s') \<Rightarrow> (Inr x, s'))"

definition try_runlink :: "'k host \<Rightarrow> string \<Rightarrow> ('k, unit) handler" where
  "try_runlink H path = bindM (sysM (runlink (kern H) path)) (\<lambda>_. ret ())"

definition dev_nodes :: "'k host \<Rightarrow> call list" where
  "dev_nodes H =
     (let chr = (\<lambda>perm. or perm (int (hdr H ''S_IFCHR''))) in
      [Mkdir ''dev'' 493, Mkdir ''dev/pts'' 493,
       Mknod ''dev/null'' (chr 438) 1 3, Mknod ''dev/zero'' (chr 438) 1 5, Mknod ''dev/full'' (chr 438) 1 7,
       Mknod ''dev/random'' (chr 420) 1 8, Mknod ''dev/urandom'' (chr 420) 1 9,
       Mknod ''dev/tty'' (chr 438) 5 0, Mknod ''dev/ptmx'' (chr 438) 5 2])"

definition or_sanitize :: "'k host \<Rightarrow> ('k, unit) syscall \<Rightarrow> ('k, unit) handler" where
  "or_sanitize H f =
     bindM (sysM f) (\<lambda>r.
     case r of
       Inl e \<Rightarrow> raise (Faultf MESYS (''could not properly sanitize /dev: '' @ strerror (kern H) e))
     | Inr _ \<Rightarrow> ret ())"

definition sanitize_dev :: "'k host \<Rightarrow> ('k, unit) handler" where
  "sanitize_dev H =
     bindM (or_sanitize H (runlink (kern H) ''dev'')) (\<lambda>_.
     forM (dev_nodes H) (\<lambda>call. or_sanitize H (act (kern H) call)))"

definition build_root_filesystem ::
    "'k host \<Rightarrow> xid_t \<Rightarrow> string \<Rightarrow> string \<Rightarrow> string \<Rightarrow> bool \<Rightarrow> ('k, xid_t) handler" where
  "build_root_filesystem H xid name vdir tdir copy =
     bindM (if xid > 0 then
              bindM (vxdb_getvdir H name) (\<lambda>oldvdir.
              if \<not> validate_path (lib H) oldvdir then
                raise (Faultf MECONF (''invalid old vdir path: '' @ or_default oldvdir ''(null)''))
              else try_runlink H (or_default oldvdir ''''))
            else ret ()) (\<lambda>_.
     bindM (try_runlink H vdir) (\<lambda>_.
     bindM (find_free_xid H xid name) (\<lambda>xid.
     bindM (sys_or_fault ''mkdirp'' (act (kern H) (Mkdirp vdir 493))) (\<lambda>_.
     bindM (on_fault (make_vserver_filesystem H xid vdir tdir copy) (try_runlink H vdir)) (\<lambda>_.
     bindM (sys_or_fault ''chroot_secure_chdir'' (chroot_secure_chdir (kern H) vdir ''/'')) (\<lambda>_.
     bindM (sanitize_dev H) (\<lambda>_.
     ret xid)))))))"

section \<open>The rows of the guest\<close>

definition create_remove_tables :: "table list" where
  "create_remove_tables =
     [T_dx_limit, T_init, T_mount, T_nx_addr, T_nx_broadcast, T_restart, T_vdir, T_vx_bcaps, T_vx_ccaps,
      T_vx_flags, T_vx_limit, T_vx_sched, T_vx_uname, T_xid_name_map]"

definition conf_fault :: "string \<Rightarrow> string option \<Rightarrow> fault" where
  "conf_fault what value =
     Faultf MECONF (''invalid template configuration for '' @ what @ '': '' @ or_default value ''(null)'')"

definition mount_stmt :: "xid_t \<Rightarrow> string \<Rightarrow> string \<Rightarrow> string \<Rightarrow> string \<Rightarrow> stmt" where
  "mount_stmt xid src dst type opts =
     Insert False T_mount [(C_xid, SInt (s32 xid)), (C_src, STxt src), (C_dst, STxt dst), (C_type, STxt type),
       (C_opts, STxt opts)]"

fun tmount_stmts :: "'k host \<Rightarrow> xid_t \<Rightarrow> tmount list \<Rightarrow> fault + stmt list" where
  "tmount_stmts H xid [] = Inr []"
| "tmount_stmts H xid (m # ms) =
     (if \<not> validate_path (lib H) (Some (tm_dst m)) then Inl (conf_fault ''mount destination'' (Some (tm_dst m)))
      else if \<not> validate_path (lib H) (tm_src m) \<and> tm_src m \<noteq> Some ''none'' then
        Inl (conf_fault ''mount source'' (tm_src m))
      else case tm_type m of
        None \<Rightarrow> Inl (conf_fault ''mount type'' None)
      | Some type \<Rightarrow>
          if str_isempty (lib H) (Some type) \<or> \<not> str_isalnum (lib H) type then
            Inl (conf_fault ''mount type'' (Some type))
          else case tm_opts m of
            None \<Rightarrow> Inl (conf_fault ''mount options'' None)
          | Some opts \<Rightarrow>
              if str_isempty (lib H) (Some opts) \<or> \<not> str_isascii (lib H) opts then
                Inl (conf_fault ''mount options'' (Some opts))
              else case tmount_stmts H xid ms of
                Inl f \<Rightarrow> Inl f
              | Inr sts \<Rightarrow> Inr (mount_stmt xid (or_default (tm_src m) '''') (tm_dst m) type opts # sts))"

fun flag_stmts :: "'k host \<Rightarrow> (string \<times> 64 word) list \<Rightarrow> string \<Rightarrow> table \<Rightarrow> col \<Rightarrow> xid_t \<Rightarrow> string list
    \<Rightarrow> fault + stmt list" where
  "flag_stmts H l what t c xid [] = Inr []"
| "flag_stmts H l what t c xid (x # xs) =
     (if flist64_getval (lib H) l x = 0 then Inl (conf_fault what (Some x))
      else case flag_stmts H l what t c xid xs of
        Inl f \<Rightarrow> Inl f
      | Inr sts \<Rightarrow> Inr (Insert False t [(C_xid, SInt (s32 xid)), (c, STxt x)] # sts))"

definition default_mounts :: "xid_t \<Rightarrow> stmt list" where
  "default_mounts xid =
     [mount_stmt xid ''none'' ''/proc'' ''proc'' ''defaults'',
      mount_stmt xid ''none'' ''/dev/pts'' ''devpts'' ''defaults'']"

definition init_stmts :: "'k host \<Rightarrow> tconf \<Rightarrow> xid_t \<Rightarrow> fault + stmt list" where
  "init_stmts H t xid =
     (let init = cfg_opt (t_init t) ''/sbin/init'';
          halt = cfg_opt (t_halt t) ''/sbin/halt'';
          reboot = cfg_opt (t_reboot t) ''/sbin/reboot'';
          timeout = cfg_opt (t_timeout t) 15 in
      if \<not> validate_path (lib H) (Some init) then Inl (conf_fault ''init'' (Some init))
      else if \<not> validate_path (lib H) (Some halt) then Inl (conf_fault ''halt'' (Some halt))
      else if \<not> validate_path (lib H) (Some reboot) then Inl (conf_fault ''reboot'' (Some reboot))
      else Inr [Insert False T_init [(C_xid, SInt (s32 xid)), (C_init, STxt init), (C_halt, STxt halt),
        (C_reboot, STxt reboot), (C_timeout, SInt (if timeout < 0 then 0 else timeout))]])"

definition entries_stmts :: "'k host \<Rightarrow> tconf \<Rightarrow> xid_t \<Rightarrow> string \<Rightarrow> string \<Rightarrow> ('k, stmt list) handler" where
  "entries_stmts H t xid name vdir =
     bindM (liftM (init_stmts H t xid)) (\<lambda>inits.
     bindM (liftM (if t_mounts t = [] then Inr (default_mounts xid) else tmount_stmts H xid (t_mounts t))) (\<lambda>mounts.
     bindM (liftM (flag_stmts H (bcaps_list H) ''bcap'' T_vx_bcaps C_bcap xid
       (cfg_opt (t_bcaps t) DEFAULT_BCAPS))) (\<lambda>bcaps.
     bindM (liftM (flag_stmts H (ccaps_list H) ''ccap'' T_vx_ccaps C_ccap xid
       (cfg_opt (t_ccaps t) DEFAULT_CCAPS))) (\<lambda>ccaps.
     bindM (liftM (flag_stmts H (cflags_list H) ''cflag'' T_vx_flags C_flag xid
       (cfg_opt (t_flags t) DEFAULT_FLAGS))) (\<lambda>flags.
     ret (Begin # map (\<lambda>t. Delete t [(C_xid, xid_lit xid)]) create_remove_tables
          @ inits @ mounts @ bcaps @ ccaps @ flags
          @ [Insert False T_vdir [(C_xid, SInt (s32 xid)), (C_vdir, STxt vdir)],
             Insert False T_xid_name_map [(C_xid, SInt (s32 xid)), (C_name, STxt name)],
             Commit]))))))"

text \<open>
  The assembled text is itself handed to \<^verbatim>\<open>vxdb_exec\<close> as its format: with a percent sign in
  a value it is not the text that was assembled.
\<close>

fun sval_plain :: "sval \<Rightarrow> bool" where
  "sval_plain (STxt s) = (CHR ''%'' \<notin> set s)"
| "sval_plain _ = True"

fun stmt_plain :: "stmt \<Rightarrow> bool" where
  "stmt_plain (Insert _ _ r) = list_all (\<lambda>(c, v). sval_plain v) r"
| "stmt_plain _ = True"

definition vxdb_exec_format :: "'k host \<Rightarrow> stmt list \<Rightarrow> ('k, bool) handler" where
  "vxdb_exec_format H sts s =
     (if list_all stmt_plain sts then vxdb_exec H sts s
      else (case sq_raw_exec (sql H) sts (conn s) (os s) of
              ((ok, c), k) \<Rightarrow> (Inr ok, s\<lparr>conn := c, os := k\<rparr>)))"

definition create_vxdb_entries ::
    "'k host \<Rightarrow> xid_t \<Rightarrow> string \<Rightarrow> string \<Rightarrow> string \<Rightarrow> string \<Rightarrow> ('k, unit) handler" where
  "create_vxdb_entries H xid name vdir tdir template =
     bindM (getsM os) (\<lambda>k.
     let tconf = tdir @ ''.conf'';
         file = (if str_isempty (lib H) (Some tconf) \<or> \<not> isfile (kern H) tconf k then ''/dev/null'' else tconf) in
     case cfg_parse (kern H) file k of
       CFG_FILE_ERROR \<Rightarrow> raise (Faultf MECONF (''could not read template configuration: '' @ template))
     | CFG_PARSE_ERROR \<Rightarrow> raise (Faultf MECONF (''syntax error in template configuration: '' @ template))
     | CFG_SUCCESS t \<Rightarrow>
         bindM (entries_stmts H t xid name vdir) (\<lambda>sts.
         bindM (vxdb_exec_format H sts) (\<lambda>ok.
         if ok then ret ()
         else bindM (try_runlink H vdir) (\<lambda>_. raise VxdbFault))))"

section \<open>The method\<close>

text \<open>Who may build: the owner of an existing guest with \<^verbatim>\<open>force\<close> while it is not running,
  and administrators.\<close>

definition create_permitted :: "'k host \<Rightarrow> string \<Rightarrow> string \<Rightarrow> bool \<Rightarrow> xid_t \<Rightarrow> ('k, unit) handler" where
  "create_permitted H user name force xid =
     (if xid \<noteq> 0 then
        bindM (auth_isowner H user name) (\<lambda>owner.
        if \<not> owner then raise (Fault MENOVPS)
        else if \<not> force then raise (Fault MEEXIST)
        else
          bindM (sysM (vx_info (kern H) xid)) (\<lambda>r.
          case r of Inr _ \<Rightarrow> raise (Fault MERUNNING) | Inl _ \<Rightarrow> ret ()))
      else
        bindM (auth_isadmin H user) (\<lambda>admin. unlessM admin (Fault MEPERM)))"

definition create_tdir :: "'k host \<Rightarrow> string \<Rightarrow> ('k, string) handler" where
  "create_tdir H template =
     bindM (unlessM (\<not> (str_isempty (lib H) (Some template) \<or> \<not> str_isgraph (lib H) template))
       (Faultf MEINVAL (''invalid template name: '' @ template))) (\<lambda>_.
     let tbasedir = cfg_getstr H ''templatedir'' in
     bindM (getsM os) (\<lambda>k.
     bindM (unlessM (validate_path (lib H) (Some tbasedir) \<and> isdir (kern H) tbasedir k)
       (Faultf MECONF (''tbasedir invalid path or does not exist: '' @ tbasedir))) (\<lambda>_.
     case str_path_concat (lib H) tbasedir template of
       None \<Rightarrow> raise (Faultf MEINVAL (''invalid template path: '' @ tbasedir @ ''/'' @ template))
     | Some tdir \<Rightarrow>
         bindM (unlessM (isdir (kern H) tdir k) (Faultf MEINVAL (''template does not exist: '' @ template))) (\<lambda>_.
         ret tdir))))"

definition create_vdir :: "'k host \<Rightarrow> string \<Rightarrow> string \<Rightarrow> string \<Rightarrow> bool \<Rightarrow> ('k, string) handler" where
  "create_vdir H user name vdir force =
     bindM (if str_isempty (lib H) (Some vdir) then vxdb_getvdir H name
            else bindM (auth_isadmin H user) (\<lambda>admin.
              if \<not> admin then vxdb_getvdir H name else ret (Some vdir))) (\<lambda>v.
     let path = or_default v ''(null)'' in
     bindM (unlessM (validate_path (lib H) v) (Faultf MEINVAL (''invalid vdir path: '' @ path))) (\<lambda>_.
     bindM (unlessM (length path \<le> 31) (Faultf MEINVAL (''vdir path too long: '' @ path))) (\<lambda>_.
     bindM (getsM os) (\<lambda>k.
     bindM (unlessM (force \<or> \<not> ispath (kern H) path k)
       (Faultf MEEXIST (''vdir path already exists: '' @ path))) (\<lambda>_.
     ret path)))))"

definition m_vx_create :: "'k host \<Rightarrow> xval \<Rightarrow> bool \<Rightarrow> ('k, xval) handler" where
  "m_vx_create H p c =
     bindM (method_init H p c VCD_CAP_CREATE M_LOCK) (\<lambda>_.
     bindM (arg_pair H p) (\<lambda>(cred, params).
     bindM (arg_s H cred ''username'') (\<lambda>user.
     bindM (arg_s H params ''name'') (\<lambda>name.
     bindM (arg_s H params ''template'') (\<lambda>template.
     bindM (arg_b H params ''force'') (\<lambda>force.
     bindM (arg_b H params ''copy'') (\<lambda>copy.
     bindM (arg_s H params ''vdir'') (\<lambda>vdirp.
     bindM (create_tdir H template) (\<lambda>tdir.
     bindM (vxdb_getxid H name) (\<lambda>xid.
     bindM (create_permitted H user name force xid) (\<lambda>_.
     bindM (create_vdir H user name vdirp force) (\<lambda>vdir.
     bindM (build_root_filesystem H xid name vdir tdir copy) (\<lambda>xid.
     bindM (create_vxdb_entries H xid name vdir tdir template) (\<lambda>_.
     ret XNil))))))))))))))"

section \<open>The list of templates\<close>

definition template_description :: "'k host \<Rightarrow> string \<Rightarrow> string \<Rightarrow> 'k \<Rightarrow> string" where
  "template_description H tbasedir name k =
     (let tconf = tbasedir @ ''/'' @ name @ ''.conf'' in
      if str_isempty (lib H) (Some tconf) \<or> \<not> isfile (kern H) tconf k then ''(none)''
      else case cfg_parse (kern H) tconf k of
        CFG_SUCCESS t \<Rightarrow>
          (if str_isempty (lib H) (t_description t) then ''(none)'' else or_default (t_description t) '''')
      | _ \<Rightarrow> ''(parse error in configuration)'')"

definition m_vx_templates :: "'k host \<Rightarrow> xval \<Rightarrow> bool \<Rightarrow> ('k, xval) handler" where
  "m_vx_templates H p c =
     bindM (method_init H p c VCD_CAP_CREATE 0) (\<lambda>params.
     bindM (arg_s H params ''name'') (\<lambda>name.
     bindM (sysM (act (kern H) (Open_read ''.''))) (\<lambda>_.
     let tbasedir = cfg_getstr H ''templatedir'' in
     bindM (sys_or_fault (on_path ''chdir'' tbasedir) (act (kern H) (Chdir tbasedir))) (\<lambda>_.
     bindM (sys_or_fault (on_path ''opendir'' tbasedir) (dir_entries (kern H) ''.'')) (\<lambda>es.
     bindM (getsM os) (\<lambda>k.
     bindM (sysM (act (kern H) Fchdir_saved)) (\<lambda>_.
     ret (XArr (map (\<lambda>e. XStruct [(''name'', XStr e), (''description'', XStr (template_description H tbasedir e k))])
       (filter (\<lambda>e. e \<noteq> ''.'' \<and> e \<noteq> ''..'' \<and> (str_isempty (lib H) (Some name) \<or> name = e)
          \<and> isdir (kern H) e k) es))))))))))"

section \<open>Frames\<close>

lemma file_steps_reads [reads_intros]:
  "stays same_conn (copy_regular H path)" "stays same_conn (link_regular H path)"
  "stays same_conn (copy_symlink H path)" "stays same_conn (try_runlink H path)"
  "stays same_conn (or_sanitize H f)"
  unfolding copy_regular_def link_regular_def copy_symlink_def try_runlink_def or_sanitize_def
  by (intro sc.stays_rules reads_intros)+

lemma make_file_reads [reads_intros]: "stays same_conn (make_file H copy f flt)"
  unfolding make_file_def
  by (cases "ft_type f") (auto intro!: sc.stays_rules reads_intros)

lemma create_walk_reads [reads_intros]: "stays same_conn (create_walk H xid vdir copy tag fs flt)"
  by (induction fs arbitrary: flt)
    (auto simp: create_handle_file_def intro!: sc.stays_rules reads_intros)

lemma make_vserver_filesystem_reads [reads_intros]:
  "stays same_conn (make_vserver_filesystem H xid vdir tdir copy)"
  unfolding make_vserver_filesystem_def by (intro sc.stays_rules reads_intros)

lemma free_loop_reads [reads_intros]: "stays same_conn (free_loop H n i)"
  by (induction n arbitrary: i) (auto intro!: sc.stays_rules reads_intros)

lemma find_free_xid_reads [reads_intros]: "stays same_conn (find_free_xid H xid name)"
  unfolding find_free_xid_def pick_xid_def by (intro sc.stays_rules reads_intros)

lemma on_fault_reads [reads_intros]:
  "stays same_conn m \<Longrightarrow> stays same_conn h \<Longrightarrow> stays same_conn (on_fault m h)"
  by (auto simp: stays_def on_fault_def same_conn_def split: prod.splits sum.splits) (metis snd_conv)+

lemma build_root_filesystem_reads [reads_intros]:
  "stays same_conn (build_root_filesystem H xid name vdir tdir copy)"
  unfolding build_root_filesystem_def sanitize_dev_def by (intro sc.stays_rules reads_intros)

lemma create_checks_reads [reads_intros]:
  "stays same_conn (create_tdir H template)" "stays same_conn (create_vdir H user name vdir force)"
  "stays same_conn (create_permitted H user name force xid)"
  unfolding create_tdir_def create_vdir_def create_permitted_def
  by (intro sc.stays_rules reads_intros)+

lemma entries_stmts_reads [reads_intros]: "stays same_conn (entries_stmts H t xid name vdir)"
  unfolding entries_stmts_def by (intro sc.stays_rules)

lemma vxdb_exec_format_keeps: "sqlite_ok (sql H) \<Longrightarrow> stays keeps_inv (vxdb_exec_format H sts)"
  using vxdb_exec_keeps [of H sts]
  by (auto simp: stays_def keeps_inv_def vxdb_exec_format_def sqlite_ok_def split: prod.splits)
    (metis fst_conv snd_conv)

lemma stays_cfg_parsed:
  "stays R m \<Longrightarrow> stays R n \<Longrightarrow> (\<And>t. stays R (f t)) \<Longrightarrow>
     stays R (case x of CFG_FILE_ERROR \<Rightarrow> m | CFG_PARSE_ERROR \<Rightarrow> n | CFG_SUCCESS t \<Rightarrow> f t)"
  by (cases x) simp_all

lemma create_vxdb_entries_keeps [inv_intros]:
  "sqlite_ok (sql H) \<Longrightarrow> stays keeps_inv (create_vxdb_entries H xid name vdir tdir template)"
  unfolding create_vxdb_entries_def
  by (intro vx_keeps_rules stays_cfg_parsed vxdb_exec_format_keeps reads_intros [THEN same_conn_keeps])

lemma create_methods_keeps [inv_intros]:
  assumes "sqlite_ok (sql H)"
  shows "stays keeps_inv (m_vx_create H p c)" and "stays keeps_inv (m_vx_templates H p c)"
  unfolding m_vx_create_def m_vx_templates_def
  by (intro vx_keeps_rules create_vxdb_entries_keeps reads_intros [THEN same_conn_keeps] assms)+

end
