(* ===== verification/Create_Laws.thy ===== *)
theory Create_Laws
  imports User_Laws Create
begin

text \<open>
  What \<^verbatim>\<open>vx.create\<close> promises: only those build a guest who may, and a new guest gets a context
  id no other guest has.
\<close>

section \<open>Requests that are refused\<close>

text \<open>\<open>refuses T m s\<close>: run from \<open>s\<close>, the program faults and writes no table but those of \<open>T\<close>.\<close>

definition refuses :: "table set \<Rightarrow> ('k, 'a) handler \<Rightarrow> 'k st \<Rightarrow> bool" where
  "refuses T m s \<longleftrightarrow> isl (fst (m s)) \<and> touches T s (snd (m s))"

lemma refuses_bind:
  assumes "stays (touches T) m"
    and "\<And>x s1. m s = (Inr x, s1) \<Longrightarrow> touches T s s1 \<Longrightarrow> refuses T (f x) s1"
  shows "refuses T (bindM m f) s"
proof -
  obtain r s1 where m: "m s = (r, s1)" by fastforce
  with assms(1) have t: "touches T s s1" by (rule staysD)
  show ?thesis
  proof (cases r)
    case (Inl e)
    with m t show ?thesis by (simp add: refuses_def bindM_def)
  next
    case (Inr x)
    with m t assms(2) have "refuses T (f x) s1" by simp
    with touches_trans [OF t, of T "snd (f x s1)"] show ?thesis
      using m Inr by (simp add: refuses_def bindM_def)
  qed
qed

text \<open>A step that reads, and a parameter that is known.\<close>

lemma refuses_read:
  assumes "stays same_conn m" and "\<And>x s1. m s = (Inr x, s1) \<Longrightarrow> conn s1 = conn s \<Longrightarrow> refuses T (f x) s1"
  shows "refuses T (bindM m f) s"
  using same_conn_touches [OF assms(1)] by (rule refuses_bind) (auto intro: assms(2) dest: reads_conn [OF assms(1)])

lemma refuses_arg:
  assumes "get_param (xr_string (xr H)) H ps key = Some x" and "refuses T (f x) s"
  shows "refuses T (bindM (arg_s H ps key) f) s"
  using assms by (auto simp: refuses_def bindM_def arg_s_def decompose_def get_param_def prog_simps bind_eq_Some_conv)

lemma refuses_arg_b:
  assumes "get_param (xr_bool (xr H)) H ps key = Some x" and "refuses T (f x) s"
  shows "refuses T (bindM (arg_b H ps key) f) s"
  using assms by (auto simp: refuses_def bindM_def arg_b_def decompose_def get_param_def prog_simps bind_eq_Some_conv)

lemma refuses_end:
  assumes "stays same_conn m" and "\<And>x s1. m s \<noteq> (Inr x, s1)"
  shows "refuses T (bindM m f) s"
  using assms by (intro refuses_read) auto

lemma create_permitted_Inr:
  assumes "create_permitted H user name force xid s = (Inr u, s')"
    and "host_ok H" and "st_wf s"
  shows "is_admin (db s) user \<or> force \<and> has_owner_row (db s) user name"
proof (cases "xid = 0")
  case True
  with assms(1) have "\<exists>s1. auth_isadmin H user s = (Inr True, s1)"
    by (auto simp: create_permitted_def prog_simps elim!: bindM_InrE split: if_splits)
  with assms(2) auth_isadmin_sound [of H user s] show ?thesis by (auto simp: is_admin_def host_ok_def)
next
  case False
  with assms(1) have "force \<and> (\<exists>s1. auth_isowner H user name s = (Inr True, s1))"
    by (auto simp: create_permitted_def prog_simps elim!: bindM_InrE split: if_splits)
  with assms(2,3) auth_isowner_sound [of H user name s] show ?thesis
    by (auto simp: is_admin_def host_ok_def st_wf_def)
qed

text \<open>
  C15.  A guest is built only by an administrator or, with the parameter force, by its owner: any
  other request to \<^verbatim>\<open>vx.create\<close> is answered with a fault and changes nothing in the database but
  the counters.
\<close>

theorem create_refused:
  assumes "xr_pair (xr H) p = Some (cred, params)"
    and "get_param (xr_string (xr H)) H cred ''username'' = Some user"
    and "get_param (xr_string (xr H)) H params ''name'' = Some name"
    and "get_param (xr_bool (xr H)) H params ''force'' = Some force"
    and "\<not> (is_admin (db s) user \<or> force \<and> has_owner_row (db s) user name)"
    and "host_ok H" and "st_wf s"
  shows "\<exists>f. fst (m_vx_create H p False s) = Inl f \<and> touches {T_vcd} s (snd (m_vx_create H p False s))"
proof -
  have no: "create_permitted H user name force xid s2 \<noteq> (Inr u, s3)"
    if "touches {T_vcd} s s1" and "st_wf s1" and "conn s2 = conn s1" for xid s1 s2 u s3
  proof -
    have t: "touches {T_vcd} s s2" and w: "st_wf s2" using that st_wf_cong [OF that(3)] by (simp_all add: touches_def)
    from create_permitted_Inr [OF _ assms(6) w] assms(5) show ?thesis
      unfolding auth_tables_cong(2,4) [OF t] by blast
  qed
  have "refuses {T_vcd} (m_vx_create H p False) s"
    unfolding m_vx_create_def
  proof (rule refuses_bind [OF method_init_touches], rule refuses_read, intro reads_intros)
    fix ps s1 z s2
    assume "method_init H p False VCD_CAP_CREATE M_LOCK s = (Inr ps, s1)" and "arg_pair H p s1 = (Inr z, s2)"
      and c: "conn s2 = conn s1"
    note no = no [OF method_init_wf [OF this(1) assms(6,7)]]
    have z: "z = (cred, params)"
      using \<open>arg_pair H p s1 = (Inr z, s2)\<close> assms(1) by (simp add: arg_pair_def prog_simps)
    show "refuses {T_vcd} (case z of (cred, params) \<Rightarrow>
        bindM (arg_s H cred ''username'') (\<lambda>user.
        bindM (arg_s H params ''name'') (\<lambda>name.
        bindM (arg_s H params ''template'') (\<lambda>template.
        bindM (arg_b H params ''force'') (\<lambda>force.
        bindM (arg_b H params ''copy'') (\<lambda>copy.
        bindM (arg_s H params ''vdir'') (\<lambda>vdirp.
        bindM (create_tdir H template) (\<lambda>tdir.
        bindM (vxdb_getxid H name) (\<lambda>xid.
        bindM (create_permitted H user name force xid) (\<lambda>_.
        bindM (create_vdir H user name vdirp force) (\<lambda>vdir.
        bindM (build_root_filesystem H xid name vdir tdir copy) (\<lambda>xid.
        bindM (create_vxdb_entries H xid name vdir tdir template) (\<lambda>_.
        ret XNil))))))))))))) s2"
      unfolding z prod.case
      by (rule refuses_arg [OF assms(2)], rule refuses_arg [OF assms(3)], rule refuses_read, intro reads_intros,
          rule refuses_arg_b [OF assms(4)], rule refuses_read, intro reads_intros, rule refuses_read, intro reads_intros,
          rule refuses_read, intro reads_intros, rule refuses_read, intro reads_intros,
          rule refuses_end, intro reads_intros, rule no, simp add: c)
  qed
  then show ?thesis by (auto simp: refuses_def isl_def)
qed

section \<open>A free context id\<close>

lemma max_of_ge: "r \<in> set rs \<Longrightarrow> rget r c \<le> max_of rs c"
  by (induction rs) (auto simp: max_of_def le_max_iff_disj)

lemma no_name_row:
  assumes "st_wf s" and "name_xid (db s) n = Some x"
  obtains r where "r \<in> set (rows (db s) T_xid_name_map)" and "rget r C_name = STxt n" and "rget r C_xid = SInt x"
  using assms by (auto simp: name_xid_row)

lemma has_name_cols: "st_wf s \<Longrightarrow> has_cols (db s) T_xid_name_map [C_name, C_xid]"
  by (simp add: st_wf_def has_cols_def schema_wf_def vxdb_tables_def)

text \<open>Unless the engine fails on the query, \<^verbatim>\<open>vxdb_getname\<close> finds the name of every guest.\<close>

definition name_query :: "xid_t \<Rightarrow> query" where
  "name_query xid = Select [C_name] T_xid_name_map [(C_xid, xid_lit xid)] Unordered"

lemma vxdb_getname_none:
  assumes "vxdb_getname H i s = (Inr None, s')" and "validate_xid i"
    and "host_ok H" and "st_wf s" and "name_xid (db s) n = Some i"
  shows "unanswered H (name_query i) s'"
proof -
  from assms(5) obtain r where r: "r \<in> set (rows (db s) T_xid_name_map)" "rget r C_name = STxt n" "rget r C_xid = SInt i"
    by (rule no_name_row [OF assms(4)])
  from assms(1,2) obtain z where z: "vxdb_query H (name_query i) s = (Inr z, s')"
    and none: "(case first_row z of Some row \<Rightarrow> vxdb_column_text row 0 | None \<Rightarrow> None) = None"
    by (auto simp: vxdb_getname_def name_query_def prog_simps elim!: bindM_InrE)
  have safe: "query_safe (name_query i)" by (simp add: name_query_def xid_lit_def)
  have m: "matches (db s) [(C_xid, xid_lit i)] q \<longleftrightarrow> q = r" if "q \<in> set (rows (db s) T_xid_name_map)" for q
    using guest_row_xid [OF assms(4) that r(1)] r(3) assms(2) by (auto simp: xid_lit_def validate_xid_s32)
  have "set (filter (matches (db s) [(C_xid, xid_lit i)]) (rows (db s) T_xid_name_map)) = {r}"
    using m r(1) by auto
  then have rs: "set (query_rows (sq_scan (sql H) (name_query i)) (name_query i) (db s)) = {[STxt n]}"
    using assms(3) r(2) by (simp add: name_query_def host_ok_def sqlite_ok_set)
  have "first_row z = None"
  proof (rule ccontr)
    assume "first_row z \<noteq> None"
    then obtain row where "first_row z = Some row" by blast
    with first_row_query [OF z safe] rs have "first_row z = Some [STxt n]" by auto
    with none show False by (simp add: vxdb_column_text_def)
  qed
  with no_first_row [OF z safe] rs show ?thesis by fastforce
qed

lemma free_loop_free:
  assumes "free_loop H n i s = (Inr x, s')" and "x \<noteq> 0" and "1 < i" and "i + int n \<le> 65535"
    and "host_ok H" and "st_wf s"
  shows "i \<le> x \<and> x < 65535 \<and> (\<forall>name. name_xid (db s) name = Some x \<longrightarrow> unanswered H (name_query x) s')"
  using assms(1-4,6)
proof (induction n arbitrary: i s)
  case 0
  then show ?case by (simp add: prog_simps)
next
  case (Suc n)
  obtain nm s1 where nm: "vxdb_getname H i s = (Inr nm, s1)"
    and rest: "(if nm = None then ret i else free_loop H n (i + 1)) s1 = (Inr x, s')"
    using Suc.prems(1) by (auto elim: bindM_InrE)
  have c: "conn s1 = conn s" using reads_conn [OF vxdb_getname_reads nm] by simp
  show ?case
  proof (cases nm)
    case None
    with rest have "x = i" "s1 = s'" by (simp_all add: prog_simps)
    with None nm Suc.prems vxdb_getname_none [of H i s s1] assms(5) show ?thesis
      by (simp add: validate_xid_def)
  next
    case Some
    with rest Suc.IH [of "i + 1" s1] Suc.prems c st_wf_cong [OF c] show ?thesis by simp
  qed
qed

text \<open>The ids in use are distinct and positive, so their number can be read back.\<close>

lemma uniq_rows_distinct:
  assumes "uniq_rows [c] rs" and "\<forall>r \<in> set rs. \<exists>x. rget r c = SInt x"
  shows "distinct (map (\<lambda>r. rget r c) rs)"
  using assms by (induction rs) (auto simp: uniq_rows_def conflict_def)

lemma guest_count:
  assumes "st_wf s"
  shows "length (rows (db s) T_xid_name_map) < 2 ^ 31"
proof -
  let ?rs = "rows (db s) T_xid_name_map"
  have id: "\<exists>x. rget r C_xid = SInt x \<and> 0 < x \<and> x < 2 ^ 31" if "r \<in> set ?rs" for r
    using assms that by (auto simp: st_wf_def dest!: xids_okD elim: id_okE)
  have "distinct (map (\<lambda>r. rget r C_xid) ?rs)"
    using id by (intro uniq_rows_distinct [OF user_uniq(3) [OF assms]]) blast
  from distinct_card [OF this] have "length ?rs = card (set (map (\<lambda>r. rget r C_xid) ?rs))" by simp
  also have "\<dots> \<le> card (SInt ` {1..<2 ^ 31})" using id by (intro card_mono) fastforce+
  also have "\<dots> \<le> card {1::int..<2 ^ 31}" by (rule card_image_le) simp
  finally show ?thesis by simp
qed

text \<open>What the query of \<^verbatim>\<open>find_free_xid\<close> answers.\<close>

lemma max_of_id:
  assumes "rs \<noteq> []" and "\<forall>r \<in> set rs. id_ok (rget r c)"
  shows "id_ok (max_of rs c)"
proof -
  have "max_of rs c \<in> insert SNull ((\<lambda>r. rget r c) ` set rs)"
    unfolding max_of_def by (induction rs) (auto simp: max_def)
  moreover have "max_of rs c \<noteq> SNull"
  proof -
    obtain r where r: "r \<in> set rs" using assms(1) by (cases rs) auto
    with assms(2) obtain x where "rget r c = SInt x" by (blast elim: id_okE)
    with max_of_ge [OF r, of c] show ?thesis by (auto simp: less_eq_sval_def)
  qed
  ultimately show ?thesis using assms(2) by auto
qed

lemma above_max_free:
  assumes "st_wf s" and "max_of (rows (db s) T_xid_name_map) C_xid = SInt m" and "m < x"
  shows "name_xid (db s) name \<noteq> Some x"
proof
  assume "name_xid (db s) name = Some x"
  then obtain r where "r \<in> set (rows (db s) T_xid_name_map)" "rget r C_xid = SInt x"
    by (rule no_name_row [OF assms(1)])
  with max_of_ge [of r "rows (db s) T_xid_name_map" C_xid] assms(2,3) show False by (simp add: less_eq_sval_def)
qed

lemma find_free_xid_unused:
  assumes "find_free_xid H 0 name s = (Inr xid, s')" and "host_ok H" and "st_wf s"
  shows "1 < xid \<and> xid \<le> 65535 \<and> (\<forall>n. name_xid (db s) n = Some xid \<longrightarrow> unanswered H (name_query xid) s')"
proof -
  let ?rs = "rows (db s) T_xid_name_map"
  let ?q = "SelectCountMax C_xid T_xid_name_map"
  from assms(1) obtain r s1 fin where r: "vxdb_query H ?q s = (Inr r, s1)"
    and p: "pick_xid H r s1 = (Inr (xid, fin), s')" and x: "xid \<noteq> 0"
    by (auto simp: find_free_xid_def prog_simps elim!: bindM_InrE split: if_splits)
  have c: "conn s1 = conn s" using reads_conn [OF vxdb_query_reads r] by simp
  have ids: "\<forall>r \<in> set ?rs. id_ok (rget r C_xid)" using assms(3) xids_okD by (auto simp: st_wf_def)
  then have all: "filter (\<lambda>r. rget r C_xid \<noteq> SNull) ?rs = ?rs"
    by (intro filter_True) (auto simp: id_ok_def)
  obtain row where row': "first_row r = Some row"
    using p x by (cases "first_row r") (auto simp: pick_xid_def prog_simps)
  have "query_safe ?q" by simp
  from first_row_query [OF r this row'] have "row = [SInt (int (length ?rs)), max_of ?rs C_xid]" by (simp add: all)
  with row' have row: "first_row r = Some [SInt (int (length ?rs)), max_of ?rs C_xid]" by simp
  have cnt: "vxdb_column_int (lib H) [SInt (int (length ?rs)), max_of ?rs C_xid] 0 = int (length ?rs)"
    using guest_count [OF assms(3)] assms(2)
    by (simp add: vxdb_column_int_def vxdb_column_text_def scan_or_0_def lucid_ok_scan host_ok_def)
  show ?thesis
  proof (cases "?rs = []")
    case True
    with p row cnt have "xid = 2" by (simp add: pick_xid_def prog_simps)
    with True show ?thesis by (simp add: name_xid_row [OF assms(3)])
  next
    case False
    with ids have "id_ok (max_of ?rs C_xid)" by (intro max_of_id)
    then obtain m where m: "max_of ?rs C_xid = SInt m" "0 < m" "m < 2 ^ 31" by (rule id_okE)
    have mx: "vxdb_column_int (lib H) [SInt (int (length ?rs)), SInt m] 1 = m"
      using m assms(2)
      by (simp add: vxdb_column_int_def vxdb_column_text_def scan_or_0_def lucid_ok_scan host_ok_def)
    show ?thesis
    proof (cases "m < 65535")
      case True
      with p row cnt mx m False have "xid = m + 1" by (simp add: pick_xid_def prog_simps u32_def not_less Suc_le_eq)
      with m True above_max_free [OF assms(3) m(1)] show ?thesis by simp
    next
      case below: False
      with p row cnt mx m False x have "free_loop H 65533 2 s1 = (Inr xid, s')"
        by (auto simp: pick_xid_def prog_simps not_less Suc_le_eq elim!: bindM_InrE split: if_splits)
      from free_loop_free [OF this x _ _ assms(2)] assms(3) st_wf_cong [OF c] c show ?thesis by simp
    qed
  qed
qed

text \<open>
  C16.  The context id of a new guest is at least 2 and at most 65535, and it is not the id of any guest
  in the database, unless the engine failed on the very lookup that made the id look free, the last
  thing the search did.
\<close>

theorem find_free_xid_free:
  assumes "find_free_xid H 0 name s = (Inr xid, s')" and "host_ok H" and "st_wf s"
  shows "1 < xid \<and> xid \<le> 65535 \<and> ((\<forall>n. name_xid (db s) n \<noteq> Some xid)
    \<or> (\<exists>t r. vxdb_query H (name_query xid) t = (Inr r, s') \<and> \<not> (prepared r \<and> finished r)))"
  using find_free_xid_unused [OF assms] unfolding unanswered_def by blast

section \<open>Witnesses\<close>

theorem create_refused_witness:
  "\<exists>f. fst (m_vx_create ref_host (ref_request ''bob'' ''password'' [(''name'', XStr ''guest2''), (''template'', XStr ''base''),
       (''force'', XBool True), (''copy'', XBool False), (''vdir'', XStr '''')]) False (ref_state ref_db [])) = Inl f"
proof -
  let ?ps = "[(''name'', XStr ''guest2''), (''template'', XStr ''base''), (''force'', XBool True), (''copy'', XBool False),
      (''vdir'', XStr '''')]"
  let ?cred = "XStruct [(''username'', XStr ''bob''), (''password'', XStr ''password'')]"
  have "xr_pair (xr ref_host) (ref_request ''bob'' ''password'' ?ps) = Some (?cred, XStruct ?ps)"
    "get_param (xr_string (xr ref_host)) ref_host ?cred ''username'' = Some ''bob''"
    "get_param (xr_string (xr ref_host)) ref_host (XStruct ?ps) ''name'' = Some ''guest2''"
    "get_param (xr_bool (xr ref_host)) ref_host (XStruct ?ps) ''force'' = Some True"
    by (simp_all add: ref_request_def ref_req)
  moreover have "\<not> (is_admin (db (ref_state ref_db [])) ''bob''
      \<or> True \<and> has_owner_row (db (ref_state ref_db [])) ''bob'' ''guest2'')"
    by (simp add: ref_state_def ref_db_def is_admin_def has_owner_row_def)
  ultimately show ?thesis using create_refused [OF _ _ _ _ _ ref_host_ok ref_st_wf] by blast
qed

theorem find_free_xid_free_witness:
  "\<exists>s'. find_free_xid ref_host 0 ''guest3'' (ref_state ref_db []) = (Inr 4, s')
     \<and> (\<forall>n. name_xid ref_db n \<noteq> Some 4)"
proof -
  let ?s = "ref_state ref_db []"
  have "fst (find_free_xid ref_host 0 ''guest3'' ?s) = Inr 4" by code_simp
  note run = run_value [OF this]
  have "db (snd (find_free_xid ref_host 0 ''guest3'' ?s)) = db ?s"
    using reads_conn [OF find_free_xid_reads run] by simp
  then have "query_ok (name_query 4) (db (snd (find_free_xid ref_host 0 ''guest3'' ?s)))"
    using has_name_cols [OF ref_st_wf] by (simp add: name_query_def xid_lit_def)
  then have "prepared r \<and> finished r"
    if "vxdb_query ref_host (name_query 4) t = (Inr r, snd (find_free_xid ref_host 0 ''guest3'' ?s))" for t r
    using ref_answers [OF that] by (simp add: ref_host_def name_query_def xid_lit_def)
  with find_free_xid_free [OF run ref_host_ok ref_st_wf] have "\<forall>n. name_xid (db ?s) n \<noteq> Some 4" by blast
  with run show ?thesis by (auto simp: ref_state_def)
qed

end
