(* ===== verification/Register_Laws.thy ===== *)
theory Register_Laws
  imports Create_Laws Guest_Laws
begin

text \<open>
  What \<^verbatim>\<open>vx.create\<close> leaves in the database: the transaction with the rows of the new guest,
  statement by statement, and the map from names to context ids after it.
\<close>

section \<open>Texts that are what they look like\<close>

text \<open>No quote and no percent sign: neither SQL nor the format of \<^verbatim>\<open>vxdb_exec\<close> reads more into it.\<close>

definition sql_text :: "string \<Rightarrow> bool" where
  "sql_text x \<longleftrightarrow> quote_free x \<and> CHR ''%'' \<notin> set x"

definition plain_opt :: "string option \<Rightarrow> bool" where
  "plain_opt x \<longleftrightarrow> (case x of None \<Rightarrow> True | Some t \<Rightarrow> sql_text t)"

definition plain_list :: "string list option \<Rightarrow> bool" where
  "plain_list x \<longleftrightarrow> (case x of None \<Rightarrow> True | Some ts \<Rightarrow> list_all sql_text ts)"

definition plain_mount :: "tmount \<Rightarrow> bool" where
  "plain_mount m \<longleftrightarrow> sql_text (tm_dst m) \<and> plain_opt (tm_src m) \<and> plain_opt (tm_type m) \<and> plain_opt (tm_opts m)"

definition plain_conf :: "tconf \<Rightarrow> bool" where
  "plain_conf t \<longleftrightarrow> plain_opt (t_init t) \<and> plain_opt (t_halt t) \<and> plain_opt (t_reboot t)
     \<and> list_all plain_mount (t_mounts t) \<and> plain_list (t_bcaps t) \<and> plain_list (t_ccaps t) \<and> plain_list (t_flags t)"

definition stmt_text :: "stmt \<Rightarrow> bool" where
  "stmt_text st \<longleftrightarrow> stmt_safe st \<and> stmt_plain st"

lemma stmt_text_Insert:
  "stmt_text (Insert b t r) \<longleftrightarrow> list_all (\<lambda>(c, v). case v of STxt x \<Rightarrow> sql_text x | _ \<Rightarrow> True) r"
proof -
  have "(case v of STxt x \<Rightarrow> sql_text x | _ \<Rightarrow> True) \<longleftrightarrow> sval_safe v \<and> sval_plain v" for v
    by (cases v) (simp_all add: sql_text_def)
  then have "(\<lambda>(c, v). case v of STxt x \<Rightarrow> sql_text x | _ \<Rightarrow> True)
      = (\<lambda>(c :: col, v). sval_safe v \<and> sval_plain v)" by (simp add: fun_eq_iff)
  then show ?thesis by (auto simp: stmt_text_def list_all_iff)
qed

section \<open>The statements of the guest\<close>

text \<open>A new row in one of the tables that hold what a guest is started with.\<close>

definition setting_stmt :: "xid_t \<Rightarrow> stmt \<Rightarrow> bool" where
  "setting_stmt xid st \<longleftrightarrow> (case st of
       Insert b t r \<Rightarrow> \<not> b \<and> t \<in> {T_init, T_mount, T_vx_bcaps, T_vx_ccaps, T_vx_flags} \<and> rget r C_xid = SInt (s32 xid)
     | _ \<Rightarrow> False) \<and> stmt_text st"

lemma setting_flags:
  "flag_stmts H l what t c xid xs = Inr sts \<Longrightarrow> list_all sql_text xs \<Longrightarrow> t \<in> {T_vx_bcaps, T_vx_ccaps, T_vx_flags}
     \<Longrightarrow> list_all (setting_stmt xid) sts"
  by (induction xs arbitrary: sts)
    (auto simp: setting_stmt_def stmt_text_Insert split: if_splits sum.splits)

lemma setting_mounts:
  "tmount_stmts H xid ms = Inr sts \<Longrightarrow> list_all plain_mount ms \<Longrightarrow> list_all (setting_stmt xid) sts"
  by (induction ms arbitrary: sts)
    (auto simp: setting_stmt_def stmt_text_Insert mount_stmt_def plain_mount_def plain_opt_def or_default_def sql_text_def
      quote_free_def split: if_splits sum.splits option.splits)

lemma plain_defaults:
  "sql_text ''/sbin/init''" "sql_text ''/sbin/halt''" "sql_text ''/sbin/reboot''" "sql_text ''none''" "sql_text ''/proc''"
  "sql_text ''proc''" "sql_text ''defaults''" "sql_text ''/dev/pts''" "sql_text ''devpts''"
  "list_all sql_text DEFAULT_BCAPS" "list_all sql_text DEFAULT_CCAPS" "list_all sql_text DEFAULT_FLAGS"
  by (simp_all add: sql_text_def quote_free_def DEFAULT_BCAPS_def DEFAULT_CCAPS_def DEFAULT_FLAGS_def)

lemma setting_default_mounts: "list_all (setting_stmt xid) (default_mounts xid)"
  by (simp add: default_mounts_def mount_stmt_def setting_stmt_def stmt_text_Insert plain_defaults)

lemma setting_inits: "init_stmts H t xid = Inr sts \<Longrightarrow> plain_conf t \<Longrightarrow> list_all (setting_stmt xid) sts"
  by (auto simp: init_stmts_def Let_def setting_stmt_def stmt_text_Insert plain_conf_def plain_opt_def cfg_opt_def
      plain_defaults split: if_splits option.splits)

lemma plain_list_opt: "plain_list x \<Longrightarrow> list_all sql_text d \<Longrightarrow> list_all sql_text (cfg_opt x d)"
  by (simp add: plain_list_def cfg_opt_def split: option.splits)

lemma entries_stmts_shape:
  assumes "entries_stmts H t xid name vdir s = (Inr sts, s')" and "plain_conf t"
  obtains set_stmts where "list_all (setting_stmt xid) set_stmts" and "s' = s"
    and "sts = Begin # map (\<lambda>t. Delete t [(C_xid, xid_lit xid)]) create_remove_tables @ set_stmts
      @ [Insert False T_vdir [(C_xid, SInt (s32 xid)), (C_vdir, STxt vdir)],
         Insert False T_xid_name_map [(C_xid, SInt (s32 xid)), (C_name, STxt name)], Commit]"
proof -
  from assms(1) obtain ini ms bs cs fs where
    i: "init_stmts H t xid = Inr ini"
    and m: "(if t_mounts t = [] then Inr (default_mounts xid) else tmount_stmts H xid (t_mounts t)) = Inr ms"
    and b: "flag_stmts H (bcaps_list H) ''bcap'' T_vx_bcaps C_bcap xid (cfg_opt (t_bcaps t) DEFAULT_BCAPS) = Inr bs"
    and c: "flag_stmts H (ccaps_list H) ''ccap'' T_vx_ccaps C_ccap xid (cfg_opt (t_ccaps t) DEFAULT_CCAPS) = Inr cs"
    and f: "flag_stmts H (cflags_list H) ''cflag'' T_vx_flags C_flag xid (cfg_opt (t_flags t) DEFAULT_FLAGS) = Inr fs"
    and s: "s' = s" "sts = Begin # map (\<lambda>t. Delete t [(C_xid, xid_lit xid)]) create_remove_tables
       @ ini @ ms @ bs @ cs @ fs @ [Insert False T_vdir [(C_xid, SInt (s32 xid)), (C_vdir, STxt vdir)],
         Insert False T_xid_name_map [(C_xid, SInt (s32 xid)), (C_name, STxt name)], Commit]"
    by (auto simp: entries_stmts_def liftM_def prog_simps elim!: bindM_InrE)
  have "list_all (setting_stmt xid) ms"
    using m assms(2) setting_default_mounts [of xid] setting_mounts [of H xid "t_mounts t" ms]
    by (auto simp: plain_conf_def split: if_splits)
  moreover have "list_all (setting_stmt xid) ini" using setting_inits [OF i assms(2)] .
  moreover have "list_all (setting_stmt xid) bs" "list_all (setting_stmt xid) cs" "list_all (setting_stmt xid) fs"
    using setting_flags [OF b] setting_flags [OF c] setting_flags [OF f] assms(2)
    by (simp_all add: plain_conf_def plain_list_opt plain_defaults)
  ultimately show thesis using s by (intro that [of "ini @ ms @ bs @ cs @ fs"]) simp_all
qed

section \<open>The transaction\<close>

lemma exec_stmts_other_table:
  "exec_stmts sts c = Some c' \<Longrightarrow> list_all (\<lambda>st. stmt_table st \<noteq> Some t) sts \<Longrightarrow> rows (cur c') t = rows (cur c) t"
proof (induction sts arbitrary: c)
  case (Cons st sts)
  then show ?case using exec_stmt_other_table [of st c] by (auto split: option.splits)
qed simp

lemma exec_stmts_inv: "exec_stmts sts c = Some c' \<Longrightarrow> conn_inv c \<Longrightarrow> conn_inv c'"
  by (induction sts arbitrary: c) (auto split: option.splits dest: exec_stmt_inv simp del: exec_stmt.simps)

lemma exec_stmts_within:
  assumes "exec_stmts sts c = Some c'" and "list_all (stmt_within T) sts"
  shows "schema (cur c') = schema (cur c) \<and> indexes (cur c') = indexes (cur c)
    \<and> (\<forall>t. t \<notin> T \<longrightarrow> rows (cur c') t = rows (cur c) t)"
  using assms
proof (induction sts arbitrary: c)
  case (Cons st sts)
  then obtain c1 where c1: "exec_stmt st c = Some c1" "exec_stmts sts c1 = Some c'"
    by (auto split: option.splits simp del: exec_stmt.simps)
  with Cons.IH [OF c1(2)] Cons.prems(2) exec_stmt_within [OF c1(1), of T] show ?case by simp
qed simp

definition guest_row :: "xid_t \<Rightarrow> string \<Rightarrow> row" where
  "guest_row xid name = [(C_xid, SInt xid), (C_name, STxt name)]"

definition entries_of :: "xid_t \<Rightarrow> string \<Rightarrow> string \<Rightarrow> stmt list \<Rightarrow> stmt list" where
  "entries_of xid name vdir set_stmts =
     Begin # map (\<lambda>t. Delete t [(C_xid, xid_lit xid)]) create_remove_tables @ set_stmts
      @ [Insert False T_vdir [(C_xid, SInt (s32 xid)), (C_vdir, STxt vdir)],
         Insert False T_xid_name_map [(C_xid, SInt (s32 xid)), (C_name, STxt name)], Commit]"

lemma setting_frame:
  assumes "setting_stmt xid st"
  shows "stmt_within (set create_remove_tables) st" and "stmt_table st \<noteq> Some T_xid_name_map" and "stmt_text st"
  using assms by (cases st; force simp: setting_stmt_def create_remove_tables_def)+

lemma settings_frame:
  assumes "list_all (setting_stmt xid) sts"
  shows "list_all (stmt_within (set create_remove_tables)) sts"
    and "list_all (\<lambda>st. stmt_table st \<noteq> Some T_xid_name_map) sts" and "list_all stmt_text sts"
  using assms by (auto simp: list_all_iff dest: setting_frame)

lemma entries_within:
  "list_all (setting_stmt xid) set_stmts \<Longrightarrow> list_all (stmt_within (set create_remove_tables)) (entries_of xid name vdir set_stmts)"
  using settings_frame(1) [of xid set_stmts]
  by (simp add: entries_of_def list_all_iff) (simp add: create_remove_tables_def)

lemma entries_text:
  assumes "list_all (setting_stmt xid) set_stmts" and "sql_text name" and "sql_text vdir"
  shows "list_all stmt_safe (entries_of xid name vdir set_stmts)"
    and "list_all stmt_plain (entries_of xid name vdir set_stmts)"
proof -
  have "list_all stmt_text (entries_of xid name vdir set_stmts)"
    using settings_frame(3) [OF assms(1)] assms(2,3)
    by (simp add: entries_of_def stmt_text_Insert) (simp add: list_all_iff stmt_text_def xid_lit_def)
  then show "list_all stmt_safe (entries_of xid name vdir set_stmts)"
    "list_all stmt_plain (entries_of xid name vdir set_stmts)" by (auto simp: list_all_iff stmt_text_def)
qed

lemma exec_entries:
  assumes "exec_stmts (entries_of xid name vdir set_stmts) c = Some c'" and "list_all (setting_stmt xid) set_stmts"
    and "s32 xid = xid"
  defines "others \<equiv> filter (\<lambda>q. rget q C_xid \<noteq> SInt xid) (rows (cur c) T_xid_name_map)"
  shows "rows (cur c') T_xid_name_map = others @ [guest_row xid name]"
    and "q \<in> set others \<Longrightarrow> \<not> clashes (cur c) T_xid_name_map (guest_row xid name) q"
proof -
  let ?w = "[(C_xid, xid_lit xid)]"
  let ?pre = "Begin # map (\<lambda>t. Delete t ?w) (butlast create_remove_tables)"
  let ?mid = "set_stmts @ [Insert False T_vdir [(C_xid, SInt (s32 xid)), (C_vdir, STxt vdir)]]"
  have "entries_of xid name vdir set_stmts
      = (?pre @ [Delete T_xid_name_map ?w]) @ ?mid @ [Insert False T_xid_name_map (guest_row xid name), Commit]"
    by (simp add: entries_of_def create_remove_tables_def guest_row_def assms(3))
  with assms(1) obtain c1 c2 c3 c4 where c1: "exec_stmts ?pre c = Some c1"
    and c2: "exec_stmt (Delete T_xid_name_map ?w) c1 = Some c2" and c3: "exec_stmts ?mid c2 = Some c3"
    and c4: "exec_stmt (Insert False T_xid_name_map (guest_row xid name)) c3 = Some c4"
    and c': "exec_stmt Commit c4 = Some c'"
    by (auto simp: exec_stmts_append simp del: exec_stmt.simps split: option.splits)
  have "rows (cur c1) T_xid_name_map = rows (cur c) T_xid_name_map"
    by (rule exec_stmts_other_table [OF c1]) (simp add: create_remove_tables_def)
  then have "rows (cur c2) T_xid_name_map = others"
    using exec_delete [OF c2] by (simp add: others_def xid_lit_def assms(3))
  moreover have "rows (cur c3) T_xid_name_map = rows (cur c2) T_xid_name_map"
    using settings_frame(2) [OF assms(2)] by (intro exec_stmts_other_table [OF c3]) simp
  ultimately have r3: "rows (cur c3) T_xid_name_map = others" by simp
  from c' have "cur c' = cur c4" by (auto split: option.splits)
  with exec_insert(2) [OF c4] r3 show "rows (cur c') T_xid_name_map = others @ [guest_row xid name]" by simp
  have all: "?pre @ [Delete T_xid_name_map ?w] @ ?mid
      = butlast (butlast (entries_of xid name vdir set_stmts))"
    by (simp add: entries_of_def create_remove_tables_def butlast_append)
  have "list_all (stmt_within (set create_remove_tables)) (?pre @ [Delete T_xid_name_map ?w] @ ?mid)"
    using entries_within [OF assms(2), of name vdir] unfolding all
    by (auto simp: list_all_iff dest: in_set_butlastD)
  moreover have "exec_stmts (?pre @ [Delete T_xid_name_map ?w] @ ?mid) c = Some c3"
    unfolding exec_stmts_append c1 option.case using c2 c3
    by (simp add: exec_stmts_append del: exec_stmt.simps)
  ultimately have "indexes (cur c3) = indexes (cur c)" using exec_stmts_within by blast
  then have "clashes (cur c3) = clashes (cur c)" by (simp add: fun_eq_iff clashes_def table_indexes_def)
  with exec_insert(1) [OF c4] r3 show "q \<in> set others \<Longrightarrow> \<not> clashes (cur c) T_xid_name_map (guest_row xid name) q"
    by (auto simp: list_ex_iff)
qed

text \<open>The map from names to context ids after the transaction.\<close>

lemma entries_registered:
  assumes "exec_stmts (entries_of xid name vdir set_stmts) (conn s) = Some (conn s')"
    and "list_all (setting_stmt xid) set_stmts" and "s32 xid = xid" and "0 < xid" and "st_wf s"
  shows "st_wf s'" and "name_xid (db s') = (\<lambda>g. if g = name then Some xid
      else if name_xid (db s) g = Some xid then None else name_xid (db s) g)"
    and "name_xid (db s) name = Some x \<Longrightarrow> x = xid" and "touches (set create_remove_tables) s s'"
proof -
  define others where "others = filter (\<lambda>q. rget q C_xid \<noteq> SInt xid) (rows (db s) T_xid_name_map)"
  note e = exec_entries [OF assms(1-3), folded others_def]
  show t: "touches (set create_remove_tables) s s'"
    using exec_stmts_within [OF assms(1) entries_within [OF assms(2)]] by (simp add: touches_def)
  have "s32 xid < 2 ^ 31" 
    by (simp add: s32_def Let_def) (rule impI, rule order.strict_trans [OF pos_mod_bound], simp_all)
  then have "xid < 2 ^ 31" by (simp add: assms(3))
  then have "xids_ok (db s')"
    using assms(4,5) e(1) by (auto simp: xids_ok_def st_wf_def list_all_iff others_def guest_row_def id_ok_def)
  moreover have "uids_ok (db s')"
    using assms(5) touches_rows [OF t, of T_user] by (simp add: st_wf_def uids_ok_def create_remove_tables_def)
  ultimately show w: "st_wf s'"
    using assms(5) touches_schema_wf [OF t] exec_stmts_inv [OF assms(1)] by (simp add: st_wf_def)
  have no: "rget q C_name \<noteq> STxt name" if "q \<in> set others" for q
    using e(2) [OF that] assms(5) by (auto simp: st_wf_def schema_wf_index clashes_def conflict_def guest_row_def)
  show old: "name_xid (db s) name = Some x \<Longrightarrow> x = xid" for x
    using no by (force simp: name_xid_row [OF assms(5)] others_def)
  show "name_xid (db s') = (\<lambda>g. if g = name then Some xid
      else if name_xid (db s) g = Some xid then None else name_xid (db s) g)" (is "_ = ?m")
  proof
    fix g
    show "name_xid (db s') g = ?m g"
    proof (rule option_eqI)
      fix x
      have new: "name_xid (db s') g = Some x \<longleftrightarrow> g = name \<and> x = xid
          \<or> (\<exists>q \<in> set others. rget q C_name = STxt g \<and> rget q C_xid = SInt x)"
        by (auto simp: name_xid_row [OF w] e(1) guest_row_def)
      have "(\<exists>q \<in> set others. rget q C_name = STxt g \<and> rget q C_xid = SInt x)
          \<longleftrightarrow> name_xid (db s) g = Some x \<and> x \<noteq> xid"
        by (auto simp: name_xid_row [OF assms(5)] others_def)
      with new no show "name_xid (db s') g = Some x \<longleftrightarrow> ?m g = Some x" by auto
    qed
  qed
qed

section \<open>The method\<close>

text \<open>
  The texts \<^verbatim>\<open>vx.create\<close> puts into its statements: those of the configuration of a template, and the
  directory, which comes from the request, from the row of the guest, or from the configuration of the daemon.
\<close>

definition create_texts :: "'k host \<Rightarrow> xval \<Rightarrow> 'k st \<Rightarrow> bool" where
  "create_texts H p s \<longleftrightarrow>
     (\<forall>path k t. cfg_parse (kern H) path k = CFG_SUCCESS t \<longrightarrow> plain_conf t)
     \<and> (\<forall>x. req_s H p False ''vdir'' = Some x \<longrightarrow> sql_text x)
     \<and> (\<forall>r \<in> set (rows (db s) T_vdir). \<forall>x. rget r C_vdir = STxt x \<longrightarrow> sql_text x)
     \<and> (\<forall>name x. str_path_concat (lib H) (cfg_getstr H ''vbasedir'') name = Some x \<longrightarrow> validate_name (lib H) name
          \<longrightarrow> sql_text x)"

lemma sql_text_dec: "sql_text (dec i)"
proof -
  have "\<not> is_digit CHR ''%''" by (simp add: is_digit_def)
  then show ?thesis
    using dec_nat_digits [of "nat i"] dec_nat_digits [of "nat (- i)"]
    by (auto simp: sql_text_def quote_free_def dec_def list_all_iff is_digit_def)
qed

lemma sql_text_c_str: "sql_text x \<Longrightarrow> sql_text (c_str x)"
  by (auto simp: sql_text_def quote_free_def c_str_def dest: set_takeWhileD)

lemma vxdb_getvdir_text:
  assumes "vxdb_getvdir H name s = (Inr (Some v), s')" and "host_ok H"
    and "\<And>r x. r \<in> set (rows (db s) T_vdir) \<Longrightarrow> rget r C_vdir = STxt x \<Longrightarrow> sql_text x"
    and "\<And>x. str_path_concat (lib H) (cfg_getstr H ''vbasedir'') name = Some x \<Longrightarrow> sql_text x"
  shows "sql_text v"
proof -
  from assms(1) obtain xid s1 vdir s2 where x: "vxdb_getxid H name s = (Inr xid, s1)"
    and q: "(if xid \<noteq> 0 then
              bindM (vxdb_query H (Select [C_vdir] T_vdir [(C_xid, xid_lit xid)] Unordered)) (\<lambda>r.
                ret (case first_row r of Some row \<Rightarrow> vxdb_column_text row 0 | None \<Rightarrow> None))
            else ret None) s1 = (Inr vdir, s2)"
    and v: "Some v = (if str_isempty (lib H) vdir then str_path_concat (lib H) (cfg_getstr H ''vbasedir'') name else vdir)"
    by (auto simp: vxdb_getvdir_def prog_simps elim!: bindM_InrE split: if_splits)
  have d: "db s1 = db s" using vxdb_getxid_state [OF x] by simp
  have "sql_text y" if y: "vdir = Some y" for y
  proof -
    from q y obtain r row where r: "vxdb_query H (Select [C_vdir] T_vdir [(C_xid, xid_lit xid)] Unordered) s1 = (Inr r, s2)"
      and row: "first_row r = Some row" and t: "vxdb_column_text row 0 = Some y"
      by (auto simp: prog_simps elim!: bindM_InrE split: if_splits option.splits)
    have "sqlite_ok (sql H)" using assms(2) by (simp add: host_ok_def)
    from first_row_Select [OF r this _ row] obtain w where
      "w \<in> set (rows (db s1) T_vdir)" "row = map (rget w) [C_vdir]" by (auto simp: xid_lit_def)
    with t d assms(3) [of w] show ?thesis
      by (cases "rget w C_vdir") (auto simp: vxdb_column_text_def sql_text_dec sql_text_c_str)
  qed
  with v assms(4) show ?thesis by (auto split: if_splits)
qed

lemma method_init_name:
  assumes "method_init H p False caps flags s = (Inr ps, s')" and "flags \<noteq> 0"
    and "get_param (xr_string (xr H)) H ps ''name'' = Some name"
  shows "validate_name (lib H) name"
  using assms(1)
proof (rule method_init_request)
  fix cred user pass s1 s2 s3
  assume "flags \<noteq> 0 \<Longrightarrow> method_check_flags H ps False (Some user) flags s3 = (Inr (), s')"
  with assms(2) have "method_check_flags H ps False (Some user) flags s3 = (Inr (), s')" by simp
  then obtain n where "get_param (xr_string (xr H)) H ps ''name'' = Some n" "validate_name (lib H) n"
    by (auto simp: method_check_flags_def prog_simps elim!: bindM_InrE arg_sE split: if_splits)
  with assms(3) show ?thesis by simp
qed

lemma case_prod_InrE:
  assumes "(case z of (a, b) \<Rightarrow> f a b) s = (Inr v, s')"
  obtains a b where "z = (a, b)" and "f a b s = (Inr v, s')"
  using assms by (cases z) simp

lemma create_vdir_text:
  assumes "create_vdir H user name vdirp force s = (Inr vdir, s')" and "host_ok H"
    and "sql_text vdirp" and "\<And>r x. r \<in> set (rows (db s) T_vdir) \<Longrightarrow> rget r C_vdir = STxt x \<Longrightarrow> sql_text x"
    and "\<And>x. str_path_concat (lib H) (cfg_getstr H ''vbasedir'') name = Some x \<Longrightarrow> sql_text x"
  shows "sql_text vdir"
proof -
  from assms(1) obtain v s1 where
    v: "(if str_isempty (lib H) (Some vdirp) then vxdb_getvdir H name
            else bindM (auth_isadmin H user) (\<lambda>admin.
              if \<not> admin then vxdb_getvdir H name else ret (Some vdirp))) s = (Inr v, s1)"
    and val: "validate_path (lib H) v" and d: "vdir = or_default v ''(null)''"
    unfolding create_vdir_def Let_def by (elim handlerE ret_InrE) blast
  from val obtain w where w: "v = Some w" by (auto simp: validate_path_def split: option.splits)
  consider s2 where "vxdb_getvdir H name s2 = (Inr (Some w), s1)" "conn s2 = conn s" | "w = vdirp"
    using v w by (auto simp: prog_simps dest!: reads_conn [OF auth_isadmin_reads] elim!: bindM_InrE split: if_splits)
  then show ?thesis
  proof cases
    case 1
    then show ?thesis
      using vxdb_getvdir_text [OF 1(1) assms(2)] assms(4,5) 1(2) d w
      by (simp add: or_default_def)
  next
    case 2
    with d w assms(3) show ?thesis by (simp add: or_default_def)
  qed
qed

text \<open>The method up to the point where it has chosen the context id, with nothing after it.\<close>

definition old_root :: "'k host \<Rightarrow> xid_t \<Rightarrow> string \<Rightarrow> string \<Rightarrow> ('k, unit) handler" where
  "old_root H xid name vdir =
     bindM (if xid > 0 then
              bindM (vxdb_getvdir H name) (\<lambda>oldvdir.
              if \<not> validate_path (lib H) oldvdir then
                raise (Faultf MECONF (''invalid old vdir path: '' @ or_default oldvdir ''(null)''))
              else try_runlink H (or_default oldvdir ''''))
            else ret ()) (\<lambda>_. try_runlink H vdir)"

definition create_choice :: "'k host \<Rightarrow> xval \<Rightarrow> ('k, xid_t) handler" where
  "create_choice H p =
     bindM (method_init H p False VCD_CAP_CREATE M_LOCK) (\<lambda>_.
     bindM (arg_pair H p) (\<lambda>(cred, params).
     bindM (arg_s H cred ''username'') (\<lambda>user.
     bindM (arg_s H params ''name'') (\<lambda>name.
     bindM (arg_s H params ''template'') (\<lambda>template.
     bindM (arg_b H params ''force'') (\<lambda>force.
     bindM (arg_b H params ''copy'') (\<lambda>copy.
     bindM (arg_s H params ''vdir'') (\<lambda>vdirp.
     bindM (create_tdir H template) (\<lambda>tdir.
     bindM (vxdb_getxid H name) (\<lambda>xid.
     bindM (create_permitted H user name force xid) (\<lambda>_.
     bindM (create_vdir H user name vdirp force) (\<lambda>vdir.
     bindM (old_root H xid name vdir) (\<lambda>_.
     find_free_xid H xid name)))))))))))))"

lemma build_root_xid:
  assumes "build_root_filesystem H xid0 name vdir tdir copy s = (Inr xid, s')"
  obtains s1 s2 where "old_root H xid0 name vdir s = (Inr (), s1)" and "find_free_xid H xid0 name s1 = (Inr xid, s2)"
    and "conn s1 = conn s"
proof -
  from assms obtain u s0 w s1 s2 where
    a: "(if xid0 > 0 then
              bindM (vxdb_getvdir H name) (\<lambda>oldvdir.
              if \<not> validate_path (lib H) oldvdir then
                raise (Faultf MECONF (''invalid old vdir path: '' @ or_default oldvdir ''(null)''))
              else try_runlink H (or_default oldvdir ''''))
            else ret ()) s = (Inr u, s0)"
    and b: "try_runlink H vdir s0 = (Inr w, s1)" and f: "find_free_xid H xid0 name s1 = (Inr xid, s2)"
    unfolding build_root_filesystem_def by (elim bindM_InrE) (auto simp: prog_simps)
  have "conn s0 = conn s" using a
    by (rule reads_conn [THEN conjunct1, rotated]) (intro sc.stays_rules reads_intros)
  moreover have "old_root H xid0 name vdir s = (Inr (), s1)"
    using a b by (simp add: old_root_def bindM_Inr)
  ultimately show thesis using reads_conn [OF file_steps_reads(4) b] that f by simp
qed

lemma create_entries_run:
  assumes "create_vxdb_entries H xid name vdir tdir template s = (Inr (), s')"
    and "\<And>path k t. cfg_parse (kern H) path k = CFG_SUCCESS t \<Longrightarrow> plain_conf t" and "sql_text name" and "sql_text vdir"
  obtains set_stmts where "exec_stmts (entries_of xid name vdir set_stmts) (conn s) = Some (conn s')"
    and "list_all (setting_stmt xid) set_stmts"
proof -
  from assms(1) obtain path t sts s1 where t: "cfg_parse (kern H) path (os s) = CFG_SUCCESS t"
    and e: "entries_stmts H t xid name vdir s = (Inr sts, s1)" and x: "vxdb_exec_format H sts s1 = (Inr True, s')"
    by (auto simp: create_vxdb_entries_def prog_simps Let_def elim!: bindM_InrE split: cfg_parsed.splits if_splits)
  from entries_stmts_shape [OF e assms(2) [OF t]] obtain set_stmts where
    set: "list_all (setting_stmt xid) set_stmts" "s1 = s" "sts = entries_of xid name vdir set_stmts"
    unfolding entries_of_def by blast
  note safe = entries_text [OF set(1) assms(3,4)]
  from x safe set have "vxdb_exec H sts s = (Inr True, s')" by (simp add: vxdb_exec_format_def)
  from vxdb_exec_all [OF this] safe set that show thesis by simp
qed

lemma valid_name_text:
  assumes "lucid_ok L" and "validate_name L name"
  shows "sql_text name"
proof -
  have "list_all (\<lambda>c. c \<noteq> CHR ''%'') name"
    using assms by (auto simp: validate_name_iff list_all_iff is_alnum_def is_digit_def is_alpha_def)
  then show ?thesis using validate_name_quote_free [OF assms] by (auto simp: sql_text_def list_all_iff)
qed

text \<open>
  The context id of the new guest, chosen when the state was \<open>u\<close>: another guest has it only when
  the engine failed on the lookup of its name, the last thing done before.
\<close>

definition chosen_id :: "'k host \<Rightarrow> vxdb_db \<Rightarrow> string \<Rightarrow> xid_t \<Rightarrow> 'k st \<Rightarrow> bool" where
  "chosen_id H d name xid u \<longleftrightarrow> 0 < xid \<and> s32 xid = xid
     \<and> (\<forall>g. g \<noteq> name \<longrightarrow> name_xid d g = Some xid \<longrightarrow> unanswered H (name_query xid) u)"

lemma create_chosen_id:
  assumes "vxdb_getxid H name sx = (Inr xid0, sx')" and "find_free_xid H xid0 name sf = (Inr xid, u)"
    and "conn sf = conn sx" and "host_ok H" and "st_wf sx"
  shows "chosen_id H (db sx) name xid u"
proof (cases "xid0 = 0")
  case True
  then have "find_free_xid H 0 name sf = (Inr xid, u)" using assms(2) by simp
  from find_free_xid_unused [OF this assms(4)] assms(3,5) st_wf_cong [OF assms(3)] show ?thesis
    by (auto simp: s32_small chosen_id_def)
next
  case False
  have x: "xid = xid0" using assms(2) False by (auto simp: find_free_xid_def prog_simps)
  have "xids_ok (db sx)" using assms(5) by (simp add: st_wf_def)
  note row = vxdb_getxid_row [OF assms(1) False host_okD(1) [OF assms(4)] host_okD(2) [OF assms(4)] this]
  from row(4) obtain q where q: "q \<in> set (rows (db sx) T_xid_name_map)" "rget q C_name = STxt name" "rget q C_xid = SInt xid0"
    by blast
  have "g = name" if "name_xid (db sx) g = Some xid0" for g
  proof -
    from that obtain q' where "q' \<in> set (rows (db sx) T_xid_name_map)" "rget q' C_name = STxt g" "rget q' C_xid = SInt xid0"
      by (auto simp: name_xid_row [OF assms(5)])
    with guest_row_xid [OF assms(5) q(1)] q show ?thesis by force
  qed
  with x row show ?thesis by (auto simp: s32_small chosen_id_def)
qed

lemma create_choice_run:
  assumes "method_init H p False VCD_CAP_CREATE M_LOCK s = (Inr z, s1)" and "xr_pair (xr H) p = Some (cred, params)"
    and "get_param (xr_string (xr H)) H cred ''username'' = Some user"
    and "get_param (xr_string (xr H)) H params ''name'' = Some name"
    and "get_param (xr_string (xr H)) H params ''template'' = Some template"
    and "get_param (xr_bool (xr H)) H params ''force'' = Some force"
    and "get_param (xr_bool (xr H)) H params ''copy'' = Some copy"
    and "get_param (xr_string (xr H)) H params ''vdir'' = Some vdirp"
    and "create_tdir H template s1 = (Inr tdir, s2)" and "vxdb_getxid H name s2 = (Inr xid0, s3)"
    and "create_permitted H user name force xid0 s3 = (Inr x, s4)"
    and "create_vdir H user name vdirp force s4 = (Inr vdir, s5)"
    and "old_root H xid0 name vdir s5 = (Inr (), s6)" and "find_free_xid H xid0 name s6 = (Inr xid, u)"
  shows "create_choice H p s = (Inr xid, u)"
proof -
  have args: "arg_s H cred ''username'' s1 = (Inr user, s1)" "arg_s H params ''name'' s1 = (Inr name, s1)"
    "arg_s H params ''template'' s1 = (Inr template, s1)" "arg_b H params ''force'' s1 = (Inr force, s1)"
    "arg_b H params ''copy'' s1 = (Inr copy, s1)" "arg_s H params ''vdir'' s1 = (Inr vdirp, s1)"
    "arg_pair H p s1 = (Inr (cred, params), s1)"
    using assms(2-8) by (auto simp: get_param_def arg_s_def arg_b_def decompose_def arg_pair_def prog_simps bind_eq_Some_conv)
  show ?thesis
    unfolding create_choice_def by (simp add: bindM_def assms(1,9-14) args)
qed

lemma create_steps:
  assumes "m_vx_create H p False s = (Inr v, s')" and "host_ok H" and "st_wf s"
  obtains user name force vdirp tdir template xid0 vdir xid s1 sx sx' sv sv' sf u sb where
    "touches {T_vcd} s s1" and "st_wf s1" and "req_s H p False ''name'' = Some name"
    and "req_s H p False ''vdir'' = Some vdirp" and "validate_name (lib H) name"
    and "vxdb_getxid H name sx = (Inr xid0, sx')" and "conn sx = conn s1"
    and "create_vdir H user name vdirp force sv = (Inr vdir, sv')" and "conn sv = conn s1"
    and "find_free_xid H xid0 name sf = (Inr xid, u)" and "conn sf = conn s1"
    and "create_choice H p s = (Inr xid, u)"
    and "create_vxdb_entries H xid name vdir tdir template sb = (Inr (), s')" and "conn sb = conn s1"
proof -
  from assms(1) obtain z s1 cred params sa user name template force copy vdirp tdir s2 xid0 s3 x s4 vdir s5 xid s6 where
    i: "method_init H p False VCD_CAP_CREATE M_LOCK s = (Inr z, s1)"
    and pr: "arg_pair H p s1 = (Inr (cred, params), sa)"
    and a: "get_param (xr_string (xr H)) H cred ''username'' = Some user"
      "get_param (xr_string (xr H)) H params ''name'' = Some name"
      "get_param (xr_string (xr H)) H params ''template'' = Some template"
      "get_param (xr_bool (xr H)) H params ''force'' = Some force"
      "get_param (xr_bool (xr H)) H params ''copy'' = Some copy"
      "get_param (xr_string (xr H)) H params ''vdir'' = Some vdirp"
    and td: "create_tdir H template sa = (Inr tdir, s2)"
    and x: "vxdb_getxid H name s2 = (Inr xid0, s3)"
    and pm: "create_permitted H user name force xid0 s3 = (Inr x, s4)"
    and vd: "create_vdir H user name vdirp force s4 = (Inr vdir, s5)"
    and br: "build_root_filesystem H xid0 name vdir tdir copy s5 = (Inr xid, s6)"
    and ce: "create_vxdb_entries H xid name vdir tdir template s6 = (Inr (), s')"
    unfolding m_vx_create_def by (elim case_prod_InrE handlerE) (auto simp: prog_simps)
  have sa: "sa = s1" "xr_pair (xr H) p = Some (cred, params)"
    using pr by (auto simp: arg_pair_def prog_simps split: option.splits)
  from br obtain sf u where or: "old_root H xid0 name vdir s5 = (Inr (), sf)"
    and ff: "find_free_xid H xid0 name sf = (Inr xid, u)" and cf: "conn sf = conn s5"
    by (rule build_root_xid)
  have c: "conn s2 = conn s1" "conn s3 = conn s1" "conn s4 = conn s1" "conn s5 = conn s1" "conn s6 = conn s1"
    using reads_conn [OF create_checks_reads(1) td] reads_conn [OF vxdb_getxid_reads x]
      reads_conn [OF create_checks_reads(3) pm] reads_conn [OF create_checks_reads(2) vd]
      reads_conn [OF build_root_filesystem_reads br] sa by simp_all
  note choice = create_choice_run [OF i sa(2) a td [unfolded sa(1)] x pm vd or ff]
  have z: "z = params" using method_init_params [OF i] sa by (simp add: req_params_def)
  show thesis
    using that [of s1 name vdirp s2 xid0 s3 user force s4 vdir s5 sf xid u tdir template s6]
      method_init_wf [OF i assms(2,3)] method_init_name [OF i] a x vd ff cf choice ce c sa z
    by (simp add: req_s_def req_params_def M_LOCK_def)
qed

text \<open>
  C17.  After a successful \<^verbatim>\<open>vx.create\<close> the guest it was asked for is registered under the id
  that was chosen, which is the one it had before when the guest existed, and no other name is added or
  given another id.  Another guest loses its name only when it had the id that was chosen, which happens
  only when the engine failed on the lookup of its name.  No quote and no percent sign is in the directory
  the request names, the directories of the database and the configuration of the template.
\<close>

theorem create_registers:
  assumes "m_vx_create H p False s = (Inr v, s')" and "host_ok H" and "st_wf s"
    and "create_texts H p s"
  shows "\<exists>name xid u. req_s H p False ''name'' = Some name \<and> create_choice H p s = (Inr xid, u)
    \<and> name_xid (db s') = (\<lambda>g. if g = name then Some xid
        else if name_xid (db s) g = Some xid then None else name_xid (db s) g)
    \<and> (\<forall>x. name_xid (db s) name = Some x \<longrightarrow> x = xid)
    \<and> (\<forall>g. g \<noteq> name \<longrightarrow> name_xid (db s) g = Some xid \<longrightarrow> unanswered H (name_query xid) u)"
  using assms(1-3)
proof (rule create_steps)
  fix user name force vdirp tdir template xid0 vdir xid s1 sx sx' sv sv' sf u sb
  assume t: "touches {T_vcd} s s1" and w: "st_wf s1" and n: "req_s H p False ''name'' = Some name"
    and vp: "req_s H p False ''vdir'' = Some vdirp" and val: "validate_name (lib H) name"
    and x0: "vxdb_getxid H name sx = (Inr xid0, sx')" and cx: "conn sx = conn s1"
    and vd: "create_vdir H user name vdirp force sv = (Inr vdir, sv')" and cv: "conn sv = conn s1"
    and ff: "find_free_xid H xid0 name sf = (Inr xid, u)" and cf: "conn sf = conn s1"
    and ch: "create_choice H p s = (Inr xid, u)"
    and ce: "create_vxdb_entries H xid name vdir tdir template sb = (Inr (), s')" and cb: "conn sb = conn s1"
  have same: "name_xid (db s1) = name_xid (db s)" "rows (db s1) T_vdir = rows (db s) T_vdir"
    using name_xid_cong [OF touches_rows [OF t]] touches_rows [OF t] by simp_all
  have L: "lucid_ok (lib H)" using assms(2) by (simp add: host_ok_def)
  note nt = valid_name_text [OF L val]
  have vt: "sql_text vdir"
    using create_vdir_text [OF vd assms(2)] assms(4) same(2) vp val cv by (auto simp: create_texts_def)
  from create_entries_run [OF ce _ nt vt] assms(4) obtain set_stmts where
    ex: "exec_stmts (entries_of xid name vdir set_stmts) (conn sb) = Some (conn s')" "list_all (setting_stmt xid) set_stmts"
    unfolding create_texts_def by blast
  have id: "chosen_id H (db s) name xid u"
    using create_chosen_id [OF x0 ff _ assms(2)] cx cf w st_wf_cong [OF cx] same(1) by (simp add: chosen_id_def)
  have "s32 xid = xid" "0 < xid" "st_wf sb" using id w st_wf_cong [OF cb] by (simp_all add: chosen_id_def)
  note reg = entries_registered [OF ex this, unfolded cb same(1)]
  from id have "\<forall>g. g \<noteq> name \<longrightarrow> name_xid (db s) g = Some xid \<longrightarrow> unanswered H (name_query xid) u"
    by (simp add: chosen_id_def)
  with n ch reg(2,3) show ?thesis by blast
qed

section \<open>What it may write\<close>

text \<open>What a run from \<open>s\<close> does to the state, however it ends.\<close>

definition leads :: "('k st \<Rightarrow> 'k st \<Rightarrow> bool) \<Rightarrow> ('k, 'a) handler \<Rightarrow> 'k st \<Rightarrow> bool" where
  "leads R m s \<longleftrightarrow> R s (snd (m s))"

definition frame :: "('k st \<Rightarrow> 'k st \<Rightarrow> bool) \<Rightarrow> bool" where
  "frame R \<longleftrightarrow> step_relation R \<and> (\<forall>s s'. same_conn s s' \<longrightarrow> R s s')"

lemma frame_reads: "frame R \<Longrightarrow> stays same_conn m \<Longrightarrow> stays R m"
  by (simp add: frame_def stays_def)

lemma leads_stays: "stays R m \<Longrightarrow> leads R m s"
  by (simp add: leads_def stays_def)

lemma leads_bind:
  assumes "frame R" and "stays R m" and "\<And>x s1. m s = (Inr x, s1) \<Longrightarrow> leads R (f x) s1"
  shows "leads R (bindM m f) s"
proof -
  have R: "step_relation R" using assms(1) by (simp add: frame_def)
  obtain r s1 where m: "m s = (r, s1)" by fastforce
  with assms(2) have "R s s1" by (rule staysD)
  with m assms(3) step_relation.R_trans [OF R] show ?thesis
    by (cases r) (auto simp: leads_def bindM_def)
qed

text \<open>A step that reads.\<close>

lemma leads_read:
  assumes "frame R" and "stays same_conn m" and "\<And>x s1. m s = (Inr x, s1) \<Longrightarrow> conn s1 = conn s \<Longrightarrow> leads R (f x) s1"
  shows "leads R (bindM m f) s"
  using assms(1) frame_reads [OF assms(1,2)] by (rule leads_bind) (auto intro: assms(3) dest: reads_conn [OF assms(2)])

lemma leads_pure: "frame R \<Longrightarrow> leads R (raise e) s" "frame R \<Longrightarrow> leads R (ret x) s"
  by (simp_all add: leads_def prog_simps frame_def step_relation.R_refl)

lemma create_entries_leads:
  assumes "frame R"
    and "\<And>path k t. cfg_parse (kern H) path k = CFG_SUCCESS t \<Longrightarrow> plain_conf t" and "sql_text name" and "sql_text vdir"
    and "\<And>ss. list_all (setting_stmt xid) ss \<Longrightarrow> stays R (vxdb_exec H (entries_of xid name vdir ss))"
  shows "leads R (create_vxdb_entries H xid name vdir tdir template) s"
  unfolding create_vxdb_entries_def Let_def
proof (rule leads_read [OF assms(1)], intro sc.stays_rules)
  fix k s1
  let ?file = "if str_isempty (lib H) (Some (tdir @ ''.conf'')) \<or> \<not> isfile (kern H) (tdir @ ''.conf'') k
      then ''/dev/null'' else tdir @ ''.conf''"
  show "leads R (case cfg_parse (kern H) ?file k of
       CFG_FILE_ERROR \<Rightarrow> raise (Faultf MECONF (''could not read template configuration: '' @ template))
     | CFG_PARSE_ERROR \<Rightarrow> raise (Faultf MECONF (''syntax error in template configuration: '' @ template))
     | CFG_SUCCESS t \<Rightarrow>
         bindM (entries_stmts H t xid name vdir) (\<lambda>sts.
         bindM (vxdb_exec_format H sts) (\<lambda>ok.
         if ok then ret ()
         else bindM (try_runlink H vdir) (\<lambda>_. raise VxdbFault)))) s1"
  proof (cases "cfg_parse (kern H) ?file k")
    case (CFG_SUCCESS t)
    have "leads R (bindM (entries_stmts H t xid name vdir) (\<lambda>sts.
         bindM (vxdb_exec_format H sts) (\<lambda>ok.
         if ok then ret ()
         else bindM (try_runlink H vdir) (\<lambda>_. raise VxdbFault)))) s1"
    proof (rule leads_read [OF assms(1)], intro reads_intros)
      fix sts s2
      assume "entries_stmts H t xid name vdir s1 = (Inr sts, s2)"
      from entries_stmts_shape [OF this assms(2) [OF CFG_SUCCESS]] obtain ss where
        ss: "list_all (setting_stmt xid) ss" "sts = entries_of xid name vdir ss"
        unfolding entries_of_def by blast
      with entries_text [OF ss(1) assms(3,4)] assms(5) have ex: "stays R (vxdb_exec_format H sts)"
        by (simp add: vxdb_exec_format_def stays_def)
      show "leads R (bindM (vxdb_exec_format H sts) (\<lambda>ok.
         if ok then ret () else bindM (try_runlink H vdir) (\<lambda>_. raise VxdbFault))) s2"
        by (rule leads_bind [OF assms(1) ex], rule leads_stays, rule frame_reads [OF assms(1)])
          (intro sc.stays_rules reads_intros)
    qed
    with CFG_SUCCESS show ?thesis by simp
  qed (simp_all add: leads_pure assms(1))
qed

text \<open>Who may build a guest of this name.\<close>

definition entitled :: "'k host \<Rightarrow> xval \<Rightarrow> string \<Rightarrow> 'k st \<Rightarrow> bool" where
  "entitled H p name s \<longleftrightarrow> (\<exists>cred params user. xr_pair (xr H) p = Some (cred, params)
     \<and> get_param (xr_string (xr H)) H cred ''username'' = Some user
     \<and> (is_admin (db s) user \<or> has_owner_row (db s) user name))"

lemma create_leads:
  assumes "frame R" and "stays R (method_init H p False VCD_CAP_CREATE M_LOCK)"
    and "host_ok H" and "create_texts H p s"
    and final: "\<And>name xid vdir u ss. req_s H p False ''name'' = Some name
      \<Longrightarrow> st_wf s \<longrightarrow> entitled H p name s \<and> chosen_id H (db s) name xid u
      \<Longrightarrow> create_choice H p s = (Inr xid, u) \<Longrightarrow> list_all (setting_stmt xid) ss
      \<Longrightarrow> sql_text name \<Longrightarrow> sql_text vdir \<Longrightarrow> stays R (vxdb_exec H (entries_of xid name vdir ss))"
  shows "R s (snd (m_vx_create H p False s))"
  unfolding leads_def [symmetric] m_vx_create_def
proof (rule leads_bind [OF assms(1,2)])
  fix z s1
  assume i: "method_init H p False VCD_CAP_CREATE M_LOCK s = (Inr z, s1)"
  have t: "touches {T_vcd} s s1" by (rule staysD [OF method_init_touches i])
  note same = touches_rows [OF t] name_xid_cong [OF touches_rows [OF t]]
  show "leads R (bindM (arg_pair H p) (\<lambda>(cred, params).
        bindM (arg_s H cred ''username'') (\<lambda>user.
        bindM (arg_s H params ''name'') (\<lambda>name.
        bindM (arg_s H params ''template'') (\<lambda>template.
        bindM (arg_b H params ''force'') (\<lambda>force.
        bindM (arg_b H params ''copy'') (\<lambda>copy.
        bindM (arg_s H params ''vdir'') (\<lambda>vdirp.
        bindM (create_tdir H template) (\<lambda>tdir.
        bindM (vxdb_getxid H name) (\<lambda>xid.
        bindM (create_permitted H user name force xid) (\<lambda>_.
        bindM (create_vdir H user name vdirp force) (\<lambda>vdir.
        bindM (build_root_filesystem H xid name vdir tdir copy) (\<lambda>xid.
        bindM (create_vxdb_entries H xid name vdir tdir template) (\<lambda>_.
        ret XNil)))))))))))))) s1"
  proof (rule leads_read [OF assms(1)], intro reads_intros)
    fix cp sa
    assume pr: "arg_pair H p s1 = (Inr cp, sa)"
    obtain cred params where cp: "cp = (cred, params)" by fastforce
    with pr have sa: "sa = s1" and pp: "xr_pair (xr H) p = Some (cred, params)"
      by (auto simp: arg_pair_def prog_simps split: option.splits)
    then have z: "z = params" using method_init_params [OF i] by (simp add: req_params_def)
    show "leads R (case cp of (cred, params) \<Rightarrow>
        bindM (arg_s H cred ''username'') (\<lambda>user.
        bindM (arg_s H params ''name'') (\<lambda>name.
        bindM (arg_s H params ''template'') (\<lambda>template.
        bindM (arg_b H params ''force'') (\<lambda>force.
        bindM (arg_b H params ''copy'') (\<lambda>copy.
        bindM (arg_s H params ''vdir'') (\<lambda>vdirp.
        bindM (create_tdir H template) (\<lambda>tdir.
        bindM (vxdb_getxid H name) (\<lambda>xid.
        bindM (create_permitted H user name force xid) (\<lambda>_.
        bindM (create_vdir H user name vdirp force) (\<lambda>vdir.
        bindM (build_root_filesystem H xid name vdir tdir copy) (\<lambda>xid.
        bindM (create_vxdb_entries H xid name vdir tdir template) (\<lambda>_.
        ret XNil))))))))))))) sa"
      unfolding cp prod.case sa
    proof (rule leads_read [OF assms(1)], intro reads_intros)+
      fix user s2 name s3 template s4 force s5 copy s6 vdirp s7 tdir s8 xid0 s9 x s10 vdir s11 xid s12
      assume us: "arg_s H cred ''username'' s1 = (Inr user, s2)"
        and nm: "arg_s H params ''name'' s2 = (Inr name, s3)" and tm: "arg_s H params ''template'' s3 = (Inr template, s4)"
        and fo: "arg_b H params ''force'' s4 = (Inr force, s5)" and cy: "arg_b H params ''copy'' s5 = (Inr copy, s6)"
        and vp: "arg_s H params ''vdir'' s6 = (Inr vdirp, s7)" and td: "create_tdir H template s7 = (Inr tdir, s8)"
        and x0: "vxdb_getxid H name s8 = (Inr xid0, s9)" and pm: "create_permitted H user name force xid0 s9 = (Inr x, s10)"
        and vd: "create_vdir H user name vdirp force s10 = (Inr vdir, s11)"
        and br: "build_root_filesystem H xid0 name vdir tdir copy s11 = (Inr xid, s12)"
        and c: "conn s8 = conn s7" "conn s9 = conn s8" "conn s10 = conn s9" "conn s11 = conn s10"
      have s7: "s7 = s1"
        using arg_state(1) [OF us] arg_state(1) [OF nm] arg_state(1) [OF tm] arg_state(3) [OF fo] arg_state(3) [OF cy]
          arg_state(1) [OF vp] by simp
      have a: "get_param (xr_string (xr H)) H cred ''username'' = Some user"
        "get_param (xr_string (xr H)) H params ''name'' = Some name"
        "get_param (xr_string (xr H)) H params ''template'' = Some template"
        "get_param (xr_bool (xr H)) H params ''force'' = Some force"
        "get_param (xr_bool (xr H)) H params ''copy'' = Some copy"
        "get_param (xr_string (xr H)) H params ''vdir'' = Some vdirp"
        using us nm tm fo cy vp by (auto elim: arg_sE arg_bE)
      have c': "conn s8 = conn s1" "conn s9 = conn s1" "conn s10 = conn s1" "conn s11 = conn s8" using c s7 by simp_all
      from br obtain sf u where or: "old_root H xid0 name vdir s11 = (Inr (), sf)"
        and ff: "find_free_xid H xid0 name sf = (Inr xid, u)" and cf: "conn sf = conn s11"
        by (rule build_root_xid)
      note choice = create_choice_run [OF i pp a td [unfolded s7] x0 pm vd or ff]
      have val: "validate_name (lib H) name" using method_init_name [OF i _ a(2) [folded z]] by (simp add: M_LOCK_def)
      note nt = valid_name_text [OF host_okD(1) [OF assms(3)] val]
      have q: "req_s H p False ''vdir'' = Some vdirp" "req_s H p False ''name'' = Some name"
        using a pp by (simp_all add: req_s_def req_params_def)
      have vt: "sql_text vdir"
        using create_vdir_text [OF vd assms(3)] assms(4) same(1) c'(3) q(1) val
        by (auto simp: create_texts_def)
      have "st_wf s \<longrightarrow> entitled H p name s \<and> chosen_id H (db s) name xid u"
      proof
        assume "st_wf s"
        then have "st_wf s1" using method_init_wf [OF i assms(3)] by simp
        note w' = c'(1,2) [THEN st_wf_cong, THEN iffD2, OF this]
        have "entitled H p name s"
          using create_permitted_Inr [OF pm assms(3) w'(2)] a(1) pp auth_tables_cong(2,4) [OF t] c'(2)
          by (auto simp: entitled_def)
        with create_chosen_id [OF x0 ff _ assms(3) w'(1)] c' cf same(2)
        show "entitled H p name s \<and> chosen_id H (db s) name xid u" by (simp add: chosen_id_def)
      qed
      then have "leads R (create_vxdb_entries H xid name vdir tdir template) s12"
        using assms(4) final [OF q(2) _ choice _ nt vt]
        by (intro create_entries_leads [OF assms(1) _ nt vt]) (auto simp: create_texts_def)
      then show "leads R (bindM (create_vxdb_entries H xid name vdir tdir template) (\<lambda>_. ret XNil)) s12"
        by (auto simp: leads_def bindM_def prog_simps split: prod.splits sum.splits)
    qed
  qed
qed

lemma touches_frame: "frame (touches T)"
  using tc.step_relation_axioms by (auto simp: frame_def same_conn_def touches_def)

lemma create_writes:
  assumes "host_ok H" and "create_texts H p s"
  shows "touches (insert T_vcd (set create_remove_tables)) s (snd (m_vx_create H p False s))"
proof (rule create_leads [OF touches_frame _ assms])
  show "stays (touches (insert T_vcd (set create_remove_tables))) (method_init H p False VCD_CAP_CREATE M_LOCK)"
    by (rule touches_mono [OF method_init_touches]) simp
  fix name xid vdir ss
  assume ss: "list_all (setting_stmt xid) ss" and t: "sql_text name" "sql_text vdir"
  have "stays (touches (set create_remove_tables)) (vxdb_exec H (entries_of xid name vdir ss))"
    by (rule vxdb_exec_touches [OF entries_text(1) [OF ss t] entries_within [OF ss]])
  then show "stays (touches (insert T_vcd (set create_remove_tables))) (vxdb_exec H (entries_of xid name vdir ss))"
    by (rule touches_mono) blast
qed

section \<open>Witness\<close>

text \<open>A host whose templates grant nothing beyond the mounts every guest gets.\<close>

definition bare_host :: "xid_t list host" where
  "bare_host = ref_host\<lparr>kern := ref_kernel\<lparr>cfg_parse := (\<lambda>_ _. CFG_SUCCESS \<lparr>t_description = None, t_init = None,
     t_halt = None, t_reboot = None, t_timeout = None, t_mounts = [], t_bcaps = Some [], t_ccaps = Some [],
     t_flags = Some []\<rparr>)\<rparr>\<rparr>"

lemma bare_host_ok: "host_ok bare_host" "lucid_ok (lib bare_host)"
  using ref_host_ok ref_lucid_ok ref_sqlite_ok by (simp_all add: bare_host_def host_ok_def)

lemmas create_eval = build_root_filesystem_def try_runlink_def find_free_xid_def pick_xid_def make_vserver_filesystem_def
  sanitize_dev_def or_sanitize_def dev_nodes_def on_fault_def max_of_def less_eq_sval_def max_def hdr32_def
  m_vx_create_def create_tdir_def create_vdir_def create_permitted_def validate_path_def create_vxdb_entries_def
  entries_stmts_def init_stmts_def default_mounts_def mount_stmt_def cfg_opt_def create_remove_tables_def
  vxdb_exec_format_def liftM_def ref_caps_def method_lock_def get_lockfd_def open_lock_def

theorem create_registers_witness:
  "\<exists>xid. name_xid (db (snd (m_vx_create bare_host (ref_request ''admin'' ''secret12'' [(''name'', XStr ''guest3''),
       (''template'', XStr ''base''), (''force'', XBool False), (''copy'', XBool False), (''vdir'', XStr '''')])
       False (ref_state ref_db [])))) ''guest3'' = Some xid"
proof -
  let ?ps = "[(''name'', XStr ''guest3''), (''template'', XStr ''base''), (''force'', XBool False), (''copy'', XBool False),
      (''vdir'', XStr '''')]"
  let ?p = "ref_request ''admin'' ''secret12'' ?ps" and ?s = "ref_state ref_db []"
  have "fst (m_vx_create bare_host ?p False ?s) = Inr XNil"
    by (simp add: bare_host_def guest_eval create_eval cong: bindM_weak_cong)
  note run = run_value [OF this]
  have rp: "req_params bare_host ?p False = Some (XStruct ?ps)"
    by (simp add: req_params_def bare_host_def ref_request_def ref_sel)
  have "sql_text x" if "validate_name (lib bare_host) n" "x = (''/'' @ ''vbasedir'') @ ''/'' @ n" for n x
    using that bare_host_ok(2)
    by (auto simp: validate_name_iff sql_text_def quote_free_def list_all_iff is_alnum_def is_digit_def is_alpha_def)
  then have "create_texts bare_host ?p ?s"
    using rp by (auto simp: create_texts_def bare_host_def ref_sel plain_conf_def plain_opt_def plain_list_def req_s_def
        get_param_def sql_text_def quote_free_def ref_state_def ref_db_def)
  from create_registers [OF run bare_host_ok(1) ref_st_wf this]
  obtain name xid where n: "req_s bare_host ?p False ''name'' = Some name"
    and m: "name_xid (db (snd (m_vx_create bare_host ?p False ?s))) name = Some xid"
    by auto
  have "name = ''guest3''" using n rp by (simp add: req_s_def get_param_def bare_host_def ref_sel)
  with m show ?thesis by auto
qed

end
