(* ===== verification/Vxdb_Net.thy ===== *)
theory Vxdb_Net
  imports Handler
begin

text \<open>
  The methods on network addresses, mounts and the init configuration under
  \<^verbatim>\<open>src/src/vcd/methods/vxdb/\<close>: \<^verbatim>\<open>nx.addr\<close>, \<^verbatim>\<open>nx.broadcast\<close>,
  \<^verbatim>\<open>mount\<close> and \<^verbatim>\<open>init\<close>.
\<close>

section \<open>Network addresses\<close>

definition m_vxdb_nx_addr_get :: "'k host \<Rightarrow> xval \<Rightarrow> bool \<Rightarrow> ('k, xval) handler" where
  "m_vxdb_nx_addr_get H p c =
     bindM (method_init H p c VCD_CAP_NET M_OWNER) (\<lambda>params.
     bindM (arg_s H params ''name'') (\<lambda>name.
     bindM (arg_s H params ''addr'') (\<lambda>addr.
     let addr' = empty_param H addr in
     bindM (unlessM (addr' = None \<or> validate_addr (lib H) addr) (invalid ''addr'' addr)) (\<lambda>_.
     bindM (need_xid H name) (\<lambda>xid.
     answer_rows H
       (Select [C_addr, C_netmask] T_nx_addr
          (case addr' of Some a \<Rightarrow> [(C_xid, xid_lit xid), (C_addr, Lit (STxt a))]
                       | None \<Rightarrow> [(C_xid, xid_lit xid)]) Unordered)
       (\<lambda>row. XStruct [(''addr'', col_s row 0), (''netmask'', col_s row 1)]))))))"

definition m_vxdb_nx_addr_remove :: "'k host \<Rightarrow> xval \<Rightarrow> bool \<Rightarrow> ('k, xval) handler" where
  "m_vxdb_nx_addr_remove H p c =
     bindM (method_init H p c VCD_CAP_NET owner_lock) (\<lambda>params.
     bindM (arg_s H params ''name'') (\<lambda>name.
     bindM (arg_s H params ''addr'') (\<lambda>addr.
     let addr' = empty_param H addr in
     bindM (unlessM (addr' = None \<or> validate_addr (lib H) addr) (invalid ''addr'' addr)) (\<lambda>_.
     bindM (need_xid H name) (\<lambda>xid.
     exec_nil H [Delete T_nx_addr
       (case addr' of Some a \<Rightarrow> [(C_xid, xid_lit xid), (C_addr, Lit (STxt a))]
                    | None \<Rightarrow> [(C_xid, xid_lit xid)])])))))"

definition m_vxdb_nx_addr_set :: "'k host \<Rightarrow> xval \<Rightarrow> bool \<Rightarrow> ('k, xval) handler" where
  "m_vxdb_nx_addr_set H p c =
     bindM (method_init H p c VCD_CAP_NET owner_lock) (\<lambda>params.
     bindM (arg_s H params ''name'') (\<lambda>name.
     bindM (arg_s H params ''addr'') (\<lambda>addr.
     bindM (arg_s H params ''netmask'') (\<lambda>netmask.
     let netmask' = empty_param H netmask in
     bindM (unlessM (validate_addr (lib H) addr) (invalid ''addr'' addr)) (\<lambda>_.
     bindM (unlessM (netmask' = None \<or> validate_addr (lib H) netmask) (invalid ''netmask'' netmask)) (\<lambda>_.
     bindM (need_xid H name) (\<lambda>xid.
     exec_nil H [Insert True T_nx_addr
       [(C_xid, SInt (s32 xid)), (C_addr, STxt addr),
        (C_netmask, STxt (or_default netmask' ''255.255.255.255''))]])))))))"

section \<open>The broadcast address\<close>

definition m_vxdb_nx_broadcast_get :: "'k host \<Rightarrow> xval \<Rightarrow> bool \<Rightarrow> ('k, xval) handler" where
  "m_vxdb_nx_broadcast_get H p c =
     bindM (method_init H p c VCD_CAP_NET M_OWNER) (\<lambda>params.
     bindM (arg_s H params ''name'') (\<lambda>name.
     bindM (need_xid H name) (\<lambda>xid.
     answer_row H (Select [C_broadcast] T_nx_broadcast [(C_xid, xid_lit xid)] Unordered)
       (\<lambda>row. col_s row 0) (XStr ''''))))"

definition m_vxdb_nx_broadcast_remove :: "'k host \<Rightarrow> xval \<Rightarrow> bool \<Rightarrow> ('k, xval) handler" where
  "m_vxdb_nx_broadcast_remove H p c =
     bindM (method_init H p c VCD_CAP_NET owner_lock) (\<lambda>params.
     bindM (arg_s H params ''name'') (\<lambda>name.
     bindM (need_xid H name) (\<lambda>xid.
     exec_nil H [Delete T_nx_broadcast [(C_xid, xid_lit xid)]])))"

definition m_vxdb_nx_broadcast_set :: "'k host \<Rightarrow> xval \<Rightarrow> bool \<Rightarrow> ('k, xval) handler" where
  "m_vxdb_nx_broadcast_set H p c =
     bindM (method_init H p c VCD_CAP_NET owner_lock) (\<lambda>params.
     bindM (arg_s H params ''name'') (\<lambda>name.
     bindM (arg_s H params ''broadcast'') (\<lambda>broadcast.
     bindM (unlessM (validate_addr (lib H) broadcast) (invalid ''broadcast'' broadcast)) (\<lambda>_.
     bindM (need_xid H name) (\<lambda>xid.
     exec_nil H [Insert True T_nx_broadcast
       [(C_xid, SInt (s32 xid)), (C_broadcast, STxt broadcast)]])))))"

section \<open>Mounts\<close>

definition m_vxdb_mount_get :: "'k host \<Rightarrow> xval \<Rightarrow> bool \<Rightarrow> ('k, xval) handler" where
  "m_vxdb_mount_get H p c =
     bindM (method_init H p c VCD_CAP_MOUNT M_OWNER) (\<lambda>params.
     bindM (arg_s H params ''name'') (\<lambda>name.
     bindM (arg_s H params ''dst'') (\<lambda>dst.
     let dst' = empty_param H dst in
     bindM (unlessM (dst' = None \<or> validate_path (lib H) dst') (invalid ''dst'' dst)) (\<lambda>_.
     bindM (need_xid H name) (\<lambda>xid.
     answer_rows H
       (case dst' of
          Some d \<Rightarrow> Select [C_src, C_dst, C_type, C_opts] T_mount
                     [(C_xid, xid_lit xid), (C_dst, Lit (STxt d))] Unordered
        | None \<Rightarrow> Select [C_src, C_dst, C_type, C_opts] T_mount [(C_xid, xid_lit xid)] (Asc C_dst))
       (\<lambda>row. XStruct [(''src'', col_s row 0), (''dst'', col_s row 1), (''type'', col_s row 2),
          (''opts'', col_s row 3)]))))))"

definition m_vxdb_mount_remove :: "'k host \<Rightarrow> xval \<Rightarrow> bool \<Rightarrow> ('k, xval) handler" where
  "m_vxdb_mount_remove H p c =
     bindM (method_init H p c VCD_CAP_MOUNT owner_lock) (\<lambda>params.
     bindM (arg_s H params ''name'') (\<lambda>name.
     bindM (arg_s H params ''dst'') (\<lambda>dst.
     let dst' = empty_param H dst in
     bindM (unlessM (dst' = None \<or> validate_path (lib H) dst') (invalid ''dst'' dst)) (\<lambda>_.
     bindM (need_xid H name) (\<lambda>xid.
     exec_nil H [Delete T_mount
       (case dst' of Some d \<Rightarrow> [(C_xid, xid_lit xid), (C_dst, Lit (STxt d))]
                   | None \<Rightarrow> [(C_xid, xid_lit xid)])])))))"

definition m_vxdb_mount_set :: "'k host \<Rightarrow> xval \<Rightarrow> bool \<Rightarrow> ('k, xval) handler" where
  "m_vxdb_mount_set H p c =
     bindM (method_init H p c VCD_CAP_MOUNT owner_lock) (\<lambda>params.
     bindM (arg_s H params ''name'') (\<lambda>name.
     bindM (arg_s H params ''src'') (\<lambda>src.
     bindM (arg_s H params ''dst'') (\<lambda>dst.
     bindM (arg_s H params ''type'') (\<lambda>type.
     bindM (arg_s H params ''opts'') (\<lambda>opts.
     let src' = empty_param H src; type' = empty_param H type; opts' = empty_param H opts in
     bindM (unlessM (validate_path (lib H) (Some dst)) (invalid ''dst'' dst)) (\<lambda>_.
     bindM (unlessM (src' \<noteq> None \<or> type' \<noteq> None)
       (Faultf MEINVAL ''neither src nor type value specified'')) (\<lambda>_.
     bindM (need_xid H name) (\<lambda>xid.
     exec_nil H [Insert True T_mount
       [(C_xid, SInt (s32 xid)), (C_src, STxt (or_default src' ''none'')), (C_dst, STxt dst),
        (C_type, STxt (or_default type' ''auto'')),
        (C_opts, STxt (or_default opts' ''defaults''))]])))))))))"

section \<open>The init configuration\<close>

definition m_vxdb_init_get :: "'k host \<Rightarrow> xval \<Rightarrow> bool \<Rightarrow> ('k, xval) handler" where
  "m_vxdb_init_get H p c =
     bindM (method_init H p c VCD_CAP_INIT M_OWNER) (\<lambda>params.
     bindM (arg_s H params ''name'') (\<lambda>name.
     bindM (need_xid H name) (\<lambda>xid.
     answer_row H (Select [C_init, C_halt, C_reboot, C_timeout] T_init [(C_xid, xid_lit xid)] Unordered)
       (\<lambda>row. XStruct [(''init'', col_s row 0), (''halt'', col_s row 1), (''reboot'', col_s row 2),
          (''timeout'', col_i H row 3)])
       (XStruct [(''init'', XStr ''/sbin/init''), (''halt'', XStr ''/sbin/halt''),
          (''reboot'', XStr ''/sbin/reboot''), (''timeout'', XInt 15)]))))"

definition m_vxdb_init_set :: "'k host \<Rightarrow> xval \<Rightarrow> bool \<Rightarrow> ('k, xval) handler" where
  "m_vxdb_init_set H p c =
     bindM (method_init H p c VCD_CAP_INIT owner_lock) (\<lambda>params.
     bindM (arg_s H params ''name'') (\<lambda>name.
     bindM (arg_s H params ''init'') (\<lambda>initp.
     bindM (arg_s H params ''halt'') (\<lambda>haltp.
     bindM (arg_s H params ''reboot'') (\<lambda>rebootp.
     bindM (arg_i H params ''timeout'') (\<lambda>timeout.
     let init = or_default (empty_param H initp) ''/sbin/init'';
         halt = or_default (empty_param H haltp) ''/sbin/halt'';
         reboot = or_default (empty_param H rebootp) ''/sbin/reboot'' in
     bindM (unlessM (str_path_isabs (lib H) init) (invalid ''init'' init)) (\<lambda>_.
     bindM (unlessM (str_path_isabs (lib H) halt) (invalid ''halt'' halt)) (\<lambda>_.
     bindM (unlessM (str_path_isabs (lib H) reboot) (invalid ''reboot'' reboot)) (\<lambda>_.
     bindM (need_xid H name) (\<lambda>xid.
     exec_nil H [Insert True T_init
       [(C_xid, SInt (s32 xid)), (C_init, STxt init), (C_halt, STxt halt), (C_reboot, STxt reboot),
        (C_timeout, SInt timeout)]]))))))))))"

lemmas vxdb_net_defs =
  m_vxdb_nx_addr_get_def
  m_vxdb_nx_addr_remove_def
  m_vxdb_nx_addr_set_def
  m_vxdb_nx_broadcast_get_def
  m_vxdb_nx_broadcast_remove_def
  m_vxdb_nx_broadcast_set_def
  m_vxdb_mount_get_def
  m_vxdb_mount_remove_def
  m_vxdb_mount_set_def
  m_vxdb_init_get_def
  m_vxdb_init_set_def

lemma vxdb_net_keeps [inv_intros]:
  assumes "sqlite_ok (sql H)"
  shows "stays keeps_inv (m_vxdb_nx_addr_get H p c)"
    and "stays keeps_inv (m_vxdb_nx_addr_remove H p c)"
    and "stays keeps_inv (m_vxdb_nx_addr_set H p c)"
    and "stays keeps_inv (m_vxdb_nx_broadcast_get H p c)"
    and "stays keeps_inv (m_vxdb_nx_broadcast_remove H p c)"
    and "stays keeps_inv (m_vxdb_nx_broadcast_set H p c)"
    and "stays keeps_inv (m_vxdb_mount_get H p c)"
    and "stays keeps_inv (m_vxdb_mount_remove H p c)"
    and "stays keeps_inv (m_vxdb_mount_set H p c)"
    and "stays keeps_inv (m_vxdb_init_get H p c)"
    and "stays keeps_inv (m_vxdb_init_set H p c)"
  unfolding vxdb_net_defs
  by (intro ki.stays_rules method_init_keeps exec_nil_keeps reads_intros [THEN same_conn_keeps] assms)+

end
