(* ===== verification/Helper_Methods.thy ===== *)
theory Helper_Methods
  imports Vx_Methods
begin

text \<open>
  The methods the kernel's helper calls, under \<^verbatim>\<open>src/src/vcd/methods/helper/\<close>:
  \<^verbatim>\<open>restart\<close>, \<^verbatim>\<open>shutdown\<close> and \<^verbatim>\<open>netup\<close>.
  \<^verbatim>\<open>helper.shutdown\<close> forks: the parent's part is the method, the child's part, which
  waits for the contexts to disappear and starts the guest again, is
  \<open>helper_shutdown_child\<close>.
\<close>

section \<open>Restart\<close>

text \<open>\<^verbatim>\<open>if (!(name = vxdb_getname(xid))) method_return_fault(env, MENOVPS);\<close>\<close>

definition need_name :: "'k host \<Rightarrow> xid_t \<Rightarrow> ('k, string) handler" where
  "need_name H xid =
     bindM (vxdb_getname H xid) (\<lambda>name.
     case name of None \<Rightarrow> raise (Fault MENOVPS) | Some n \<Rightarrow> ret n)"

definition m_helper_restart :: "'k host \<Rightarrow> xval \<Rightarrow> bool \<Rightarrow> ('k, xval) handler" where
  "m_helper_restart H p c =
     bindM (method_init H p c VCD_CAP_HELPER 0) (\<lambda>params.
     bindM (arg_i H params ''xid'') (\<lambda>x.
     let xid = u32 x in
     bindM (need_name H xid) (\<lambda>_.
     exec_nil H [Insert True T_restart [(C_xid, SInt (s32 xid))]])))"

section \<open>Shutdown\<close>

definition get_changes :: "('k, nat) handler" where
  "get_changes = getsM (\<lambda>s. changes (conn s))"

definition m_helper_shutdown :: "'k host \<Rightarrow> xval \<Rightarrow> bool \<Rightarrow> ('k, xval) handler" where
  "m_helper_shutdown H p c =
     bindM (method_init H p c VCD_CAP_HELPER 0) (\<lambda>params.
     bindM (arg_i H params ''xid'') (\<lambda>x.
     let xid = u32 x in
     bindM (need_name H xid) (\<lambda>name.
     bindM (getsM os) (\<lambda>k.
     let cpusetpath = ''/dev/cpuset/xid'' @ dec (s32 xid) in
     bindM (if ismount (kern H) ''/dev/cpuset'' k \<and> isdir (kern H) cpusetpath k
            then osM (rmdir (kern H) cpusetpath) else ret ()) (\<lambda>_.
     bindM (exec_nil H [Delete T_restart [(C_xid, xid_lit xid)]]) (\<lambda>nil.
     bindM get_changes (\<lambda>n.
     if n < 1 then ret nil
     else
       bindM (vxdb_query H (Select [C_timeout] T_init [(C_xid, xid_lit xid)] Unordered)) (\<lambda>_.
       bindM (sys_or_fault ''fork'' (fork (kern H))) (\<lambda>_.
       bindM (sys_or_fault ''waitpid'' (waitpid_nohang (kern H))) (\<lambda>_.
       ret nil))))))))))"

definition shutdown_timeout :: "'k host \<Rightarrow> qres \<Rightarrow> nat" where
  "shutdown_timeout H r =
     (let timeout = (case first_row r of None \<Rightarrow> 15 | Some row \<Rightarrow> vxdb_column_int (lib H) row 0) in
      nat (if timeout < 1 then 15 else timeout))"

fun waitvx :: "'k host \<Rightarrow> xid_t \<Rightarrow> string \<Rightarrow> nat \<Rightarrow> ('k, xval) handler" where
  "waitvx H xid name 0 = raise (Faultf MEBUSY (''context '' @ dec (s32 xid) @ '' did not disappear''))"
| "waitvx H xid name (Suc n) =
     bindM (osM (sleep1 (kern H))) (\<lambda>_.
     bindM (sysM (vx_info (kern H) xid)) (\<lambda>r.
     case r of
       Inl ESRCH \<Rightarrow> m_vx_start H (XStruct [(''name'', XStr name)]) True
     | Inl e \<Rightarrow> raise (SysFault ''vx_info'' e)
     | Inr _ \<Rightarrow> waitvx H xid name n))"

fun waitnx :: "'k host \<Rightarrow> xid_t \<Rightarrow> string \<Rightarrow> nat \<Rightarrow> ('k, xval) handler" where
  "waitnx H xid name 0 =
     raise (Faultf MEBUSY (''network context '' @ dec (s32 xid) @ '' did not disappear''))"
| "waitnx H xid name (Suc n) =
     bindM (osM (sleep1 (kern H))) (\<lambda>_.
     bindM (sysM (nx_info (kern H) xid)) (\<lambda>r.
     case r of
       Inl ESRCH \<Rightarrow> waitvx H xid name n
     | Inl e \<Rightarrow> raise (SysFault ''nx_info'' e)
     | Inr _ \<Rightarrow> waitnx H xid name n))"

text \<open>The child: \<open>r\<close> is the answer to the query for the timeout it inherits.\<close>

definition helper_shutdown_child :: "'k host \<Rightarrow> xid_t \<Rightarrow> string \<Rightarrow> qres \<Rightarrow> ('k, xval) handler" where
  "helper_shutdown_child H xid name r = waitnx H xid name (shutdown_timeout H r)"

section \<open>The network\<close>

definition add_interface :: "'k host \<Rightarrow> xid_t \<Rightarrow> sval list \<Rightarrow> ('k, unit) handler" where
  "add_interface H xid row =
     (let ip = or_default (vxdb_column_text row 0) '''';
          netm = or_default (vxdb_column_text row 1) '''';
          buf = take 30 (ip @ ''/'' @ netm);
          (rc, addr, mask) = addr_from_str (lib H) buf in
      if rc = -1 then raise (Faultf MECONF (''invalid interface: '' @ buf))
      else sys_or_fault ''nx_add_addr'' (addr_add (kern H) xid False addr mask))"

definition network_interfaces :: "'k host \<Rightarrow> xid_t \<Rightarrow> ('k, unit) handler" where
  "network_interfaces H xid =
     bindM (vxdb_query H (Select [C_addr, C_netmask] T_nx_addr [(C_xid, xid_lit xid)] Unordered)) (\<lambda>r.
     if \<not> prepared r then raise VxdbFault
     else
       bindM (forM (result r) (add_interface H xid)) (\<lambda>_.
       if finished r then ret () else raise VxdbFault))"

text \<open>This loop goes on after a fault; the last one stays recorded.\<close>

fun broadcast_loop :: "'k host \<Rightarrow> xid_t \<Rightarrow> sval list list \<Rightarrow> fault option \<Rightarrow> ('k, fault option) handler" where
  "broadcast_loop H xid [] flt = ret flt"
| "broadcast_loop H xid (row # rs) flt =
     (let ip = or_default (vxdb_column_text row 0) '''';
          (rc, addr, _) = addr_from_str (lib H) ip in
      if rc \<noteq> 1 then broadcast_loop H xid rs (Some (Faultf MECONF (''invalid broadcast: '' @ ip)))
      else
        bindM (sysM (addr_add (kern H) xid True addr 0)) (\<lambda>r.
        case r of
          Inl e \<Rightarrow> broadcast_loop H xid rs (Some (SysFault ''nx_add_addr'' e))
        | Inr _ \<Rightarrow> broadcast_loop H xid rs flt))"

definition network_broadcast :: "'k host \<Rightarrow> xid_t \<Rightarrow> ('k, unit) handler" where
  "network_broadcast H xid =
     bindM (vxdb_query H (Select [C_broadcast] T_nx_broadcast [(C_xid, xid_lit xid)] Unordered)) (\<lambda>r.
     if \<not> prepared r then raise VxdbFault
     else
       bindM (broadcast_loop H xid (result r) None) (\<lambda>flt.
       case flt of
         Some f \<Rightarrow> raise f
       | None \<Rightarrow> if finished r then ret () else raise VxdbFault))"

definition m_helper_netup :: "'k host \<Rightarrow> xval \<Rightarrow> bool \<Rightarrow> ('k, xval) handler" where
  "m_helper_netup H p c =
     bindM (method_init H p c VCD_CAP_HELPER 0) (\<lambda>params.
     bindM (arg_i H params ''xid'') (\<lambda>x.
     let xid = u32 x in
     bindM (need_name H xid) (\<lambda>_.
     bindM (sysM (nx_info (kern H) xid)) (\<lambda>r.
     case r of
       Inl _ \<Rightarrow> raise (Fault MESTOPPED)
     | Inr _ \<Rightarrow>
         bindM (network_interfaces H xid) (\<lambda>_.
         bindM (network_broadcast H xid) (\<lambda>_.
         ret XNil))))))"

section \<open>Frames\<close>

lemma need_name_reads [reads_intros]: "stays same_conn (need_name H xid)"
  unfolding need_name_def by (intro sc.stays_rules reads_intros)

lemma get_changes_reads [reads_intros]: "stays same_conn get_changes"
  unfolding get_changes_def by (intro sc.stays_rules)

lemma add_interface_reads [reads_intros]: "stays same_conn (add_interface H xid row)"
  unfolding add_interface_def by (intro sc.stays_rules reads_intros)

lemma network_interfaces_reads [reads_intros]: "stays same_conn (network_interfaces H xid)"
  unfolding network_interfaces_def by (intro sc.stays_rules reads_intros)

lemma broadcast_loop_reads [reads_intros]: "stays same_conn (broadcast_loop H xid rs flt)"
  by (induction H xid rs flt rule: broadcast_loop.induct)
    (auto simp: Let_def split: prod.splits intro!: sc.stays_rules reads_intros)

lemma network_broadcast_reads [reads_intros]: "stays same_conn (network_broadcast H xid)"
  unfolding network_broadcast_def by (intro sc.stays_rules reads_intros)

lemma helper_methods_keeps [inv_intros]:
  assumes "sqlite_ok (sql H)"
  shows "stays keeps_inv (m_helper_restart H p c)"
    and "stays keeps_inv (m_helper_shutdown H p c)"
    and "stays keeps_inv (m_helper_netup H p c)"
  unfolding m_helper_restart_def m_helper_shutdown_def m_helper_netup_def
  by (intro vx_keeps_rules assms reads_intros [THEN same_conn_keeps])+

lemma waitvx_keeps: "sqlite_ok (sql H) \<Longrightarrow> stays keeps_inv (waitvx H xid name n)"
  by (induction n) (auto intro!: vx_keeps_rules m_vx_start_keeps)

lemma helper_shutdown_child_keeps [inv_intros]:
  assumes "sqlite_ok (sql H)"
  shows "stays keeps_inv (helper_shutdown_child H xid name r)"
proof -
  have "stays keeps_inv (waitnx H xid name n)" for n
    by (induction n) (auto intro!: vx_keeps_rules waitvx_keeps assms)
  then show ?thesis by (simp add: helper_shutdown_child_def)
qed

end
