(* ===== verification/Startup.thy ===== *)
theory Startup
  imports Helper_Methods
begin

text \<open>
  \<^verbatim>\<open>src/src/vcd/methods/helper/helper_startup.c\<close>: what the daemon does when the kernel
  reports a new context.  The capabilities, limits, scheduler, names and mounts stored in the
  database are set in the kernel, one group after the other, and the first failure ends the
  start-up.
\<close>

section \<open>Rows of a query that has to finish\<close>

definition all_rows :: "'k host \<Rightarrow> query \<Rightarrow> ('k, sval list list) handler" where
  "all_rows H q =
     bindM (vxdb_query H q) (\<lambda>r.
     bindM (unlessM (prepared r \<and> finished r) VxdbFault) (\<lambda>_. ret (result r)))"

text \<open>A loop over the rows that a fault leaves, and the check of the last step after it.\<close>

definition each_row :: "'k host \<Rightarrow> query \<Rightarrow> (sval list \<Rightarrow> ('k, unit) handler) \<Rightarrow> ('k, unit) handler" where
  "each_row H q f =
     bindM (vxdb_query H q) (\<lambda>r.
     if \<not> prepared r then raise VxdbFault
     else
       bindM (forM (result r) f) (\<lambda>_.
       if finished r then ret () else raise VxdbFault))"

definition text0 :: "sval list \<Rightarrow> nat \<Rightarrow> string" where
  "text0 row i = or_default (vxdb_column_text row i) ''''"

section \<open>Capabilities and flags\<close>

definition or_flags :: "'k host \<Rightarrow> (string \<times> 64 word) list \<Rightarrow> sval list list \<Rightarrow> 64 word" where
  "or_flags H l rs = foldl (\<lambda>w row. or w (flist64_getval (lib H) l (text0 row 0))) 0 rs"

definition context_caps_and_flags :: "'k host \<Rightarrow> xid_t \<Rightarrow> ('k, unit) handler" where
  "context_caps_and_flags H xid =
     bindM (all_rows H (Select [C_bcap] T_vx_bcaps [(C_xid, xid_lit xid)] Unordered)) (\<lambda>rs.
     bindM (sys_or_fault ''vx_bcaps_set''
       (act (kern H) (Vx_bcaps_set xid (or_flags H (bcaps_list H) rs) (not 0)))) (\<lambda>_.
     bindM (all_rows H (Select [C_ccap] T_vx_ccaps [(C_xid, xid_lit xid)] Unordered)) (\<lambda>rs.
     bindM (sys_or_fault ''vx_ccaps_set''
       (act (kern H) (Vx_ccaps_set xid (or_flags H (ccaps_list H) rs) (not 0)))) (\<lambda>_.
     bindM (all_rows H (Select [C_flag] T_vx_flags [(C_xid, xid_lit xid)] Unordered)) (\<lambda>rs.
     let flags = or_flags H (cflags_list H) rs in
     sys_or_fault ''vx_flags_set'' (vx_flags_set (kern H) xid flags flags))))))"

section \<open>Disk limits\<close>

text \<open>
  The walk over the guest's files: the inodes in the search tree, the blocks and the inodes counted
  so far, the latter two as \<^verbatim>\<open>uint32_t\<close>.  The tree gets pointers into the buffer of
  \<^verbatim>\<open>nftw\<close>, which changes with every file; what a search in it finds is the library's
  parameter \<open>ino_found\<close>.
\<close>

record usage =
  inotable :: "nat list"
  used_blocks :: int
  used_inodes :: int

definition startup_handle_file :: "'k host \<Rightarrow> xid_t \<Rightarrow> ftw \<Rightarrow> usage \<Rightarrow> ('k, usage) handler" where
  "startup_handle_file H xid f u =
     bindM (sys_or_fault (''ix_attr_get('' @ ft_path f @ '')'') (ix_attr_get (kern H) (ft_base f))) (\<lambda>attr.
     if and (ia_flags attr) (of_nat (hdr H ''IATTR_TAG'')) = 0 then ret u
     else if st_nlink f = 1 \<or> \<not> ino_found (lib H) (inotable u) (st_ino f) then
       ret ((if ia_xid attr = xid
             then u\<lparr>used_blocks := u32 (used_blocks u + st_blocks f), used_inodes := u32 (used_inodes u + 1)\<rparr>
             else u)\<lparr>inotable := st_ino f # inotable u\<rparr>)
     else ret u)"

fun walk_files :: "'k host \<Rightarrow> xid_t \<Rightarrow> ftw list \<Rightarrow> usage \<Rightarrow> ('k, usage) handler" where
  "walk_files H xid [] u = ret u"
| "walk_files H xid (f # fs) u = bindM (startup_handle_file H xid f u) (walk_files H xid fs)"

definition context_disk_limits :: "'k host \<Rightarrow> xid_t \<Rightarrow> string \<Rightarrow> ('k, unit) handler" where
  "context_disk_limits H xid name =
     bindM (vxdb_getvdir H name) (\<lambda>v.
     let vdir = or_default v '''' in
     bindM (sysM (act (kern H) (Dx_limit_remove xid vdir))) (\<lambda>_.
     bindM (vxdb_query H (Select [C_space, C_inodes, C_reserved] T_dx_limit [(C_xid, xid_lit xid)] Unordered)) (\<lambda>r.
     if \<not> prepared r then raise VxdbFault
     else case result r of
       row # _ \<Rightarrow>
         bindM (sys_or_fault ''dx_limit_add'' (act (kern H) (Dx_limit_add xid vdir))) (\<lambda>_.
         let total_space = vxdb_column_uint32 (lib H) row 0;
             total_inodes = vxdb_column_uint32 (lib H) row 1;
             reserved = vxdb_column_int (lib H) row 2 in
         bindM (getsM os) (\<lambda>k.
         bindM (walk_files H xid (nftw (kern H) vdir k) \<lparr>inotable = [], used_blocks = 0, used_inodes = 0\<rparr>) (\<lambda>u.
         let used_space = used_blocks u div 2 in
         sys_or_fault ''dx_limit_set'' (act (kern H)
           (Dx_limit_set xid vdir used_space
              (if total_space < used_space then used_space else total_space)
              (used_inodes u)
              (if total_inodes < used_inodes u then used_inodes u else total_inodes)
              reserved)))))
     | [] \<Rightarrow> if finished r then ret () else raise VxdbFault)))"

section \<open>Resource limits\<close>

definition resource_limit :: "'k host \<Rightarrow> xid_t \<Rightarrow> 32 word \<times> 32 word \<Rightarrow> sval list \<Rightarrow> ('k, unit) handler" where
  "resource_limit H xid limit_mask row =
     (let buf32 = flist32_getval (lib H) (rlimit_list H) (text0 row 0) in
      if buf32 = 0 then ret ()
      else if and (fst limit_mask) buf32 = 0 \<and> and (snd limit_mask) buf32 = 0 then ret ()
      else
        let soft = vxdb_column_uint64 (lib H) row 1;
            mx = vxdb_column_uint64 (lib H) row 2;
            mx' = (if mx < soft then soft else mx) in
        sys_or_fault ''vx_limit_set'' (act (kern H) (Vx_limit_set xid (v2i32 (lib H) buf32) soft mx')))"

definition context_resource_limits :: "'k host \<Rightarrow> xid_t \<Rightarrow> ('k, unit) handler" where
  "context_resource_limits H xid =
     bindM (sys_or_fault ''vx_limit_mask_get'' (vx_limit_mask_get (kern H))) (\<lambda>limit_mask.
     each_row H (Select [C_type, C_soft, C_max] T_vx_limit [(C_xid, xid_lit xid)] Unordered)
       (resource_limit H xid limit_mask))"

section \<open>The cpuset\<close>

text \<open>Append to a file of the cpuset; a fault is recorded, and the files that follow are written
  all the same.\<close>

definition cpuset_write :: "'k host \<Rightarrow> string \<Rightarrow> string \<Rightarrow> fault option \<Rightarrow> ('k, fault option) handler" where
  "cpuset_write H path text flt =
     bindM (sysM (act (kern H) (Open_append path))) (\<lambda>r.
     case r of
       Inl e \<Rightarrow> ret (Some (SysFault (''open_append('' @ path @ '')'') e))
     | Inr _ \<Rightarrow> bindM (sysM (act (kern H) (Write path text))) (\<lambda>_. ret flt))"

definition cpuset_path :: "xid_t \<Rightarrow> string" where
  "cpuset_path xid = ''/dev/cpuset/xid'' @ dec (s32 xid)"

definition cpuset_file :: "'k host \<Rightarrow> xid_t \<Rightarrow> string \<Rightarrow> string" where
  "cpuset_file H xid file = or_default (str_path_concat (lib H) (cpuset_path xid) file) ''''"

definition cpuset_setup :: "'k host \<Rightarrow> xid_t \<Rightarrow> sval list \<Rightarrow> ('k, unit) handler" where
  "cpuset_setup H xid row =
     bindM (getsM os) (\<lambda>k.
     bindM (if isdir (kern H) (cpuset_path xid) k then ret (Inr ())
            else sysM (act (kern H) (Mkdir (cpuset_path xid) 493))) (\<lambda>_.
     bindM (cpuset_write H (cpuset_file H xid ''/cpus'') (text0 row 0) None) (\<lambda>flt.
     bindM (cpuset_write H (cpuset_file H xid ''/mems'') (text0 row 1) flt) (\<lambda>flt.
     bindM (getsM os) (\<lambda>k.
     bindM (if ispath (kern H) (cpuset_file H xid ''/virtualize'') k
            then cpuset_write H (cpuset_file H xid ''/virtualize'') (dec (vxdb_column_int (lib H) row 2)) flt
            else ret flt) (\<lambda>flt.
     case flt of None \<Rightarrow> ret () | Some f \<Rightarrow> raise f))))))"

definition context_cpuset :: "'k host \<Rightarrow> xid_t \<Rightarrow> ('k, unit) handler" where
  "context_cpuset H xid =
     bindM (getsM os) (\<lambda>k.
     if \<not> ismount (kern H) ''/dev/cpuset'' k then ret ()
     else
       bindM (if isdir (kern H) (cpuset_path xid) k then osM (rmdir (kern H) (cpuset_path xid)) else ret ()) (\<lambda>_.
       bindM (vxdb_query H (Select [C_cpus, C_mems, C_virtualize] T_vx_cpuset [(C_xid, xid_lit xid)] Unordered)) (\<lambda>r.
       if \<not> prepared r then raise VxdbFault
       else case result r of
         row # _ \<Rightarrow> cpuset_setup H xid row
       | [] \<Rightarrow> if finished r then ret () else raise VxdbFault)))"

section \<open>The scheduler\<close>

text \<open>The structure \<^verbatim>\<open>sched\<close> lives across the rows: a bucket for all CPUs leaves
  \<^verbatim>\<open>cpu_id\<close> as it was.\<close>

definition sched_of_row :: "'k host \<Rightarrow> sval list \<Rightarrow> int \<Rightarrow> vx_sched_t" where
  "sched_of_row H row cpu =
     (let cpuid = vxdb_column_int (lib H) row 0;
          fr2 = vxdb_column_int32 (lib H) row 2;
          iv2 = vxdb_column_int32 (lib H) row 4 in
      \<lparr>sc_mask = or (hdr64 H [''VXSM_FORCE'', ''VXSM_FILL_RATE'', ''VXSM_INTERVAL'', ''VXSM_TOKENS_MIN'',
           ''VXSM_TOKENS_MAX''])
         (or (if cpuid \<ge> 0 then hdr64 H [''VXSM_CPU_ID''] else 0)
           (if fr2 > 0 \<and> iv2 > 0 then hdr64 H [''VXSM_IDLE_TIME'', ''VXSM_FILL_RATE2'', ''VXSM_INTERVAL2''] else 0)),
       sc_cpu = (if cpuid \<ge> 0 then cpuid else cpu),
       sc_fill_rate = (vxdb_column_int32 (lib H) row 1, fr2),
       sc_interval = (vxdb_column_int32 (lib H) row 3, iv2),
       sc_tokens_min = vxdb_column_int32 (lib H) row 5,
       sc_tokens_max = vxdb_column_int32 (lib H) row 6,
       sc_prio_bias = 0\<rparr>)"

fun sched_loop :: "'k host \<Rightarrow> xid_t \<Rightarrow> int \<Rightarrow> sval list list \<Rightarrow> int \<Rightarrow> ('k, unit) handler" where
  "sched_loop H xid numcpus [] cpu = ret ()"
| "sched_loop H xid numcpus (row # rs) cpu =
     (if vxdb_column_int (lib H) row 0 \<ge> numcpus then sched_loop H xid numcpus rs cpu
      else
        let sched = sched_of_row H row cpu in
        bindM (sys_or_fault ''vx_sched_set'' (act (kern H) (Vx_sched_set xid sched))) (\<lambda>_.
        sched_loop H xid numcpus rs (sc_cpu sched)))"

definition context_scheduler :: "'k host \<Rightarrow> xid_t \<Rightarrow> ('k, unit) handler" where
  "context_scheduler H xid =
     bindM (getsM os) (\<lambda>k.
     let numcpus = nprocessors (kern H) k in
     bindM (vxdb_query H (Select [C_cpuid, C_fillrate, C_fillrate2, C_interval, C_interval2, C_tokensmin,
         C_tokensmax] T_vx_sched [(C_xid, xid_lit xid)] (Asc C_cpuid))) (\<lambda>r.
     if \<not> prepared r then raise VxdbFault
     else
       bindM (sched_loop H xid numcpus (result r) (garbage H)) (\<lambda>_.
       if finished r then ret () else raise VxdbFault)))"

section \<open>Names\<close>

definition uname_row :: "'k host \<Rightarrow> xid_t \<Rightarrow> sval list \<Rightarrow> ('k, unit) handler" where
  "uname_row H xid row =
     (let ident = flist32_getval (lib H) (uname_list H) (text0 row 0) in
      if ident = 0 then ret ()
      else sys_or_fault ''vx_uname_set'' (vx_uname_set (kern H) xid (v2i32 (lib H) ident) (take 64 (text0 row 1))))"

definition context_uname :: "'k host \<Rightarrow> xid_t \<Rightarrow> string \<Rightarrow> string \<Rightarrow> ('k, unit) handler" where
  "context_uname H xid name vdir =
     bindM (each_row H (Select [C_type, C_value] T_vx_uname [(C_xid, xid_lit xid)] Unordered)
       (uname_row H xid)) (\<lambda>_.
     if str_isempty (lib H) (Some name) then ret ()
     else sys_or_fault ''vx_uname_set''
       (vx_uname_set (kern H) xid (int (hdr H ''VHIN_CONTEXT'')) (take 64 (name @ '':'' @ vdir))))"

section \<open>The namespace\<close>

definition errno_val :: "'k host \<Rightarrow> errno \<Rightarrow> int" where
  "errno_val H e = (case e of ESRCH \<Rightarrow> int (hdr H ''ESRCH'') | ENOENT \<Rightarrow> int (hdr H ''ENOENT'') | Errno i \<Rightarrow> i)"

definition errno_of :: "'k host \<Rightarrow> int \<Rightarrow> errno" where
  "errno_of H n =
     (if n = int (hdr H ''ESRCH'') then ESRCH else if n = int (hdr H ''ENOENT'') then ENOENT else Errno n)"

text \<open>\<^verbatim>\<open>exit(errno)\<close>: the parent sees the low byte.\<close>

definition exit_errno :: "'k host \<Rightarrow> errno \<Rightarrow> string \<times> wstatus" where
  "exit_errno H e = ([], WExited (errno_val H e mod 256))"

definition namespace_child :: "'k host \<Rightarrow> xid_t \<Rightarrow> 'k child" where
  "namespace_child H xid k =
     (case act (kern H) (Ns_set xid) k of
        (Inl e, k1) \<Rightarrow> (exit_errno H e, k1)
      | (Inr _, k1) \<Rightarrow> (([], WExited 0), k1))"

definition namespace_setup :: "'k host \<Rightarrow> xid_t \<Rightarrow> ('k, unit) handler" where
  "namespace_setup H xid =
     bindM (sys_or_fault ''ns_clone'' (ns_clone_run (kern H) (namespace_child H xid))) (\<lambda>_.
     bindM (sys_or_fault ''waitpid'' (wait_child (kern H))) (\<lambda>status.
     case status of
       WExited n \<Rightarrow> if n \<noteq> 0 then raise (SysFault ''ns_set'' (errno_of H n)) else ret ()
     | WSignaled _ \<Rightarrow> ret ()))"

section \<open>Mounts\<close>

definition mount_child :: "'k host \<Rightarrow> xid_t \<Rightarrow> string \<Rightarrow> string \<Rightarrow> string \<Rightarrow> 'k child" where
  "mount_child H xid vdir dst command k =
     (case ns_enter (kern H) xid k of
        (Inl e, k1) \<Rightarrow> (exit_errno H e, k1)
      | (Inr _, k1) \<Rightarrow>
          (case chroot_secure_chdir (kern H) vdir dst k1 of
             (Inl e, k2) \<Rightarrow> (exit_errno H e, k2)
           | (Inr _, k2) \<Rightarrow>
               (case exec_replace (kern H) command k2 of
                  (Inl e, k3) \<Rightarrow> (exit_errno H e, k3)
                | (Inr z, k3) \<Rightarrow> (z, k3))))"

definition mount_command :: "string \<Rightarrow> string \<Rightarrow> string \<Rightarrow> string \<Rightarrow> string" where
  "mount_command type opts src dst =
     ''/bin/mount -n -t '' @ type @ '' -o '' @ opts @ '' '' @ src @ '' '' @ dst"

definition do_mount :: "'k host \<Rightarrow> xid_t \<Rightarrow> string \<Rightarrow> sval list \<Rightarrow> bool \<Rightarrow> ('k, unit) handler" where
  "do_mount H xid vdir row mtab =
     (let src = text0 row 0;
          dst = text0 row 1;
          type = (if str_isempty (lib H) (vxdb_column_text row 2) then ''auto'' else text0 row 2);
          opts = (if str_isempty (lib H) (vxdb_column_text row 3) then ''defaults'' else text0 row 3);
          q = [CHR 0x27];
          command = ''command '' @ q @ mount_command type opts src dst @ q in
      bindM (sys_or_fault ''fork''
        (fork_run (kern H) (mount_child H xid vdir dst (mount_command type opts src ''.'')))) (\<lambda>_.
      bindM (sys_or_fault ''waitpid'' (wait_child (kern H))) (\<lambda>status.
      case status of
        WSignaled sig \<Rightarrow> raise (Faultf MEEXEC (command @ '' caught signal: '' @ strsignal (kern H) sig))
      | WExited n \<Rightarrow>
          if n \<noteq> 0 then raise (Faultf (MEEXEC + n) (command @ '' failed''))
          else if mtab then
            bindM (sysM (act (kern H) (Write ''mtab''
              (src @ '' '' @ dst @ '' '' @ type @ '' '' @ opts @ '' 0 0'' @ [CHR 0x0A])))) (\<lambda>_. ret ())
          else ret ())))"

definition namespace_mount :: "'k host \<Rightarrow> xid_t \<Rightarrow> string \<Rightarrow> ('k, unit) handler" where
  "namespace_mount H xid vdir =
     bindM (vxdb_query H (Select [C_src, C_dst, C_type, C_opts] T_mount
       [(C_xid, xid_lit xid), (C_dst, Lit (STxt ''/''))] Unordered)) (\<lambda>r.
     bindM (case first_row r of None \<Rightarrow> ret () | Some row \<Rightarrow> do_mount H xid vdir row False) (\<lambda>_.
     bindM (sys_or_fault ''chroot_secure_chdir(/etc)'' (chroot_secure_chdir (kern H) vdir ''/etc'')) (\<lambda>_.
     bindM (sysM (act (kern H) (Unlink ''mtab''))) (\<lambda>_.
     bindM (sys_or_fault ''open_trunc(/etc/mtab)'' (act (kern H) (Open_trunc ''mtab''))) (\<lambda>_.
     bindM (sysM (act (kern H) (Write ''mtab'' (''/dev/root / ufs defaults 0 0'' @ [CHR 0x0A])))) (\<lambda>_.
     each_row H (Select [C_src, C_dst, C_type, C_opts] T_mount [(C_xid, xid_lit xid)] Unordered)
       (\<lambda>row. do_mount H xid vdir row True)))))))"

section \<open>The method\<close>

definition m_helper_startup :: "'k host \<Rightarrow> xval \<Rightarrow> bool \<Rightarrow> ('k, xval) handler" where
  "m_helper_startup H p c =
     bindM (method_init H p c VCD_CAP_HELPER 0) (\<lambda>params.
     bindM (arg_i H params ''xid'') (\<lambda>x.
     let xid = u32 x in
     bindM (need_name H xid) (\<lambda>name.
     bindM (sysM (vx_info (kern H) xid)) (\<lambda>r.
     case r of
       Inl _ \<Rightarrow> raise (Fault MESTOPPED)
     | Inr _ \<Rightarrow>
         bindM (vxdb_getvdir H name) (\<lambda>v.
         case v of
           None \<Rightarrow> raise (Faultf MECONF ''invalid vdir: (null)'')
         | Some vdir \<Rightarrow>
             bindM (all_rows H (Select [C_init] T_init [(C_xid, xid_lit xid)] Unordered)) (\<lambda>rs.
             let init = foldl (\<lambda>_ row. text0 row 0) ''/sbin/init'' rs in
             bindM (context_caps_and_flags H xid) (\<lambda>_.
             bindM (context_disk_limits H xid name) (\<lambda>_.
             bindM (context_resource_limits H xid) (\<lambda>_.
             bindM (context_cpuset H xid) (\<lambda>_.
             bindM (context_scheduler H xid) (\<lambda>_.
             bindM (namespace_setup H xid) (\<lambda>_.
             bindM (context_uname H xid name vdir) (\<lambda>_.
             bindM (namespace_mount H xid vdir) (\<lambda>_.
             ret (XStruct [(''vdir'', XStr vdir), (''init'', XStr init)])))))))))))))))"

section \<open>Frames\<close>

lemma stays_list:
  "stays R m \<Longrightarrow> (\<And>x xs. stays R (f x xs)) \<Longrightarrow> stays R (case l of [] \<Rightarrow> m | x # xs \<Rightarrow> f x xs)"
  by (cases l) simp_all

lemma all_rows_reads [reads_intros]: "stays same_conn (all_rows H q)"
  unfolding all_rows_def by (intro sc.stays_rules reads_intros)

lemma forM_reads: "(\<And>x. stays same_conn (f x)) \<Longrightarrow> stays same_conn (forM xs f)"
  by (intro sc.stays_rules)

lemma each_row_reads [reads_intros]: "(\<And>row. stays same_conn (f row)) \<Longrightarrow> stays same_conn (each_row H q f)"
  unfolding each_row_def by (intro sc.stays_rules reads_intros)

lemma walk_files_reads [reads_intros]: "stays same_conn (walk_files H xid fs u)"
  by (induction fs arbitrary: u)
    (auto simp: startup_handle_file_def intro!: sc.stays_rules reads_intros)

lemma sched_loop_reads [reads_intros]: "stays same_conn (sched_loop H xid n rs cpu)"
  by (induction rs arbitrary: cpu) (auto simp: Let_def intro!: sc.stays_rules reads_intros)

lemma row_steps_reads [reads_intros]:
  "stays same_conn (resource_limit H xid z row)"
  "stays same_conn (cpuset_write H path text flt)"
  "stays same_conn (uname_row H xid row)"
  unfolding resource_limit_def cpuset_write_def uname_row_def
  by (intro sc.stays_rules reads_intros)+

lemma cpuset_setup_reads [reads_intros]: "stays same_conn (cpuset_setup H xid row)"
  unfolding cpuset_setup_def by (intro sc.stays_rules reads_intros)

lemma context_caps_reads [reads_intros]: "stays same_conn (context_caps_and_flags H xid)"
  unfolding context_caps_and_flags_def by (intro sc.stays_rules reads_intros)

lemma context_disk_limits_reads [reads_intros]: "stays same_conn (context_disk_limits H xid name)"
  unfolding context_disk_limits_def by (intro sc.stays_rules stays_list reads_intros)

lemma context_limits_reads [reads_intros]: "stays same_conn (context_resource_limits H xid)"
  unfolding context_resource_limits_def by (intro sc.stays_rules reads_intros)

lemma context_cpuset_reads [reads_intros]: "stays same_conn (context_cpuset H xid)"
  unfolding context_cpuset_def by (intro sc.stays_rules stays_list reads_intros)

lemma context_scheduler_reads [reads_intros]: "stays same_conn (context_scheduler H xid)"
  unfolding context_scheduler_def by (intro sc.stays_rules reads_intros)

lemma context_uname_reads [reads_intros]: "stays same_conn (context_uname H xid name vdir)"
  unfolding context_uname_def by (intro sc.stays_rules reads_intros)

lemma namespace_setup_reads [reads_intros]: "stays same_conn (namespace_setup H xid)"
  unfolding namespace_setup_def by (intro sc.stays_rules reads_intros stays_wstatus)

lemma do_mount_reads [reads_intros]: "stays same_conn (do_mount H xid vdir row mtab)"
  unfolding do_mount_def Let_def by (intro sc.stays_rules reads_intros stays_wstatus)

lemma namespace_mount_reads [reads_intros]: "stays same_conn (namespace_mount H xid vdir)"
  unfolding namespace_mount_def by (intro sc.stays_rules reads_intros)

lemma m_helper_startup_keeps [inv_intros]:
  "sqlite_ok (sql H) \<Longrightarrow> stays keeps_inv (m_helper_startup H p c)"
  unfolding m_helper_startup_def
  by (intro vx_keeps_rules reads_intros [THEN same_conn_keeps])

end
