(* ===== verification/Registry.thy ===== *)
theory Registry
  imports Access Vxdb_Caps Vxdb_Net Vxdb_Index Vcd_Methods Vg_Methods Startup Create
begin

text \<open>
  The registry of \<^verbatim>\<open>src/src/vcd/methods.c\<close>.  The properties here hold for every method.
\<close>

section \<open>The registered methods\<close>

type_synonym 'k methods = "(string \<times> ('k host \<Rightarrow> xval \<Rightarrow> bool \<Rightarrow> ('k, xval) handler)) list"

definition method_registry :: "'k methods" where
  "method_registry =
     [(''helper.netup'', m_helper_netup), (''helper.restart'', m_helper_restart),
      (''helper.shutdown'', m_helper_shutdown), (''helper.startup'', m_helper_startup),
      (''vcd.hostinfo'', m_vcd_hostinfo), (''vcd.login'', m_vcd_login), (''vcd.status'', m_vcd_status),
      (''vcd.user.caps.add'', m_vcd_user_caps_add), (''vcd.user.caps.get'', m_vcd_user_caps_get),
      (''vcd.user.caps.remove'', m_vcd_user_caps_remove), (''vcd.user.get'', m_vcd_user_get),
      (''vcd.user.remove'', m_vcd_user_remove), (''vcd.user.set'', m_vcd_user_set), (''vg.add'', m_vg_add),
      (''vg.list'', m_vg_list), (''vg.remove'', m_vg_remove), (''vg.vx.reboot'', m_vg_vx_reboot),
      (''vg.vx.restart'', m_vg_vx_restart), (''vg.vx.start'', m_vg_vx_start), (''vg.vx.stop'', m_vg_vx_stop),
      (''vx.create'', m_vx_create), (''vx.exec'', m_vx_exec), (''vx.kill'', m_vx_kill),
      (''vx.limstatus'', m_vx_limstatus), (''vx.netstatus'', m_vx_netstatus), (''vx.reboot'', m_vx_reboot),
      (''vx.remove'', m_vx_remove), (''vx.rename'', m_vx_rename), (''vx.restart'', m_vx_restart),
      (''vx.start'', m_vx_start), (''vx.status'', m_vx_status), (''vx.stop'', m_vx_stop),
      (''vx.templates'', m_vx_templates), (''vxdb.dx.limit.get'', m_vxdb_dx_limit_get),
      (''vxdb.dx.limit.remove'', m_vxdb_dx_limit_remove), (''vxdb.dx.limit.set'', m_vxdb_dx_limit_set),
      (''vxdb.init.get'', m_vxdb_init_get), (''vxdb.init.set'', m_vxdb_init_set), (''vxdb.list'', m_vxdb_list),
      (''vxdb.mount.get'', m_vxdb_mount_get), (''vxdb.mount.remove'', m_vxdb_mount_remove),
      (''vxdb.mount.set'', m_vxdb_mount_set), (''vxdb.name.get'', m_vxdb_name_get),
      (''vxdb.nx.addr.get'', m_vxdb_nx_addr_get), (''vxdb.nx.addr.remove'', m_vxdb_nx_addr_remove),
      (''vxdb.nx.addr.set'', m_vxdb_nx_addr_set), (''vxdb.nx.broadcast.get'', m_vxdb_nx_broadcast_get),
      (''vxdb.nx.broadcast.remove'', m_vxdb_nx_broadcast_remove),
      (''vxdb.nx.broadcast.set'', m_vxdb_nx_broadcast_set), (''vxdb.owner.add'', m_vxdb_owner_add),
      (''vxdb.owner.get'', m_vxdb_owner_get), (''vxdb.owner.remove'', m_vxdb_owner_remove),
      (''vxdb.vdir.get'', m_vxdb_vdir_get), (''vxdb.vx.bcaps.add'', m_vxdb_vx_bcaps_add),
      (''vxdb.vx.bcaps.get'', m_vxdb_vx_bcaps_get), (''vxdb.vx.bcaps.remove'', m_vxdb_vx_bcaps_remove),
      (''vxdb.vx.ccaps.add'', m_vxdb_vx_ccaps_add), (''vxdb.vx.ccaps.get'', m_vxdb_vx_ccaps_get),
      (''vxdb.vx.ccaps.remove'', m_vxdb_vx_ccaps_remove), (''vxdb.vx.cpuset.get'', m_vxdb_vx_cpuset_get),
      (''vxdb.vx.cpuset.remove'', m_vxdb_vx_cpuset_remove), (''vxdb.vx.cpuset.set'', m_vxdb_vx_cpuset_set),
      (''vxdb.vx.flags.add'', m_vxdb_vx_flags_add), (''vxdb.vx.flags.get'', m_vxdb_vx_flags_get),
      (''vxdb.vx.flags.remove'', m_vxdb_vx_flags_remove), (''vxdb.vx.limit.get'', m_vxdb_vx_limit_get),
      (''vxdb.vx.limit.remove'', m_vxdb_vx_limit_remove), (''vxdb.vx.limit.set'', m_vxdb_vx_limit_set),
      (''vxdb.vx.sched.get'', m_vxdb_vx_sched_get), (''vxdb.vx.sched.remove'', m_vxdb_vx_sched_remove),
      (''vxdb.vx.sched.set'', m_vxdb_vx_sched_set), (''vxdb.vx.uname.get'', m_vxdb_vx_uname_get),
      (''vxdb.vx.uname.remove'', m_vxdb_vx_uname_remove), (''vxdb.vx.uname.set'', m_vxdb_vx_uname_set),
      (''vxdb.xid.get'', m_vxdb_xid_get)]"

definition dispatch :: "'k host \<Rightarrow> string \<Rightarrow> xval \<Rightarrow> ('k, xval) handler" where
  "dispatch H name p =
     (case map_of method_registry name of
        Some m \<Rightarrow> m H p False
      | None \<Rightarrow> method_default H name p)"

section \<open>What each method asks for\<close>

text \<open>The capability and the flags each method names in its call of \<^verbatim>\<open>method_init\<close>.\<close>

definition policy :: "(string \<times> 64 word \<times> nat) list" where
  "policy =
     [(''helper.netup'', VCD_CAP_HELPER, 0), (''helper.restart'', VCD_CAP_HELPER, 0),
      (''helper.shutdown'', VCD_CAP_HELPER, 0), (''helper.startup'', VCD_CAP_HELPER, 0),
      (''vcd.hostinfo'', VCD_CAP_INFO, 0), (''vcd.login'', 0, 0), (''vcd.status'', VCD_CAP_INFO, 0),
      (''vcd.user.caps.add'', VCD_CAP_AUTH, 0), (''vcd.user.caps.get'', VCD_CAP_AUTH, 0),
      (''vcd.user.caps.remove'', VCD_CAP_AUTH, 0), (''vcd.user.get'', VCD_CAP_AUTH, 0),
      (''vcd.user.remove'', VCD_CAP_AUTH, 0), (''vcd.user.set'', VCD_CAP_AUTH, 0),
      (''vg.add'', VCD_CAP_AUTH, 0), (''vg.list'', VCD_CAP_AUTH, 0), (''vg.remove'', VCD_CAP_AUTH, 0),
      (''vg.vx.reboot'', VCD_CAP_INIT, 0), (''vg.vx.restart'', VCD_CAP_INIT, 0),
      (''vg.vx.start'', VCD_CAP_INIT, 0), (''vg.vx.stop'', VCD_CAP_INIT, 0),
      (''vx.create'', VCD_CAP_CREATE, M_LOCK), (''vx.exec'', VCD_CAP_EXEC, M_OWNER),
      (''vx.kill'', VCD_CAP_INIT, owner_lock), (''vx.limstatus'', VCD_CAP_INFO, M_OWNER),
      (''vx.netstatus'', VCD_CAP_INFO, M_OWNER), (''vx.reboot'', VCD_CAP_INIT, owner_lock),
      (''vx.remove'', VCD_CAP_CREATE, owner_lock), (''vx.rename'', VCD_CAP_CREATE, owner_lock),
      (''vx.restart'', VCD_CAP_INIT, owner_lock), (''vx.start'', VCD_CAP_INIT, owner_lock),
      (''vx.status'', VCD_CAP_INFO, M_OWNER), (''vx.stop'', VCD_CAP_INIT, owner_lock),
      (''vx.templates'', VCD_CAP_CREATE, 0), (''vxdb.dx.limit.get'', VCD_CAP_DLIM, M_OWNER),
      (''vxdb.dx.limit.remove'', VCD_CAP_DLIM, owner_lock), (''vxdb.dx.limit.set'', VCD_CAP_DLIM, owner_lock),
      (''vxdb.init.get'', VCD_CAP_INIT, M_OWNER), (''vxdb.init.set'', VCD_CAP_INIT, owner_lock),
      (''vxdb.list'', VCD_CAP_INFO, 0), (''vxdb.mount.get'', VCD_CAP_MOUNT, M_OWNER),
      (''vxdb.mount.remove'', VCD_CAP_MOUNT, owner_lock), (''vxdb.mount.set'', VCD_CAP_MOUNT, owner_lock),
      (''vxdb.name.get'', VCD_CAP_INFO, 0), (''vxdb.nx.addr.get'', VCD_CAP_NET, M_OWNER),
      (''vxdb.nx.addr.remove'', VCD_CAP_NET, owner_lock), (''vxdb.nx.addr.set'', VCD_CAP_NET, owner_lock),
      (''vxdb.nx.broadcast.get'', VCD_CAP_NET, M_OWNER),
      (''vxdb.nx.broadcast.remove'', VCD_CAP_NET, owner_lock),
      (''vxdb.nx.broadcast.set'', VCD_CAP_NET, owner_lock), (''vxdb.owner.add'', VCD_CAP_AUTH, 0),
      (''vxdb.owner.get'', VCD_CAP_AUTH, 0), (''vxdb.owner.remove'', VCD_CAP_AUTH, 0),
      (''vxdb.vdir.get'', VCD_CAP_INFO, 0), (''vxdb.vx.bcaps.add'', VCD_CAP_BCAP, owner_lock),
      (''vxdb.vx.bcaps.get'', VCD_CAP_BCAP, M_OWNER), (''vxdb.vx.bcaps.remove'', VCD_CAP_BCAP, owner_lock),
      (''vxdb.vx.ccaps.add'', VCD_CAP_CCAP, owner_lock), (''vxdb.vx.ccaps.get'', VCD_CAP_CCAP, M_OWNER),
      (''vxdb.vx.ccaps.remove'', VCD_CAP_CCAP, owner_lock), (''vxdb.vx.cpuset.get'', VCD_CAP_SCHED, M_OWNER),
      (''vxdb.vx.cpuset.remove'', VCD_CAP_SCHED, owner_lock),
      (''vxdb.vx.cpuset.set'', VCD_CAP_SCHED, owner_lock), (''vxdb.vx.flags.add'', VCD_CAP_CFLAG, owner_lock),
      (''vxdb.vx.flags.get'', VCD_CAP_CFLAG, M_OWNER), (''vxdb.vx.flags.remove'', VCD_CAP_CFLAG, owner_lock),
      (''vxdb.vx.limit.get'', VCD_CAP_RLIM, M_OWNER), (''vxdb.vx.limit.remove'', VCD_CAP_RLIM, owner_lock),
      (''vxdb.vx.limit.set'', VCD_CAP_RLIM, owner_lock), (''vxdb.vx.sched.get'', VCD_CAP_SCHED, M_OWNER),
      (''vxdb.vx.sched.remove'', VCD_CAP_SCHED, owner_lock), (''vxdb.vx.sched.set'', VCD_CAP_SCHED, owner_lock),
      (''vxdb.vx.uname.get'', VCD_CAP_UNAME, M_OWNER), (''vxdb.vx.uname.remove'', VCD_CAP_UNAME, owner_lock),
      (''vxdb.vx.uname.set'', VCD_CAP_UNAME, owner_lock), (''vxdb.xid.get'', VCD_CAP_INFO, 0)]"

definition guarded :: "64 word \<Rightarrow> nat \<Rightarrow> ('k host \<Rightarrow> xval \<Rightarrow> bool \<Rightarrow> ('k, xval) handler) \<Rightarrow> bool" where
  "guarded caps flags m \<longleftrightarrow> (\<exists>f. \<forall>H p c. m H p c = bindM (method_init H p c caps flags) (f H p c))"

lemma guarded_intro:
  "(\<And>H p c. m H p c = bindM (method_init H p c caps flags) (f H p c)) \<Longrightarrow> guarded caps flags m"
  unfolding guarded_def by blast

lemma method_guards:
  "guarded VCD_CAP_HELPER 0 m_helper_netup"
  "guarded VCD_CAP_HELPER 0 m_helper_restart"
  "guarded VCD_CAP_HELPER 0 m_helper_shutdown"
  "guarded VCD_CAP_HELPER 0 m_helper_startup"
  "guarded VCD_CAP_INFO 0 m_vcd_hostinfo"
  "guarded 0 0 m_vcd_login"
  "guarded VCD_CAP_INFO 0 m_vcd_status"
  "guarded VCD_CAP_AUTH 0 m_vcd_user_caps_add"
  "guarded VCD_CAP_AUTH 0 m_vcd_user_caps_get"
  "guarded VCD_CAP_AUTH 0 m_vcd_user_caps_remove"
  "guarded VCD_CAP_AUTH 0 m_vcd_user_get"
  "guarded VCD_CAP_AUTH 0 m_vcd_user_remove"
  "guarded VCD_CAP_AUTH 0 m_vcd_user_set"
  "guarded VCD_CAP_AUTH 0 m_vg_add"
  "guarded VCD_CAP_AUTH 0 m_vg_list"
  "guarded VCD_CAP_AUTH 0 m_vg_remove"
  "guarded VCD_CAP_INIT 0 m_vg_vx_reboot"
  "guarded VCD_CAP_INIT 0 m_vg_vx_restart"
  "guarded VCD_CAP_INIT 0 m_vg_vx_start"
  "guarded VCD_CAP_INIT 0 m_vg_vx_stop"
  "guarded VCD_CAP_CREATE M_LOCK m_vx_create"
  "guarded VCD_CAP_EXEC M_OWNER m_vx_exec"
  "guarded VCD_CAP_INIT owner_lock m_vx_kill"
  "guarded VCD_CAP_INFO M_OWNER m_vx_limstatus"
  "guarded VCD_CAP_INFO M_OWNER m_vx_netstatus"
  "guarded VCD_CAP_INIT owner_lock m_vx_reboot"
  "guarded VCD_CAP_CREATE owner_lock m_vx_remove"
  "guarded VCD_CAP_CREATE owner_lock m_vx_rename"
  "guarded VCD_CAP_INIT owner_lock m_vx_restart"
  "guarded VCD_CAP_INIT owner_lock m_vx_start"
  "guarded VCD_CAP_INFO M_OWNER m_vx_status"
  "guarded VCD_CAP_INIT owner_lock m_vx_stop"
  "guarded VCD_CAP_CREATE 0 m_vx_templates"
  "guarded VCD_CAP_DLIM M_OWNER m_vxdb_dx_limit_get"
  "guarded VCD_CAP_DLIM owner_lock m_vxdb_dx_limit_remove"
  "guarded VCD_CAP_DLIM owner_lock m_vxdb_dx_limit_set"
  "guarded VCD_CAP_INIT M_OWNER m_vxdb_init_get"
  "guarded VCD_CAP_INIT owner_lock m_vxdb_init_set"
  "guarded VCD_CAP_INFO 0 m_vxdb_list"
  "guarded VCD_CAP_MOUNT M_OWNER m_vxdb_mount_get"
  "guarded VCD_CAP_MOUNT owner_lock m_vxdb_mount_remove"
  "guarded VCD_CAP_MOUNT owner_lock m_vxdb_mount_set"
  "guarded VCD_CAP_INFO 0 m_vxdb_name_get"
  "guarded VCD_CAP_NET M_OWNER m_vxdb_nx_addr_get"
  "guarded VCD_CAP_NET owner_lock m_vxdb_nx_addr_remove"
  "guarded VCD_CAP_NET owner_lock m_vxdb_nx_addr_set"
  "guarded VCD_CAP_NET M_OWNER m_vxdb_nx_broadcast_get"
  "guarded VCD_CAP_NET owner_lock m_vxdb_nx_broadcast_remove"
  "guarded VCD_CAP_NET owner_lock m_vxdb_nx_broadcast_set"
  "guarded VCD_CAP_AUTH 0 m_vxdb_owner_add"
  "guarded VCD_CAP_AUTH 0 m_vxdb_owner_get"
  "guarded VCD_CAP_AUTH 0 m_vxdb_owner_remove"
  "guarded VCD_CAP_INFO 0 m_vxdb_vdir_get"
  "guarded VCD_CAP_BCAP owner_lock m_vxdb_vx_bcaps_add"
  "guarded VCD_CAP_BCAP M_OWNER m_vxdb_vx_bcaps_get"
  "guarded VCD_CAP_BCAP owner_lock m_vxdb_vx_bcaps_remove"
  "guarded VCD_CAP_CCAP owner_lock m_vxdb_vx_ccaps_add"
  "guarded VCD_CAP_CCAP M_OWNER m_vxdb_vx_ccaps_get"
  "guarded VCD_CAP_CCAP owner_lock m_vxdb_vx_ccaps_remove"
  "guarded VCD_CAP_SCHED M_OWNER m_vxdb_vx_cpuset_get"
  "guarded VCD_CAP_SCHED owner_lock m_vxdb_vx_cpuset_remove"
  "guarded VCD_CAP_SCHED owner_lock m_vxdb_vx_cpuset_set"
  "guarded VCD_CAP_CFLAG owner_lock m_vxdb_vx_flags_add"
  "guarded VCD_CAP_CFLAG M_OWNER m_vxdb_vx_flags_get"
  "guarded VCD_CAP_CFLAG owner_lock m_vxdb_vx_flags_remove"
  "guarded VCD_CAP_RLIM M_OWNER m_vxdb_vx_limit_get"
  "guarded VCD_CAP_RLIM owner_lock m_vxdb_vx_limit_remove"
  "guarded VCD_CAP_RLIM owner_lock m_vxdb_vx_limit_set"
  "guarded VCD_CAP_SCHED M_OWNER m_vxdb_vx_sched_get"
  "guarded VCD_CAP_SCHED owner_lock m_vxdb_vx_sched_remove"
  "guarded VCD_CAP_SCHED owner_lock m_vxdb_vx_sched_set"
  "guarded VCD_CAP_UNAME M_OWNER m_vxdb_vx_uname_get"
  "guarded VCD_CAP_UNAME owner_lock m_vxdb_vx_uname_remove"
  "guarded VCD_CAP_UNAME owner_lock m_vxdb_vx_uname_set"
  "guarded VCD_CAP_INFO 0 m_vxdb_xid_get"
  by (rule guarded_intro, rule m_helper_netup_def m_helper_restart_def m_helper_shutdown_def m_helper_startup_def m_vcd_hostinfo_def
    m_vcd_login_def m_vcd_status_def m_vcd_user_caps_add_def m_vcd_user_caps_get_def
    m_vcd_user_caps_remove_def m_vcd_user_get_def m_vcd_user_remove_def m_vcd_user_set_def m_vg_add_def
    m_vg_list_def m_vg_remove_def m_vg_vx_reboot_def m_vg_vx_restart_def m_vg_vx_start_def
    m_vg_vx_stop_def m_vx_create_def m_vx_exec_def m_vx_kill_def m_vx_limstatus_def m_vx_netstatus_def
    m_vx_reboot_def m_vx_remove_def m_vx_rename_def m_vx_restart_def m_vx_start_def m_vx_status_def
    m_vx_stop_def m_vx_templates_def m_vxdb_dx_limit_get_def m_vxdb_dx_limit_remove_def
    m_vxdb_dx_limit_set_def m_vxdb_init_get_def m_vxdb_init_set_def m_vxdb_list_def m_vxdb_mount_get_def
    m_vxdb_mount_remove_def m_vxdb_mount_set_def m_vxdb_name_get_def m_vxdb_nx_addr_get_def
    m_vxdb_nx_addr_remove_def m_vxdb_nx_addr_set_def m_vxdb_nx_broadcast_get_def
    m_vxdb_nx_broadcast_remove_def m_vxdb_nx_broadcast_set_def m_vxdb_owner_add_def m_vxdb_owner_get_def
    m_vxdb_owner_remove_def m_vxdb_vdir_get_def m_vxdb_vx_bcaps_add_def m_vxdb_vx_bcaps_get_def
    m_vxdb_vx_bcaps_remove_def m_vxdb_vx_ccaps_add_def m_vxdb_vx_ccaps_get_def m_vxdb_vx_ccaps_remove_def
    m_vxdb_vx_cpuset_get_def m_vxdb_vx_cpuset_remove_def m_vxdb_vx_cpuset_set_def m_vxdb_vx_flags_add_def
    m_vxdb_vx_flags_get_def m_vxdb_vx_flags_remove_def m_vxdb_vx_limit_get_def m_vxdb_vx_limit_remove_def
    m_vxdb_vx_limit_set_def m_vxdb_vx_sched_get_def m_vxdb_vx_sched_remove_def m_vxdb_vx_sched_set_def
    m_vxdb_vx_uname_get_def m_vxdb_vx_uname_remove_def m_vxdb_vx_uname_set_def m_vxdb_xid_get_def)+

lemma registry_policy:
  "list_all2 (\<lambda>(n, m) (n', z). n = n' \<and> (case z of (caps, flags) \<Rightarrow> guarded caps flags m)) method_registry policy"
  by (simp add: method_registry_def policy_def method_guards)

lemma map_of_list_all2:
  assumes "list_all2 (\<lambda>(n, x) (n', y). n = n' \<and> P n x y) xs ys"
  shows "map_of xs n = None \<longleftrightarrow> map_of ys n = None"
    and "map_of xs n = Some x \<Longrightarrow> \<exists>y. map_of ys n = Some y \<and> P n x y"
  using assms by (induction xs ys rule: list_all2_induct) (auto split: if_splits)

lemma registry_known: "map_of method_registry n = None \<longleftrightarrow> map_of policy n = None"
  by (rule map_of_list_all2(1) [OF registry_policy])

lemma dispatch_guarded:
  fixes H :: "'k host"
  assumes "map_of policy n = Some (caps, flags)"
  obtains f where "dispatch H n p = bindM (method_init H p False caps flags) f"
proof -
  from assms obtain m where m: "map_of (method_registry :: 'k methods) n = Some m"
    by (metis option.distinct(1) option.exhaust registry_known)
  from map_of_list_all2(2) [OF registry_policy m] assms have "guarded caps flags m" by auto
  then obtain f where "m H p False = bindM (method_init H p False caps flags) f"
    unfolding guarded_def by blast
  with m that show thesis by (simp add: dispatch_def)
qed

lemma dispatch_unknown: "map_of policy n = None \<Longrightarrow> dispatch H n p = method_default H n p"
  by (simp add: dispatch_def option.case_eq_if registry_known)

section \<open>Every method is protected\<close>

text \<open>
  C1.  A request of any method is answered with a value only if the method exists, the request
  names a user who has a row for every listed capability the method asks for and, where the method is
  for owners of a guest, is an administrator or is recorded as owner of the guest the request names;
  and only if it carries the password of the user row with this name, with one exception: a password
  that begins with \<^verbatim>\<open>WHIRLPOOLENC//\<close> and has a quote in it changes the query for the password.
\<close>

theorem request_authorised:
  assumes "dispatch H name p s = (Inr v, s')" and "host_ok H" and "st_wf s"
  shows "\<exists>caps flags cred params user pass. map_of policy name = Some (caps, flags)
    \<and> xr_pair (xr H) p = Some (cred, params)
    \<and> arg_s H cred ''username'' s = (Inr user, s) \<and> arg_s H cred ''password'' s = (Inr pass, s)
    \<and> (authenticated (lib H) (db s) user pass \<or> take 14 pass = enc_prefix \<and> \<not> quote_free pass)
    \<and> has_rights H params user caps flags s"
proof (cases "map_of policy name")
  case None
  with assms(1) show ?thesis
    by (auto simp: dispatch_unknown method_default_def bindM_def prog_simps split: prod.splits sum.splits)
next
  case (Some z)
  then obtain caps flags where z: "map_of policy name = Some (caps, flags)" by (cases z) auto
  from z obtain f where "dispatch H name p = bindM (method_init H p False caps flags) f"
    by (rule dispatch_guarded)
  with assms(1) obtain params s1 where "method_init H p False caps flags s = (Inr params, s1)"
    by (auto elim!: bindM_InrE)
  from method_init_granted [OF this] assms(2,3) obtain cred user pass where
    "xr_pair (xr H) p = Some (cred, params)" "arg_s H cred ''username'' s = (Inr user, s)"
    "arg_s H cred ''password'' s = (Inr pass, s)" "authenticated (lib H) (db s) user pass \<or> altered_query pass"
    "has_rights H params user caps flags s"
    by (auto simp: host_ok_def st_wf_def)
  with z show ?thesis unfolding altered_query_def by blast
qed

text \<open>
  C2.  A request whose user name and password match no user row is answered with
  \<^verbatim>\<open>MEAUTH\<close>, whatever the method; it takes no lock and changes nothing in the database but
  the counters.  The password is not one that begins with \<^verbatim>\<open>WHIRLPOOLENC//\<close> and has a quote in
  it.
\<close>

theorem request_unauthorised:
  assumes "name \<in> fst ` set (method_registry :: 'k methods)"
    and "xr_pair (xr H) p = Some (cred, params)"
    and "arg_s H cred ''username'' s = (Inr user, s)" and "arg_s H cred ''password'' s = (Inr pass, s)"
    and "\<not> authenticated (lib H) (db s) user pass"
    and "host_ok H" and "\<not> (take 14 pass = enc_prefix \<and> \<not> quote_free pass)"
  shows "\<exists>s'. dispatch (H :: 'k host) name p s = (Inl (Fault MEAUTH), s')
    \<and> touches {T_vcd} s s' \<and> lockfd s' = lockfd s"
proof -
  from assms(1) have "map_of (method_registry :: 'k methods) name \<noteq> None"
    by (simp add: map_of_eq_None_iff)
  then obtain caps flags where "map_of policy name = Some (caps, flags)"
    by (auto simp: registry_known)
  then obtain f where f: "dispatch H name p = bindM (method_init H p False caps flags) f"
    by (rule dispatch_guarded)
  from method_init_refuses [OF assms(2-7) [folded altered_query_def]] obtain s' where
    "method_init H p False caps flags s = (Inl (Fault MEAUTH), s')" "touches {T_vcd} s s'" "lockfd s' = lockfd s"
    by blast
  then show ?thesis by (auto simp: f bindM_def)
qed

section \<open>The unique indexes hold at all times\<close>

lemma registry_keeps:
  "(n, m) \<in> set method_registry \<Longrightarrow> sqlite_ok (sql H) \<Longrightarrow> stays keeps_inv (m H p c)"
proof -
  have "list_all (\<lambda>(n, m). \<forall>H p c. sqlite_ok (sql H) \<longrightarrow> stays keeps_inv (m H p c)) method_registry"
    by (simp add: method_registry_def inv_intros)
  then show "(n, m) \<in> set method_registry \<Longrightarrow> sqlite_ok (sql H) \<Longrightarrow> stays keeps_inv (m H p c)"
    by (auto simp: list_all_iff)
qed

lemma dispatch_keeps:
  fixes H :: "'k host"
  assumes "sqlite_ok (sql H)"
  shows "stays keeps_inv (dispatch H name p)"
proof (cases "map_of (method_registry :: 'k methods) name")
  case None
  with assms show ?thesis
    by (auto simp: dispatch_def method_default_def intro!: ki.stays_rules vcd_count_keeps)
next
  case (Some m)
  then have "(name, m) \<in> set method_registry" by (rule map_of_SomeD)
  with Some assms show ?thesis by (simp add: dispatch_def registry_keeps)
qed

section \<open>Witnesses\<close>

theorem request_authorised_witness:
  "\<exists>caps flags. map_of policy ''vxdb.dx.limit.get'' = Some (caps, flags)
     \<and> has_rights ref_host (XStruct [(''name'', XStr ''guest1'')]) ''bob'' caps flags (ref_state ref_db [])"
proof -
  define p where "p = ref_request ''bob'' ''password'' [(''name'', XStr ''guest1'')]"
  let ?s = "ref_state ref_db []"
  have d: "dispatch ref_host ''vxdb.dx.limit.get'' p = m_vxdb_dx_limit_get ref_host p False"
    by (simp add: dispatch_def method_registry_def)
  have "\<not> isl (fst (m_vxdb_dx_limit_get ref_host p False ?s))"
    by (simp add: m_vxdb_dx_limit_get_def p_def eval_rules eval_auth cong: bindM_weak_cong)
  then obtain v where run: "dispatch ref_host ''vxdb.dx.limit.get'' p ?s
      = (Inr v, snd (m_vxdb_dx_limit_get ref_host p False ?s))"
    unfolding d by (rule run_ok)
  from request_authorised [OF run ref_host_ok ref_st_wf] obtain caps flags cred params user where
    r: "map_of policy ''vxdb.dx.limit.get'' = Some (caps, flags)" "xr_pair (xr ref_host) p = Some (cred, params)"
      "arg_s ref_host cred ''username'' ?s = (Inr user, ?s)" "has_rights ref_host params user caps flags ?s"
    by blast
  then have "params = XStruct [(''name'', XStr ''guest1'')]" "user = ''bob''"
    by (auto simp: p_def ref_request_def ref_sel arg_s_def decompose_def prog_simps)
  with r show ?thesis by simp
qed

theorem request_unauthorised_witness:
  "\<exists>s'. dispatch ref_host ''vx.remove'' (ref_request ''bob'' ''wrongpass'' []) (ref_state ref_db [])
       = (Inl (Fault MEAUTH), s') \<and> lockfd s' = -1"
proof -
  let ?p = "ref_request ''bob'' ''wrongpass'' []"
  let ?s = "ref_state ref_db []"
  have "\<not> authenticated (lib ref_host) (db ?s) ''bob'' ''wrongpass''"
    by (simp add: authenticated_def ref_state_def ref_db_def eval_rules whirlpool_pass_def enc_prefix_def)
  then have "\<exists>s'. dispatch ref_host ''vx.remove'' ?p ?s = (Inl (Fault MEAUTH), s')
      \<and> touches {T_vcd} ?s s' \<and> lockfd s' = lockfd ?s"
    by (rule request_unauthorised [rotated 4, OF _ ref_host_ok,
          where params = "XStruct []"
            and cred = "XStruct [(''username'', XStr ''bob''), (''password'', XStr ''wrongpass'')]"])
      (simp_all add: method_registry_def ref_request_def ref_sel arg_s_def decompose_def prog_simps enc_prefix_def)
  then show ?thesis by (auto simp: ref_state_def)
qed

end
