(* ===== verification/Frames.thy ===== *)
theory Frames
  imports Registry Register_Laws
begin

text \<open>
  Which tables every method writes, as one table that is proved for the registry
  (\<open>method_writes\<close>).  The theories \<open>Rights_Laws\<close> and \<open>Isolation_Laws\<close> read off it who can change
  the rights of the users and the configuration of the guests.
\<close>

section \<open>Requests without quotes\<close>

text \<open>No text of the request has a quote in it, so that all statements are what they look like.\<close>

definition plain_params :: "'k host \<Rightarrow> xval \<Rightarrow> bool" where
  "plain_params H ps \<longleftrightarrow> (\<forall>key x. get_param (xr_string (xr H)) H ps key = Some x \<longrightarrow> quote_free x)"

definition plain_request :: "'k host \<Rightarrow> xval \<Rightarrow> bool \<Rightarrow> bool" where
  "plain_request H p c \<longleftrightarrow> (\<forall>ps. req_params H p c = Some ps \<longrightarrow> plain_params H ps)"

text \<open>Every request is counted in the table \<open>vcd\<close>; \<open>T\<close> are the tables beside it.\<close>

abbreviation writes :: "table set \<Rightarrow> ('k, 'a) handler \<Rightarrow> bool" where
  "writes T m \<equiv> stays (touches (insert T_vcd T)) m"

named_theorems writes_intros \<open>which tables a method writes\<close>

lemma method_init_writes: "writes T (method_init H p c caps flags)"
  by (rule touches_mono [OF method_init_touches]) simp

lemma init_writes:
  assumes "plain_request H p c" and "\<And>ps. plain_params H ps \<Longrightarrow> writes T (f ps)"
  shows "writes T (bindM (method_init H p c caps flags) f)"
proof (rule staysI)
  fix s :: "'a st"
  obtain r s1 where r: "method_init H p c caps flags s = (r, s1)" by fastforce
  with method_init_writes have t: "touches (insert T_vcd T) s s1" by (rule staysD)
  show "touches (insert T_vcd T) s (snd (bindM (method_init H p c caps flags) f s))"
  proof (cases r)
    case (Inl e)
    with r t show ?thesis by (simp add: bindM_def)
  next
    case (Inr ps)
    with r assms method_init_params [of H p c caps flags s ps s1] have "writes T (f ps)"
      by (simp add: plain_request_def)
    then have "touches (insert T_vcd T) s1 (snd (f ps s1))" by (simp add: stays_def)
    with r t Inr show ?thesis by (simp add: bindM_def) (metis tc.R_trans)
  qed
qed

lemma arg_writes:
  assumes "plain_params H ps" and "\<And>x. quote_free x \<Longrightarrow> stays (touches T) (f x)"
  shows "stays (touches T) (bindM (arg_s H ps key) f)"
proof (rule staysI)
  fix s
  show "touches T s (snd (bindM (arg_s H ps key) f s))"
  proof (cases "arg_s H ps key s")
    case (Pair r s1)
    then have "s1 = s" by (rule arg_state)
    with Pair assms show ?thesis
      by (cases r) (auto simp: bindM_def tc.R_refl stays_def plain_params_def elim: arg_sE)
  qed
qed

lemma empty_param_quote_free: "quote_free x \<Longrightarrow> empty_param H x = Some y \<Longrightarrow> quote_free y"
  by (simp add: empty_param_iff split: if_splits)

lemma quote_free_default:
  "quote_free (or_default (if b then None else Some x) d) = (if b then quote_free d else quote_free x)"
  by (simp add: or_default_def)

lemma quote_free_defaults:
  "quote_free ''none''" "quote_free ''auto''" "quote_free ''defaults''" "quote_free ''/sbin/init''"
  "quote_free ''/sbin/halt''" "quote_free ''/sbin/reboot''" "quote_free ''255.255.255.255''"
  by (simp_all add: quote_free_def)

lemmas writes_rules = arg_writes tc.stays_rules exec_nil_touches stays_errno stays_wstatus
  reads_intros [THEN same_conn_touches]

lemmas any_rules = tc.stays_rules exec_nil_touches stays_errno stays_wstatus method_init_writes
  reads_intros [THEN same_conn_touches] limit_item_reads net_item_reads

lemmas plain_stmts = xid_lit_def dec_quote_free empty_param_iff quote_free_default quote_free_defaults

section \<open>The methods\<close>

text \<open>Methods that put a text of the request into a statement.\<close>

lemma vxdb_writes_1 [writes_intros]:
  assumes "plain_request H p c"
  shows "writes {} (m_vcd_hostinfo H p c)"
    and "writes {} (m_vcd_login H p c)"
    and "writes {} (m_vcd_status H p c)"
    and "writes {} (m_vcd_user_caps_get H p c)"
    and "writes {} (m_vcd_user_get H p c)"
    and "writes {} (m_vg_list H p c)"
    and "writes {T_xid_name_map} (m_vx_rename H p c)"
    and "writes {} (m_vxdb_dx_limit_get H p c)"
    and "writes {T_dx_limit} (m_vxdb_dx_limit_remove H p c)"
    and "writes {T_dx_limit} (m_vxdb_dx_limit_set H p c)"
    and "writes {} (m_vxdb_init_get H p c)"
    and "writes {T_init} (m_vxdb_init_set H p c)"
    and "writes {} (m_vxdb_mount_get H p c)"
  unfolding m_vcd_hostinfo_def m_vcd_login_def m_vcd_status_def m_vcd_user_caps_get_def m_vcd_user_get_def
    m_vg_list_def m_vx_rename_def m_vxdb_dx_limit_get_def m_vxdb_dx_limit_remove_def
    m_vxdb_dx_limit_set_def m_vxdb_init_get_def m_vxdb_init_set_def m_vxdb_mount_get_def Let_def
  by (rule init_writes [OF assms], intro writes_rules, (simp_all add: plain_stmts)?)+

lemma vxdb_writes_2 [writes_intros]:
  assumes "plain_request H p c"
  shows "writes {T_mount} (m_vxdb_mount_remove H p c)"
    and "writes {T_mount} (m_vxdb_mount_set H p c)"
    and "writes {} (m_vxdb_name_get H p c)"
    and "writes {} (m_vxdb_nx_addr_get H p c)"
    and "writes {T_nx_addr} (m_vxdb_nx_addr_remove H p c)"
    and "writes {T_nx_addr} (m_vxdb_nx_addr_set H p c)"
    and "writes {} (m_vxdb_nx_broadcast_get H p c)"
    and "writes {T_nx_broadcast} (m_vxdb_nx_broadcast_remove H p c)"
    and "writes {T_nx_broadcast} (m_vxdb_nx_broadcast_set H p c)"
    and "writes {T_xid_uid_map} (m_vxdb_owner_add H p c)"
    and "writes {} (m_vxdb_owner_get H p c)"
    and "writes {T_xid_uid_map} (m_vxdb_owner_remove H p c)"
    and "writes {} (m_vxdb_vdir_get H p c)"
  unfolding m_vxdb_mount_remove_def m_vxdb_mount_set_def m_vxdb_name_get_def m_vxdb_nx_addr_get_def
    m_vxdb_nx_addr_remove_def m_vxdb_nx_addr_set_def m_vxdb_nx_broadcast_get_def
    m_vxdb_nx_broadcast_remove_def m_vxdb_nx_broadcast_set_def m_vxdb_owner_add_def m_vxdb_owner_get_def
    m_vxdb_owner_remove_def m_vxdb_vdir_get_def Let_def
  by (rule init_writes [OF assms], intro writes_rules, (simp_all add: plain_stmts)?)+

lemma vxdb_writes_3 [writes_intros]:
  assumes "plain_request H p c"
  shows "writes {T_vx_bcaps} (m_vxdb_vx_bcaps_add H p c)"
    and "writes {} (m_vxdb_vx_bcaps_get H p c)"
    and "writes {T_vx_bcaps} (m_vxdb_vx_bcaps_remove H p c)"
    and "writes {T_vx_ccaps} (m_vxdb_vx_ccaps_add H p c)"
    and "writes {} (m_vxdb_vx_ccaps_get H p c)"
    and "writes {T_vx_ccaps} (m_vxdb_vx_ccaps_remove H p c)"
    and "writes {} (m_vxdb_vx_cpuset_get H p c)"
    and "writes {T_vx_cpuset} (m_vxdb_vx_cpuset_remove H p c)"
    and "writes {T_vx_cpuset} (m_vxdb_vx_cpuset_set H p c)"
    and "writes {T_vx_flags} (m_vxdb_vx_flags_add H p c)"
    and "writes {} (m_vxdb_vx_flags_get H p c)"
    and "writes {T_vx_flags} (m_vxdb_vx_flags_remove H p c)"
    and "writes {} (m_vxdb_vx_limit_get H p c)"
  unfolding m_vxdb_vx_bcaps_add_def m_vxdb_vx_bcaps_get_def m_vxdb_vx_bcaps_remove_def m_vxdb_vx_ccaps_add_def
    m_vxdb_vx_ccaps_get_def m_vxdb_vx_ccaps_remove_def m_vxdb_vx_cpuset_get_def
    m_vxdb_vx_cpuset_remove_def m_vxdb_vx_cpuset_set_def m_vxdb_vx_flags_add_def m_vxdb_vx_flags_get_def
    m_vxdb_vx_flags_remove_def m_vxdb_vx_limit_get_def Let_def
  by (rule init_writes [OF assms], intro writes_rules, (simp_all add: plain_stmts)?)+

lemma vxdb_writes_4 [writes_intros]:
  assumes "plain_request H p c"
  shows "writes {T_vx_limit} (m_vxdb_vx_limit_remove H p c)"
    and "writes {T_vx_limit} (m_vxdb_vx_limit_set H p c)"
    and "writes {} (m_vxdb_vx_sched_get H p c)"
    and "writes {T_vx_sched} (m_vxdb_vx_sched_remove H p c)"
    and "writes {T_vx_sched} (m_vxdb_vx_sched_set H p c)"
    and "writes {} (m_vxdb_vx_uname_get H p c)"
    and "writes {T_vx_uname} (m_vxdb_vx_uname_remove H p c)"
    and "writes {T_vx_uname} (m_vxdb_vx_uname_set H p c)"
    and "writes {} (m_vxdb_xid_get H p c)"
  unfolding m_vxdb_vx_limit_remove_def m_vxdb_vx_limit_set_def m_vxdb_vx_sched_get_def
    m_vxdb_vx_sched_remove_def m_vxdb_vx_sched_set_def m_vxdb_vx_uname_get_def
    m_vxdb_vx_uname_remove_def m_vxdb_vx_uname_set_def m_vxdb_xid_get_def Let_def
  by (rule init_writes [OF assms], intro writes_rules, (simp_all add: plain_stmts)?)+

lemma list_writes [writes_intros]:
  "writes {} (m_vxdb_list H p c)"
  unfolding m_vxdb_list_def Let_def
  by (intro any_rules writes_intros, (simp_all add: xid_lit_def)?)+

lemma vx_exec_writes [writes_intros]:
  "writes {} (m_vx_exec H p c)"
  unfolding m_vx_exec_def Let_def
  by (intro any_rules writes_intros, (simp_all add: xid_lit_def)?)+

lemma vx_stop_writes [writes_intros]:
  "writes {} (m_vx_stop H p c)"
  unfolding m_vx_stop_def Let_def
  by (intro any_rules writes_intros, (simp_all add: xid_lit_def)?)+

lemma vx_start_writes [writes_intros]:
  "writes {} (m_vx_start H p c)"
  unfolding m_vx_start_def Let_def
  by (intro any_rules writes_intros, (simp_all add: xid_lit_def)?)+

lemma vx_writes [writes_intros]:
  "writes {} (m_vx_kill H p c)"
  "writes {} (m_vx_limstatus H p c)"
  "writes {} (m_vx_netstatus H p c)"
  "writes {} (m_vx_reboot H p c)"
  "writes {} (m_vx_restart H p c)"
  "writes {} (m_vx_status H p c)"
  "writes {} (m_vx_templates H p c)"
  unfolding m_vx_kill_def m_vx_limstatus_def m_vx_netstatus_def m_vx_reboot_def m_vx_restart_def m_vx_status_def
    m_vx_templates_def Let_def
  by (intro any_rules writes_intros, (simp_all add: xid_lit_def)?)+

lemma helper_writes [writes_intros]:
  "writes {} (m_helper_netup H p c)"
  "writes {T_restart} (m_helper_restart H p c)"
  "writes {T_restart} (m_helper_shutdown H p c)"
  "writes {} (m_helper_startup H p c)"
  unfolding m_helper_netup_def m_helper_restart_def m_helper_shutdown_def m_helper_startup_def Let_def
  by (intro any_rules writes_intros, (simp_all add: xid_lit_def)?)+

lemma vx_remove_writes [writes_intros]:
  "writes (set vx_remove_tables) (m_vx_remove H p c)"
  unfolding m_vx_remove_def Let_def
  by (intro any_rules, (simp_all add: xid_lit_def vx_remove_stmts_def vx_remove_tables_def)?)

lemma user_writes [writes_intros]:
  assumes "plain_request H p c"
  shows "writes {T_user_caps} (m_vcd_user_caps_add H p c)"
    and "writes {T_user_caps} (m_vcd_user_caps_remove H p c)"
    and "writes {T_user, T_user_caps, T_xid_uid_map} (m_vcd_user_remove H p c)"
  unfolding m_vcd_user_caps_add_def m_vcd_user_caps_remove_def m_vcd_user_remove_def user_remove_stmts_def Let_def
  by (rule init_writes [OF assms], intro writes_rules, (simp_all add: plain_stmts)?)+

lemma user_set_writes [writes_intros]:
  assumes "plain_request H p c" and "host_ok H"
  shows "writes {T_user} (m_vcd_user_set H p c)"
  unfolding m_vcd_user_set_def user_create_def user_change_def
  by (rule init_writes [OF assms(1)], intro writes_rules)
    (use assms(2) in \<open>simp_all add: plain_stmts whirlpool_pass_quote_free host_ok_def\<close>)

lemma vg_add_writes [writes_intros]:
  assumes "plain_request H p c"
  shows "writes {T_groups, T_xid_gid_map} (m_vg_add H p c)"
    and "writes {T_groups, T_xid_gid_map} (m_vg_remove H p c)"
  unfolding m_vg_add_def m_vg_remove_def need_gid_def group_remove_stmts_def
  by (rule init_writes [OF assms], intro writes_rules, (simp_all add: plain_stmts)?)+

lemma vg_loop_writes:
  assumes "\<And>p. writes T (m H p True)"
  shows "writes T (vg_loop H m vxs flt)"
proof (induction vxs arbitrary: flt)
  case (Cons a vxs)
  then show ?case by (cases a) (auto intro!: any_rules stays_tryM assms)
qed (auto intro: tc.stays_rules)

lemma vg_start_loop_writes: "writes {} (vg_start_loop H vxs flt)"
proof (induction vxs arbitrary: flt)
  case (Cons a vxs)
  then show ?case by (cases a) (auto intro!: any_rules stays_tryM writes_intros)
qed (auto intro: tc.stays_rules)

lemma vg_vx_writes [writes_intros]:
  "writes {} (m_vg_vx_reboot H p c)" "writes {} (m_vg_vx_restart H p c)"
  "writes {} (m_vg_vx_start H p c)" "writes {} (m_vg_vx_stop H p c)"
  unfolding m_vg_vx_reboot_def m_vg_vx_restart_def m_vg_vx_start_def m_vg_vx_stop_def vg_answer_def
  by (intro any_rules vg_loop_writes vg_start_loop_writes writes_intros)+

section \<open>All methods\<close>

text \<open>
  The tables each method writes beside the counters.  The statements of \<^verbatim>\<open>vx.create\<close> also hold
  texts of the configuration of the template; for it see \<open>create_writes\<close>.
\<close>

definition method_writes :: "(string \<times> table list) list" where
  "method_writes = [
     (''helper.netup'', []), (''helper.restart'', [T_restart]), (''helper.shutdown'', [T_restart]),
      (''helper.startup'', []), (''vcd.hostinfo'', []), (''vcd.login'', []), (''vcd.status'', []),
      (''vcd.user.caps.add'', [T_user_caps]), (''vcd.user.caps.get'', []),
      (''vcd.user.caps.remove'', [T_user_caps]), (''vcd.user.get'', []),
      (''vcd.user.remove'', [T_user, T_user_caps, T_xid_uid_map]), (''vcd.user.set'', [T_user]),
      (''vg.add'', [T_groups, T_xid_gid_map]), (''vg.list'', []),
      (''vg.remove'', [T_groups, T_xid_gid_map]), (''vg.vx.reboot'', []), (''vg.vx.restart'', []),
      (''vg.vx.start'', []), (''vg.vx.stop'', []), (''vx.create'', create_remove_tables), (''vx.exec'', []),
      (''vx.kill'', []), (''vx.limstatus'', []), (''vx.netstatus'', []), (''vx.reboot'', []),
      (''vx.remove'', vx_remove_tables), (''vx.rename'', [T_xid_name_map]), (''vx.restart'', []),
      (''vx.start'', []), (''vx.status'', []), (''vx.stop'', []), (''vx.templates'', []),
      (''vxdb.dx.limit.get'', []), (''vxdb.dx.limit.remove'', [T_dx_limit]),
      (''vxdb.dx.limit.set'', [T_dx_limit]), (''vxdb.init.get'', []), (''vxdb.init.set'', [T_init]),
      (''vxdb.list'', []), (''vxdb.mount.get'', []), (''vxdb.mount.remove'', [T_mount]),
      (''vxdb.mount.set'', [T_mount]), (''vxdb.name.get'', []), (''vxdb.nx.addr.get'', []),
      (''vxdb.nx.addr.remove'', [T_nx_addr]), (''vxdb.nx.addr.set'', [T_nx_addr]),
      (''vxdb.nx.broadcast.get'', []), (''vxdb.nx.broadcast.remove'', [T_nx_broadcast]),
      (''vxdb.nx.broadcast.set'', [T_nx_broadcast]), (''vxdb.owner.add'', [T_xid_uid_map]),
      (''vxdb.owner.get'', []), (''vxdb.owner.remove'', [T_xid_uid_map]), (''vxdb.vdir.get'', []),
      (''vxdb.vx.bcaps.add'', [T_vx_bcaps]), (''vxdb.vx.bcaps.get'', []),
      (''vxdb.vx.bcaps.remove'', [T_vx_bcaps]), (''vxdb.vx.ccaps.add'', [T_vx_ccaps]),
      (''vxdb.vx.ccaps.get'', []), (''vxdb.vx.ccaps.remove'', [T_vx_ccaps]),
      (''vxdb.vx.cpuset.get'', []), (''vxdb.vx.cpuset.remove'', [T_vx_cpuset]),
      (''vxdb.vx.cpuset.set'', [T_vx_cpuset]), (''vxdb.vx.flags.add'', [T_vx_flags]),
      (''vxdb.vx.flags.get'', []), (''vxdb.vx.flags.remove'', [T_vx_flags]),
      (''vxdb.vx.limit.get'', []), (''vxdb.vx.limit.remove'', [T_vx_limit]),
      (''vxdb.vx.limit.set'', [T_vx_limit]), (''vxdb.vx.sched.get'', []),
      (''vxdb.vx.sched.remove'', [T_vx_sched]), (''vxdb.vx.sched.set'', [T_vx_sched]),
      (''vxdb.vx.uname.get'', []), (''vxdb.vx.uname.remove'', [T_vx_uname]),
      (''vxdb.vx.uname.set'', [T_vx_uname]), (''vxdb.xid.get'', [])]"

lemma registry_writes:
  "list_all2 (\<lambda>(n, m) (n', ts). n = n' \<and> (n = ''vx.create''
      \<or> (\<forall>H p. host_ok H \<longrightarrow> plain_request H p False \<longrightarrow> writes (set ts) (m H p False))))
     method_registry method_writes"
  by (simp add: method_registry_def method_writes_def) (simp add: writes_intros)

definition written :: "string \<Rightarrow> table set" where
  "written name = (case map_of method_writes name of None \<Rightarrow> {} | Some ts \<Rightarrow> set ts)"

text \<open>A request whose texts are what they look like.\<close>

definition plain_texts :: "'k host \<Rightarrow> string \<Rightarrow> xval \<Rightarrow> 'k st \<Rightarrow> bool" where
  "plain_texts H name p s \<longleftrightarrow> (if name = ''vx.create'' then create_texts H p s else plain_request H p False)"

lemma dispatch_unknown_writes: "map_of policy name = None \<Longrightarrow> writes T (dispatch H name p)"
  unfolding dispatch_unknown method_default_def
  by (intro tc.stays_rules touches_mono [OF vcd_count_touches]) simp

lemma method_writes_create: "map_of method_writes ''vx.create'' = Some create_remove_tables"
  by (simp add: method_writes_def)

lemma create_registered: "map_of (method_registry :: 'k methods) ''vx.create'' = Some m_vx_create"
  by (simp add: method_registry_def)

lemma dispatch_written:
  fixes H :: "'k host"
  assumes "host_ok H" and "plain_texts H name p s"
  shows "touches (insert T_vcd (written name)) s (snd (dispatch H name p s))"
proof (cases "map_of (method_registry :: 'k methods) name")
  case None
  then have "writes (written name) (dispatch H name p)"
    by (intro dispatch_unknown_writes) (simp add: registry_known)
  then show ?thesis by (simp add: stays_def)
next
  case (Some m)
  show ?thesis
  proof (cases "name = ''vx.create''")
    case True
    with assms create_writes [of H p s] create_registered [where 'k = 'k] show ?thesis
      by (simp add: written_def method_writes_create dispatch_def plain_texts_def)
  next
    case False
    with map_of_list_all2(2) [OF registry_writes Some] obtain ts where "map_of method_writes name = Some ts"
      "\<forall>H p. host_ok H \<longrightarrow> plain_request H p False \<longrightarrow> writes (set ts) (m H p False)"
      by auto
    with Some False assms show ?thesis by (simp add: dispatch_def written_def stays_def plain_texts_def)
  qed
qed

text \<open>A request that changes a table names a method that writes it and got past its check.\<close>

lemma writer_permitted:
  assumes "dispatch H name p s = (r, s')" and "rows (db s') t \<noteq> rows (db s) t" and "t \<noteq> T_vcd"
    and "host_ok H" and "st_wf s" and "plain_texts H name p s" and "plain_password H p s"
  obtains ts caps flags where "map_of method_writes name = Some ts" and "t \<in> set ts"
    and "map_of policy name = Some (caps, flags)" and "permitted H p caps flags s"
proof -
  from dispatch_written [OF assms(4,6)] assms(1-3) have "t \<in> written name" by (auto simp: touches_def)
  then obtain ts where ts: "map_of method_writes name = Some ts" "t \<in> set ts"
    by (auto simp: written_def split: option.splits)
  have "map_of policy name \<noteq> None"
  proof
    assume "map_of policy name = None"
    from staysD [OF dispatch_unknown_writes [OF this, of "{}"] assms(1)] assms(2,3) show False
      by (simp add: touches_def)
  qed
  then obtain caps flags where z: "map_of policy name = Some (caps, flags)" by auto
  then obtain f where f: "dispatch H name p = bindM (method_init H p False caps flags) f"
    by (rule dispatch_guarded)
  obtain r1 s1 where i: "method_init H p False caps flags s = (r1, s1)" by fastforce
  with f assms(1-3) staysD [OF method_init_writes i, of "{}"] obtain params where "r1 = Inr params"
    by (cases r1) (auto simp: bindM_def touches_def)
  with method_init_access [of H p caps flags s params s1] i assms(4,5,7)
  have "permitted H p caps flags s" by (auto simp: host_ok_def st_wf_def)
  with that ts z show thesis .
qed

text \<open>
  C5.  However a request ends, the rows of a table that is not listed for its method, beside the
  counters, are as before, for every method and whatever is in the database, as long as the texts that get
  into statements are plain: the request has no quote in its texts, or, for \<^verbatim>\<open>vx.create\<close>, no quote
  and no percent sign is in the directory it names, the directories of the database and the configuration
  of the template.
\<close>

theorem method_writes_only:
  assumes "dispatch H name p s = (r, s')" and "t \<notin> written name" and "t \<noteq> T_vcd"
    and "host_ok H" and "plain_texts H name p s"
  shows "rows (db s') t = rows (db s) t"
  using dispatch_written [OF assms(4,5)] assms(1-3) by (simp add: touches_def)

section \<open>Witness\<close>

theorem method_writes_only_witness:
  "\<exists>r s'. dispatch ref_host ''vx.remove'' (ref_request ''admin'' ''secret12'' [(''name'', XStr ''guest1'')])
      (ref_state ref_db []) = (r, s') \<and> rows (db s') T_vx_cpuset = rows ref_db T_vx_cpuset"
proof -
  let ?ps = "[(''name'', XStr ''guest1'')]"
  let ?p = "ref_request ''admin'' ''secret12'' ?ps" and ?s = "ref_state ref_db []"
  let ?r = "dispatch ref_host ''vx.remove'' ?p ?s"
  have "req_params ref_host ?p False = Some (XStruct ?ps)" by (simp add: req_params_def ref_request_def ref_sel)
  then have "plain_texts ref_host ''vx.remove'' ?p ?s"
    by (auto simp: plain_texts_def plain_request_def plain_params_def get_param_def ref_sel quote_free_def split: if_splits)
  moreover have "T_vx_cpuset \<notin> written ''vx.remove''"
    by (simp add: written_def method_writes_def vx_remove_tables_def)
  ultimately have "rows (db (snd ?r)) T_vx_cpuset = rows (db ?s) T_vx_cpuset"
    using method_writes_only [of ref_host "''vx.remove''" ?p ?s "fst ?r" "snd ?r" T_vx_cpuset] ref_host_ok by simp
  moreover have "db ?s = ref_db" by (simp add: ref_state_def)
  ultimately show ?thesis by (metis prod.collapse)
qed

end
