(* ===== verification/Rights_Laws.thy ===== *)
theory Rights_Laws
  imports Frames
begin



section \<open>Witness\<close>


end
