(* ===== verification/Isolation_Laws.thy ===== *)
theory Isolation_Laws
  imports Frames
begin

text \<open>
  The configuration of one guest is out of the reach of the others: a request changes rows of a
  guest only when it names this guest, and then it comes from an administrator or from an owner of
  the guest.

  The judgement \<open>spares\<close> carries the name of the request through a method: as long as it does not
  belong to the guest \<open>y\<close>, the context id that is looked up is another one, and a statement on the
  rows of another guest leaves the rows of \<open>y\<close> alone.
\<close>

section \<open>The configuration of a guest\<close>

definition config_tables :: "table list" where
  "config_tables =
     [T_dx_limit, T_init, T_mount, T_nx_addr, T_nx_broadcast, T_vdir, T_vx_bcaps, T_vx_ccaps, T_vx_cpuset,
      T_vx_flags, T_vx_limit, T_vx_sched, T_vx_uname, T_xid_name_map]"

definition guest_rows :: "vxdb_db \<Rightarrow> table \<Rightarrow> xid_t \<Rightarrow> row list" where
  "guest_rows d t y = filter (\<lambda>r. rget r C_xid = SInt y) (rows d t)"

definition guest_same :: "xid_t \<Rightarrow> 'k st \<Rightarrow> 'k st \<Rightarrow> bool" where
  "guest_same y s s' \<longleftrightarrow> (schema_wf (db s) \<longrightarrow> schema_wf (db s')
     \<and> (\<forall>t \<in> set config_tables. guest_rows (db s') t y = guest_rows (db s) t y))"

interpretation gs: step_relation "guest_same y" for y
  by unfold_locales (auto simp: guest_same_def)

text \<open>What work on the guest \<open>x\<close> does to the rows of \<open>y\<close>.\<close>

definition work_on :: "xid_t \<Rightarrow> xid_t \<Rightarrow> 'k st \<Rightarrow> 'k st \<Rightarrow> bool" where
  "work_on x y s s' \<longleftrightarrow> (x \<noteq> y \<longrightarrow> guest_same y s s')"

interpretation wo: step_relation "work_on x y" for x y
  by unfold_locales (auto simp: work_on_def intro: gs.R_refl gs.R_trans)

lemma same_conn_work: "stays same_conn m \<Longrightarrow> stays (work_on x y) m"
  by (auto simp: stays_def same_conn_def work_on_def guest_same_def)

lemma touches_guest:
  assumes "touches T s s'" and "T \<inter> set config_tables = {}"
  shows "guest_same y s s'"
proof -
  have "rows (db s') t = rows (db s) t" if "t \<in> set config_tables" for t
    using touches_rows [OF assms(1), of t] assms(2) that by blast
  with touches_schema_wf [OF assms(1)] show ?thesis by (simp add: guest_same_def guest_rows_def)
qed

section \<open>Statements on the rows of another guest\<close>

text \<open>\<open>stmt_on x\<close>: the statement is about rows of the guest \<open>x\<close>; where it may replace rows, all unique
  indexes of the table have the context id.\<close>

fun stmt_on :: "xid_t \<Rightarrow> stmt \<Rightarrow> bool" where
  "stmt_on x (Insert b t r) =
     (rget r C_xid = SInt x \<and> (b \<longrightarrow> t \<noteq> T_vdir \<and> t \<noteq> T_xid_name_map \<and> t \<in> set config_tables))"
| "stmt_on x (Update t sets w) = ((C_xid, Lit (SInt x)) \<in> set w \<and> C_xid \<notin> fst ` set sets)"
| "stmt_on x (Delete t w) = ((C_xid, Lit (SInt x)) \<in> set w)"
| "stmt_on x Begin = True"
| "stmt_on x Commit = True"
| "stmt_on x _ = False"

lemma matches_xid_lit: "matches d w r \<Longrightarrow> (C_xid, Lit (SInt x)) \<in> set w \<Longrightarrow> rget r C_xid = SInt x"
  by (auto simp: matches_def list_all_iff Let_def)

lemma config_index:
  assumes "schema_wf d" and "t \<in> set config_tables" and "t \<noteq> T_vdir" and "t \<noteq> T_xid_name_map"
    and "clashes d t r q"
  shows "rget q C_xid = rget r C_xid"
  using assms by (auto simp: config_tables_def schema_wf_index clashes_def conflict_def)

lemma update_row_other: "c \<notin> fst ` set sets \<Longrightarrow> rget (update_row d sets r) c = rget r c"
  unfolding update_row_def
  by (induction sets rule: rev_induct) (auto split: prod.splits)

lemma filter_cong_map:
  "(\<And>x. x \<in> set xs \<Longrightarrow> P (f x) = P x) \<Longrightarrow> (\<And>x. x \<in> set xs \<Longrightarrow> P x \<Longrightarrow> f x = x)
     \<Longrightarrow> filter P (map f xs) = filter P xs"
  by (induction xs) auto

lemma exec_stmt_guest:
  assumes "exec_stmt st c = Some c'" and "stmt_on x st" and "x \<noteq> y" and "schema_wf (cur c)"
  shows "guest_rows (cur c') t y = guest_rows (cur c) t y"
proof (cases "stmt_table st = Some t")
  case False
  with exec_stmt_other_table [OF assms(1)] show ?thesis by (simp add: guest_rows_def)
next
  case True
  with assms(2) consider b r where "st = Insert b t r" | sets w where "st = Update t sets w"
    | w where "st = Delete t w"
    by (cases st) auto
  then show ?thesis
  proof cases
    case 1
    show ?thesis
    proof (cases b)
      case True
      have "filter (\<lambda>q. rget q C_xid = SInt y) (filter (\<lambda>q. \<not> clashes (cur c) t r q) (rows (cur c) t))
          = filter (\<lambda>q. rget q C_xid = SInt y) (rows (cur c) t)"
        using 1 True assms(2-4) config_index [of "cur c" t r] by (intro filter_filter_idem) auto
      with 1 True assms(1-3) show ?thesis
        by (auto simp: guest_rows_def Let_def simp del: filter_filter split: if_splits)
    next
      case False
      with 1 assms(1-3) exec_insert(2) [of t r c c'] show ?thesis by (simp add: guest_rows_def del: exec_stmt.simps)
    qed
  next
    case 2
    with assms matches_xid_lit [of "cur c" w _ x] show ?thesis
      by (auto simp: guest_rows_def Let_def update_row_other split: if_splits intro!: filter_cong_map)
  next
    case 3
    with assms matches_xid_lit [of "cur c" w _ x] show ?thesis
      by (auto simp: guest_rows_def Let_def simp del: filter_filter split: if_splits intro!: filter_filter_idem)
  qed
qed

lemma exec_stmt_on_schema:
  assumes "exec_stmt st c = Some c'" and "stmt_on x st"
  shows "schema_wf (cur c') = schema_wf (cur c)"
  using exec_stmt_schema [OF assms(1)] exec_stmt_indexes [OF assms(1)] assms(2)
  by (cases st) (simp_all add: schema_wf_def table_indexes_def)

lemma run_stmts_guest:
  "run_stmts Q sts c k = ((ok, c'), k') \<Longrightarrow> list_all (stmt_on x) sts \<Longrightarrow> x \<noteq> y \<Longrightarrow> schema_wf (cur c)
     \<Longrightarrow> schema_wf (cur c') \<and> guest_rows (cur c') t y = guest_rows (cur c) t y"
proof (induction sts arbitrary: c k)
  case Nil
  then show ?case by simp
next
  case (Cons st sts)
  obtain p k1 where p: "sq_perform Q st k = (p, k1)" by fastforce
  show ?case
  proof (cases "\<not> p \<or> exec_stmt st c = None")
    case True
    with Cons.prems p show ?thesis by (auto split: if_splits)
  next
    case False
    with Cons.prems p obtain c1 where c1: "exec_stmt st c = Some c1"
      "run_stmts Q sts c1 k1 = ((ok, c'), k')" by auto
    have "stmt_on x st" and rest: "list_all (stmt_on x) sts" using Cons.prems(2) by simp_all
    with exec_stmt_guest [OF c1(1)] exec_stmt_on_schema [OF c1(1)] Cons.prems(3,4)
    have "schema_wf (cur c1)" "guest_rows (cur c1) t y = guest_rows (cur c) t y" by blast+
    with Cons.IH [OF c1(2) rest Cons.prems(3)] show ?thesis by simp
  qed
qed

lemma vxdb_exec_work:
  "list_all stmt_safe sts \<Longrightarrow> list_all (stmt_on x) sts \<Longrightarrow> stays (work_on x y) (vxdb_exec H sts)"
  by (auto simp: stays_def vxdb_exec_def work_on_def guest_same_def split: prod.splits dest: run_stmts_guest)

lemma exec_nil_work:
  "list_all stmt_safe sts \<Longrightarrow> list_all (stmt_on x) sts \<Longrightarrow> stays (work_on x y) (exec_nil H sts)"
  unfolding exec_nil_def by (intro wo.stays_rules vxdb_exec_work)

section \<open>Methods that spare the other guests\<close>

definition other_name :: "'k host \<Rightarrow> xval \<Rightarrow> xid_t \<Rightarrow> 'k st \<Rightarrow> bool" where
  "other_name H ps y s \<longleftrightarrow>
     (\<forall>g. get_param (xr_string (xr H)) H ps ''name'' = Some g \<longrightarrow> name_xid (db s) g \<noteq> Some y)"

definition spares :: "'k host \<Rightarrow> xval \<Rightarrow> xid_t \<Rightarrow> ('k, 'a) handler \<Rightarrow> bool" where
  "spares H ps y m \<longleftrightarrow>
     (\<forall>s. host_ok H \<longrightarrow> st_wf s \<longrightarrow> other_name H ps y s \<longrightarrow> guest_same y s (snd (m s)))"

lemma other_name_cong: "conn s' = conn s \<Longrightarrow> other_name H ps y s' = other_name H ps y s"
  by (simp add: other_name_def)

lemma guest_same_conn: "conn s1 = conn s \<Longrightarrow> guest_same y s1 s' = guest_same y s s'"
  by (simp add: guest_same_def)

lemma spares_read:
  assumes "stays same_conn m" and "\<And>x. spares H ps y (f x)"
  shows "spares H ps y (bindM m f)"
  unfolding spares_def
proof (intro allI impI)
  fix s
  assume h: "host_ok H" and w: "st_wf s" and o: "other_name H ps y s"
  obtain r s1 where m: "m s = (r, s1)" by fastforce
  then have c: "conn s1 = conn s" using reads_conn [OF assms(1)] by simp
  then have "guest_same y s1 (snd (f x s1))" for x
    using assms(2) [of x] h w o by (simp add: spares_def st_wf_cong [OF c] other_name_cong [OF c])
  then show "guest_same y s (snd (bindM m f s))"
    using m c gs.R_refl [of y s1] by (cases r) (simp_all add: bindM_def guest_same_conn [of s1 s])
qed

lemma spares_arg:
  assumes "plain_params H ps"
    and "\<And>x. get_param (xr_string (xr H)) H ps key = Some x \<Longrightarrow> quote_free x \<Longrightarrow> spares H ps y (f x)"
  shows "spares H ps y (bindM (arg_s H ps key) f)"
  unfolding spares_def
proof (intro allI impI)
  fix s
  assume h: "host_ok H" "st_wf s" "other_name H ps y s"
  obtain r s1 where m: "arg_s H ps key s = (r, s1)" by fastforce
  then have s1: "s1 = s" by (rule arg_state)
  show "guest_same y s (snd (bindM (arg_s H ps key) f s))"
  proof (cases r)
    case (Inl e)
    with m s1 show ?thesis by (simp add: bindM_def gs.R_refl)
  next
    case (Inr x)
    with m have "get_param (xr_string (xr H)) H ps key = Some x" by (auto elim: arg_sE)
    moreover from this assms(1) have "quote_free x" by (auto simp: plain_params_def)
    ultimately have "spares H ps y (f x)" by (rule assms(2))
    with m s1 h Inr show ?thesis by (simp add: bindM_def spares_def)
  qed
qed

lemma spares_need_xid:
  assumes "get_param (xr_string (xr H)) H ps ''name'' = Some g"
    and "\<And>xid. stays (work_on (s32 xid) y) (f xid)"
  shows "spares H ps y (bindM (need_xid H g) f)"
  unfolding spares_def
proof (intro allI impI)
  fix s
  assume h: "host_ok H" and w: "st_wf s" and o: "other_name H ps y s"
  obtain r s1 where m: "need_xid H g s = (r, s1)" by fastforce
  then have c: "conn s1 = conn s" using reads_conn [OF need_xid_reads m] by simp
  show "guest_same y s (snd (bindM (need_xid H g) f s))"
  proof (cases r)
    case (Inl e)
    with m c gs.R_refl [of y s1] show ?thesis by (simp add: bindM_def guest_same_conn [of s1 s])
  next
    case (Inr xid)
    note x = need_xid_Inr [OF m [unfolded Inr] h st_wf_db [OF w]]
    from x(1,4) o assms(1) have "s32 xid \<noteq> y" by (auto simp: other_name_def)
    with assms(2) [of xid] have "guest_same y s1 (snd (f xid s1))" by (simp add: stays_def work_on_def)
    with m c Inr show ?thesis by (simp add: bindM_def guest_same_conn [of s1 s])
  qed
qed

definition keeps_others :: "'k host \<Rightarrow> xval \<Rightarrow> ('k, 'a) handler \<Rightarrow> bool" where
  "keeps_others H p m \<longleftrightarrow> (\<forall>y s. host_ok H \<longrightarrow> plain_request H p False \<longrightarrow> st_wf s
     \<longrightarrow> (\<forall>g. req_s H p False ''name'' = Some g \<longrightarrow> name_xid (db s) g \<noteq> Some y)
     \<longrightarrow> guest_same y s (snd (m s)))"

lemma init_keeps:
  assumes "\<And>ps y. plain_params H ps \<Longrightarrow> spares H ps y (f ps)"
  shows "keeps_others H p (bindM (method_init H p False caps flags) f)"
  unfolding keeps_others_def
proof (intro allI impI)
  fix y and s :: "'a st"
  assume h: "host_ok H" and p: "plain_request H p False" and s: "st_wf s"
    and o': "\<forall>g. req_s H p False ''name'' = Some g \<longrightarrow> name_xid (db s) g \<noteq> Some y"
  obtain r s1 where i: "method_init H p False caps flags s = (r, s1)" by fastforce
  note w = method_init_wf [OF i h s]
  have g: "guest_same y s s1" by (rule touches_guest [OF w(1)]) (simp add: config_tables_def)
  show "guest_same y s (snd (bindM (method_init H p False caps flags) f s))"
  proof (cases r)
    case (Inl e)
    with i g show ?thesis by (simp add: bindM_def)
  next
    case (Inr ps)
    with i method_init_params have ps: "req_params H p False = Some ps" by blast
    with assms p have "spares H ps y (f ps)" by (simp add: plain_request_def)
    moreover have "other_name H ps y s1"
      using o' ps name_xid_cong [OF touches_rows [OF w(1)]] by (simp add: other_name_def req_s_def)
    ultimately have "guest_same y s1 (snd (f ps s1))" using h w(2) by (simp add: spares_def)
    with g i Inr show ?thesis by (simp add: bindM_def) (metis gs.R_trans)
  qed
qed

lemmas spares_rules = spares_arg spares_need_xid spares_read sc.stays_rules reads_intros exec_nil_work
  wo.stays_rules reads_intros [THEN same_conn_work]

lemmas work_stmts = plain_stmts config_tables_def

named_theorems others_intros \<open>methods on one guest\<close>

lemma set_others [others_intros]:
  "keeps_others H p (m_vxdb_dx_limit_set H p False)"
  "keeps_others H p (m_vxdb_init_set H p False)"
  "keeps_others H p (m_vxdb_mount_set H p False)"
  "keeps_others H p (m_vxdb_nx_addr_set H p False)"
  "keeps_others H p (m_vxdb_nx_broadcast_set H p False)"
  "keeps_others H p (m_vxdb_vx_bcaps_add H p False)"
  "keeps_others H p (m_vxdb_vx_ccaps_add H p False)"
  "keeps_others H p (m_vxdb_vx_cpuset_set H p False)"
  "keeps_others H p (m_vxdb_vx_flags_add H p False)"
  "keeps_others H p (m_vxdb_vx_limit_set H p False)"
  "keeps_others H p (m_vxdb_vx_sched_set H p False)"
  "keeps_others H p (m_vxdb_vx_uname_set H p False)"
  unfolding m_vxdb_dx_limit_set_def m_vxdb_init_set_def m_vxdb_mount_set_def m_vxdb_nx_addr_set_def
    m_vxdb_nx_broadcast_set_def m_vxdb_vx_bcaps_add_def m_vxdb_vx_ccaps_add_def m_vxdb_vx_cpuset_set_def
    m_vxdb_vx_flags_add_def m_vxdb_vx_limit_set_def m_vxdb_vx_sched_set_def m_vxdb_vx_uname_set_def Let_def
  by (rule init_keeps, intro spares_rules, (simp_all add: work_stmts)?)+

lemma remove_others [others_intros]:
  "keeps_others H p (m_vxdb_dx_limit_remove H p False)"
  "keeps_others H p (m_vxdb_mount_remove H p False)"
  "keeps_others H p (m_vxdb_nx_addr_remove H p False)"
  "keeps_others H p (m_vxdb_nx_broadcast_remove H p False)"
  "keeps_others H p (m_vxdb_vx_bcaps_remove H p False)"
  "keeps_others H p (m_vxdb_vx_ccaps_remove H p False)"
  "keeps_others H p (m_vxdb_vx_cpuset_remove H p False)"
  "keeps_others H p (m_vxdb_vx_flags_remove H p False)"
  "keeps_others H p (m_vxdb_vx_limit_remove H p False)"
  "keeps_others H p (m_vxdb_vx_sched_remove H p False)"
  "keeps_others H p (m_vxdb_vx_uname_remove H p False)"
  "keeps_others H p (m_vx_remove H p False)"
  "keeps_others H p (m_vx_rename H p False)"
  unfolding m_vxdb_dx_limit_remove_def m_vxdb_mount_remove_def m_vxdb_nx_addr_remove_def
    m_vxdb_nx_broadcast_remove_def m_vxdb_vx_bcaps_remove_def m_vxdb_vx_ccaps_remove_def
    m_vxdb_vx_cpuset_remove_def m_vxdb_vx_flags_remove_def m_vxdb_vx_limit_remove_def
    m_vxdb_vx_sched_remove_def m_vxdb_vx_uname_remove_def m_vx_remove_def m_vx_rename_def Let_def
  by (rule init_keeps, intro spares_rules, (simp_all add: work_stmts vx_remove_stmts_def vx_remove_tables_def)?)+

section \<open>Who can change the configuration of a guest\<close>

text \<open>The methods that write a table of the configuration: they work on one guest and are for its owners.\<close>

definition config_writers :: "string list" where
  "config_writers =
     [''vx.remove'', ''vx.rename'', ''vxdb.dx.limit.remove'', ''vxdb.dx.limit.set'', ''vxdb.init.set'',
      ''vxdb.mount.remove'', ''vxdb.mount.set'', ''vxdb.nx.addr.remove'', ''vxdb.nx.addr.set'',
      ''vxdb.nx.broadcast.remove'', ''vxdb.nx.broadcast.set'', ''vxdb.vx.bcaps.add'', ''vxdb.vx.bcaps.remove'',
      ''vxdb.vx.ccaps.add'', ''vxdb.vx.ccaps.remove'', ''vxdb.vx.cpuset.remove'', ''vxdb.vx.cpuset.set'',
      ''vxdb.vx.flags.add'', ''vxdb.vx.flags.remove'', ''vxdb.vx.limit.remove'', ''vxdb.vx.limit.set'',
      ''vxdb.vx.sched.remove'', ''vxdb.vx.sched.set'', ''vxdb.vx.uname.remove'', ''vxdb.vx.uname.set'']"

lemma config_written:
  "list_all (\<lambda>(n, ts). list_ex (\<lambda>t. t \<in> set config_tables) ts \<longrightarrow> n = ''vx.create'' \<or> n \<in> set config_writers)
     method_writes"
  by code_simp

lemma config_policy:
  "list_all (\<lambda>(n, caps, flags). n \<in> set config_writers \<longrightarrow> flags = owner_lock) policy"
  by code_simp

lemma registry_others:
  "(n, m) \<in> set method_registry \<Longrightarrow> n \<in> set config_writers \<Longrightarrow> keeps_others H p (m H p False)"
proof -
  have "list_all (\<lambda>(n, m). n \<in> set config_writers \<longrightarrow> (\<forall>H p. keeps_others H p (m H p False))) method_registry"
    by (simp add: method_registry_def config_writers_def) (simp add: others_intros)
  then show "(n, m) \<in> set method_registry \<Longrightarrow> n \<in> set config_writers \<Longrightarrow> keeps_others H p (m H p False)"
    by (fastforce simp: list_all_iff)
qed

section \<open>Building a guest\<close>

lemma guest_same_frame: "frame (guest_same y)"
  using gs.step_relation_axioms by (auto simp: frame_def same_conn_def guest_same_def)

lemma init_guest_same: "stays (guest_same y) (method_init H p c caps flags)"
  by (rule staysI, rule touches_guest [OF staysD [OF method_init_touches surjective_pairing]])
    (simp add: config_tables_def)

lemma entries_on:
  assumes "list_all (setting_stmt xid) ss"
  shows "list_all (stmt_on (s32 xid)) (entries_of xid name vdir ss)"
proof -
  have "stmt_on (s32 xid) st" if "setting_stmt xid st" for st
    using that by (cases st) (auto simp: setting_stmt_def)
  with assms show ?thesis by (auto simp: entries_of_def list_all_iff xid_lit_def)
qed

text \<open>
  The rows of a guest that is there change only when the request names it, or when its context id is
  given to the new guest because the engine failed on the lookup of its name.
\<close>

definition id_mistaken :: "'k host \<Rightarrow> xval \<Rightarrow> 'k st \<Rightarrow> xid_t \<Rightarrow> bool" where
  "id_mistaken H p s y \<longleftrightarrow> (\<exists>u. create_choice H p s = (Inr y, u) \<and> unanswered H (name_query y) u)"

lemma create_isolation:
  assumes "host_ok H" and "st_wf s" and "create_texts H p s"
    and "name_xid (db s) n = Some y" and "\<not> guest_same y s (snd (m_vx_create H p False s))"
  shows "req_s H p False ''name'' = Some n \<and> entitled H p n s \<or> id_mistaken H p s y"
proof (rule ccontr)
  assume no: "\<not> (req_s H p False ''name'' = Some n \<and> entitled H p n s \<or> id_mistaken H p s y)"
  have "guest_same y s (snd (m_vx_create H p False s))"
  proof (rule create_leads [OF guest_same_frame init_guest_same assms(1,3)])
    fix name xid vdir u ss
    assume "req_s H p False ''name'' = Some name"
      and e: "st_wf s \<longrightarrow> entitled H p name s \<and> chosen_id H (db s) name xid u"
      and ch: "create_choice H p s = (Inr xid, u)" and ss: "list_all (setting_stmt xid) ss"
      and t: "sql_text name" "sql_text vdir"
    with no assms(2) have "name \<noteq> n" by blast
    have "s32 xid \<noteq> y"
    proof
      assume "s32 xid = y"
      with e assms(2) have "xid = y" by (simp add: chosen_id_def)
      with e assms(2,4) \<open>name \<noteq> n\<close> have "unanswered H (name_query y) u" by (auto simp: chosen_id_def)
      with ch \<open>xid = y\<close> no show False unfolding id_mistaken_def by blast
    qed
    moreover have "stays (work_on (s32 xid) y) (vxdb_exec H (entries_of xid name vdir ss))"
      by (rule vxdb_exec_work [OF entries_text(1) [OF ss t] entries_on [OF ss]])
    ultimately show "stays (guest_same y) (vxdb_exec H (entries_of xid name vdir ss))"
      by (simp add: stays_def work_on_def)
  qed
  with assms(5) show False ..
qed

lemma permitted_entitled:
  assumes "permitted H p caps owner_lock s" and "req_s H p False ''name'' = Some n"
  shows "entitled H p n s"
  using assms
  by (auto simp: permitted_def has_rights_def entitled_def req_s_def req_params_def owner_lock_def M_OWNER_def M_LOCK_def elim!: arg_sE)

text \<open>
  C4.  A guest is configured by its owners: when a request, of any method, changes a row of a guest in any
  table of its configuration, then it comes from a user with the password of its row and the capability
  the method asks for, names this guest, and the user is an administrator or has an owner row for it.  The
  one exception is a \<^verbatim>\<open>vx.create\<close> that gave the id of this guest to a new one because the engine
  failed on the lookup of its name.  The texts that get into statements are plain: no quote is in those of
  the request, or, for \<^verbatim>\<open>vx.create\<close>, no quote and no percent sign in the directory it names, the
  directories of the database and the configuration of the template, and no quote in a password that begins
  with \<^verbatim>\<open>WHIRLPOOLENC//\<close>.
\<close>

theorem guest_isolation:
  assumes "dispatch H name p s = (r, s')" and "name_xid (db s) n = Some y"
    and "t \<in> set config_tables" and "guest_rows (db s') t y \<noteq> guest_rows (db s) t y"
    and "host_ok H" and "st_wf s" and "plain_texts H name p s" and "plain_password H p s"
  shows "(\<exists>caps flags. map_of policy name = Some (caps, flags) \<and> permitted H p caps flags s)
    \<and> (req_s H p False ''name'' = Some n \<and> entitled H p n s
      \<or> name = ''vx.create'' \<and> (\<exists>u. create_choice H p s = (Inr y, u) \<and> unanswered H (name_query y) u))"
proof -
  have t: "rows (db s') t \<noteq> rows (db s) t" using assms(4) by (auto simp: guest_rows_def)
  have "t \<noteq> T_vcd" using assms(3) by (auto simp: config_tables_def)
  from writer_permitted [OF assms(1) t this assms(5-8)] obtain ts caps flags where
    ts: "map_of method_writes name = Some ts" "t \<in> set ts"
    and z: "map_of policy name = Some (caps, flags)" "permitted H p caps flags s" .
  from ts assms(3) have w: "name = ''vx.create'' \<or> name \<in> set config_writers"
    using config_written by (fastforce simp: list_all_iff list_ex_iff dest: map_of_SomeD)
  have diff: "\<not> guest_same y s s'" using assms(3,4,6) by (auto simp: guest_same_def st_wf_def)
  have "req_s H p False ''name'' = Some n \<and> entitled H p n s \<or> name = ''vx.create'' \<and> id_mistaken H p s y"
  proof (cases "name = ''vx.create''")
    case True
    with assms(1) create_registered [where 'k = 'a] have "s' = snd (m_vx_create H p False s)" by (simp add: dispatch_def)
    with create_isolation [OF assms(5,6) _ assms(2)] diff assms(7) True show ?thesis by (simp add: plain_texts_def)
  next
    case False
    with w have w: "name \<in> set config_writers" by simp
    with z(1) have o': "flags = owner_lock"
      using config_policy by (fastforce simp: list_all_iff dest: map_of_SomeD)
    from z(1) obtain m where m: "map_of (method_registry :: 'a methods) name = Some m"
      by (metis option.distinct(1) option.exhaust registry_known)
    have "keeps_others H p (dispatch H name p)"
      using registry_others [OF map_of_SomeD [OF m] w] m by (simp add: dispatch_def)
    moreover have "plain_request H p False" using assms(7) False by (simp add: plain_texts_def)
    ultimately obtain g where g: "req_s H p False ''name'' = Some g" "name_xid (db s) g = Some y"
      using assms(1,5,6) diff unfolding keeps_others_def by (metis snd_conv)
    have "g = n" using name_xid_inj [OF assms(6) g(2) assms(2)] .
    with g z(2) o' permitted_entitled show ?thesis by blast
  qed
  with z show ?thesis unfolding id_mistaken_def by blast
qed

section \<open>Witness\<close>

theorem guest_isolation_witness:
  "entitled ref_host (ref_request ''admin'' ''secret12'' [(''name'', XStr ''guest1'')]) ''guest1'' (ref_state ref_db [])"
proof -
  let ?ps = "[(''name'', XStr ''guest1'')]"
  let ?p = "ref_request ''admin'' ''secret12'' ?ps" and ?s = "ref_state ref_db []"
  let ?r = "dispatch ref_host ''vxdb.vx.cpuset.remove'' ?p ?s"
  have "?r = m_vxdb_vx_cpuset_remove ref_host ?p False ?s" by (simp add: dispatch_def method_registry_def)
  moreover have "length (guest_rows (db (snd (m_vxdb_vx_cpuset_remove ref_host ?p False ?s))) T_vx_cpuset 2)
      \<noteq> length (guest_rows (db ?s) T_vx_cpuset 2)" by code_simp
  ultimately have more: "guest_rows (db (snd ?r)) T_vx_cpuset 2 \<noteq> guest_rows (db ?s) T_vx_cpuset 2" by metis
  have "req_params ref_host ?p False = Some (XStruct ?ps)" by (simp add: req_params_def ref_request_def ref_sel)
  then have "plain_texts ref_host ''vxdb.vx.cpuset.remove'' ?p ?s"
    by (auto simp: plain_texts_def plain_request_def plain_params_def get_param_def ref_sel quote_free_def split: if_splits)
  moreover have "plain_password ref_host ?p ?s"
    by (auto simp: plain_password_def ref_request_def ref_sel arg_s_def decompose_def prog_simps altered_query_def enc_prefix_def)
  moreover have "T_vx_cpuset \<in> set config_tables" by (simp add: config_tables_def)
  moreover have "name_xid (db ?s) ''guest1'' = Some 2"
    unfolding name_xid_row [OF ref_st_wf] by (simp add: ref_state_def ref_db_def)
  ultimately show ?thesis
    using guest_isolation [of ref_host "''vxdb.vx.cpuset.remove''" ?p ?s "fst ?r" "snd ?r" "''guest1''" 2 T_vx_cpuset] more
      ref_host_ok ref_st_wf by auto
qed

end
