(* ===== verification/Daemon.thy ===== *)
theory Daemon
  imports Registry
begin

text \<open>
  The daemon around the methods: its configuration (\<^verbatim>\<open>cfg.c\<close>), opening and closing the
  database (\<^verbatim>\<open>vxdb_init\<close>, \<^verbatim>\<open>vxdb_atexit\<close>), the start, the signals and the
  reloading (\<^verbatim>\<open>main.c\<close>), and the sequences of states a running daemon goes through.

  The database file is the one in the configured data directory, which is the same in every
  configuration loaded.  Logging has no counterpart.
\<close>

section \<open>Configuration\<close>

text \<open>\<open>None\<close> is the return value -1, with which the parser refuses the file.\<close>

definition cfg_validate_host :: "lucid \<Rightarrow> string \<Rightarrow> string option" where
  "cfg_validate_host L v = (if fst (addr_from_str L v) < 1 then None else Some v)"

definition cfg_validate_port :: "lucid \<Rightarrow> string \<Rightarrow> int option" where
  "cfg_validate_port L v =
     (case sscanf_d L v of
        None \<Rightarrow> None
      | Some port \<Rightarrow> if port < 1 \<or> port > 65536 then None else Some port)"

definition cfg_validate_timeout :: "lucid \<Rightarrow> string \<Rightarrow> int option" where
  "cfg_validate_timeout L v =
     (case sscanf_d L v of
        None \<Rightarrow> None
      | Some timeout \<Rightarrow> if timeout < 1 \<or> timeout > 3600 then None else Some timeout)"

definition cfg_validate_dir :: "'k host \<Rightarrow> string \<Rightarrow> string \<Rightarrow> ('k, string option) handler" where
  "cfg_validate_dir H opt v =
     (if \<not> str_path_isabs (lib H) v then ret None
      else
        bindM (sysM (lstat_isdir (kern H) v)) (\<lambda>r.
        case r of
          Inl ENOENT \<Rightarrow>
            bindM (sysM (act (kern H) (Mkdirp v 493))) (\<lambda>m.
            case m of Inl _ \<Rightarrow> raise (Die (''mkdirp('' @ v @ '')'')) | Inr _ \<Rightarrow> ret (Some v))
        | Inl _ \<Rightarrow> raise (Die (''lstat('' @ v @ '')''))
        | Inr dir \<Rightarrow>
            if dir then ret (Some v)
            else raise (Die (opt @ ''('' @ v @ '') exists, but is not a directory''))))"

definition cfg_load :: "'k host \<Rightarrow> string \<Rightarrow> ('k, unit) handler" where
  "cfg_load H cfg_file =
     bindM (getsM os) (\<lambda>k.
     case cfg_parse_rc (kern H) cfg_file k of
       RC_FILE_ERROR \<Rightarrow> raise (Die (''cfg_parse('' @ cfg_file @ '')''))
     | RC_PARSE_ERROR \<Rightarrow> raise (Die (''cfg_parse('' @ cfg_file @ ''): parse error''))
     | RC_SUCCESS \<Rightarrow> ret ())"

section \<open>Opening and closing the database\<close>

text \<open>The flag says whether the pointer \<^verbatim>\<open>vxdb\<close> is set.\<close>

definition vxdb_atexit :: "'k host \<Rightarrow> bool \<Rightarrow> ('k, unit) handler" where
  "vxdb_atexit H opened s =
     (if \<not> opened then (Inr (), s)
      else case sq_close (sql H) (os s) of (busy, k1) \<Rightarrow>
        case (if busy then sq_close (sql H) k1 else (False, k1)) of (_, k2) \<Rightarrow>
          (Inr (), s\<lparr>conn := close_conn (conn s), os := k2\<rparr>))"

definition open_vxdb :: "'k host \<Rightarrow> string option \<Rightarrow> ('k, bool) handler" where
  "open_vxdb H file s = (case sq_open (sql H) file (os s) of (ok, k) \<Rightarrow> (Inr ok, s\<lparr>os := k\<rparr>))"

definition vxdb_init :: "'k host \<Rightarrow> bool \<Rightarrow> ('k, unit) handler" where
  "vxdb_init H opened =
     bindM (if opened then vxdb_atexit H True else ret ()) (\<lambda>_.
     bindM (open_vxdb H (str_path_concat (lib H) (cfg_getstr H ''datadir'') ''vxdb'')) (\<lambda>ok.
     bindM (unlessM ok (Die ''vxdb_init'')) (\<lambda>_.
     vxdb_sanity_check H)))"

section \<open>Start, signals and reloading\<close>

definition init_stats :: "'k host \<Rightarrow> ('k, unit) handler" where
  "init_stats H =
     bindM (getsM os) (\<lambda>k.
     bindM (vxdb_exec H [Insert True T_vcd [(C_uptime, SInt (s32 (time_now (kern H) k))), (C_requests, SInt 0),
       (C_flogins, SInt 0), (C_nomethod, SInt 0), (C_vxdbqueries, SInt 0)]]) (\<lambda>_. ret ()))"

definition init_listen_socket :: "'k host \<Rightarrow> ('k, unit) handler" where
  "init_listen_socket H =
     (let port = cfg_getint H ''port''; hst = cfg_getstr H ''host'' in
      bindM (sysM (act (kern H) (Tcp_listen hst port 20))) (\<lambda>r.
      case r of Inl _ \<Rightarrow> raise (Die ''tcp_listen'') | Inr _ \<Rightarrow> ret ()))"

definition shutdown_listen_socket :: "'k host \<Rightarrow> int \<Rightarrow> ('k, unit) handler" where
  "shutdown_listen_socket H masterpid =
     bindM (getsM os) (\<lambda>k.
     if getpid (kern H) k \<noteq> masterpid then ret ()
     else
       bindM (sysM (act (kern H) Close_listen)) (\<lambda>_.
       bindM (sysM (act (kern H) Wait_pending)) (\<lambda>_. ret ())))"

definition open_log :: "'k host \<Rightarrow> ('k, unit) handler" where
  "open_log H =
     (if cfg_isset H ''logfile'' \<and> \<not> str_isempty (lib H) (Some (cfg_getstr H ''logfile''))
      then bindM (sysM (act (kern H) (Open_append (cfg_getstr H ''logfile'')))) (\<lambda>_. ret ())
      else ret ())"

text \<open>Reloading, up to the point where the server waits for requests again.\<close>

definition reload :: "'k host \<Rightarrow> string \<Rightarrow> int \<Rightarrow> ('k, unit) handler" where
  "reload H cfg_file masterpid =
     bindM (cfg_load H cfg_file) (\<lambda>_.
     bindM (open_log H) (\<lambda>_.
     bindM (shutdown_listen_socket H masterpid) (\<lambda>_.
     bindM (vxdb_atexit H True) (\<lambda>_.
     bindM (vxdb_init H False) (\<lambda>_.
     bindM (init_stats H) (\<lambda>_.
     init_listen_socket H))))))"

datatype signal = SIGHUP | SIGINT | SIGTERM | SIGQUIT | SIGSEGV

definition signal_handler :: "'k host \<Rightarrow> string \<Rightarrow> int \<Rightarrow> signal \<Rightarrow> ('k, unit) handler" where
  "signal_handler H cfg_file masterpid sig =
     bindM (getsM os) (\<lambda>k.
     let child = (getpid (kern H) k \<noteq> masterpid) in
     case sig of
       SIGHUP \<Rightarrow> if child then raise (Exit 1) else reload H cfg_file masterpid
     | SIGINT \<Rightarrow> if child then ret () else raise (Exit 0)
     | SIGTERM \<Rightarrow> if child then ret () else raise (Exit 0)
     | SIGQUIT \<Rightarrow> if child then ret () else raise (Exit 0)
     | SIGSEGV \<Rightarrow> raise (Exit 1))"

text \<open>
  The options \<^verbatim>\<open>getopt(argc, argv, "bc:d")\<close> returns one after the other, with their
  arguments: whether to run in the background, whether to debug, and the configuration file;
  \<open>None\<close> is the usage message.
\<close>

fun vcd_options :: "(char \<times> string) list \<Rightarrow> bool \<times> bool \<times> string \<Rightarrow> (bool \<times> bool \<times> string) option" where
  "vcd_options [] acc = Some acc"
| "vcd_options ((ch, arg) # opts) (background, debug, file) =
     (if ch = CHR ''b'' then vcd_options opts (if debug then background else True, debug, file)
      else if ch = CHR ''c'' then vcd_options opts (background, debug, arg)
      else if ch = CHR ''d'' then vcd_options opts (False, True, file)
      else None)"

definition install_signals :: "'k host \<Rightarrow> ('k, unit) handler" where
  "install_signals H =
     forM [''SIGHUP'', ''SIGINT'', ''SIGQUIT'', ''SIGSEGV'', ''SIGTERM''] (\<lambda>sig.
       bindM (sysM (act (kern H) (Sigaction sig))) (\<lambda>r.
       case r of Inl _ \<Rightarrow> raise (Die ''sigaction'') | Inr _ \<Rightarrow> ret ()))"

definition daemonize :: "'k host \<Rightarrow> bool \<Rightarrow> ('k, unit) handler" where
  "daemonize H background =
     bindM (if background then
              bindM (sysM (fork_child (kern H))) (\<lambda>r.
              case r of
                Inl _ \<Rightarrow> raise (Die ''fork'')
              | Inr child \<Rightarrow>
                  if \<not> child then raise (Exit 0)
                  else
                    bindM (sysM (act (kern H) (Close 1))) (\<lambda>_.
                    bindM (sysM (act (kern H) (Close 2))) (\<lambda>_. ret ())))
            else ret ()) (\<lambda>_.
     bindM (sysM (act (kern H) (Close 0))) (\<lambda>_.
     bindM (sysM (act (kern H) (Umask 0))) (\<lambda>_.
     bindM (sysM (act (kern H) Setsid)) (\<lambda>_.
     bindM (sysM (act (kern H) (Chdir ''/''))) (\<lambda>_. ret ())))))"

definition write_pidfile :: "'k host \<Rightarrow> int \<Rightarrow> ('k, unit) handler" where
  "write_pidfile H masterpid =
     (if cfg_isset H ''pidfile'' then
        (let pidfile = cfg_getstr H ''pidfile'' in
         bindM (sysM (act (kern H) (Open_trunc pidfile))) (\<lambda>r.
         case r of
           Inl _ \<Rightarrow> ret ()
         | Inr _ \<Rightarrow> bindM (sysM (act (kern H) (Write pidfile (dec masterpid @ [CHR 0x0A])))) (\<lambda>_. ret ())))
      else ret ())"

text \<open>\<^verbatim>\<open>main\<close>, up to the point where the server waits for requests; the answer is the process id
  of the master.  The last argument says that words follow the options.\<close>

definition vcd_main :: "'k host \<Rightarrow> string \<Rightarrow> (char \<times> string) list \<Rightarrow> bool \<Rightarrow> ('k, int) handler" where
  "vcd_main H default_file opts extra =
     bindM (install_signals H) (\<lambda>_.
     case vcd_options opts (False, False, default_file) of
       None \<Rightarrow> raise (Exit 1)
     | Some (background, debug, cfg_file) \<Rightarrow>
         bindM (unlessM (\<not> extra) (Exit 1)) (\<lambda>_.
         bindM (cfg_load H cfg_file) (\<lambda>_.
         bindM (open_log H) (\<lambda>_.
         bindM (daemonize H background) (\<lambda>_.
         bindM (getsM os) (\<lambda>k.
         let masterpid = getpid (kern H) k in
         bindM (write_pidfile H masterpid) (\<lambda>_.
         bindM (vxdb_init H False) (\<lambda>_.
         bindM (init_stats H) (\<lambda>_.
         bindM (init_listen_socket H) (\<lambda>_. ret masterpid))))))))))"

text \<open>
  The states a daemon goes through once it waits for requests: requests, each served by a new
  process that holds no lock, signals after which the master goes on, and changes of the system in
  between.  \<open>ok\<close> says which requests arrive in which state.
\<close>

inductive serves ::
    "'k host \<Rightarrow> string \<Rightarrow> int \<Rightarrow> (string \<Rightarrow> xval \<Rightarrow> 'k st \<Rightarrow> bool) \<Rightarrow> 'k st \<Rightarrow> 'k st \<Rightarrow> bool" for H conf pid ok s where
  idle: "serves H conf pid ok s s"
| request: "serves H conf pid ok s t \<Longrightarrow> ok name p t \<Longrightarrow> dispatch H name p (t\<lparr>lockfd := -1\<rparr>) = (r, u)
    \<Longrightarrow> serves H conf pid ok s u"
| signalled: "serves H conf pid ok s t \<Longrightarrow> signal_handler H conf pid sig t = (Inr (), u) \<Longrightarrow> serves H conf pid ok s u"
| system: "serves H conf pid ok s t \<Longrightarrow> serves H conf pid ok s (t\<lparr>os := k\<rparr>)"

section \<open>The rows respect the unique indexes\<close>

lemma vxdb_atexit_keeps [inv_intros]: "stays keeps_inv (vxdb_atexit H opened)"
  by (auto simp: stays_def vxdb_atexit_def keeps_inv_def close_conn_inv split: prod.splits)

lemma open_vxdb_reads [reads_intros]: "stays same_conn (open_vxdb H file)"
  by (auto simp: stays_def open_vxdb_def same_conn_def split: prod.splits)

lemma init_stats_keeps [inv_intros]: "sqlite_ok (sql H) \<Longrightarrow> stays keeps_inv (init_stats H)"
  unfolding init_stats_def by (intro ki.stays_rules vxdb_exec_keeps reads_intros [THEN same_conn_keeps])

lemma vxdb_sanity_check_keeps [inv_intros]: "sqlite_ok (sql H) \<Longrightarrow> stays keeps_inv (vxdb_sanity_check H)"
  unfolding vxdb_sanity_check_def vxdb_check_version_def
    vxdb_sanity_check_table_def vxdb_create_table_def vxdb_sanity_check_unique_def vxdb_create_index_def
    vxdb_ensure_user_def vxdb_create_user_def
  by (intro ki.stays_rules vxdb_exec_keeps reads_intros [THEN same_conn_keeps])

lemma vxdb_init_keeps [inv_intros]: "sqlite_ok (sql H) \<Longrightarrow> stays keeps_inv (vxdb_init H opened)"
  unfolding vxdb_init_def by (intro ki.stays_rules inv_intros reads_intros [THEN same_conn_keeps])

lemma cfg_load_reads [reads_intros]: "stays same_conn (cfg_load H file)"
  unfolding cfg_load_def by (auto intro!: sc.stays_rules reads_intros split: cfg_rc.split)

lemma daemon_reads [reads_intros]:
  "stays same_conn (open_log H)" "stays same_conn (shutdown_listen_socket H pid)"
  "stays same_conn (init_listen_socket H)" "stays same_conn (install_signals H)"
  "stays same_conn (daemonize H background)" "stays same_conn (write_pidfile H pid)"
  unfolding open_log_def shutdown_listen_socket_def init_listen_socket_def install_signals_def daemonize_def
    write_pidfile_def Let_def
  by (intro sc.stays_rules reads_intros)+

lemma reload_keeps [inv_intros]: "sqlite_ok (sql H) \<Longrightarrow> stays keeps_inv (reload H file pid)"
  unfolding reload_def by (intro ki.stays_rules inv_intros reads_intros [THEN same_conn_keeps])

lemma signal_handler_keeps [inv_intros]: "sqlite_ok (sql H) \<Longrightarrow> stays keeps_inv (signal_handler H file pid sig)"
  unfolding signal_handler_def Let_def
  by (cases sig) (auto intro!: ki.stays_rules inv_intros reads_intros [THEN same_conn_keeps])

lemma vcd_main_keeps: "sqlite_ok (sql H) \<Longrightarrow> stays keeps_inv (vcd_main H file opts extra)"
  unfolding vcd_main_def Let_def by (intro ki.stays_rules inv_intros reads_intros [THEN same_conn_keeps])

lemma serves_inv:
  assumes "serves H conf pid ok s t" and "sqlite_ok (sql H)" and "conn_inv (conn s)"
  shows "conn_inv (conn t)"
  using assms(1)
proof induction
  case (request t name p r u)
  from staysD [OF dispatch_keeps [OF assms(2)] request(3)] request(4) show ?case
    by (simp add: keeps_inv_def)
next
  case (signalled t sig u)
  from staysD [OF signal_handler_keeps [OF assms(2)] signalled(2)] signalled(3) show ?case
    by (simp add: keeps_inv_def)
qed (use assms(3) in simp_all)

section \<open>Every start sets up the schema\<close>

definition all_ready :: "'k st \<Rightarrow> bool" where
  "all_ready s \<longleftrightarrow> list_all (table_ready (db s)) vxdb_tables"

lemma all_ready_grows: "grows s t \<Longrightarrow> all_ready s \<Longrightarrow> all_ready t"
  by (auto simp: all_ready_def grows_def list_all_iff intro: table_ready_grows)

lemma init_stats_grows: "stays grows (init_stats H)"
  unfolding init_stats_def by (intro gr.stays_rules vxdb_exec_grows) simp

lemma vxdb_init_ready:
  assumes "vxdb_init H opened s = (Inr (), s')" and "sqlite_ok (sql H)"
  shows "all_ready s'"
proof -
  from assms(1) obtain s1 where "vxdb_sanity_check H s1 = (Inr (), s')"
    unfolding vxdb_init_def by (elim bindM_InrE) blast
  with sanity_check_guarantees(1) assms(2) show ?thesis unfolding all_ready_def by blast
qed

lemma vcd_main_ready:
  assumes "vcd_main H file opts extra s = (Inr pid, s')" and "sqlite_ok (sql H)"
  shows "all_ready s'"
proof -
  from assms(1) obtain s1 s2 s3 where v: "vxdb_init H False s1 = (Inr (), s2)"
    and i: "init_stats H s2 = (Inr (), s3)" and l: "init_listen_socket H s3 = (Inr (), s')"
    unfolding vcd_main_def Let_def
    by (auto simp: prog_simps elim!: bindM_InrE split: option.splits prod.splits)
  have "all_ready s3" by (rule all_ready_grows [OF staysD [OF init_stats_grows i] vxdb_init_ready [OF v assms(2)]])
  with reads_conn [OF daemon_reads(3) l] show ?thesis by (simp add: all_ready_def)
qed

lemma signal_handler_ready:
  assumes "signal_handler H conf pid sig s = (Inr (), s')" and "sqlite_ok (sql H)" and "all_ready s"
  shows "all_ready s'"
proof (cases "sig = SIGHUP")
  case False
  with assms(1,3) show ?thesis
    by (cases sig) (auto simp: signal_handler_def Let_def prog_simps elim!: bindM_InrE split: if_splits)
next
  case True
  with assms(1) have "reload H conf pid s = (Inr (), s')"
    by (auto simp: signal_handler_def Let_def bindM_def prog_simps split: if_splits)
  then obtain s1 s2 s3 where v: "vxdb_init H False s1 = (Inr (), s2)"
    and i: "init_stats H s2 = (Inr (), s3)" and l: "init_listen_socket H s3 = (Inr (), s')"
    unfolding reload_def by (auto elim!: bindM_InrE)
  have "all_ready s3" by (rule all_ready_grows [OF staysD [OF init_stats_grows i] vxdb_init_ready [OF v assms(2)]])
  with reads_conn [OF daemon_reads(3) l] show ?thesis by (simp add: all_ready_def)
qed

end
