(* ===== verification/Daemon_Laws.thy ===== *)
theory Daemon_Laws
  imports Daemon Frames
begin

text \<open>
  What the daemon keeps from its start on, through requests, reloads and whatever the system does in
  between: every table of the schema has its unique indexes, and its rows respect them.
\<close>

lemma plain_request_ready:
  assumes "dispatch H name p (t\<lparr>lockfd := -1\<rparr>) = (r, u)" and "plain_texts H name p t" and "host_ok H"
    and "all_ready t"
  shows "all_ready u"
proof -
  have "create_texts H p (t\<lparr>lockfd := -1\<rparr>) = create_texts H p t" by (simp add: create_texts_def)
  with assms(2) have "plain_texts H name p (t\<lparr>lockfd := -1\<rparr>)" by (simp add: plain_texts_def)
  from dispatch_written [OF assms(3) this] assms(1,4) show ?thesis
    by (simp add: all_ready_def touches_def table_ready_def list_all_iff)
qed

lemma serves_ready:
  assumes "serves H conf pid ok s t" and "\<And>name p u. ok name p u \<Longrightarrow> plain_texts H name p u"
    and "host_ok H" and "all_ready s"
  shows "all_ready t"
  using assms(1)
proof induction
  case (request t name p r u)
  from plain_request_ready [OF request(3) assms(2) [OF request(2)] assms(3) request(4)] show ?case .
next
  case (signalled t sig u)
  from signal_handler_ready [OF signalled(2) _ signalled(3)] assms(3) show ?case by (simp add: host_ok_def)
qed (use assms(4) in \<open>simp_all add: all_ready_def\<close>)

text \<open>
  C6.  From its start on, whatever the database file held before, a daemon that is sent requests with plain
  texts, however often it is told to reload and whatever happens to the system in between, has every
  table of the schema with all its unique indexes, and no two rows of a table agree on the columns of
  one: in particular a name and a context id stay in one-to-one correspondence.  Plain texts have no quote
  in them, and for \<^verbatim>\<open>vx.create\<close> no percent sign; the rows of the file respect the indexes it has.
\<close>

theorem served_indexes:
  assumes "vcd_main H file opts extra s0 = (Inr pid, s)" and "serves H conf pid (plain_texts H) s t"
    and "host_ok H" and "conn_inv (conn s0)"
    and "tab \<in> set vxdb_tables" and "ix \<in> set (tbl_unique tab)"
  shows "tbl_name tab \<in> fst ` set (schema (db t)) \<and> (tbl_name tab, ix) \<in> set (indexes (db t))
    \<and> sorted_wrt (\<lambda>q r. \<not> conflict ix q r) (rows (db t) (tbl_name tab))"
proof -
  have ok: "sqlite_ok (sql H)" using assms(3) by (simp add: host_ok_def)
  have "all_ready t" by (rule serves_ready [OF assms(2) _ assms(3) vcd_main_ready [OF assms(1) ok]])
  with assms(5,6) have r: "tbl_name tab \<in> fst ` set (schema (db t))" "(tbl_name tab, ix) \<in> set (indexes (db t))"
    by (auto simp: all_ready_def table_ready_def list_all_iff)
  have "conn_inv (conn s)"
    using staysD [OF vcd_main_keeps [OF ok] assms(1)] assms(4) by (simp add: keeps_inv_def)
  with assms(2) ok have "conn_inv (conn t)" by (rule serves_inv)
  then have "uniq_rows ix (rows (db t) (tbl_name tab))" using r(2) by (simp add: conn_inv_def db_invD)
  with r show ?thesis by (simp add: uniq_rows_def)
qed

section \<open>Witness\<close>

theorem served_indexes_witness:
  "\<exists>t. serves ref_host ''vcd.conf'' 100 (plain_texts ref_host)
       (snd (vcd_main ref_host ''vcd.conf'' [] False (ref_state empty_db []))) t
     \<and> length (rows (db t) T_user) = 2 \<and> (T_user, [C_uid]) \<in> set (indexes (db t))
     \<and> sorted_wrt (\<lambda>q r. \<not> conflict [C_uid] q r) (rows (db t) T_user)"
proof -
  let ?s = "snd (vcd_main ref_host ''vcd.conf'' [] False (ref_state empty_db []))"
  let ?t = "snd (dispatch ref_host ''no.such.method'' XNil (?s\<lparr>lockfd := -1\<rparr>))"
  have "fst (vcd_main ref_host ''vcd.conf'' [] False (ref_state empty_db [])) = Inr 100" by code_simp
  then have start: "vcd_main ref_host ''vcd.conf'' [] False (ref_state empty_db []) = (Inr 100, ?s)" by (rule run_value)
  have plain: "plain_texts ref_host ''no.such.method'' XNil ?s"
    by (simp add: plain_texts_def plain_request_def req_params_def ref_sel)
  have run: "serves ref_host ''vcd.conf'' 100 (plain_texts ref_host) ?s ?t"
    by (rule serves.request [where ok = "plain_texts ref_host", OF serves.idle plain surjective_pairing])
  have n: "length (rows (db ?t) T_user) = 2" by code_simp
  have inv: "conn_inv (conn (ref_state empty_db []))" by code_simp
  obtain tab where tab: "tab \<in> set vxdb_tables" "tbl_name tab = T_user" "[C_uid] \<in> set (tbl_unique tab)"
    by (force simp: vxdb_tables_def)
  from served_indexes [OF start run ref_host_ok inv tab(1,3)] run n tab(2) show ?thesis by auto
qed

end
