(* ===== verification/Vxpasswd.thy ===== *)
theory Vxpasswd
  imports Daemon User_Laws
begin

text \<open>
  The command \<^verbatim>\<open>vxpasswd\<close> (\<^verbatim>\<open>src/src/vxpasswd/vxpasswd.c\<close>), which sets the password of a
  user directly in the database of the daemon, and its agreement with the daemon's login.
\<close>

section \<open>The command\<close>

text \<open>
  The words after the name of the program, and the two lines \<^verbatim>\<open>read_password\<close> reads from the
  terminal when no password is given.
\<close>

definition vxpasswd_password :: "string list \<Rightarrow> string \<times> string \<Rightarrow> ('k, string) handler" where
  "vxpasswd_password given typed =
     (case given of
        password # _ \<Rightarrow> ret password
      | [] \<Rightarrow> (case typed of (password, buf) \<Rightarrow> if password = buf then ret password else raise (Exit 1)))"

definition vxpasswd_main :: "'k host \<Rightarrow> string list \<Rightarrow> string \<times> string \<Rightarrow> ('k, unit) handler" where
  "vxpasswd_main H argv typed =
     (case argv of
        vxdbfile # username # given \<Rightarrow>
          bindM (unlessM (\<not> str_isempty (lib H) (Some vxdbfile)) (Die ''invalid vxdbfile'')) (\<lambda>_.
          bindM (open_vxdb H (Some vxdbfile)) (\<lambda>ok.
          bindM (unlessM ok (Die ''could not open database'')) (\<lambda>_.
          bindM (unlessM (\<not> str_isempty (lib H) (Some username) \<and> str_isalnum (lib H) username)
            (Die (''invalid username: '' @ username))) (\<lambda>_.
          bindM (vxpasswd_password given typed) (\<lambda>password.
          bindM (unlessM (8 \<le> length password) (Die (''password too short: '' @ username))) (\<lambda>_.
          bindM (vxdb_exec H [Update T_user [(C_password, Lit (STxt (whirlpool_digest (lib H) password)))]
            [(C_name, Lit (STxt username))]]) (\<lambda>ok.
          bindM (unlessM ok (Die ''could not update the database'')) (\<lambda>_.
          bindM get_changes (\<lambda>n.
          unlessM (1 \<le> n) (Die (''no such user: '' @ username)))))))))))
      | _ \<Rightarrow> raise (Exit 1))"

section \<open>The password it sets\<close>

definition name_row :: "string \<Rightarrow> sval \<Rightarrow> row \<Rightarrow> row" where
  "name_row user v r = (if rget r C_name = STxt user then AList.update C_password v r else r)"

lemma rget_name_row:
  "rget (name_row user v r) k = (if k = C_password \<and> rget r C_name = STxt user then v else rget r k)"
  by (simp add: name_row_def)

lemma exec_update_changes:
  "exec_stmt (Update t sets w) c = Some c' \<Longrightarrow> changes c' = length (filter (matches (cur c) w) (rows (cur c) t))"
  by (auto simp: Let_def split: if_splits)

lemma vxpasswd_update:
  assumes "vxpasswd_main H argv typed s = (Inr (), s')" and "lucid_ok (lib H)"
  obtains vxdbfile user given password where "argv = vxdbfile # user # given"
    and "password = (case given of [] \<Rightarrow> fst typed | p # _ \<Rightarrow> p)" and "8 \<le> length password"
    and "rows (db s') T_user
      = map (name_row user (STxt (whirlpool_digest (lib H) password))) (rows (db s) T_user)"
    and "touches {T_user} s s'" and "\<exists>q \<in> set (rows (db s) T_user). rget q C_name = STxt user"
proof -
  let ?upd = "\<lambda>user pw. Update T_user [(C_password, Lit (STxt (whirlpool_digest (lib H) pw)))] [(C_name, Lit (STxt user))]"
  from assms(1) obtain vxdbfile user given password s1 s2 where
    a: "argv = vxdbfile # user # given" and o: "open_vxdb H (Some vxdbfile) s = (Inr True, s1)"
    and u: "\<not> str_isempty (lib H) (Some user)" "str_isalnum (lib H) user"
    and p: "vxpasswd_password given typed s1 = (Inr password, s1)" "8 \<le> length password"
    and ex: "vxdb_exec H [?upd user password] s1 = (Inr True, s')" and n: "1 \<le> changes (conn s')"
    unfolding vxpasswd_main_def
    by (auto simp: prog_simps vxpasswd_password_def get_changes_def split: list.splits prod.splits if_splits
        elim!: bindM_InrE unlessM_InrE)
  have "list_all is_alnum user" "user \<noteq> []"
    using u assms(2) lucid_ok_chars(1) [OF assms(2)] lucid_ok_isempty_nonempty by auto
  then have qf: "stmt_safe (?upd user password)"
    using lucid_ok_digest [OF assms(2), of password] by (auto simp: quote_free_def list_all_iff)
  note e = vxdb_exec_one [OF ex qf]
  have c: "conn s1 = conn s" using reads_conn [OF open_vxdb_reads o] by simp
  have "rows (db s') T_user = map (name_row user (STxt (whirlpool_digest (lib H) password))) (rows (db s) T_user)"
    using exec_update [OF e(1)] c by (simp add: name_row_def update_row_Lit)
  moreover have "touches {T_user} s s'"
    using exec_stmt_within [OF e(1), of "{T_user}"] c by (auto simp: touches_def)
  moreover have "\<exists>q \<in> set (rows (db s) T_user). rget q C_name = STxt user"
    using exec_update_changes [OF e(1)] n c by (auto simp: filter_empty_conv Suc_le_eq)
  moreover have "password = (case given of [] \<Rightarrow> fst typed | p # _ \<Rightarrow> p)"
    using p by (auto simp: vxpasswd_password_def prog_simps split: list.splits prod.splits if_splits)
  ultimately show thesis using that a p(2) by blast
qed

text \<open>
  C10.  When \<^verbatim>\<open>vxpasswd\<close> ends with success, the user exists and exactly the passwords with the
  digest of the new password log in as this user; the logins of all other users, the administrators
  and everything else in the database are unchanged.
\<close>

theorem vxpasswd_login:
  assumes "vxpasswd_main H argv typed s = (Inr (), s')" and "lucid_ok (lib H)"
  shows "\<exists>vxdbfile user given. argv = vxdbfile # user # given
    \<and> (let digest = whirlpool_digest (lib H) (case given of [] \<Rightarrow> fst typed | p # _ \<Rightarrow> p) in
        \<forall>u pw. authenticated (lib H) (db s') u pw \<longleftrightarrow>
          (if u = user then whirlpool_pass (lib H) pw = digest else authenticated (lib H) (db s) u pw))
    \<and> (\<forall>u. is_admin (db s') u \<longleftrightarrow> is_admin (db s) u) \<and> touches {T_user} s s'"
  using assms
proof (rule vxpasswd_update)
  fix vxdbfile user given password
  assume a: "argv = vxdbfile # user # given" "password = (case given of [] \<Rightarrow> fst typed | p # _ \<Rightarrow> p)"
    and r: "rows (db s') T_user = map (name_row user (STxt (whirlpool_digest (lib H) password))) (rows (db s) T_user)"
    and t: "touches {T_user} s s'" and q: "\<exists>q \<in> set (rows (db s) T_user). rget q C_name = STxt user"
  have "authenticated (lib H) (db s') u pw \<longleftrightarrow>
      (if u = user then whirlpool_pass (lib H) pw = whirlpool_digest (lib H) password
       else authenticated (lib H) (db s) u pw)" for u pw
    using q by (cases "u = user") (force simp: authenticated_def r rget_name_row)+
  moreover have "is_admin (db s') u \<longleftrightarrow> is_admin (db s) u" for u
    by (auto simp: is_admin_def r rget_name_row)
  ultimately show ?thesis using a t by (intro exI [of _ vxdbfile] exI [of _ user] exI [of _ given]) (simp add: Let_def)
qed

theorem vxpasswd_login_witness:
  "\<exists>s'. vxpasswd_main ref_host [''vxdb'', ''bob'', ''newsecret''] ('''', '''') (ref_state ref_db []) = (Inr (), s')
     \<and> authenticated ref_lucid (db s') ''bob'' ''newsecret'' \<and> \<not> authenticated ref_lucid (db s') ''bob'' ''password''"
proof -
  let ?r = "vxpasswd_main ref_host [''vxdb'', ''bob'', ''newsecret''] ('''', '''') (ref_state ref_db [])"
  have "fst ?r = Inr ()"
    by (simp add: vxpasswd_main_def vxpasswd_password_def open_vxdb_def get_changes_def user_eval
        cong: bindM_weak_cong)
  note run = run_value [OF this]
  from vxpasswd_login [OF run] run show ?thesis
    by (auto simp: ref_lucid_ok whirlpool_pass_def enc_prefix_def ref_sel is_alnum_def is_digit_def is_alpha_def)
qed

end
