(* ===== verification/Rpc.thy ===== *)
theory Rpc
  imports Daemon
begin

text \<open>
  How the clients of the daemon call it.  A call of the XML-RPC client library reaches the daemon,
  which serves it in a process of its own that holds no lock yet; the client gets a fault or a
  value.  The network between them is not modelled.
\<close>

definition client_request :: "string \<Rightarrow> string \<Rightarrow> xval \<Rightarrow> xval" where
  "client_request user pass params =
     XArr [XStruct [(''username'', XStr user), (''password'', XStr pass)], params]"

definition rpc :: "'k host \<Rightarrow> string \<Rightarrow> xval \<Rightarrow> ('k, fault + xval) handler" where
  "rpc H name p s = (case dispatch H name p (s\<lparr>lockfd := -1\<rparr>) of (r, t) \<Rightarrow> (Inr r, t\<lparr>lockfd := lockfd s\<rparr>))"

text \<open>A client takes an answer apart as the daemon takes a request apart; \<open>None\<close> is a fault of the
  library.\<close>

definition answer_s :: "'k host \<Rightarrow> xval \<Rightarrow> string \<Rightarrow> string option" where
  "answer_s H v key = get_param (xr_string (xr H)) H v key"

definition answer_i :: "'k host \<Rightarrow> xval \<Rightarrow> string \<Rightarrow> int option" where
  "answer_i H v key = get_param (xr_int (xr H)) H v key"

lemma rpc_keeps [inv_intros]: "sqlite_ok (sql H) \<Longrightarrow> stays keeps_inv (rpc H name p)"
  using dispatch_keeps [of H name p]
  by (auto simp: stays_def rpc_def keeps_inv_def split: prod.splits)
    (metis (no_types, lifting) snd_conv st.select_convs(1) st.surjective st.update_convs(3))+

lemma st_wf_lockfd [simp]: "st_wf (s\<lparr>lockfd := fd\<rparr>) = st_wf s"
  by (rule st_wf_cong) simp

lemma rpcE:
  assumes "rpc H name p s = (Inr (Inr v), s')"
  obtains t where "dispatch H name p (s\<lparr>lockfd := -1\<rparr>) = (Inr v, t)" and "s' = t\<lparr>lockfd := lockfd s\<rparr>"
  using assms by (auto simp: rpc_def split: prod.splits)

text \<open>The parameters of a client's request as the daemon sees them.\<close>

lemma client_request_params:
  assumes "xmlrpc_ok (xr H)"
  shows "req_params H (client_request user pass params) False = Some params"
  using assms by (simp add: client_request_def req_params_def xmlrpc_ok_def)

end
