(* ===== verification/Vshelper.thy ===== *)
theory Vshelper
  imports Rpc User_Laws
begin

text \<open>
  The program the kernel runs when a context appears, ends or asks for something
  (\<^verbatim>\<open>src/src/vshelper/main.c\<close>).  It is a client of the daemon and acts on the same kernel.
  Its answers are exit codes, 0 for success.
\<close>

section \<open>The actions\<close>

record vshelper_cfg =
  vsh_user :: string
  vsh_pass :: string
  vsh_logfile :: "string option"
  vsh_init :: bool      \<comment> \<open>whether the XML-RPC client could be initialised\<close>

definition vsh_call :: "'k host \<Rightarrow> vshelper_cfg \<Rightarrow> string \<Rightarrow> xid_t \<Rightarrow> ('k, fault + xval) handler" where
  "vsh_call H U name xid = rpc H name (client_request (vsh_user U) (vsh_pass U) (XStruct [(''xid'', XInt (s32 xid))]))"

text \<open>The two calls at the end of \<^verbatim>\<open>vshelper_restart\<close> and \<^verbatim>\<open>vshelper_halt\<close>.\<close>

definition vsh_release :: "'k host \<Rightarrow> xid_t \<Rightarrow> ('k, int) handler" where
  "vsh_release H xid =
     bindM (sysM (nx_flags_set (kern H) xid 0 (hdr64 H [''NXF_PERSISTENT'']))) (\<lambda>r.
     case r of
       Inl _ \<Rightarrow> ret 1
     | Inr _ \<Rightarrow>
         bindM (sysM (vx_flags_set (kern H) xid (hdr64 H [''VXF_REBOOT_KILL''])
           (hdr64 H [''VXF_REBOOT_KILL'', ''VXF_PERSISTENT'']))) (\<lambda>r.
         case r of Inl _ \<Rightarrow> ret 1 | Inr _ \<Rightarrow> ret 0))"

definition vshelper_restart :: "'k host \<Rightarrow> vshelper_cfg \<Rightarrow> xid_t \<Rightarrow> ('k, int) handler" where
  "vshelper_restart H U xid =
     bindM (vsh_call H U ''helper.restart'' xid) (\<lambda>r.
     case r of Inl _ \<Rightarrow> ret 1 | Inr _ \<Rightarrow> vsh_release H xid)"

definition vshelper_halt :: "'k host \<Rightarrow> vshelper_cfg \<Rightarrow> xid_t \<Rightarrow> ('k, int) handler" where
  "vshelper_halt H U xid = vsh_release H xid"

definition vshelper_swsusp :: "'k host \<Rightarrow> vshelper_cfg \<Rightarrow> xid_t \<Rightarrow> ('k, int) handler" where
  "vshelper_swsusp H U xid = ret 1"

text \<open>
  The child that becomes the guest's init.  A failure of one of the first four calls skips the
  rest of them, and the child goes on.
\<close>

definition init_enter :: "'k host \<Rightarrow> xid_t \<Rightarrow> string \<Rightarrow> 'k \<Rightarrow> 'k" where
  "init_enter H xid vdir k =
     (case ns_enter (kern H) xid k of
        (Inl _, k1) \<Rightarrow> k1
      | (Inr _, k1) \<Rightarrow>
          (case chroot_secure_chdir (kern H) vdir ''/'' k1 of
             (Inl _, k2) \<Rightarrow> k2
           | (Inr _, k2) \<Rightarrow>
               (case chroot (kern H) ''.'' k2 of
                  (Inl _, k3) \<Rightarrow> k3
                | (Inr _, k3) \<Rightarrow> snd (nx_migrate (kern H) xid k3))))"

definition init_child :: "'k host \<Rightarrow> xid_t \<Rightarrow> string \<Rightarrow> string \<Rightarrow> 'k child" where
  "init_child H xid vdir init k =
     (case act (kern H) (Vx_migrate xid (hdr64 H [''VXM_SET_INIT'', ''VXM_SET_REAPER''])) (init_enter H xid vdir k) of
        (Inl e, k1) \<Rightarrow> (exit_errno H e, k1)
      | (Inr _, k1) \<Rightarrow>
          (case exec_replace (kern H) init k1 of
             (Inl _, k2) \<Rightarrow> (([], WExited 1), k2)
           | (Inr z, k2) \<Rightarrow> (z, k2)))"

text \<open>The flags are taken away with the mask of the other kind of context.\<close>

definition vsh_unpin :: "'k host \<Rightarrow> xid_t \<Rightarrow> ('k, unit) handler" where
  "vsh_unpin H xid =
     bindM (sysM (nx_flags_set (kern H) xid 0 (hdr64 H [''VXF_PERSISTENT'']))) (\<lambda>_.
     bindM (sysM (vx_flags_set (kern H) xid 0 (hdr64 H [''NXF_PERSISTENT'']))) (\<lambda>_.
     ret ()))"

fun vsh_poll :: "'k host \<Rightarrow> xid_t \<Rightarrow> nat \<Rightarrow> ('k, int) handler" where
  "vsh_poll H xid 0 = bindM (vsh_unpin H xid) (\<lambda>_. ret 1)"
| "vsh_poll H xid (Suc n) =
     bindM (osM (sleep1 (kern H))) (\<lambda>_.
     bindM (sysM (vx_stat (kern H) xid)) (\<lambda>r.
     case r of
       Inl _ \<Rightarrow> vsh_poll H xid n
     | Inr stat \<Rightarrow>
         if vs_tasks stat > 1 then bindM (vsh_unpin H xid) (\<lambda>_. ret 0)
         else vsh_poll H xid n))"

definition vsh_join_cpuset :: "'k host \<Rightarrow> xid_t \<Rightarrow> ('k, unit) handler" where
  "vsh_join_cpuset H xid =
     (let path = ''/dev/cpuset/xid'' @ dec (s32 xid) @ ''/tasks'' in
      bindM (getsM os) (\<lambda>k.
      if ispath (kern H) path k then
        bindM (sysM (act (kern H) (Open_append path))) (\<lambda>r.
        case r of
          Inl _ \<Rightarrow> ret ()
        | Inr _ \<Rightarrow> bindM (sysM (act (kern H) (Write path (dec (getpid (kern H) k))))) (\<lambda>_. ret ()))
      else ret ()))"

definition vsh_fastboot :: "'k host \<Rightarrow> string \<Rightarrow> ('k, unit) handler" where
  "vsh_fastboot H vdir =
     (case str_path_concat (lib H) vdir ''/fastboot'' of
        None \<Rightarrow> ret ()
      | Some fastboot \<Rightarrow> bindM (sysM (act (kern H) (Open_trunc fastboot))) (\<lambda>_. ret ()))"

definition vshelper_startup :: "'k host \<Rightarrow> vshelper_cfg \<Rightarrow> xid_t \<Rightarrow> ('k, int) handler" where
  "vshelper_startup H U xid =
     bindM (vsh_call H U ''helper.startup'' xid) (\<lambda>r.
     case r of
       Inl _ \<Rightarrow> ret 1
     | Inr response \<Rightarrow>
         (case (answer_s H response ''vdir'', answer_s H response ''init'') of
            (Some vdir, Some init) \<Rightarrow>
              bindM (vsh_fastboot H vdir) (\<lambda>_.
              bindM (vsh_join_cpuset H xid) (\<lambda>_.
              bindM (sysM (fork_run (kern H) (init_child H xid vdir init))) (\<lambda>_.
              vsh_poll H xid 15)))
          | _ \<Rightarrow> ret 1))"

definition vshelper_shutdown :: "'k host \<Rightarrow> vshelper_cfg \<Rightarrow> xid_t \<Rightarrow> ('k, int) handler" where
  "vshelper_shutdown H U xid =
     bindM (vsh_call H U ''helper.shutdown'' xid) (\<lambda>r. case r of Inl _ \<Rightarrow> ret 1 | Inr _ \<Rightarrow> ret 0)"

definition vshelper_netup :: "'k host \<Rightarrow> vshelper_cfg \<Rightarrow> xid_t \<Rightarrow> ('k, int) handler" where
  "vshelper_netup H U xid =
     bindM (vsh_call H U ''helper.netup'' xid) (\<lambda>r. case r of Inl _ \<Rightarrow> ret 1 | Inr _ \<Rightarrow> ret 0)"

definition vshelper_netdown :: "'k host \<Rightarrow> vshelper_cfg \<Rightarrow> xid_t \<Rightarrow> ('k, int) handler" where
  "vshelper_netdown H U xid = ret 0"

definition ACTIONS :: "(string \<times> ('k host \<Rightarrow> vshelper_cfg \<Rightarrow> xid_t \<Rightarrow> ('k, int) handler)) list" where
  "ACTIONS =
     [(''restart'', vshelper_restart), (''halt'', vshelper_halt), (''poweroff'', vshelper_halt),
      (''swsusp'', vshelper_swsusp), (''startup'', vshelper_startup), (''shutdown'', vshelper_shutdown),
      (''netup'', vshelper_netup), (''netdown'', vshelper_netdown)]"

definition do_vshelper ::
    "'k host \<Rightarrow> vshelper_cfg \<Rightarrow> xid_t \<Rightarrow> ('k host \<Rightarrow> vshelper_cfg \<Rightarrow> xid_t \<Rightarrow> ('k, int) handler) \<Rightarrow> ('k, int) handler" where
  "do_vshelper H U xid action = (if vsh_init U then action H U xid else ret 1)"

text \<open>The words after the name of the program; an unreadable number leaves the variable as it was.\<close>

definition vshelper_main :: "'k host \<Rightarrow> string \<Rightarrow> vshelper_cfg \<Rightarrow> string list \<Rightarrow> ('k, int) handler" where
  "vshelper_main H sysconfdir U argv =
     bindM (getsM os) (\<lambda>k.
     if cfg_parse_rc (kern H) (sysconfdir @ ''/vshelper.conf'') k \<noteq> RC_SUCCESS then raise (Exit 1)
     else
       bindM (if str_isempty (lib H) (vsh_logfile U) then ret ()
              else bindM (sysM (act (kern H) (Open_append (or_default (vsh_logfile U) '''')))) (\<lambda>_. ret ())) (\<lambda>_.
       case argv of
         [] \<Rightarrow> raise (Die ''no action specified'')
       | [_] \<Rightarrow> raise (Die ''no xid specified'')
       | action # arg # _ \<Rightarrow>
           (let xid = (case sscanf_d (lib H) arg of None \<Rightarrow> garbage H | Some i \<Rightarrow> i) in
            bindM (unlessM (\<not> (xid < 2 \<or> xid > 65535)) (Die (''invalid xid: '' @ dec xid))) (\<lambda>_.
            case map_of ACTIONS action of
              None \<Rightarrow> raise (Exit 1)
            | Some f \<Rightarrow> do_vshelper H U xid f))))"

section \<open>Starting\<close>

text \<open>What the loop of \<^verbatim>\<open>vshelper_startup\<close> sees one second after the state \<open>k\<close>, and the state then.\<close>

definition init_seen :: "'k host \<Rightarrow> xid_t \<Rightarrow> 'k \<Rightarrow> bool" where
  "init_seen H xid k = (case fst (vx_stat (kern H) xid (sleep1 (kern H) k)) of Inl _ \<Rightarrow> False | Inr st \<Rightarrow> vs_tasks st > 1)"

definition next_poll :: "'k host \<Rightarrow> xid_t \<Rightarrow> 'k \<Rightarrow> 'k" where
  "next_poll H xid k = snd (vx_stat (kern H) xid (sleep1 (kern H) k))"

lemma vsh_unpin_ret: "fst (bindM (vsh_unpin H xid) (\<lambda>_. ret x) s) = Inr x"
  by (auto simp: vsh_unpin_def bindM_def sysM_def prog_simps split: prod.splits sum.splits)

lemma vsh_poll_exit:
  "fst (vsh_poll H xid n s) = Inr (if \<exists>i<n. init_seen H xid ((next_poll H xid ^^ i) (os s)) then 0 else 1)"
proof (induction n arbitrary: s)
  case 0
  show ?case by (simp add: vsh_unpin_ret)
next
  case (Suc n)
  obtain r k where r: "vx_stat (kern H) xid (sleep1 (kern H) (os s)) = (r, k)" by force
  have split: "(\<exists>i<Suc n. init_seen H xid ((next_poll H xid ^^ i) (os s))) \<longleftrightarrow>
      init_seen H xid (os s) \<or> (\<exists>i<n. init_seen H xid ((next_poll H xid ^^ i) (next_poll H xid (os s))))"
    unfolding Ex_less_Suc2 by (simp add: funpow_swap1)
  have step: "vsh_poll H xid (Suc n) s = (if init_seen H xid (os s)
      then bindM (vsh_unpin H xid) (\<lambda>_. ret 0) (s\<lparr>os := k\<rparr>) else vsh_poll H xid n (s\<lparr>os := k\<rparr>))"
    using r by (cases r) (simp_all add: init_seen_def bindM_def osM_def sysM_def)
  have "next_poll H xid (os s) = k" using r by (simp add: next_poll_def)
  with Suc.IH [of "s\<lparr>os := k\<rparr>"] show ?case
    unfolding step split by (simp add: vsh_unpin_ret)
qed

text \<open>
  C21.  Once the daemon has set up a context and the process that becomes its init is forked,
  vshelper always ends: with success exactly if the kernel reports more than one task at one of the
  fifteen checks, made a second apart, and with failure otherwise.
\<close>

theorem vshelper_startup_exit:
  assumes "vsh_call H U ''helper.startup'' xid s = (Inr (Inr v), s1)"
    and "answer_s H v ''vdir'' = Some vdir" and "answer_s H v ''init'' = Some init"
  shows "\<exists>s2 s3. vsh_fastboot H vdir s1 = (Inr (), s2) \<and> vsh_join_cpuset H xid s2 = (Inr (), s3)
    \<and> fst (vshelper_startup H U xid s) = Inr (if \<exists>i<15. init_seen H xid
      ((next_poll H xid ^^ i) (snd (fork_run (kern H) (init_child H xid vdir init) (os s3)))) then 0 else 1)"
proof -
  have "\<exists>s2. vsh_fastboot H vdir s1 = (Inr (), s2)"
    by (auto simp: vsh_fastboot_def bindM_def sysM_def prog_simps split: option.split prod.split)
  then obtain s2 where s2: "vsh_fastboot H vdir s1 = (Inr (), s2)" by blast
  have "\<exists>s3. vsh_join_cpuset H xid s2 = (Inr (), s3)"
    by (auto simp: vsh_join_cpuset_def Let_def bindM_def sysM_def prog_simps split: sum.split prod.split)
  then obtain s3 where s3: "vsh_join_cpuset H xid s2 = (Inr (), s3)" by blast
  obtain r k where k: "fork_run (kern H) (init_child H xid vdir init) (os s3) = (r, k)" by force
  have "vshelper_startup H U xid s = vsh_poll H xid 15 (s3\<lparr>os := k\<rparr>)"
    using s2 s3 k assms by (simp add: vshelper_startup_def bindM_def sysM_def)
  with vsh_poll_exit [of H xid 15 "s3\<lparr>os := k\<rparr>"] k s2 s3 show ?thesis by auto
qed

section \<open>Ending and starting again\<close>

text \<open>The contexts that start again when they end.\<close>

definition scheduled :: "vxdb_db \<Rightarrow> xid_t set" where
  "scheduled d = {x. \<exists>r \<in> set (rows d T_restart). rget r C_xid = SInt x}"

lemma helper_xid:
  assumes "method_init H p c caps flags s = (Inr params, s1)" and "host_ok H" and "st_wf s"
    and "need_name H x s1 = (Inr name, s2)"
  shows "touches {T_vcd} s s2" and "st_wf s2"
proof -
  note w = method_init_wf [OF assms(1-3)]
  have "stays same_conn (need_name H x)" unfolding need_name_def by (intro sc.stays_rules reads_intros)
  from reads_wf [OF this assms(4) w] show "touches {T_vcd} s s2" "st_wf s2" .
qed

lemma vsh_call_dispatch:
  assumes "vsh_call H U name xid s = (Inr (Inr v), s')" and "2 \<le> xid" and "xid \<le> 65535" and "xmlrpc_ok (xr H)"
  obtains p t where "dispatch H name p (s\<lparr>lockfd := -1\<rparr>) = (Inr v, t)" and "s' = t\<lparr>lockfd := lockfd s\<rparr>"
    and "req_i H p False ''xid'' = Some xid"
proof -
  let ?q = "XStruct [(''xid'', XInt (s32 xid))]"
  have "s32 xid = xid" using assms(2,3) by (simp add: s32_def)
  then have "req_i H (client_request (vsh_user U) (vsh_pass U) ?q) False ''xid'' = Some xid"
    using assms client_request_params [OF assms(4)]
    by (simp add: req_i_def get_param_def xmlrpc_ok_def)
  with assms(1) that show thesis unfolding vsh_call_def by (auto elim: rpcE)
qed

lemma scheduled_put:
  assumes "rows d' T_restart = row_put [C_xid] [(C_xid, SInt x)] (rows d T_restart)"
  shows "scheduled d' = insert x (scheduled d)"
  by (auto simp: scheduled_def assms row_put_def conflict_def)

lemma helper_restart_effect:
  assumes "m_helper_restart H p c s = (Inr v, s')" and "host_ok H" and "st_wf s"
    and "req_i H p c ''xid'' = Some xid" and "2 \<le> xid" and "xid \<le> 65535"
  shows "scheduled (db s') = insert xid (scheduled (db s))" and "touches {T_vcd, T_restart} s s'" and "st_wf s'"
proof -
  from assms(1) obtain params s1 x name s2 where
    i: "method_init H p c VCD_CAP_HELPER 0 s = (Inr params, s1)"
    and a: "get_param (xr_int (xr H)) H params ''xid'' = Some x"
    and n: "need_name H (u32 x) s1 = (Inr name, s2)"
    and ex: "exec_nil H [Insert True T_restart [(C_xid, SInt (s32 (u32 x)))]] s2 = (Inr v, s')"
    unfolding m_helper_restart_def Let_def by (elim handlerE) blast
  have x: "x = xid" "s32 (u32 x) = xid"
    using a assms(4-6) method_init_params [OF i] by (simp_all add: req_i_def u32_def s32_def)
  note w = helper_xid [OF i assms(2,3) n]
  have "table_indexes (db s2) T_restart = [[C_xid]]" using w(2) by (simp add: st_wf_def schema_wf_index)
  then have e: "rows (db s') T_restart = row_put [C_xid] [(C_xid, SInt xid)] (rows (db s2) T_restart)"
    "touches {T_restart} s2 s'" "st_wf s'"
    using exec_put_wf [OF ex _ w(2), of "[C_xid]"] x by simp_all
  then show "st_wf s'" by simp
  show "touches {T_vcd, T_restart} s s'" using touches_trans [OF w(1) e(2)] by (simp add: insert_commute)
  show "scheduled (db s') = insert xid (scheduled (db s))"
    by (rule scheduled_put) (use e(1) touches_rows [OF w(1), of T_restart] in simp)
qed

lemma vsh_release_reads: "stays same_conn (vsh_release H xid)"
  unfolding vsh_release_def by (intro sc.stays_rules reads_intros)

text \<open>
  C23.  A restart a guest asks for is recorded: when vshelper ends with success after the action
  \<^verbatim>\<open>restart\<close>, the context is among those that start again when they end, no other context
  has been added or removed, and nothing else in the database but the counters has changed.
\<close>

theorem restart_recorded:
  assumes "vshelper_restart H U xid s = (Inr 0, s')" and "host_ok H" and "st_wf s" and "2 \<le> xid" and "xid \<le> 65535" and "xmlrpc_ok (xr H)"
  shows "scheduled (db s') = insert xid (scheduled (db s)) \<and> touches {T_vcd, T_restart} s s' \<and> st_wf s'"
proof -
  from assms(1) obtain v s1 where c: "vsh_call H U ''helper.restart'' xid s = (Inr (Inr v), s1)"
    and r: "vsh_release H xid s1 = (Inr 0, s')"
    unfolding vshelper_restart_def by (auto simp: prog_simps elim!: bindM_InrE split: sum.splits)
  from c assms(4-6) obtain p t where "dispatch H ''helper.restart'' p (s\<lparr>lockfd := -1\<rparr>) = (Inr v, t)"
    and t: "s1 = t\<lparr>lockfd := lockfd s\<rparr>" and x: "req_i H p False ''xid'' = Some xid"
    by (rule vsh_call_dispatch)
  then have "m_helper_restart H p False (s\<lparr>lockfd := -1\<rparr>) = (Inr v, t)"
    by (simp add: dispatch_def method_registry_def)
  from helper_restart_effect [OF this assms(2) _ x assms(4,5)] assms(3) t reads_conn [OF vsh_release_reads r]
    st_wf_cong [of s' t]
  show ?thesis by (simp add: touches_def)
qed

section \<open>The end of a context\<close>

lemma helper_shutdown_steps:
  assumes "m_helper_shutdown H p c s = (Inr v, s')" and "host_ok H" and "st_wf s"
    and "req_i H p c ''xid'' = Some xid" and "2 \<le> xid" and "xid \<le> 65535"
  obtains s1 s2 where "touches {T_vcd} s s1" and "st_wf s1"
    and "exec_nil H [Delete T_restart [(C_xid, xid_lit xid)]] s1 = (Inr XNil, s2)" and "conn s' = conn s2"
    and "1 \<le> changes (conn s2) \<Longrightarrow> \<exists>k k'. fork (kern H) k = (Inr (), k')"
proof -
  let ?path = "\<lambda>x. ''/dev/cpuset/xid'' @ dec (s32 (u32 x))"
  let ?rm = "\<lambda>x k. if ismount (kern H) ''/dev/cpuset'' k \<and> isdir (kern H) (?path x) k
      then osM (rmdir (kern H) (?path x)) else ret ()"
  let ?rest = "\<lambda>x n nil. if n < 1 then ret nil
     else
       bindM (vxdb_query H (Select [C_timeout] T_init [(C_xid, xid_lit (u32 x))] Unordered)) (\<lambda>_.
       bindM (sys_or_fault ''fork'' (fork (kern H))) (\<lambda>_.
       bindM (sys_or_fault ''waitpid'' (waitpid_nohang (kern H))) (\<lambda>_.
       ret nil)))"
  from assms(1) obtain params s1 x name s2 u s4 nil s5 where
    i: "method_init H p c VCD_CAP_HELPER 0 s = (Inr params, s1)"
    and a: "get_param (xr_int (xr H)) H params ''xid'' = Some x"
    and nm: "need_name H (u32 x) s1 = (Inr name, s2)"
    and rm: "?rm x (os s2) s2 = (Inr u, s4)"
    and ex: "exec_nil H [Delete T_restart [(C_xid, xid_lit (u32 x))]] s4 = (Inr nil, s5)"
    and rest: "?rest x (changes (conn s5)) nil s5 = (Inr v, s')"
    unfolding m_helper_shutdown_def Let_def get_changes_def by (elim handlerE) blast
  have [simp]: "u32 x = xid"
    using a assms(4-6) method_init_params [OF i] by (simp add: req_i_def u32_def)
  note w = helper_xid [OF i assms(2,3) nm]
  have "stays same_conn (?rm x (os s2))" by (intro sc.stays_rules reads_intros)
  note w4 = reads_wf [OF this rm w]
  have e: "exec_nil H [Delete T_restart [(C_xid, xid_lit xid)]] s4 = (Inr XNil, s5)"
    using ex exec_nil_Inr(2) [OF ex] by (simp add: xid_lit_def)
  have "stays same_conn (?rest x (changes (conn s5)) nil)" by (intro sc.stays_rules reads_intros)
  from reads_conn [OF this rest] have c: "conn s' = conn s5" by simp
  have "\<exists>k k'. fork (kern H) k = (Inr (), k')" if "1 \<le> changes (conn s5)"
    using rest that
    by (auto simp: sys_or_fault_def prog_simps elim!: bindM_InrE sysM_InrE split: sum.splits) blast
  with that [OF w4 e c] show thesis by blast
qed

lemma exec_delete_changes:
  "exec_stmt (Delete t w) c = Some c' \<Longrightarrow> changes c' = length (filter (matches (cur c) w) (rows (cur c) t))"
  by (auto simp: Let_def split: if_splits)

lemma scheduled_changes:
  assumes "exec_nil H [Delete T_restart [(C_xid, xid_lit xid)]] s = (Inr v, s')" and "s32 xid = xid"
  shows "1 \<le> changes (conn s') \<longleftrightarrow> xid \<in> scheduled (db s)"
    and "scheduled (db s') = scheduled (db s) - {xid}"
proof -
  have "stmt_safe (Delete T_restart [(C_xid, xid_lit xid)])" by (simp add: xid_lit_def)
  note e = exec_nil_Inr(1) [OF assms(1) this]
  show "1 \<le> changes (conn s') \<longleftrightarrow> xid \<in> scheduled (db s)"
    using exec_delete_changes [OF e] assms(2)
    by (auto simp: scheduled_def xid_lit_def filter_empty_conv Suc_le_eq)
  show "scheduled (db s') = scheduled (db s) - {xid}"
    using exec_delete [OF e] assms(2) by (auto simp: scheduled_def xid_lit_def)
qed

text \<open>
  C24.  When vshelper ends with success after the action \<^verbatim>\<open>shutdown\<close>, the context is no longer
  among those that start again, and no other context has been added or removed; if it was among
  them, the daemon has forked the process that starts it again.
\<close>

theorem shutdown_clears:
  assumes "vshelper_shutdown H U xid s = (Inr 0, s')" and "host_ok H" and "st_wf s" and "2 \<le> xid" and "xid \<le> 65535" and "xmlrpc_ok (xr H)"
  shows "scheduled (db s') = scheduled (db s) - {xid} \<and> touches {T_vcd, T_restart} s s'
    \<and> (xid \<in> scheduled (db s) \<longrightarrow> (\<exists>k k'. fork (kern H) k = (Inr (), k')))"
proof -
  from assms(1) obtain v where c: "vsh_call H U ''helper.shutdown'' xid s = (Inr (Inr v), s')"
    unfolding vshelper_shutdown_def by (auto simp: prog_simps elim!: bindM_InrE split: sum.splits)
  from c assms(4-6) obtain p t where "dispatch H ''helper.shutdown'' p (s\<lparr>lockfd := -1\<rparr>) = (Inr v, t)"
    and t: "s' = t\<lparr>lockfd := lockfd s\<rparr>" and x: "req_i H p False ''xid'' = Some xid"
    by (rule vsh_call_dispatch)
  then have "m_helper_shutdown H p False (s\<lparr>lockfd := -1\<rparr>) = (Inr v, t)"
    by (simp add: dispatch_def method_registry_def)
  moreover have "st_wf (s\<lparr>lockfd := -1\<rparr>)" using assms(3) by simp
  ultimately obtain s1 s2 where s1: "touches {T_vcd} (s\<lparr>lockfd := -1\<rparr>) s1" "st_wf s1"
    and ex: "exec_nil H [Delete T_restart [(C_xid, xid_lit xid)]] s1 = (Inr XNil, s2)" and c2: "conn t = conn s2"
    and f: "1 \<le> changes (conn s2) \<Longrightarrow> \<exists>k k'. fork (kern H) k = (Inr (), k')"
    using helper_shutdown_steps [OF _ assms(2) _ x assms(4,5)] by metis
  have "s32 xid = xid" using assms(4,5) by (simp add: s32_def)
  note e = scheduled_changes [OF ex this]
  have "stmt_safe (Delete T_restart [(C_xid, xid_lit xid)])" by (simp add: xid_lit_def)
  from exec_del_wf(2) [OF ex this s1(2) refl] have t2: "touches {T_restart} s1 s2" by simp
  have same: "scheduled (db s1) = scheduled (db s)"
    using touches_rows [OF s1(1), of T_restart] by (simp add: scheduled_def)
  have "touches {T_vcd, T_restart} s s'"
    using touches_trans [OF s1(1) t2] c2 t by (simp add: touches_def insert_commute)
  with e f same c2 t show ?thesis by auto
qed

section \<open>The process that starts a guest again\<close>

lemma waitvx_Inr:
  "waitvx H xid name n s = (Inr v, s') \<Longrightarrow>
     \<exists>t k. vx_info (kern H) xid k = (Inl ESRCH, os t) \<and> conn t = conn s
       \<and> m_vx_start H (XStruct [(''name'', XStr name)]) True t = (Inr v, s')"
proof (induction n arbitrary: s)
  case 0
  then show ?case by (simp add: prog_simps)
next
  case (Suc n)
  obtain r k where r: "vx_info (kern H) xid (sleep1 (kern H) (os s)) = (r, k)" by force
  with Suc.prems have c: "(case r of
       Inl ESRCH \<Rightarrow> m_vx_start H (XStruct [(''name'', XStr name)]) True
     | Inl e \<Rightarrow> raise (SysFault ''vx_info'' e)
     | Inr _ \<Rightarrow> waitvx H xid name n) (s\<lparr>os := k\<rparr>) = (Inr v, s')"
    by (simp add: bindM_def osM_def sysM_def)
  show ?case
  proof (cases r)
    case (Inl e)
    with c have e: "e = ESRCH" by (auto simp: prog_simps split: errno.splits)
    with Inl c r show ?thesis by (intro exI [of _ "s\<lparr>os := k\<rparr>"] exI [of _ "sleep1 (kern H) (os s)"]) simp
  next
    case (Inr u)
    with c show ?thesis using Suc.IH [of "s\<lparr>os := k\<rparr>"] by simp
  qed
qed

lemma waitnx_Inr:
  "waitnx H xid name n s = (Inr v, s') \<Longrightarrow>
     \<exists>t k m. nx_info (kern H) xid k = (Inl ESRCH, os t) \<and> conn t = conn s \<and> waitvx H xid name m t = (Inr v, s')"
proof (induction n arbitrary: s)
  case 0
  then show ?case by (simp add: prog_simps)
next
  case (Suc n)
  obtain r k where r: "nx_info (kern H) xid (sleep1 (kern H) (os s)) = (r, k)" by force
  with Suc.prems have c: "(case r of
       Inl ESRCH \<Rightarrow> waitvx H xid name n
     | Inl e \<Rightarrow> raise (SysFault ''nx_info'' e)
     | Inr _ \<Rightarrow> waitnx H xid name n) (s\<lparr>os := k\<rparr>) = (Inr v, s')"
    by (simp add: bindM_def osM_def sysM_def)
  show ?case
  proof (cases r)
    case (Inl e)
    with c have e: "e = ESRCH" by (auto simp: prog_simps split: errno.splits)
    with Inl c r show ?thesis
      by (intro exI [of _ "s\<lparr>os := k\<rparr>"] exI [of _ "sleep1 (kern H) (os s)"] exI [of _ n]) simp
  next
    case (Inr u)
    with c show ?thesis using Suc.IH [of "s\<lparr>os := k\<rparr>"] by simp
  qed
qed

text \<open>
  C22.  The process \<^verbatim>\<open>helper.shutdown\<close> forks starts the guest again only after the kernel has
  said, first, that its network context is gone and, then, that its context is gone; the start is
  that of \<^verbatim>\<open>vx.start\<close> on the database as it was.
\<close>

theorem reborn_after_gone:
  assumes "helper_shutdown_child H xid name r s = (Inr v, s')"
  shows "\<exists>t k k1 k2. nx_info (kern H) xid k1 = (Inl ESRCH, k2) \<and> vx_info (kern H) xid k = (Inl ESRCH, os t)
    \<and> conn t = conn s \<and> m_vx_start H (XStruct [(''name'', XStr name)]) True t = (Inr v, s')"
  using waitnx_Inr [OF assms [unfolded helper_shutdown_child_def]] by (metis waitvx_Inr)

section \<open>Witnesses\<close>

definition ref_vshelper :: vshelper_cfg where
  "ref_vshelper = \<lparr>vsh_user = ''admin'', vsh_pass = ''secret12'', vsh_logfile = None, vsh_init = True\<rparr>"

lemmas vshelper_eval = user_eval vsh_call_def rpc_def client_request_def dispatch_def method_registry_def
  need_name_def vxdb_getname_def validate_xid_def ref_vshelper_def ref_ctx_def sys_or_fault_def get_changes_def

theorem vshelper_startup_exit_witness:
  "fst (vshelper_startup ref_host ref_vshelper 2 (ref_state ref_db [2])) = Inr 1"
proof -
  let ?r = "vsh_call ref_host ref_vshelper ''helper.startup'' 2 (ref_state ref_db [2])"
  let ?v = "XStruct [(''vdir'', XStr ''/vbasedir/guest1''), (''init'', XStr ''/sbin/init'')]"
  have "fst ?r = Inr (Inr ?v)" by code_simp
  note run = run_value [OF this]
  have "answer_s ref_host ?v ''vdir'' = Some ''/vbasedir/guest1''" "answer_s ref_host ?v ''init'' = Some ''/sbin/init''"
    by code_simp+
  from vshelper_startup_exit [OF run this] show ?thesis
    by (auto simp: init_seen_def ref_sel)
qed

theorem restart_recorded_witness:
  "\<exists>s'. vshelper_restart ref_host ref_vshelper 2 (ref_state ref_db [2]) = (Inr 0, s') \<and> scheduled (db s') = {2}"
proof -
  let ?r = "vshelper_restart ref_host ref_vshelper 2 (ref_state ref_db [2])"
  have "fst ?r = Inr 0"
    by (simp add: vshelper_restart_def m_helper_restart_def vsh_release_def vshelper_eval cong: bindM_weak_cong)
  note run = run_value [OF this]
  have "scheduled (db (ref_state ref_db [2])) = {}" by (simp add: scheduled_def ref_state_def ref_db_def)
  with restart_recorded [OF run ref_host_ok ref_st_wf] run show ?thesis by (auto simp: ref_xmlrpc_ok)
qed

theorem shutdown_clears_witness:
  "\<exists>s'. vshelper_shutdown ref_host ref_vshelper 2 (ref_state ref_db [2]) = (Inr 0, s') \<and> 2 \<notin> scheduled (db s')"
proof -
  let ?r = "vshelper_shutdown ref_host ref_vshelper 2 (ref_state ref_db [2])"
  have "fst ?r = Inr 0"
    by (simp add: vshelper_shutdown_def m_helper_shutdown_def vshelper_eval cong: bindM_weak_cong)
  note run = run_value [OF this]
  from shutdown_clears [OF run ref_host_ok ref_st_wf] run show ?thesis by (auto simp: ref_xmlrpc_ok)
qed

theorem reborn_after_gone_witness:
  "\<exists>s'. helper_shutdown_child ref_host 2 ''guest1'' \<lparr>prepared = True, result = [], finished = True\<rparr>
       (ref_state ref_db [2]) = (Inr XNil, s')
     \<and> (\<exists>k k'. vx_info ref_kernel 2 k = (Inl ESRCH, k'))"
proof -
  let ?r = "helper_shutdown_child ref_host 2 ''guest1'' \<lparr>prepared = True, result = [], finished = True\<rparr>
       (ref_state ref_db [2])"
  have "fst ?r = Inr XNil" by code_simp
  note run = run_value [OF this]
  from reborn_after_gone [OF run] run show ?thesis by auto
qed

end
