(* ===== verification/Clients.thy ===== *)
theory Clients
  imports Rpc "HOL-Library.Signed_Division"
begin

text \<open>
  The command line clients under \<^verbatim>\<open>src/src/vcc/\<close>: \<^verbatim>\<open>vcc\<close> for guests,
  \<^verbatim>\<open>vce\<close> for their configuration, \<^verbatim>\<open>vgc\<close> for groups and \<^verbatim>\<open>vcdadm\<close> for
  the daemon.  They share \<^verbatim>\<open>main.c\<close> and differ in their tables of commands.  A command
  checks its words, calls one method of the daemon and prints what it takes out of the answer.
\<close>

section \<open>Commands\<close>

text \<open>
  What a command does with its words: print the usage and fail, call a method with parameters and
  treat the answer, or log in to a guest.  The treatment of an answer is the lines printed and
  whether the answer could be taken apart.
\<close>

datatype command =
    Usage
  | Call string xval "xval \<Rightarrow> string list \<times> bool"
  | Login string
  | Fail string

definition arg_or :: "string list \<Rightarrow> nat \<Rightarrow> string \<Rightarrow> string" where
  "arg_or argv i dflt = (if length argv > i then argv ! i else dflt)"

text \<open>A number that cannot be read leaves the variable as it was.\<close>

definition scan_d :: "'k host \<Rightarrow> string \<Rightarrow> int \<Rightarrow> int" where
  "scan_d H text old = (case sscanf_d (lib H) text of None \<Rightarrow> old | Some i \<Rightarrow> i)"

definition quiet :: "xval \<Rightarrow> string list \<times> bool" where
  "quiet v = ([], True)"

fun print_items :: "(xval \<Rightarrow> string option) \<Rightarrow> xval list \<Rightarrow> string list \<times> bool" where
  "print_items show_item [] = ([], True)"
| "print_items show_item (v # vs) =
     (case show_item v of
        None \<Rightarrow> ([], False)
      | Some line \<Rightarrow> (case print_items show_item vs of (ls, ok) \<Rightarrow> (line # ls, ok)))"

definition print_array :: "(xval \<Rightarrow> string option) \<Rightarrow> xval \<Rightarrow> string list \<times> bool" where
  "print_array show_item v = (case v of XArr vs \<Rightarrow> print_items show_item vs | _ \<Rightarrow> ([], False))"

definition print_lines :: "string list option \<Rightarrow> string list \<times> bool" where
  "print_lines r = (case r of None \<Rightarrow> ([], False) | Some ls \<Rightarrow> (ls, True))"

definition show_string :: "'k host \<Rightarrow> xval \<Rightarrow> string option" where
  "show_string H v = xr_string (xr H) v"

definition pad_right :: "nat \<Rightarrow> string \<Rightarrow> string" where
  "pad_right n s = s @ replicate (n - length s) CHR '' ''"

definition pad_left :: "nat \<Rightarrow> char \<Rightarrow> string \<Rightarrow> string" where
  "pad_left n c s = replicate (n - length s) c @ s"


section \<open>vcc: guests\<close>

text \<open>\<^verbatim>\<open>%4dd%02dh%02dm%02ds\<close> and its shorter forms.\<close>

definition pretty_uptime :: "int \<Rightarrow> string" where
  "pretty_uptime sec =
     (let s = sec smod 60; sec = sec sdiv 60; m = sec smod 60; sec = sec sdiv 60; h = sec smod 24; d = sec sdiv 24;
          two = (\<lambda>i. pad_left 2 CHR ''0'' (dec i)) in
      if d > 0 then pad_left 4 CHR '' '' (dec d) @ ''d'' @ two h @ ''h'' @ two m @ ''m'' @ two s @ ''s''
      else if h > 0 then pad_left 2 CHR '' '' (dec h) @ ''h'' @ two m @ ''m'' @ two s @ ''s''
      else pad_left 2 CHR '' '' (dec m) @ ''m'' @ two s @ ''s'')"

definition cmd_create :: "'k host \<Rightarrow> string list \<Rightarrow> command" where
  "cmd_create H argv =
     (if length argv < 2 then Usage
      else Call ''vx.create'' (XStruct [(''name'', XStr (argv ! 0)), (''template'', XStr (argv ! 1)), (''force'', XBool ((if length argv > 2 then scan_d H (argv ! 2) 0 else 0) \<noteq> 0)), (''copy'', XBool ((if length argv > 3 then scan_d H (argv ! 3) 0 else 0) \<noteq> 0)), (''vdir'', XStr (arg_or argv 4 ''''))]) quiet)"

definition cmd_exec :: "'k host \<Rightarrow> string list \<Rightarrow> command" where
  "cmd_exec H argv =
     (if length argv < 2 then Usage
      else case strtok_tostr (lib H) (tl argv) of
        None \<Rightarrow> Fail ''strtok_tostr''
      | Some command \<Rightarrow>
          Call ''vx.exec'' (XStruct [(''name'', XStr (argv ! 0)), (''command'', XStr command)])
            (\<lambda>r. print_lines (map_option (\<lambda>output. [output]) (show_string H r))))"

definition cmd_kill :: "'k host \<Rightarrow> string list \<Rightarrow> command" where
  "cmd_kill H argv =
     (if length argv < 3 then Usage
      else Call ''vx.kill'' (XStruct [(''name'', XStr (argv ! 0)), (''pid'', XInt (scan_d H (argv ! 1) 0)), (''sig'', XInt (scan_d H (argv ! 2) 0))]) quiet)"

definition cmd_limstatus :: "'k host \<Rightarrow> string list \<Rightarrow> command" where
  "cmd_limstatus H argv =
     (if length argv < 1 then Usage
      else Call ''vx.limstatus'' (XStruct [(''name'', XStr (argv ! 0))])
       (print_array (\<lambda>r. case (answer_s H r ''type'', answer_s H r ''min'', answer_s H r ''cur'', answer_s H r ''max'') of
          (Some t, Some lo, Some now, Some hi) \<Rightarrow> Some (pad_right 14 t @ '' - cur: '' @ now @ '', min: '' @ lo @ '', max: '' @ hi)
        | _ \<Rightarrow> None)))"

definition cmd_list :: "'k host \<Rightarrow> string list \<Rightarrow> command" where
  "cmd_list H argv =
     Call ''vxdb.list'' (XStruct [(''username'', XStr (arg_or argv 0 ''''))])
       (print_array (show_string H))"

definition cmd_login :: "'k host \<Rightarrow> string list \<Rightarrow> command" where
  "cmd_login H argv = (if length argv < 1 then Usage else Login (argv ! 0))"

definition cmd_netstatus :: "'k host \<Rightarrow> string list \<Rightarrow> command" where
  "cmd_netstatus H argv =
     (if length argv < 1 then Usage
      else Call ''vx.netstatus'' (XStruct [(''name'', XStr (argv ! 0))])
       (print_array (\<lambda>r. case (answer_s H r ''type'', answer_s H r ''recvp'', answer_s H r ''recvb'', answer_s H r ''sendp'', answer_s H r ''sendb'', answer_s H r ''failp'', answer_s H r ''failb'') of
          (Some t, Some rp, Some rb, Some sp, Some sb, Some fp, Some fb) \<Rightarrow> Some (pad_right 10 t @ '' - received: '' @ rp @ ''/'' @ rb @ '', sent: '' @ sp @ ''/'' @ sb
            @ '', failed: '' @ fp @ ''/'' @ fb)
        | _ \<Rightarrow> None)))"

definition cmd_reboot :: "'k host \<Rightarrow> string list \<Rightarrow> command" where
  "cmd_reboot H argv =
     (if length argv < 1 then Usage
      else Call ''vx.reboot'' (XStruct [(''name'', XStr (argv ! 0))]) quiet)"

definition cmd_remove :: "'k host \<Rightarrow> string list \<Rightarrow> command" where
  "cmd_remove H argv =
     (if length argv < 1 then Usage
      else Call ''vx.remove'' (XStruct [(''name'', XStr (argv ! 0))]) quiet)"

definition cmd_rename :: "'k host \<Rightarrow> string list \<Rightarrow> command" where
  "cmd_rename H argv =
     (if length argv < 2 then Usage
      else Call ''vx.rename'' (XStruct [(''name'', XStr (argv ! 0)), (''newname'', XStr (argv ! 1))]) quiet)"

definition cmd_restart :: "'k host \<Rightarrow> string list \<Rightarrow> command" where
  "cmd_restart H argv =
     (if length argv < 1 then Usage
      else Call ''vx.restart'' (XStruct [(''name'', XStr (argv ! 0))]) quiet)"

definition cmd_start :: "'k host \<Rightarrow> string list \<Rightarrow> command" where
  "cmd_start H argv =
     (if length argv < 1 then Usage
      else Call ''vx.start'' (XStruct [(''name'', XStr (argv ! 0))]) quiet)"

definition cmd_status :: "'k host \<Rightarrow> string list \<Rightarrow> command" where
  "cmd_status H argv =
     (if length argv < 1 then Usage
      else Call ''vx.status'' (XStruct [(''name'', XStr (argv ! 0))])
       (\<lambda>r. print_lines (case (answer_i H r ''running'', answer_i H r ''thr_total'', answer_i H r ''thr_running'', answer_i H r ''thr_unintr'', answer_i H r ''thr_onhold'', answer_i H r ''forks_total'', answer_i H r ''uptime'', answer_s H r ''load1m'', answer_s H r ''load5m'', answer_s H r ''load15m'') of
          (Some running, Some tt, Some tr, Some tu, Some oh, Some ft, Some up, Some l1, Some l5, Some l15) \<Rightarrow> Some ((''running: '' @ dec running) #
            (if running = 0 then [] else
              [''total threads: '' @ dec tt,
               ''(running: '' @ dec tr @ '', unintr: '' @ dec tu @ '', onhold: '' @ dec oh @ '')'',
               ''total forks: '' @ dec ft, ''uptime: '' @ pretty_uptime up,
               ''load average: '' @ l1 @ '', '' @ l5 @ '', '' @ l15]))
        | _ \<Rightarrow> None)))"

definition cmd_stop :: "'k host \<Rightarrow> string list \<Rightarrow> command" where
  "cmd_stop H argv =
     (if length argv < 1 then Usage
      else Call ''vx.stop'' (XStruct [(''name'', XStr (argv ! 0))]) quiet)"

definition cmd_templates :: "'k host \<Rightarrow> string list \<Rightarrow> command" where
  "cmd_templates H argv =
     Call ''vx.templates'' (XStruct [(''name'', XStr (arg_or argv 0 ''''))])
       (print_array (\<lambda>r. case (answer_s H r ''name'', answer_s H r ''description'') of
          (Some n, Some d) \<Rightarrow> Some (n @ '': '' @ d)
        | _ \<Rightarrow> None))"

definition vcc_CMDS :: "(string \<times> ('k host \<Rightarrow> string list \<Rightarrow> command)) list" where
  "vcc_CMDS =
     [(''create'', cmd_create), (''exec'', cmd_exec), (''kill'', cmd_kill), (''limstatus'', cmd_limstatus),
      (''list'', cmd_list), (''login'', cmd_login), (''netstatus'', cmd_netstatus), (''reboot'', cmd_reboot),
      (''remove'', cmd_remove), (''rename'', cmd_rename), (''restart'', cmd_restart), (''start'', cmd_start),
      (''status'', cmd_status), (''stop'', cmd_stop), (''templates'', cmd_templates)]"

section \<open>vce: the configuration of guests\<close>

definition cmd_dx_limit_get :: "'k host \<Rightarrow> string list \<Rightarrow> command" where
  "cmd_dx_limit_get H argv =
     (if length argv < 1 then Usage
      else Call ''vxdb.dx.limit.get'' (XStruct [(''name'', XStr (argv ! 0))])
       (\<lambda>r. print_lines (case (answer_s H r ''space'', answer_s H r ''inodes'', answer_i H r ''reserved'') of
          (Some space, Some inodes, Some reserved) \<Rightarrow> Some (if str_isempty (lib H) (Some space) then []
            else [''disk limits: '' @ space @ '' '' @ inodes @ '' '' @ dec reserved])
        | _ \<Rightarrow> None)))"

definition cmd_dx_limit_remove :: "'k host \<Rightarrow> string list \<Rightarrow> command" where
  "cmd_dx_limit_remove H argv =
     (if length argv < 1 then Usage
      else Call ''vxdb.dx.limit.remove'' (XStruct [(''name'', XStr (argv ! 0))]) quiet)"

definition cmd_dx_limit_set :: "'k host \<Rightarrow> string list \<Rightarrow> command" where
  "cmd_dx_limit_set H argv =
     (if length argv < 4 then Usage
      else Call ''vxdb.dx.limit.set'' (XStruct [(''name'', XStr (argv ! 0)), (''space'', XStr (argv ! 1)), (''inodes'', XStr (argv ! 2)), (''reserved'', XInt (scan_d H (argv ! 3) 0))]) quiet)"

definition cmd_init_get :: "'k host \<Rightarrow> string list \<Rightarrow> command" where
  "cmd_init_get H argv =
     (if length argv < 1 then Usage
      else Call ''vxdb.init.get'' (XStruct [(''name'', XStr (argv ! 0))])
       (\<lambda>r. print_lines (case (answer_s H r ''init'', answer_s H r ''halt'', answer_s H r ''reboot'', answer_i H r ''timeout'') of
          (Some init, Some halt, Some reboot, Some timeout) \<Rightarrow> Some [''init='' @ init, ''halt='' @ halt, ''reboot='' @ reboot, ''timeout='' @ dec timeout]
        | _ \<Rightarrow> None)))"

definition cmd_init_set :: "'k host \<Rightarrow> string list \<Rightarrow> command" where
  "cmd_init_set H argv =
     (if length argv < 1 then Usage
      else Call ''vxdb.init.set'' (XStruct [(''name'', XStr (argv ! 0)), (''init'', XStr (arg_or argv 1 '''')), (''halt'', XStr (arg_or argv 2 '''')), (''reboot'', XStr (arg_or argv 3 '''')), (''timeout'', XInt (if length argv > 4 then scan_d H (argv ! 4) 0 else 0))]) quiet)"

definition vce_cmd_list :: "'k host \<Rightarrow> string list \<Rightarrow> command" where
  "vce_cmd_list H argv =
     Call ''vxdb.list'' (XStruct [(''username'', XStr (arg_or argv 0 ''''))])
       (print_array (show_string H))"

definition cmd_mount_get :: "'k host \<Rightarrow> string list \<Rightarrow> command" where
  "cmd_mount_get H argv =
     (if length argv < 1 then Usage
      else Call ''vxdb.mount.get'' (XStruct [(''name'', XStr (argv ! 0)), (''dst'', XStr (arg_or argv 1 ''''))])
       (print_array (\<lambda>r. case (answer_s H r ''src'', answer_s H r ''dst'', answer_s H r ''type'', answer_s H r ''opts'') of
          (Some src, Some dst, Some t, Some opts) \<Rightarrow> Some (src @ '' '' @ dst @ '' '' @ t @ '' '' @ opts)
        | _ \<Rightarrow> None)))"

definition cmd_mount_remove :: "'k host \<Rightarrow> string list \<Rightarrow> command" where
  "cmd_mount_remove H argv =
     (if length argv < 1 then Usage
      else Call ''vxdb.mount.remove'' (XStruct [(''name'', XStr (argv ! 0)), (''dst'', XStr (arg_or argv 1 ''''))]) quiet)"

definition cmd_mount_set :: "'k host \<Rightarrow> string list \<Rightarrow> command" where
  "cmd_mount_set H argv =
     (if length argv < 3 then Usage
      else Call ''vxdb.mount.set'' (XStruct [(''name'', XStr (argv ! 0)), (''src'', XStr (argv ! 1)), (''dst'', XStr (argv ! 2)), (''type'', XStr (arg_or argv 3 '''')), (''opts'', XStr (arg_or argv 4 ''''))]) quiet)"

definition cmd_nx_addr_get :: "'k host \<Rightarrow> string list \<Rightarrow> command" where
  "cmd_nx_addr_get H argv =
     (if length argv < 1 then Usage
      else Call ''vxdb.nx.addr.get'' (XStruct [(''name'', XStr (argv ! 0)), (''addr'', XStr (arg_or argv 1 ''''))])
       (print_array (\<lambda>r. case (answer_s H r ''addr'', answer_s H r ''netmask'') of
          (Some addr, Some netmask) \<Rightarrow> Some (addr @ ''/'' @ netmask)
        | _ \<Rightarrow> None)))"

definition cmd_nx_addr_remove :: "'k host \<Rightarrow> string list \<Rightarrow> command" where
  "cmd_nx_addr_remove H argv =
     (if length argv < 1 then Usage
      else Call ''vxdb.nx.addr.remove'' (XStruct [(''name'', XStr (argv ! 0)), (''addr'', XStr (arg_or argv 1 ''''))]) quiet)"

definition cmd_nx_addr_set :: "'k host \<Rightarrow> string list \<Rightarrow> command" where
  "cmd_nx_addr_set H argv =
     (if length argv < 2 then Usage
      else Call ''vxdb.nx.addr.set'' (XStruct [(''name'', XStr (argv ! 0)), (''addr'', XStr (argv ! 1)), (''netmask'', XStr (arg_or argv 2 ''''))]) quiet)"

definition cmd_nx_broadcast_get :: "'k host \<Rightarrow> string list \<Rightarrow> command" where
  "cmd_nx_broadcast_get H argv =
     (if length argv < 1 then Usage
      else Call ''vxdb.nx.broadcast.get'' (XStruct [(''name'', XStr (argv ! 0))])
       (\<lambda>r. print_lines (map_option (\<lambda>b. if str_isempty (lib H) (Some b) then [] else [b]) (show_string H r))))"

definition cmd_nx_broadcast_remove :: "'k host \<Rightarrow> string list \<Rightarrow> command" where
  "cmd_nx_broadcast_remove H argv =
     (if length argv < 1 then Usage
      else Call ''vxdb.nx.broadcast.remove'' (XStruct [(''name'', XStr (argv ! 0))]) quiet)"

definition cmd_nx_broadcast_set :: "'k host \<Rightarrow> string list \<Rightarrow> command" where
  "cmd_nx_broadcast_set H argv =
     (if length argv < 2 then Usage
      else Call ''vxdb.nx.broadcast.set'' (XStruct [(''name'', XStr (argv ! 0)), (''broadcast'', XStr (argv ! 1))]) quiet)"

definition cmd_vx_bcaps_add :: "'k host \<Rightarrow> string list \<Rightarrow> command" where
  "cmd_vx_bcaps_add H argv =
     (if length argv < 2 then Usage
      else Call ''vxdb.vx.bcaps.add'' (XStruct [(''name'', XStr (argv ! 0)), (''bcap'', XStr (argv ! 1))]) quiet)"

definition cmd_vx_bcaps_get :: "'k host \<Rightarrow> string list \<Rightarrow> command" where
  "cmd_vx_bcaps_get H argv =
     (if length argv < 1 then Usage
      else Call ''vxdb.vx.bcaps.get'' (XStruct [(''name'', XStr (argv ! 0))])
       (print_array (show_string H)))"

definition cmd_vx_bcaps_remove :: "'k host \<Rightarrow> string list \<Rightarrow> command" where
  "cmd_vx_bcaps_remove H argv =
     (if length argv < 1 then Usage
      else Call ''vxdb.vx.bcaps.remove'' (XStruct [(''name'', XStr (argv ! 0)), (''bcap'', XStr (arg_or argv 1 ''''))]) quiet)"

definition cmd_vx_ccaps_add :: "'k host \<Rightarrow> string list \<Rightarrow> command" where
  "cmd_vx_ccaps_add H argv =
     (if length argv < 2 then Usage
      else Call ''vxdb.vx.ccaps.add'' (XStruct [(''name'', XStr (argv ! 0)), (''ccap'', XStr (argv ! 1))]) quiet)"

definition cmd_vx_ccaps_get :: "'k host \<Rightarrow> string list \<Rightarrow> command" where
  "cmd_vx_ccaps_get H argv =
     (if length argv < 1 then Usage
      else Call ''vxdb.vx.ccaps.get'' (XStruct [(''name'', XStr (argv ! 0))])
       (print_array (show_string H)))"

definition cmd_vx_ccaps_remove :: "'k host \<Rightarrow> string list \<Rightarrow> command" where
  "cmd_vx_ccaps_remove H argv =
     (if length argv < 1 then Usage
      else Call ''vxdb.vx.ccaps.remove'' (XStruct [(''name'', XStr (argv ! 0)), (''ccap'', XStr (arg_or argv 1 ''''))]) quiet)"

definition cmd_vx_cpuset_get :: "'k host \<Rightarrow> string list \<Rightarrow> command" where
  "cmd_vx_cpuset_get H argv =
     (if length argv < 1 then Usage
      else Call ''vxdb.vx.cpuset.get'' (XStruct [(''name'', XStr (argv ! 0))])
       (\<lambda>r. print_lines (case (answer_s H r ''cpus'', answer_s H r ''mems'', answer_i H r ''virtualize'') of
          (Some cpus, Some mems, Some virtualize) \<Rightarrow> Some (if str_isempty (lib H) (Some cpus) then []
            else [''cpus='' @ cpus, ''mems='' @ mems, ''virtualize='' @ dec virtualize])
        | _ \<Rightarrow> None)))"

definition cmd_vx_cpuset_remove :: "'k host \<Rightarrow> string list \<Rightarrow> command" where
  "cmd_vx_cpuset_remove H argv =
     (if length argv < 1 then Usage
      else Call ''vxdb.vx.cpuset.remove'' (XStruct [(''name'', XStr (argv ! 0))]) quiet)"

definition cmd_vx_cpuset_set :: "'k host \<Rightarrow> string list \<Rightarrow> command" where
  "cmd_vx_cpuset_set H argv =
     (if length argv < 3 then Usage
      else Call ''vxdb.vx.cpuset.set'' (XStruct [(''name'', XStr (argv ! 0)), (''cpus'', XStr (argv ! 1)), (''mems'', XStr (argv ! 2)), (''virtualize'', XBool ((if length argv > 3 then scan_d H (argv ! 3) 0 else 0) \<noteq> 0))]) quiet)"

definition cmd_vx_flags_add :: "'k host \<Rightarrow> string list \<Rightarrow> command" where
  "cmd_vx_flags_add H argv =
     (if length argv < 2 then Usage
      else Call ''vxdb.vx.flags.add'' (XStruct [(''name'', XStr (argv ! 0)), (''flag'', XStr (argv ! 1))]) quiet)"

definition cmd_vx_flags_get :: "'k host \<Rightarrow> string list \<Rightarrow> command" where
  "cmd_vx_flags_get H argv =
     (if length argv < 1 then Usage
      else Call ''vxdb.vx.flags.get'' (XStruct [(''name'', XStr (argv ! 0))])
       (print_array (show_string H)))"

definition cmd_vx_flags_remove :: "'k host \<Rightarrow> string list \<Rightarrow> command" where
  "cmd_vx_flags_remove H argv =
     (if length argv < 1 then Usage
      else Call ''vxdb.vx.flags.remove'' (XStruct [(''name'', XStr (argv ! 0)), (''flag'', XStr (arg_or argv 1 ''''))]) quiet)"

definition cmd_vx_limit_get :: "'k host \<Rightarrow> string list \<Rightarrow> command" where
  "cmd_vx_limit_get H argv =
     (if length argv < 1 then Usage
      else Call ''vxdb.vx.limit.get'' (XStruct [(''name'', XStr (argv ! 0)), (''type'', XStr (arg_or argv 1 ''''))])
       (print_array (\<lambda>r. case (answer_s H r ''type'', answer_s H r ''soft'', answer_s H r ''max'') of
          (Some t, Some soft, Some hi) \<Rightarrow> Some (t @ '': '' @ soft @ '' '' @ hi)
        | _ \<Rightarrow> None)))"

definition cmd_vx_limit_remove :: "'k host \<Rightarrow> string list \<Rightarrow> command" where
  "cmd_vx_limit_remove H argv =
     (if length argv < 1 then Usage
      else Call ''vxdb.vx.limit.remove'' (XStruct [(''name'', XStr (argv ! 0)), (''type'', XStr (arg_or argv 1 ''''))]) quiet)"

definition cmd_vx_limit_set :: "'k host \<Rightarrow> string list \<Rightarrow> command" where
  "cmd_vx_limit_set H argv =
     (if length argv < 3 then Usage
      else Call ''vxdb.vx.limit.set'' (XStruct [(''name'', XStr (argv ! 0)), (''type'', XStr (argv ! 1)), (''soft'', XStr (argv ! 2)), (''max'', XStr (arg_or argv 3 (argv ! 2)))]) quiet)"

definition cmd_vx_sched_get :: "'k host \<Rightarrow> string list \<Rightarrow> command" where
  "cmd_vx_sched_get H argv =
     (if length argv < 1 then Usage
      else Call ''vxdb.vx.sched.get'' (XStruct [(''name'', XStr (argv ! 0)), (''cpuid'', XInt (if length argv > 1 then scan_d H (argv ! 1) (garbage H) else -2))])
       (print_array (\<lambda>r. case (answer_i H r ''cpuid'', answer_i H r ''interval'', answer_i H r ''fillrate'', answer_i H r ''interval2'', answer_i H r ''fillrate2'', answer_i H r ''tokensmin'', answer_i H r ''tokensmax'') of
          (Some cpuid, Some i1, Some f1, Some i2, Some f2, Some lo, Some hi) \<Rightarrow> Some (dec cpuid @ '': '' @ dec i1 @ '' '' @ dec f1 @ '' '' @ dec i2 @ '' '' @ dec f2
            @ '' '' @ dec lo @ '' '' @ dec hi)
        | _ \<Rightarrow> None)))"

definition cmd_vx_sched_remove :: "'k host \<Rightarrow> string list \<Rightarrow> command" where
  "cmd_vx_sched_remove H argv =
     (if length argv < 1 then Usage
      else Call ''vxdb.vx.sched.remove'' (XStruct [(''name'', XStr (argv ! 0)), (''cpuid'', XInt (if length argv > 1 then scan_d H (argv ! 1) (garbage H) else -2))]) quiet)"

definition cmd_vx_sched_set :: "'k host \<Rightarrow> string list \<Rightarrow> command" where
  "cmd_vx_sched_set H argv =
     (if length argv < 8 then Usage
      else Call ''vxdb.vx.sched.set'' (XStruct [(''name'', XStr (argv ! 0)), (''cpuid'', XInt (scan_d H (argv ! 1) (garbage H))), (''interval'', XInt (scan_d H (argv ! 2) (garbage H))), (''fillrate'', XInt (scan_d H (argv ! 3) (garbage H))), (''interval2'', XInt (scan_d H (argv ! 4) (garbage H))), (''fillrate2'', XInt (scan_d H (argv ! 5) (garbage H))), (''tokensmin'', XInt (scan_d H (argv ! 6) (garbage H))), (''tokensmax'', XInt (scan_d H (argv ! 7) (garbage H)))]) quiet)"

definition cmd_vx_uname_get :: "'k host \<Rightarrow> string list \<Rightarrow> command" where
  "cmd_vx_uname_get H argv =
     (if length argv < 1 then Usage
      else Call ''vxdb.vx.uname.get'' (XStruct [(''name'', XStr (argv ! 0)), (''type'', XStr (arg_or argv 1 ''''))])
       (print_array (\<lambda>r. case (answer_s H r ''type'', answer_s H r ''value'') of
          (Some t, Some v) \<Rightarrow> Some (t @ ''='' @ v)
        | _ \<Rightarrow> None)))"

definition cmd_vx_uname_remove :: "'k host \<Rightarrow> string list \<Rightarrow> command" where
  "cmd_vx_uname_remove H argv =
     (if length argv < 1 then Usage
      else Call ''vxdb.vx.uname.remove'' (XStruct [(''name'', XStr (argv ! 0)), (''type'', XStr (arg_or argv 1 ''''))]) quiet)"

definition cmd_vx_uname_set :: "'k host \<Rightarrow> string list \<Rightarrow> command" where
  "cmd_vx_uname_set H argv =
     (if length argv < 3 then Usage
      else Call ''vxdb.vx.uname.set'' (XStruct [(''name'', XStr (argv ! 0)), (''type'', XStr (argv ! 1)), (''value'', XStr (argv ! 2))]) quiet)"

definition vce_CMDS :: "(string \<times> ('k host \<Rightarrow> string list \<Rightarrow> command)) list" where
  "vce_CMDS =
     [(''dx.limit.get'', cmd_dx_limit_get), (''dx.limit.remove'', cmd_dx_limit_remove), (''dx.limit.set'',
      cmd_dx_limit_set), (''init.get'', cmd_init_get), (''init.set'', cmd_init_set), (''list'', vce_cmd_list),
      (''mount.get'', cmd_mount_get), (''mount.remove'', cmd_mount_remove), (''mount.set'', cmd_mount_set),
      (''nx.addr.get'', cmd_nx_addr_get), (''nx.addr.remove'', cmd_nx_addr_remove), (''nx.addr.set'',
      cmd_nx_addr_set), (''nx.broadcast.get'', cmd_nx_broadcast_get), (''nx.broadcast.remove'',
      cmd_nx_broadcast_remove), (''nx.broadcast.set'', cmd_nx_broadcast_set), (''vx.bcaps.add'',
      cmd_vx_bcaps_add), (''vx.bcaps.get'', cmd_vx_bcaps_get), (''vx.bcaps.remove'', cmd_vx_bcaps_remove),
      (''vx.ccaps.add'', cmd_vx_ccaps_add), (''vx.ccaps.get'', cmd_vx_ccaps_get), (''vx.ccaps.remove'',
      cmd_vx_ccaps_remove), (''vx.cpuset.get'', cmd_vx_cpuset_get), (''vx.cpuset.remove'',
      cmd_vx_cpuset_remove), (''vx.cpuset.set'', cmd_vx_cpuset_set), (''vx.flags.add'', cmd_vx_flags_add),
      (''vx.flags.get'', cmd_vx_flags_get), (''vx.flags.remove'', cmd_vx_flags_remove), (''vx.limit.get'',
      cmd_vx_limit_get), (''vx.limit.remove'', cmd_vx_limit_remove), (''vx.limit.set'', cmd_vx_limit_set),
      (''vx.sched.get'', cmd_vx_sched_get), (''vx.sched.remove'', cmd_vx_sched_remove), (''vx.sched.set'',
      cmd_vx_sched_set), (''vx.uname.get'', cmd_vx_uname_get), (''vx.uname.remove'', cmd_vx_uname_remove),
      (''vx.uname.set'', cmd_vx_uname_set)]"

section \<open>vgc: groups\<close>

definition cmd_add :: "'k host \<Rightarrow> string list \<Rightarrow> command" where
  "cmd_add H argv =
     (if length argv < 1 then Usage
      else Call ''vg.add'' (XStruct [(''group'', XStr (argv ! 0)), (''name'', XStr (arg_or argv 1 ''''))]) quiet)"

definition vgc_cmd_list :: "'k host \<Rightarrow> string list \<Rightarrow> command" where
  "vgc_cmd_list H argv =
     Call ''vg.list'' (XStruct [(''group'', XStr (arg_or argv 0 ''''))])
       (print_array (show_string H))"

definition vgc_cmd_remove :: "'k host \<Rightarrow> string list \<Rightarrow> command" where
  "vgc_cmd_remove H argv =
     (if length argv < 1 then Usage
      else Call ''vg.remove'' (XStruct [(''group'', XStr (argv ! 0)), (''name'', XStr (arg_or argv 1 ''''))]) quiet)"

definition cmd_vx_reboot :: "'k host \<Rightarrow> string list \<Rightarrow> command" where
  "cmd_vx_reboot H argv =
     (if length argv < 1 then Usage
      else Call ''vg.vx.reboot'' (XStruct [(''group'', XStr (argv ! 0))]) quiet)"

definition cmd_vx_restart :: "'k host \<Rightarrow> string list \<Rightarrow> command" where
  "cmd_vx_restart H argv =
     (if length argv < 1 then Usage
      else Call ''vg.vx.restart'' (XStruct [(''group'', XStr (argv ! 0))]) quiet)"

definition cmd_vx_start :: "'k host \<Rightarrow> string list \<Rightarrow> command" where
  "cmd_vx_start H argv =
     (if length argv < 1 then Usage
      else Call ''vg.vx.start'' (XStruct [(''group'', XStr (argv ! 0))]) quiet)"

definition cmd_vx_stop :: "'k host \<Rightarrow> string list \<Rightarrow> command" where
  "cmd_vx_stop H argv =
     (if length argv < 1 then Usage
      else Call ''vg.vx.stop'' (XStruct [(''group'', XStr (argv ! 0))]) quiet)"

definition vgc_CMDS :: "(string \<times> ('k host \<Rightarrow> string list \<Rightarrow> command)) list" where
  "vgc_CMDS =
     [(''add'', cmd_add), (''list'', vgc_cmd_list), (''remove'', vgc_cmd_remove), (''vx.reboot'',
      cmd_vx_reboot), (''vx.restart'', cmd_vx_restart), (''vx.start'', cmd_vx_start), (''vx.stop'',
      cmd_vx_stop)]"

section \<open>vcdadm: the daemon\<close>

definition cmd_hostinfo :: "'k host \<Rightarrow> string list \<Rightarrow> command" where
  "cmd_hostinfo H argv =
     Call ''vcd.hostinfo'' (XStr [])
       (\<lambda>r. print_lines (case (answer_s H r ''vbasedir'', answer_i H r ''cpus'', answer_i H r ''memnodes'') of
          (Some vbasedir, Some cpus, Some memnodes) \<Rightarrow> Some [''vbasedir: '' @ vbasedir, ''cpus: '' @ dec cpus, ''memnodes: '' @ dec memnodes]
        | _ \<Rightarrow> None))"

definition vcdadm_cmd_status :: "'k host \<Rightarrow> string list \<Rightarrow> command" where
  "vcdadm_cmd_status H argv =
     Call ''vcd.status'' (XStr [])
       (\<lambda>r. print_lines (case (answer_i H r ''uptime'', answer_i H r ''requests'', answer_i H r ''nomethod'', answer_i H r ''flogins'') of
          (Some up, Some req, Some nom, Some fl) \<Rightarrow> Some [''uptime: '' @ pretty_uptime up, ''requests: '' @ dec req, ''nomethod: '' @ dec nom,
            ''flogins:  '' @ dec fl]
        | _ \<Rightarrow> None))"

definition cmd_user_get :: "'k host \<Rightarrow> string list \<Rightarrow> command" where
  "cmd_user_get H argv =
     Call ''vcd.user.get'' (XStruct [(''username'', XStr (arg_or argv 0 ''''))])
       (print_array (\<lambda>r. case (answer_s H r ''username'', answer_i H r ''uid'', answer_i H r ''admin'') of
          (Some u, Some uid, Some admin) \<Rightarrow> Some (u @ '' (uid='' @ dec uid @ '',admin='' @ dec (if admin \<noteq> 0 then 1 else 0) @ '')'')
        | _ \<Rightarrow> None))"

definition cmd_user_remove :: "'k host \<Rightarrow> string list \<Rightarrow> command" where
  "cmd_user_remove H argv =
     (if length argv < 1 then Usage
      else Call ''vcd.user.remove'' (XStruct [(''username'', XStr (argv ! 0))]) quiet)"

definition cmd_user_set :: "'k host \<Rightarrow> string list \<Rightarrow> command" where
  "cmd_user_set H argv =
     (if length argv < 2 then Usage
      else Call ''vcd.user.set'' (XStruct [(''username'', XStr (argv ! 0)), (''password'', XStr (arg_or argv 2 '''')), (''admin'', XBool (scan_d H (argv ! 1) 0 \<noteq> 0))]) quiet)"

definition cmd_user_caps_add :: "'k host \<Rightarrow> string list \<Rightarrow> command" where
  "cmd_user_caps_add H argv =
     (if length argv < 2 then Usage
      else Call ''vcd.user.caps.add'' (XStruct [(''username'', XStr (argv ! 0)), (''cap'', XStr (argv ! 1))]) quiet)"

definition cmd_user_caps_get :: "'k host \<Rightarrow> string list \<Rightarrow> command" where
  "cmd_user_caps_get H argv =
     (if length argv < 1 then Usage
      else Call ''vcd.user.caps.get'' (XStruct [(''username'', XStr (argv ! 0))])
       (print_array (show_string H)))"

definition cmd_user_caps_remove :: "'k host \<Rightarrow> string list \<Rightarrow> command" where
  "cmd_user_caps_remove H argv =
     (if length argv < 1 then Usage
      else Call ''vcd.user.caps.remove'' (XStruct [(''username'', XStr (argv ! 0)), (''cap'', XStr (arg_or argv 1 ''''))]) quiet)"

definition vcdadm_CMDS :: "(string \<times> ('k host \<Rightarrow> string list \<Rightarrow> command)) list" where
  "vcdadm_CMDS =
     [(''hostinfo'', cmd_hostinfo), (''status'', vcdadm_cmd_status), (''user.set'', cmd_user_set),
      (''user.get'', cmd_user_get), (''user.remove'', cmd_user_remove), (''user.caps.add'', cmd_user_caps_add),
      (''user.caps.get'', cmd_user_caps_get), (''user.caps.remove'', cmd_user_caps_remove)]"

end
