(* ===== verification/Client_Main.thy ===== *)
theory Client_Main
  imports Clients
begin

text \<open>
  The part the command line clients share (\<^verbatim>\<open>src/src/vcc/main.c\<close>): configuration, options,
  the choice of a command and its end; and \<^verbatim>\<open>vcc login\<close>, which enters a guest
  (\<^verbatim>\<open>src/src/vcc/vcc/login.c\<close>).
\<close>

section \<open>Configuration and options\<close>

text \<open>The variables of \<^verbatim>\<open>main.c\<close>; \<open>None\<close> is the null pointer.\<close>

record client_cfg =
  cl_host :: "string option"
  cl_port :: int
  cl_user :: "string option"
  cl_pass :: "string option"

text \<open>What the parser finds in a file is the parameter \<open>conf\<close>.\<close>

definition read_config :: "'k host \<Rightarrow> (string \<Rightarrow> client_cfg) \<Rightarrow> string \<Rightarrow> bool \<Rightarrow> ('k, client_cfg) handler" where
  "read_config H conf path ignore_noent =
     bindM (getsM os) (\<lambda>k.
     let path = (if ignore_noent \<and> \<not> isfile (kern H) path k then ''/dev/null'' else path) in
     case cfg_parse_rc (kern H) path k of
       RC_FILE_ERROR \<Rightarrow> raise (Die ''cfg_parse'')
     | RC_PARSE_ERROR \<Rightarrow> raise (Die ''cfg_parse: Parse error'')
     | RC_SUCCESS \<Rightarrow> ret (conf path))"

text \<open>The options \<^verbatim>\<open>getopt(argc, argv, "+c:h:p:u:")\<close> returns one after the other, with their
  arguments.\<close>

fun client_options ::
    "'k host \<Rightarrow> (string \<Rightarrow> client_cfg) \<Rightarrow> (char \<times> string) list \<Rightarrow> client_cfg \<Rightarrow> ('k, client_cfg) handler" where
  "client_options H conf [] C = ret C"
| "client_options H conf ((ch, arg) # opts) C =
     (if ch = CHR ''c'' then bindM (read_config H conf arg False) (client_options H conf opts)
      else if ch = CHR ''h'' then client_options H conf opts (C\<lparr>cl_host := Some arg\<rparr>)
      else if ch = CHR ''p'' then client_options H conf opts (C\<lparr>cl_port := scan_d H arg (cl_port C)\<rparr>)
      else if ch = CHR ''u'' then client_options H conf opts (C\<lparr>cl_user := Some arg, cl_pass := None\<rparr>)
      else raise (Exit 1))"

section \<open>Entering a guest\<close>

definition or_die :: "string \<Rightarrow> ('k, 'a) syscall \<Rightarrow> ('k, 'a) handler" where
  "or_die what f =
     bindM (sysM f) (\<lambda>r. case r of Inl _ \<Rightarrow> raise (Die what) | Inr x \<Rightarrow> ret x)"

text \<open>The client's own process joins the cpuset of the guest, if there is one.\<close>

definition login_cpuset :: "'k host \<Rightarrow> int \<Rightarrow> ('k, unit) handler" where
  "login_cpuset H xid =
     bindM (getsM os) (\<lambda>k.
     let cpusetpath = ''/dev/cpuset/xid'' @ dec xid @ ''/tasks'' in
     if ispath (kern H) cpusetpath k then
       bindM (or_die (''open_append('' @ cpusetpath @ '')'') (act (kern H) (Open_append cpusetpath))) (\<lambda>_.
       bindM (getsM os) (\<lambda>k.
       bindM (sysM (act (kern H) (Write cpusetpath (dec (getpid (kern H) k))))) (\<lambda>_. ret ())))
     else ret ())"

definition login_enter :: "'k host \<Rightarrow> int \<Rightarrow> string \<Rightarrow> ('k, unit) handler" where
  "login_enter H xid vdir =
     bindM (or_die ''ns_enter'' (ns_enter (kern H) (u32 xid))) (\<lambda>_.
     bindM (or_die ''chroot_secure_chdir'' (chroot_secure_chdir (kern H) vdir ''/'')) (\<lambda>_.
     bindM (or_die ''chroot'' (chroot (kern H) ''.'')) (\<lambda>_.
     bindM (or_die ''nx_migrate'' (nx_migrate (kern H) (u32 xid))) (\<lambda>_.
     or_die ''vx_migrate'' (act (kern H) (Vx_migrate (u32 xid) 0))))))"

text \<open>
  The answer is whether the two calls of the daemon were understood; with \<open>True\<close> the process is in
  the guest and goes on as a terminal (\<^verbatim>\<open>do_vlogin\<close>).
\<close>

definition client_login :: "'k host \<Rightarrow> string \<Rightarrow> string \<Rightarrow> string \<Rightarrow> ('k, bool) handler" where
  "client_login H user pass name =
     bindM (rpc H ''vxdb.xid.get'' (client_request user pass (XStruct [(''name'', XStr name)]))) (\<lambda>r.
     case r of
       Inl _ \<Rightarrow> ret False
     | Inr v \<Rightarrow>
         (case xr_int (xr H) v of
            None \<Rightarrow> ret False
          | Some xid \<Rightarrow>
              bindM (rpc H ''vxdb.vdir.get'' (client_request user pass (XStruct [(''name'', XStr name)]))) (\<lambda>r.
              case r of
                Inl _ \<Rightarrow> ret False
              | Inr w \<Rightarrow>
                  (case xr_string (xr H) w of
                     None \<Rightarrow> ret False
                   | Some vdir \<Rightarrow>
                       bindM (login_cpuset H xid) (\<lambda>_.
                       bindM (login_enter H xid vdir) (\<lambda>_. ret True))))))"

section \<open>Running a command\<close>

text \<open>How a client ends: with the lines printed and a status, or as a terminal in a guest.\<close>

datatype client_end = Ended "string list" int | Session

definition run_command :: "'k host \<Rightarrow> string \<Rightarrow> string \<Rightarrow> command \<Rightarrow> ('k, client_end) handler" where
  "run_command H user pass cmd =
     (case cmd of
        Usage \<Rightarrow> raise (Exit 1)
      | Fail what \<Rightarrow> raise (Die what)
      | Call name params reply \<Rightarrow>
          bindM (rpc H name (client_request user pass params)) (\<lambda>r.
          case r of
            Inl _ \<Rightarrow> ret (Ended [] 1)
          | Inr v \<Rightarrow> (case reply v of (lns, ok) \<Rightarrow> ret (Ended lns (if ok then 0 else 1))))
      | Login name \<Rightarrow>
          bindM (client_login H user pass name) (\<lambda>ok. ret (if ok then Session else Ended [] 1)))"

text \<open>
  \<^verbatim>\<open>main\<close>, with the table of commands, the options and the words after them.  The flag says
  whether the XML-RPC client can be started; \<open>typed\<close> is the line read when there is no password.
\<close>

definition client_main ::
    "'k host \<Rightarrow> string \<Rightarrow> (string \<times> ('k host \<Rightarrow> string list \<Rightarrow> command)) list \<Rightarrow> (string \<Rightarrow> client_cfg) \<Rightarrow> bool \<Rightarrow> string
     \<Rightarrow> (char \<times> string) list \<Rightarrow> string list \<Rightarrow> ('k, client_end) handler" where
  "client_main H sysconfdir CMDS conf started typed opts argv =
     bindM (read_config H conf (sysconfdir @ ''/vcc.conf'') True) (\<lambda>C.
     bindM (client_options H conf opts C) (\<lambda>C.
     case argv of
       [] \<Rightarrow> raise (Exit 1)
     | cmd # args \<Rightarrow>
         bindM (unlessM (\<not> str_isempty (lib H) (cl_user C)) (Die ''no user for login given'')) (\<lambda>_.
         bindM (unlessM started (Die ''failed to start xmlrpc client'')) (\<lambda>_.
         case map_of CMDS cmd of
           None \<Rightarrow> raise (Die (''invalid command: '' @ cmd))
         | Some f \<Rightarrow> run_command H (or_default (cl_user C) '''') (or_default (cl_pass C) typed) (f H args)))))"

end
