(* ===== verification/Interface.thy ===== *)
theory Interface
  imports Daemon
begin

text \<open>
  The parameters each method takes, and what a request that has them can come back with: a value,
  or a fault the daemon has a message for, and neither a fault of the XML-RPC library nor the end
  of the daemon's process.
\<close>

section \<open>How a program ends\<close>

text \<open>The faults a method sets itself.  An exit status of a command is added to \<^verbatim>\<open>MEEXEC\<close>.\<close>

definition fault_known :: "fault \<Rightarrow> bool" where
  "fault_known f =
     (case f of
        Fault code \<Rightarrow> code \<in> fst ` set method_error_codes
      | Faultf code _ \<Rightarrow> code \<in> fst ` set method_error_codes \<or> code > MEEXEC
      | SysFault _ _ \<Rightarrow> True
      | VxdbFault \<Rightarrow> True
      | _ \<Rightarrow> False)"

definition ends :: "('a \<Rightarrow> bool) \<Rightarrow> ('s, fault, 'a) prog \<Rightarrow> bool" where
  "ends Q m \<longleftrightarrow> (\<forall>s. case fst (m s) of Inl f \<Rightarrow> fault_known f | Inr v \<Rightarrow> Q v)"

abbreviation safe :: "('s, fault, 'a) prog \<Rightarrow> bool" where
  "safe m \<equiv> ends (\<lambda>_. True) m"

named_theorems ends_intros \<open>how the operations of the daemon end\<close>

lemma fault_known [simp]:
  "fault_known (Fault MEAUTH)" "fault_known (Fault MEPERM)" "fault_known (Fault MENOUSER)"
  "fault_known (Fault MEINVAL)" "fault_known (Fault MEEXIST)" "fault_known (Fault MENOVPS)"
  "fault_known (Fault MENOVG)" "fault_known (Fault MESTOPPED)" "fault_known (Fault MERUNNING)"
  "fault_known (Fault MEBUSY)" "fault_known VxdbFault" "fault_known (SysFault what e)"
  "fault_known (Faultf MENOVPS msg)"
  "fault_known (Faultf MEVXDB msg)" "fault_known (Faultf MEPERM msg)" "fault_known (Faultf MENOUSER msg)" "fault_known (Faultf MEINVAL msg)" "fault_known (Faultf MEEXIST msg)" "fault_known (Faultf MEBUSY msg)"
  "fault_known (Faultf MECONF msg)" "fault_known (Faultf MESYS msg)" "fault_known (Faultf MEEXEC msg)"
  "fault_known (invalid what val1)"
  by (simp_all add: fault_known_def invalid_def method_error_codes_def)

lemma fault_known_exec [simp]: "0 < n \<Longrightarrow> fault_known (Faultf (MEEXEC + n) msg)"
  by (simp add: fault_known_def)

lemma endsI: "(\<And>s f s'. m s = (Inl f, s') \<Longrightarrow> fault_known f) \<Longrightarrow> (\<And>s v s'. m s = (Inr v, s') \<Longrightarrow> Q v) \<Longrightarrow> ends Q m"
  by (auto simp: ends_def split: sum.split) (metis prod.collapse)+

lemma ends_Inl: "ends Q m \<Longrightarrow> m s = (Inl f, s') \<Longrightarrow> fault_known f"
  by (metis (mono_tags, lifting) ends_def fst_conv sum.case(1))

lemma ends_Inr: "ends Q m \<Longrightarrow> m s = (Inr v, s') \<Longrightarrow> Q v"
  by (metis (mono_tags, lifting) ends_def fst_conv sum.case(2))

lemma ends_weaken: "ends P m \<Longrightarrow> (\<And>x. P x \<Longrightarrow> Q x) \<Longrightarrow> ends Q m"
  by (auto simp: ends_def split: sum.splits)

lemma ends_safe: "ends Q m \<Longrightarrow> safe m"
  by (erule ends_weaken) simp

lemma ends_bind: "ends P m \<Longrightarrow> (\<And>x. P x \<Longrightarrow> ends Q (f x)) \<Longrightarrow> ends Q (bindM m f)"
  by (rule endsI) (auto simp: bindM_def split: prod.splits sum.splits dest: ends_Inl ends_Inr)

lemma ends_seq: "safe m \<Longrightarrow> (\<And>x. ends Q (f x)) \<Longrightarrow> ends Q (bindM m f)"
  by (rule ends_bind)

lemma ends_ret: "Q x \<Longrightarrow> ends Q (ret x)"
  by (simp add: ends_def prog_simps)

lemma ends_raise: "fault_known f \<Longrightarrow> ends Q (raise f)"
  by (simp add: ends_def prog_simps)

lemma ends_unless: "fault_known f \<Longrightarrow> Q () \<Longrightarrow> ends Q (unlessM b f)"
  by (simp add: ends_def prog_simps)

lemma ends_gets: "(\<And>s. Q (g s)) \<Longrightarrow> ends Q (getsM g)"
  by (simp add: ends_def prog_simps)

lemma ends_sys: "(\<And>r. Q r) \<Longrightarrow> ends Q (sysM f)"
  by (simp add: ends_def sysM_def split: prod.splits)

lemma sys_bind: "(\<And>r. ends Q (f r)) \<Longrightarrow> ends Q (bindM (sysM g) f)"
  by (rule ends_seq [OF ends_sys]) simp_all

lemma ends_os: "Q () \<Longrightarrow> ends Q (osM f)"
  by (simp add: ends_def prog_simps)

lemma ends_if: "(b \<Longrightarrow> ends Q m) \<Longrightarrow> (\<not> b \<Longrightarrow> ends Q n) \<Longrightarrow> ends Q (if b then m else n)"
  by simp

lemma ends_option:
  "ends Q m \<Longrightarrow> (\<And>x. v = Some x \<Longrightarrow> ends Q (f x)) \<Longrightarrow> ends Q (case v of None \<Rightarrow> m | Some x \<Rightarrow> f x)"
  by (cases v) simp_all

lemma ends_list:
  "ends Q m \<Longrightarrow> (\<And>x xs. v = x # xs \<Longrightarrow> ends Q (f x xs)) \<Longrightarrow> ends Q (case v of [] \<Rightarrow> m | x # xs \<Rightarrow> f x xs)"
  by (cases v) simp_all

lemma ends_sum:
  "(\<And>x. v = Inl x \<Longrightarrow> ends Q (f x)) \<Longrightarrow> (\<And>x. v = Inr x \<Longrightarrow> ends Q (g x)) \<Longrightarrow> ends Q (case v of Inl x \<Rightarrow> f x | Inr x \<Rightarrow> g x)"
  by (cases v) simp_all

lemma ends_prod: "(\<And>a b. z = (a, b) \<Longrightarrow> ends Q (f a b)) \<Longrightarrow> ends Q (case z of (a, b) \<Rightarrow> f a b)"
  by (cases z) simp

lemma ends_errno:
  "ends Q m \<Longrightarrow> ends Q n \<Longrightarrow> (\<And>i. ends Q (f i)) \<Longrightarrow> ends Q (case e of ESRCH \<Rightarrow> m | ENOENT \<Rightarrow> n | Errno i \<Rightarrow> f i)"
  by (cases e) simp_all

lemma ends_let: "(\<And>x. x = v \<Longrightarrow> ends Q (f x)) \<Longrightarrow> ends Q (let x = v in f x)"
  by simp

lemma safe_forM: "(\<And>x. safe (f x)) \<Longrightarrow> safe (forM xs f)"
  by (induction xs) (simp_all add: ends_ret ends_seq)

lemmas ends_rules = safe_forM ends_prod ends_sum ends_list ends_errno ends_option ends_if ends_let ends_ret
  ends_raise ends_unless ends_gets ends_sys ends_os fault_known TrueI

section \<open>The operations the methods share\<close>

lemma vxdb_exec_safe [ends_intros]: "safe (vxdb_exec H sts)"
  by (simp add: ends_def vxdb_exec_def split: prod.splits)

lemma vxdb_query_safe [ends_intros]: "safe (vxdb_query H q)"
  by (simp add: ends_def vxdb_query_def split: prod.splits)

lemma vxdb_lookups_safe [ends_intros]:
  "safe (vxdb_getxid H name)" "safe (vxdb_getname H xid)" "safe (vxdb_getvdir H name)" "safe (vxdb_getgid H grp)"
  unfolding vxdb_getxid_def vxdb_getname_def vxdb_getvdir_def vxdb_getgid_def
  by (intro ends_rules ends_intros ends_seq)+

lemma auth_hascapability_safe [ends_intros]:
  "safe (auth_getuid H user)" "safe (auth_isadmin H user)" "safe (auth_hascapability H user cap)"
  unfolding auth_getuid_def auth_isadmin_def auth_hascapability_def by (intro ends_rules ends_intros ends_seq)+

lemma auth_capable_loop_safe [ends_intros]: "safe (auth_capable_loop H user caps l)"
  by (induction l) (auto intro!: ends_rules ends_intros ends_seq)

lemma auth_safe [ends_intros]:
  "safe (auth_isvalid H user pass)"
  "safe (auth_capable H user caps)" "safe (auth_isowner H user name)" "safe (auth_getnextuid H)"
  unfolding auth_isvalid_def auth_capable_def auth_isowner_def auth_getnextuid_def
  by (intro ends_rules ends_intros ends_seq)+

section \<open>Parameters\<close>

datatype param = PS | PI | PB   \<comment> \<open>the letters \<^verbatim>\<open>s\<close>, \<^verbatim>\<open>i\<close> and \<^verbatim>\<open>b\<close>\<close>

text \<open>What the host promises here: the XML-RPC library as documented, and exit statuses that are
  not negative.\<close>

definition calls_ok :: "'k host \<Rightarrow> bool" where
  "calls_ok H \<longleftrightarrow> xmlrpc_ok (xr H) \<and> (\<forall>k n k'. wait_child (kern H) k = (Inr (WExited n), k') \<longrightarrow> 0 \<le> n)"

fun fits :: "'k host \<Rightarrow> xval \<Rightarrow> string \<times> param \<Rightarrow> bool" where
  "fits H ps (key, PS) = (get_param (xr_string (xr H)) H ps key \<noteq> None)"
| "fits H ps (key, PI) = (get_param (xr_int (xr H)) H ps key \<noteq> None)"
| "fits H ps (key, PB) = (get_param (xr_bool (xr H)) H ps key \<noteq> None)"

text \<open>The parameters of a request, if it comes from inside or has credentials.\<close>

definition asks :: "'k host \<Rightarrow> xval \<Rightarrow> bool \<Rightarrow> xval \<Rightarrow> bool" where
  "asks H p c ps \<longleftrightarrow>
     (if c then ps = p
      else \<exists>cred. xr_pair (xr H) p = Some (cred, ps) \<and> fits H cred (''username'', PS) \<and> fits H cred (''password'', PS))"

lemma decompose_ends:
  "get_param conv H ps key \<noteq> None \<Longrightarrow> ends (\<lambda>x. get_param conv H ps key = Some x) (decompose conv H ps key)"
  by (auto simp: ends_def decompose_def get_param_def prog_simps split: option.splits)

lemma arg_s_bind:
  assumes "fits H ps (key, PS)" and "\<And>x. get_param (xr_string (xr H)) H ps key = Some x \<Longrightarrow> ends Q (f x)"
  shows "ends Q (bindM (arg_s H ps key) f)"
  unfolding arg_s_def using assms by (auto intro: ends_bind [OF decompose_ends])

lemma arg_i_bind: "fits H ps (key, PI) \<Longrightarrow> (\<And>x. ends Q (f x)) \<Longrightarrow> ends Q (bindM (arg_i H ps key) f)"
  unfolding arg_i_def by (auto intro: ends_bind [OF decompose_ends])

lemma arg_b_bind: "fits H ps (key, PB) \<Longrightarrow> (\<And>x. ends Q (f x)) \<Longrightarrow> ends Q (bindM (arg_b H ps key) f)"
  unfolding arg_b_def by (auto intro: ends_bind [OF decompose_ends])

lemma arg_pair_bind:
  "xr_pair (xr H) p = Some z \<Longrightarrow> ends Q (f z) \<Longrightarrow> ends Q (bindM (arg_pair H p) f)"
  by (simp add: arg_pair_def)

lemma vcd_count_safe [ends_intros]: "safe (vcd_count H cs)"
  unfolding vcd_count_def by (intro ends_intros)

lemma method_lock_safe [ends_intros]: "safe (method_lock H name)"
proof -
  have "safe (open_lock H lockfile)" for lockfile by (simp add: ends_def open_lock_def split: prod.splits)
  then show ?thesis unfolding method_lock_def get_lockfd_def by (intro ends_rules ends_intros ends_seq)
qed

lemma method_check_flags_safe:
  "fits H ps (''name'', PS) \<Longrightarrow> safe (method_check_flags H ps c user flags)"
  unfolding method_check_flags_def by (intro arg_s_bind ends_rules ends_intros ends_seq)

lemma method_init_ends:
  assumes "asks H p c ps" and "flags \<noteq> 0 \<Longrightarrow> fits H ps (''name'', PS)"
  shows "ends (\<lambda>x. x = ps) (method_init H p c caps flags)"
proof (cases c)
  case True
  with assms show ?thesis
    unfolding method_init_def asks_def
    by (auto intro!: ends_rules ends_seq [OF method_check_flags_safe])
next
  case False
  with assms(1) obtain cred where c: "xr_pair (xr H) p = Some (cred, ps)"
    "fits H cred (''username'', PS)" "fits H cred (''password'', PS)" by (auto simp: asks_def)
  show ?thesis
    unfolding method_init_def
    using False assms(2) c
    by (simp del: fits.simps)
      (intro arg_pair_bind [OF c(1)] ends_seq arg_s_bind ends_rules ends_intros method_check_flags_safe; simp del: fits.simps)+
qed

lemma init_bind:
  assumes "asks H p c ps" and "flags \<noteq> 0 \<Longrightarrow> fits H ps (''name'', PS)" and "ends Q (f ps)"
  shows "ends Q (bindM (method_init H p c caps flags) f)"
  by (rule ends_bind [OF method_init_ends [OF assms(1,2)]]) (use assms(3) in simp_all)

lemma handler_safe [ends_intros]:
  "safe (need_xid H name)" "safe (exec_nil H sts)" "safe (answer_row H q b d)" "safe (answer_rows H q b)"
  unfolding need_xid_def exec_nil_def answer_row_def answer_rows_def
  by (intro ends_rules ends_intros ends_seq)+

declare fits.simps [simp del]

lemmas arg_binds = arg_s_bind arg_i_bind arg_b_bind

section \<open>The parameters of each method\<close>

text \<open>The names and format letters in each method's call of \<^verbatim>\<open>xmlrpc_decompose_value\<close>.\<close>

definition signatures :: "(string \<times> (string \<times> param) list) list" where
  "signatures =
     [(''helper.netup'', [(''xid'', PI)]), (''helper.restart'', [(''xid'', PI)]),
      (''helper.shutdown'', [(''xid'', PI)]), (''helper.startup'', [(''xid'', PI)]), (''vcd.hostinfo'', []),
      (''vcd.login'', []), (''vcd.status'', []), (''vcd.user.caps.add'', [(''username'', PS), (''cap'', PS)]),
      (''vcd.user.caps.get'', [(''username'', PS)]),
      (''vcd.user.caps.remove'', [(''username'', PS), (''cap'', PS)]), (''vcd.user.get'', [(''username'', PS)]),
      (''vcd.user.remove'', [(''username'', PS)]),
      (''vcd.user.set'', [(''username'', PS), (''password'', PS), (''admin'', PB)]),
      (''vg.add'', [(''group'', PS), (''name'', PS)]), (''vg.list'', [(''group'', PS)]),
      (''vg.remove'', [(''group'', PS), (''name'', PS)]), (''vg.vx.reboot'', [(''group'', PS)]),
      (''vg.vx.restart'', [(''group'', PS)]), (''vg.vx.start'', [(''group'', PS)]),
      (''vg.vx.stop'', [(''group'', PS)]),
      (''vx.create'', [(''name'', PS), (''template'', PS), (''force'', PB), (''copy'', PB), (''vdir'', PS)]),
      (''vx.exec'', [(''name'', PS), (''command'', PS)]),
      (''vx.kill'', [(''name'', PS), (''pid'', PI), (''sig'', PI)]), (''vx.limstatus'', [(''name'', PS)]),
      (''vx.netstatus'', [(''name'', PS)]), (''vx.reboot'', [(''name'', PS)]), (''vx.remove'', [(''name'', PS)]),
      (''vx.rename'', [(''name'', PS), (''newname'', PS)]), (''vx.restart'', [(''name'', PS)]),
      (''vx.start'', [(''name'', PS)]), (''vx.status'', [(''name'', PS)]), (''vx.stop'', [(''name'', PS)]),
      (''vx.templates'', [(''name'', PS)]), (''vxdb.dx.limit.get'', [(''name'', PS)]),
      (''vxdb.dx.limit.remove'', [(''name'', PS)]),
      (''vxdb.dx.limit.set'', [(''name'', PS), (''space'', PS), (''inodes'', PS), (''reserved'', PI)]),
      (''vxdb.init.get'', [(''name'', PS)]),
      (''vxdb.init.set'', [(''name'', PS), (''init'', PS), (''halt'', PS), (''reboot'', PS), (''timeout'', PI)]),
      (''vxdb.list'', [(''username'', PS)]), (''vxdb.mount.get'', [(''name'', PS), (''dst'', PS)]),
      (''vxdb.mount.remove'', [(''name'', PS), (''dst'', PS)]),
      (''vxdb.mount.set'', [(''name'', PS), (''src'', PS), (''dst'', PS), (''type'', PS), (''opts'', PS)]),
      (''vxdb.name.get'', [(''xid'', PI)]), (''vxdb.nx.addr.get'', [(''name'', PS), (''addr'', PS)]),
      (''vxdb.nx.addr.remove'', [(''name'', PS), (''addr'', PS)]),
      (''vxdb.nx.addr.set'', [(''name'', PS), (''addr'', PS), (''netmask'', PS)]),
      (''vxdb.nx.broadcast.get'', [(''name'', PS)]), (''vxdb.nx.broadcast.remove'', [(''name'', PS)]),
      (''vxdb.nx.broadcast.set'', [(''name'', PS), (''broadcast'', PS)]),
      (''vxdb.owner.add'', [(''name'', PS), (''username'', PS)]), (''vxdb.owner.get'', [(''name'', PS)]),
      (''vxdb.owner.remove'', [(''name'', PS), (''username'', PS)]), (''vxdb.vdir.get'', [(''name'', PS)]),
      (''vxdb.vx.bcaps.add'', [(''name'', PS), (''bcap'', PS)]), (''vxdb.vx.bcaps.get'', [(''name'', PS)]),
      (''vxdb.vx.bcaps.remove'', [(''name'', PS), (''bcap'', PS)]),
      (''vxdb.vx.ccaps.add'', [(''name'', PS), (''ccap'', PS)]), (''vxdb.vx.ccaps.get'', [(''name'', PS)]),
      (''vxdb.vx.ccaps.remove'', [(''name'', PS), (''ccap'', PS)]), (''vxdb.vx.cpuset.get'', [(''name'', PS)]),
      (''vxdb.vx.cpuset.remove'', [(''name'', PS)]),
      (''vxdb.vx.cpuset.set'', [(''name'', PS), (''cpus'', PS), (''mems'', PS), (''virtualize'', PB)]),
      (''vxdb.vx.flags.add'', [(''name'', PS), (''flag'', PS)]), (''vxdb.vx.flags.get'', [(''name'', PS)]),
      (''vxdb.vx.flags.remove'', [(''name'', PS), (''flag'', PS)]),
      (''vxdb.vx.limit.get'', [(''name'', PS), (''type'', PS)]),
      (''vxdb.vx.limit.remove'', [(''name'', PS), (''type'', PS)]),
      (''vxdb.vx.limit.set'', [(''name'', PS), (''type'', PS), (''soft'', PS), (''max'', PS)]),
      (''vxdb.vx.sched.get'', [(''name'', PS), (''cpuid'', PI)]),
      (''vxdb.vx.sched.remove'', [(''name'', PS), (''cpuid'', PI)]),
      (''vxdb.vx.sched.set'', [(''name'', PS), (''cpuid'', PI), (''fillrate'', PI), (''interval'', PI), (''fillrate2'', PI), (''interval2'', PI), (''tokensmin'', PI), (''tokensmax'', PI)]),
      (''vxdb.vx.uname.get'', [(''name'', PS), (''type'', PS)]),
      (''vxdb.vx.uname.remove'', [(''name'', PS), (''type'', PS)]),
      (''vxdb.vx.uname.set'', [(''name'', PS), (''type'', PS), (''value'', PS)]),
      (''vxdb.xid.get'', [(''name'', PS)])]"

definition understands ::
    "(string \<times> param) list \<Rightarrow> ('k host \<Rightarrow> xval \<Rightarrow> bool \<Rightarrow> ('k, xval) handler) \<Rightarrow> bool" where
  "understands sig m \<longleftrightarrow>
     (\<forall>H p ps. calls_ok H \<longrightarrow> asks H p False ps \<longrightarrow> list_all (fits H ps) sig \<longrightarrow> safe (m H p False))"

lemma understandsI:
  "(\<And>H p ps. calls_ok H \<Longrightarrow> asks H p False ps \<Longrightarrow> list_all (fits H ps) sig \<Longrightarrow> safe (m H p False)) \<Longrightarrow> understands sig m"
  by (simp add: understands_def)

lemma vxdb_understands:
  "understands [(''name'', PS), (''bcap'', PS)] m_vxdb_vx_bcaps_add"
  "understands [(''name'', PS)] m_vxdb_vx_bcaps_get"
  "understands [(''name'', PS), (''bcap'', PS)] m_vxdb_vx_bcaps_remove"
  "understands [(''name'', PS), (''ccap'', PS)] m_vxdb_vx_ccaps_add"
  "understands [(''name'', PS)] m_vxdb_vx_ccaps_get"
  "understands [(''name'', PS), (''ccap'', PS)] m_vxdb_vx_ccaps_remove"
  "understands [(''name'', PS)] m_vxdb_vx_cpuset_get"
  "understands [(''name'', PS)] m_vxdb_vx_cpuset_remove"
  "understands [(''name'', PS), (''cpus'', PS), (''mems'', PS), (''virtualize'', PB)] m_vxdb_vx_cpuset_set"
  "understands [(''name'', PS), (''flag'', PS)] m_vxdb_vx_flags_add"
  "understands [(''name'', PS)] m_vxdb_vx_flags_get"
  "understands [(''name'', PS), (''flag'', PS)] m_vxdb_vx_flags_remove"
  "understands [(''name'', PS), (''type'', PS)] m_vxdb_vx_limit_get"
  "understands [(''name'', PS), (''type'', PS)] m_vxdb_vx_limit_remove"
  "understands [(''name'', PS), (''type'', PS), (''soft'', PS), (''max'', PS)] m_vxdb_vx_limit_set"
  "understands [(''name'', PS), (''cpuid'', PI)] m_vxdb_vx_sched_get"
  "understands [(''name'', PS), (''cpuid'', PI)] m_vxdb_vx_sched_remove"
  "understands [(''name'', PS), (''cpuid'', PI), (''fillrate'', PI), (''interval'', PI), (''fillrate2'', PI), (''interval2'', PI), (''tokensmin'', PI), (''tokensmax'', PI)] m_vxdb_vx_sched_set"
  "understands [(''name'', PS), (''type'', PS)] m_vxdb_vx_uname_get"
  "understands [(''name'', PS), (''type'', PS)] m_vxdb_vx_uname_remove"
  "understands [(''name'', PS), (''type'', PS), (''value'', PS)] m_vxdb_vx_uname_set"
  by (rule understandsI, unfold
      m_vxdb_vx_bcaps_add_def m_vxdb_vx_bcaps_get_def m_vxdb_vx_bcaps_remove_def m_vxdb_vx_ccaps_add_def
      m_vxdb_vx_ccaps_get_def m_vxdb_vx_ccaps_remove_def m_vxdb_vx_cpuset_get_def m_vxdb_vx_cpuset_remove_def
      m_vxdb_vx_cpuset_set_def m_vxdb_vx_flags_add_def m_vxdb_vx_flags_get_def m_vxdb_vx_flags_remove_def
      m_vxdb_vx_limit_get_def m_vxdb_vx_limit_remove_def m_vxdb_vx_limit_set_def m_vxdb_vx_sched_get_def
      m_vxdb_vx_sched_remove_def m_vxdb_vx_sched_set_def m_vxdb_vx_uname_get_def m_vxdb_vx_uname_remove_def
      m_vxdb_vx_uname_set_def,
    simp only: list.pred_inject simp_thms, rule init_bind, assumption, blast,
    intro arg_binds ends_rules ends_intros ends_seq; blast)+

lemma index_understands:
  "understands [(''name'', PS)] m_vxdb_dx_limit_get"
  "understands [(''name'', PS)] m_vxdb_dx_limit_remove"
  "understands [(''name'', PS), (''space'', PS), (''inodes'', PS), (''reserved'', PI)] m_vxdb_dx_limit_set"
  "understands [(''name'', PS)] m_vxdb_init_get"
  "understands [(''name'', PS), (''init'', PS), (''halt'', PS), (''reboot'', PS), (''timeout'', PI)] m_vxdb_init_set"
  "understands [(''name'', PS), (''dst'', PS)] m_vxdb_mount_get"
  "understands [(''name'', PS), (''dst'', PS)] m_vxdb_mount_remove"
  "understands [(''name'', PS), (''src'', PS), (''dst'', PS), (''type'', PS), (''opts'', PS)] m_vxdb_mount_set"
  "understands [(''xid'', PI)] m_vxdb_name_get"
  "understands [(''name'', PS), (''addr'', PS)] m_vxdb_nx_addr_get"
  "understands [(''name'', PS), (''addr'', PS)] m_vxdb_nx_addr_remove"
  "understands [(''name'', PS), (''addr'', PS), (''netmask'', PS)] m_vxdb_nx_addr_set"
  "understands [(''name'', PS)] m_vxdb_nx_broadcast_get"
  "understands [(''name'', PS)] m_vxdb_nx_broadcast_remove"
  "understands [(''name'', PS), (''broadcast'', PS)] m_vxdb_nx_broadcast_set"
  "understands [(''name'', PS), (''username'', PS)] m_vxdb_owner_add"
  "understands [(''name'', PS)] m_vxdb_owner_get"
  "understands [(''name'', PS), (''username'', PS)] m_vxdb_owner_remove"
  "understands [(''name'', PS)] m_vxdb_vdir_get"
  "understands [(''name'', PS)] m_vxdb_xid_get"
  by (rule understandsI, unfold
      m_vxdb_dx_limit_get_def m_vxdb_dx_limit_remove_def m_vxdb_dx_limit_set_def m_vxdb_init_get_def
      m_vxdb_init_set_def m_vxdb_mount_get_def m_vxdb_mount_remove_def m_vxdb_mount_set_def m_vxdb_name_get_def
      m_vxdb_nx_addr_get_def m_vxdb_nx_addr_remove_def m_vxdb_nx_addr_set_def m_vxdb_nx_broadcast_get_def
      m_vxdb_nx_broadcast_remove_def m_vxdb_nx_broadcast_set_def m_vxdb_owner_add_def m_vxdb_owner_get_def
      m_vxdb_owner_remove_def m_vxdb_vdir_get_def m_vxdb_xid_get_def,
    simp only: list.pred_inject simp_thms, rule init_bind, assumption, blast,
    intro arg_binds ends_rules ends_intros ends_seq; blast)+

text \<open>Two methods take the request apart a second time, to get at the name of the user.\<close>

lemma asks_pair:
  "asks H p False ps \<Longrightarrow> \<exists>cred. xr_pair (xr H) p = Some (cred, ps) \<and> fits H cred (''username'', PS)"
  by (auto simp: asks_def)

lemma user_bind:
  assumes "asks H p False ps"
    and "\<And>cred. fits H cred (''username'', PS) \<Longrightarrow> ends Q (f (cred, ps))"
  shows "ends Q (bindM (arg_pair H p) f)"
  using asks_pair [OF assms(1)] assms(2) by (auto intro: arg_pair_bind)

lemma list_uid_safe [ends_intros]: "safe (list_uid H curuser user)"
  unfolding list_uid_def by (intro ends_rules ends_intros ends_seq)

lemma vxdb_list_understands: "understands [(''username'', PS)] m_vxdb_list"
proof (rule understandsI)
  fix H :: "'k host" and p ps
  assume a: "asks H p False ps" and "list_all (fits H ps) [(''username'', PS)]"
  then have "fits H ps (''username'', PS)" by simp
  then show "safe (m_vxdb_list H p False)"
    unfolding m_vxdb_list_def
    by (intro init_bind [OF a] user_bind [OF a]) (simp, simp only: prod.case, intro arg_binds ends_rules ends_intros ends_seq)
qed

section \<open>The methods on users and groups\<close>

lemma user_steps_safe [ends_intros]:
  "safe (need_uid H user)" "safe (user_create H user pass admin)" "safe (user_change H uid pass admin)"
  unfolding need_uid_def user_create_def user_change_def invalid_password_def
  by (intro ends_rules ends_intros ends_seq)+

lemma vcd_understands:
  "understands [] m_vcd_hostinfo"
  "understands [] m_vcd_login"
  "understands [] m_vcd_status"
  "understands [(''username'', PS), (''cap'', PS)] m_vcd_user_caps_add"
  "understands [(''username'', PS)] m_vcd_user_caps_get"
  "understands [(''username'', PS), (''cap'', PS)] m_vcd_user_caps_remove"
  "understands [(''username'', PS)] m_vcd_user_get"
  "understands [(''username'', PS)] m_vcd_user_remove"
  "understands [(''username'', PS), (''password'', PS), (''admin'', PB)] m_vcd_user_set"
  by (rule understandsI, unfold
      m_vcd_hostinfo_def m_vcd_login_def m_vcd_status_def m_vcd_user_caps_add_def m_vcd_user_caps_get_def
      m_vcd_user_caps_remove_def m_vcd_user_get_def m_vcd_user_remove_def m_vcd_user_set_def,
    simp only: list.pred_inject simp_thms, rule init_bind, assumption, blast,
    intro arg_binds ends_rules ends_intros ends_seq; blast)+

lemma group_steps_safe [ends_intros]: "safe (next_gid H)" "safe (need_gid H grp)"
  unfolding next_gid_def need_gid_def by (intro ends_rules ends_intros ends_seq)+

lemma vg_understands:
  "understands [(''group'', PS), (''name'', PS)] m_vg_add"
  "understands [(''group'', PS)] m_vg_list"
  "understands [(''group'', PS), (''name'', PS)] m_vg_remove"
  by (rule understandsI, unfold
      m_vg_add_def m_vg_list_def m_vg_remove_def,
    simp only: list.pred_inject simp_thms, rule init_bind, assumption, blast,
    intro arg_binds ends_rules ends_intros ends_seq; blast)+

section \<open>The methods on guests\<close>

lemma ends_wstatus:
  "(\<And>n. w = WExited n \<Longrightarrow> ends Q (f n)) \<Longrightarrow> (\<And>n. ends Q (g n)) \<Longrightarrow>
     ends Q (case w of WExited n \<Rightarrow> f n | WSignaled n \<Rightarrow> g n)"
  by (cases w) simp_all

lemma guest_steps_safe [ends_intros]: "safe (need_running H xid)" "safe (sys_or_fault what f)"
  unfolding need_running_def sys_or_fault_def by (intro ends_rules ends_intros ends_seq)+

lemma collectM_safe [ends_intros]: "(\<And>x. safe (f x)) \<Longrightarrow> safe (collectM xs f)"
  by (induction xs) (auto intro!: ends_rules ends_seq)

lemma item_safe [ends_intros]: "safe (limit_item H xid z)" "safe (net_item H xid y)"
  unfolding limit_item_def net_item_def by (intro ends_rules ends_intros ends_seq)+

lemma vx_understands:
  "understands [(''name'', PS), (''pid'', PI), (''sig'', PI)] m_vx_kill"
  "understands [(''name'', PS)] m_vx_limstatus"
  "understands [(''name'', PS)] m_vx_netstatus"
  "understands [(''name'', PS)] m_vx_remove"
  "understands [(''name'', PS), (''newname'', PS)] m_vx_rename"
  "understands [(''name'', PS)] m_vx_status"
  "understands [(''name'', PS)] m_vx_templates"
  by (rule understandsI, unfold
      m_vx_kill_def m_vx_limstatus_def m_vx_netstatus_def m_vx_remove_def m_vx_rename_def m_vx_status_def
      m_vx_templates_def,
    simp only: list.pred_inject simp_thms, rule init_bind, assumption, blast,
    intro arg_binds ends_rules ends_intros ends_seq; blast)+

text \<open>The methods the daemon also calls itself.  The name in such a call was read from a request or
  from the database, and has no NUL in it.\<close>

definition nul_free :: "string \<Rightarrow> bool" where
  "nul_free s \<longleftrightarrow> CHR 0x00 \<notin> set s"

lemma calls_okD: "calls_ok H \<Longrightarrow> xmlrpc_ok (xr H)"
  by (simp add: calls_ok_def)

lemma xr_string_nul_free: "xmlrpc_ok (xr H) \<Longrightarrow> get_param (xr_string (xr H)) H ps key = Some x \<Longrightarrow> nul_free x"
  by (auto simp: xmlrpc_ok_def get_param_def nul_free_def bind_eq_Some_conv)

lemma fits_struct:
  assumes "xmlrpc_ok (xr H)" and "distinct (map fst fs)"
  shows "map_of fs key = Some (XStr s) \<Longrightarrow> nul_free s \<Longrightarrow> fits H (XStruct fs) (key, PS)"
    and "map_of fs key = Some (XInt i) \<Longrightarrow> - (2 ^ 31) \<le> i \<Longrightarrow> i < 2 ^ 31 \<Longrightarrow> fits H (XStruct fs) (key, PI)"
    and "map_of fs key = Some (XBool b) \<Longrightarrow> fits H (XStruct fs) (key, PB)"
  using assms by (auto simp: fits.simps get_param_def xmlrpc_ok_def nul_free_def)

lemma column_text_nul_free: "vxdb_column_text row i = Some s \<Longrightarrow> nul_free s"
  by (auto simp: vxdb_column_text_def nul_free_def split: option.splits elim!: sval_text.elims)

lemma or_default_nul_free: "nul_free d \<Longrightarrow> nul_free (or_default (vxdb_column_text row i) d)"
  by (auto simp: or_default_def dest: column_text_nul_free split: option.splits)

lemma foldl_last: "P z \<Longrightarrow> (\<And>x. P (g x)) \<Longrightarrow> P (foldl (\<lambda>_ x. g x) z xs)"
  by (induction xs arbitrary: z) simp_all

lemma wait_child_ends:
  "calls_ok H \<Longrightarrow> ends (\<lambda>w. \<forall>n. w = WExited n \<longrightarrow> 0 \<le> n) (sys_or_fault what (wait_child (kern H)))"
  by (rule endsI)
    (auto simp: calls_ok_def sys_or_fault_def bindM_def sysM_def prog_simps split: prod.splits sum.splits)

lemma vx_exec_safe:
  assumes "calls_ok H" and a: "asks H p c ps" and "fits H ps (''name'', PS)" and "fits H ps (''command'', PS)"
  shows "safe (m_vx_exec H p c)"
  unfolding m_vx_exec_def
  by (intro init_bind [OF a] ends_bind [OF wait_child_ends [OF assms(1)]] arg_binds ends_wstatus ends_rules ends_intros ends_seq)
    (use assms(3,4) in \<open>auto intro: fault_known_exec\<close>)

lemma internal_asks: "asks H ps True ps"
  by (simp add: asks_def)

lemma vx_exec_internal:
  assumes "calls_ok H" and "nul_free name" and "nul_free command"
  shows "safe (m_vx_exec H (XStruct [(''name'', XStr name), (''command'', XStr command)]) True)"
proof -
  let ?fs = "[(''name'', XStr name), (''command'', XStr command)]"
  have "fits H (XStruct ?fs) (''name'', PS)" "fits H (XStruct ?fs) (''command'', PS)"
    using fits_struct(1) [OF calls_okD [OF assms(1)], of ?fs] assms(2,3) by simp_all
  with assms(1) show ?thesis by (auto intro: vx_exec_safe internal_asks)
qed

lemma vx_stop_wait_safe [ends_intros]: "safe (vx_stop_wait H xid n)"
  by (induction n) (auto intro!: ends_rules ends_seq)

lemma vx_stop_safe:
  assumes h: "calls_ok H" and a: "asks H p c ps" and n: "fits H ps (''name'', PS)"
  shows "safe (m_vx_stop H p c)"
proof -
  have "nul_free (fst (halt_timeout H rs))" for rs
    unfolding halt_timeout_def
    by (rule foldl_last [where P = "\<lambda>z. nul_free (fst z)"]) (simp_all add: nul_free_def [of "''/sbin/halt''"] or_default_nul_free nul_free_def [of "[]"])
  note internal = vx_exec_internal [OF h xr_string_nul_free [OF calls_okD [OF h]] this]
  show ?thesis
    unfolding m_vx_stop_def
    by (intro init_bind [OF a] arg_s_bind ends_let ends_prod ends_rules ends_intros ends_seq n)
      (metis fst_conv internal)
qed

lemma vx_reboot_safe:
  assumes h: "calls_ok H" and a: "asks H p c ps" and n: "fits H ps (''name'', PS)"
  shows "safe (m_vx_reboot H p c)"
proof -
  have "nul_free (foldl (\<lambda>_ row. or_default (vxdb_column_text row 0) '''') ''/sbin/reboot'' rs)" for rs
    by (rule foldl_last) (simp_all add: or_default_nul_free nul_free_def [of "''/sbin/reboot''"] nul_free_def [of "[]"])
  note internal = vx_exec_internal [OF h xr_string_nul_free [OF calls_okD [OF h]] this]
  show ?thesis
    unfolding m_vx_reboot_def Let_def
    by (intro init_bind [OF a] arg_s_bind internal ends_rules ends_intros ends_seq n)
qed

lemma vx_start_safe:
  assumes a: "asks H p c ps" and n: "fits H ps (''name'', PS)"
  shows "safe (m_vx_start H p c)"
  unfolding m_vx_start_def
  by (intro init_bind [OF a] arg_s_bind ends_rules ends_intros ends_seq n)

lemma vx_restart_safe:
  assumes h: "calls_ok H" and a: "asks H p c ps" and n: "fits H ps (''name'', PS)"
  shows "safe (m_vx_restart H p c)"
  unfolding m_vx_restart_def
  by (intro init_bind [OF a] ends_seq vx_stop_safe [OF h internal_asks] vx_start_safe [OF internal_asks] n)

lemma vx_internal_understands:
  "understands [(''name'', PS), (''command'', PS)] m_vx_exec" "understands [(''name'', PS)] m_vx_reboot"
  "understands [(''name'', PS)] m_vx_restart" "understands [(''name'', PS)] m_vx_start"
  "understands [(''name'', PS)] m_vx_stop"
  by (simp_all add: understands_def vx_exec_safe vx_reboot_safe vx_restart_safe vx_start_safe vx_stop_safe)

section \<open>The methods on the guests of a group\<close>

text \<open>A fault that is kept as a value.\<close>

definition flt_known :: "fault option \<Rightarrow> bool" where
  "flt_known flt = (case flt of None \<Rightarrow> True | Some f \<Rightarrow> fault_known f)"

lemma flt_known_simps [simp]: "flt_known None" "flt_known (Some f) = fault_known f"
  by (simp_all add: flt_known_def)

lemma tryM_ends: "safe m \<Longrightarrow> ends flt_known (tryM m)"
  by (auto simp: ends_def tryM_def split: prod.splits sum.splits) (metis fst_conv sum.case(1))

lemma vg_list_names:
  "ends (list_all (\<lambda>(xid, name). nul_free name)) (vg_list_init H grp)"
  unfolding vg_list_init_def
  by (intro ends_rules ends_intros ends_seq) (auto simp: list_all_iff or_default_nul_free nul_free_def [of "[]"])

lemma name_params_fits: "calls_ok H \<Longrightarrow> nul_free name \<Longrightarrow> fits H (name_params name) (''name'', PS)"
  unfolding name_params_def by (rule fits_struct(1)) (simp_all add: calls_okD)

lemma vg_loop_ends:
  assumes "\<And>ps. fits H ps (''name'', PS) \<Longrightarrow> safe (m H ps True)" and h: "calls_ok H"
  shows "list_all (\<lambda>(xid, name). nul_free name) vxs \<Longrightarrow> flt_known flt \<Longrightarrow> ends flt_known (vg_loop H m vxs flt)"
proof (induction vxs arbitrary: flt)
  case Nil
  then show ?case by (simp add: ends_ret)
next
  case (Cons z vxs)
  obtain xid name where z: "z = (xid, name)" by fastforce
  with Cons.prems have "ends flt_known (tryM (m H (name_params name) True))"
    by (intro tryM_ends assms(1) name_params_fits [OF h]) simp
  with Cons z show ?case
    by (auto intro!: sys_bind ends_sum ends_option ends_bind)
qed

lemma vg_start_loop_ends:
  assumes h: "calls_ok H"
  shows "list_all (\<lambda>(xid, name). nul_free name) vxs \<Longrightarrow> flt_known flt \<Longrightarrow> ends flt_known (vg_start_loop H vxs flt)"
proof (induction vxs arbitrary: flt)
  case Nil
  then show ?case by (simp add: ends_ret)
next
  case (Cons z vxs)
  obtain xid name where z: "z = (xid, name)" by fastforce
  with Cons.prems have "ends flt_known (tryM (m_vx_start H (name_params name) True))"
    by (intro tryM_ends vx_start_safe [OF internal_asks] name_params_fits [OF h]) simp
  with Cons z show ?case
    by (auto intro!: sys_bind ends_sum ends_errno ends_option ends_bind ends_ret)
qed

lemma vg_answer_safe: "flt_known flt \<Longrightarrow> safe (vg_answer flt)"
  by (cases flt) (simp_all add: vg_answer_def ends_ret ends_raise)

lemma vg_vx_understands:
  "understands [(''group'', PS)] m_vg_vx_reboot" "understands [(''group'', PS)] m_vg_vx_restart"
  "understands [(''group'', PS)] m_vg_vx_start" "understands [(''group'', PS)] m_vg_vx_stop"
  unfolding m_vg_vx_reboot_def m_vg_vx_restart_def m_vg_vx_start_def m_vg_vx_stop_def
  by (rule understandsI, rule init_bind, assumption, simp, rule arg_s_bind, simp, rule ends_bind [OF vg_list_names],
    rule ends_bind [OF vg_loop_ends] ends_bind [OF vg_start_loop_ends],
    simp_all add: vg_answer_safe vx_reboot_safe [OF _ internal_asks] vx_restart_safe [OF _ internal_asks] vx_stop_safe [OF _ internal_asks])+

section \<open>The methods of the helper\<close>

lemma helper_steps_safe [ends_intros]:
  "safe (need_name H xid)" "safe (get_changes :: ('k, nat) handler)" "safe (add_interface H xid row)"
  unfolding need_name_def get_changes_def add_interface_def by (intro ends_rules ends_intros ends_seq)+

lemma network_interfaces_safe [ends_intros]: "safe (network_interfaces H xid)"
  unfolding network_interfaces_def by (intro ends_rules ends_intros ends_seq)

lemma broadcast_loop_ends: "flt_known flt \<Longrightarrow> ends flt_known (broadcast_loop H xid rs flt)"
  by (induction rs arbitrary: flt) (auto intro!: ends_ret ends_let ends_prod ends_if sys_bind ends_sum)

lemma flt_raise: "flt_known flt \<Longrightarrow> ends Q m \<Longrightarrow> ends Q (case flt of None \<Rightarrow> m | Some f \<Rightarrow> raise f)"
  by (cases flt) (simp_all add: ends_raise)

lemma network_broadcast_safe [ends_intros]: "safe (network_broadcast H xid)"
  unfolding network_broadcast_def
  by (intro ends_bind [OF broadcast_loop_ends] flt_raise ends_rules ends_intros ends_seq) simp

lemma rows_safe [ends_intros]:
  "safe (all_rows H q)" "(\<And>row. safe (f row)) \<Longrightarrow> safe (each_row H q f)"
  unfolding all_rows_def each_row_def by (intro ends_rules ends_intros ends_seq; assumption)+

lemma walk_files_safe [ends_intros]: "safe (walk_files H xid fs u)"
  by (induction fs arbitrary: u) (auto simp: startup_handle_file_def intro!: ends_rules ends_intros ends_seq)

lemma sched_loop_safe [ends_intros]: "safe (sched_loop H xid numcpus rs cpu)"
  by (induction rs arbitrary: cpu) (auto simp: Let_def intro!: ends_rules ends_intros ends_seq)

lemma cpuset_write_ends: "flt_known flt \<Longrightarrow> ends flt_known (cpuset_write H path text flt)"
  unfolding cpuset_write_def by (auto intro!: sys_bind ends_sum ends_ret)

lemma cpuset_setup_safe [ends_intros]: "safe (cpuset_setup H xid row)"
  unfolding cpuset_setup_def
  by (intro ends_seq [OF ends_gets] ends_seq [of "if _ then ret (Inr ()) else _"] ends_bind [OF cpuset_write_ends]
      ends_bind [of flt_known "if _ then cpuset_write _ _ _ _ else _"] flt_raise ends_rules)
    (auto intro: cpuset_write_ends)

lemma resource_limit_safe [ends_intros]: "safe (resource_limit H xid lm row)" "safe (uname_row H xid nrow)"
  unfolding resource_limit_def uname_row_def Let_def by (intro ends_rules ends_intros ends_seq)+

lemma context_safe [ends_intros]:
  "safe (context_caps_and_flags H xid)" "safe (context_disk_limits H xid name)"
  "safe (context_resource_limits H xid)" "safe (context_cpuset H xid)" "safe (context_scheduler H xid)"
  "safe (namespace_setup H xid)" "safe (context_uname H xid name vdir)"
  unfolding context_caps_and_flags_def context_disk_limits_def context_resource_limits_def context_cpuset_def
    context_scheduler_def namespace_setup_def context_uname_def Let_def
  by (intro ends_wstatus ends_rules ends_intros ends_seq)+

lemma do_mount_safe: "calls_ok H \<Longrightarrow> safe (do_mount H xid vdir row mtab)"
  unfolding do_mount_def Let_def
  by (intro ends_bind [OF wait_child_ends] ends_wstatus ends_rules ends_intros ends_seq) (auto intro: fault_known_exec)

lemma namespace_mount_safe: "calls_ok H \<Longrightarrow> safe (namespace_mount H xid vdir)"
  unfolding namespace_mount_def by (intro do_mount_safe ends_rules ends_intros ends_seq; assumption)

lemma helper_understands:
  "understands [(''xid'', PI)] m_helper_netup" "understands [(''xid'', PI)] m_helper_restart"
  "understands [(''xid'', PI)] m_helper_shutdown" "understands [(''xid'', PI)] m_helper_startup"
  by (rule understandsI, unfold m_helper_netup_def m_helper_restart_def m_helper_shutdown_def m_helper_startup_def,
    simp only: list.pred_inject simp_thms, rule init_bind, assumption, blast,
    intro arg_binds namespace_mount_safe ends_rules ends_intros ends_seq; blast)+

section \<open>Creating a guest\<close>

lemma file_steps_safe [ends_intros]:
  "safe (copy_regular H path)" "safe (link_regular H path)" "safe (copy_symlink H path)" "safe (try_runlink H path)"
  "safe (or_sanitize H f)"
  unfolding copy_regular_def link_regular_def copy_symlink_def try_runlink_def or_sanitize_def
  by (intro ends_rules ends_intros ends_seq)+

lemma make_file_ends: "flt_known flt \<Longrightarrow> ends (\<lambda>z. flt_known (fst z)) (make_file H copy f flt)"
  unfolding make_file_def by (cases "ft_type f") (auto intro!: ends_if ends_seq ends_ret ends_intros)

lemma create_handle_file_ends:
  "flt_known flt \<Longrightarrow> ends flt_known (create_handle_file H xid vdir copy tag f flt)"
  unfolding create_handle_file_def
  by (auto intro!: ends_if ends_ret ends_bind [OF make_file_ends] ends_seq [OF guest_steps_safe(2)])

lemma create_walk_ends: "flt_known flt \<Longrightarrow> ends flt_known (create_walk H xid vdir copy tag fs flt)"
  by (induction fs arbitrary: flt) (auto intro!: ends_ret ends_bind [OF create_handle_file_ends])

lemma make_vserver_filesystem_safe [ends_intros]: "safe (make_vserver_filesystem H xid vdir tdir copy)"
  unfolding make_vserver_filesystem_def Let_def
  by (intro ends_bind [OF create_walk_ends] flt_raise ends_rules ends_intros ends_seq) simp

lemma free_loop_safe [ends_intros]: "safe (free_loop H n i)"
  by (induction n arbitrary: i) (auto intro!: ends_rules ends_intros ends_seq)

lemma find_free_xid_safe [ends_intros]: "safe (find_free_xid H xid name)"
  unfolding find_free_xid_def pick_xid_def by (intro ends_rules ends_intros ends_seq)

lemma on_fault_safe [ends_intros]: "safe m \<Longrightarrow> safe (on_fault m h)"
  by (auto simp: ends_def on_fault_def split: prod.splits sum.splits) (metis fst_conv sum.case(1))

lemma build_root_filesystem_safe [ends_intros]: "safe (build_root_filesystem H xid name vdir tdir copy)"
  unfolding build_root_filesystem_def sanitize_dev_def by (intro ends_rules ends_intros ends_seq)

lemma conf_fault_known [simp]: "fault_known (conf_fault what val1)"
  by (simp add: conf_fault_def)

lemma stmts_known:
  "init_stmts H t xid = Inl f \<Longrightarrow> fault_known f"
  "tmount_stmts H xid ms = Inl f \<Longrightarrow> fault_known f"
  "flag_stmts H l what tb cl xid xs = Inl f \<Longrightarrow> fault_known f"
proof -
  show "init_stmts H t xid = Inl f \<Longrightarrow> fault_known f"
    by (auto simp: init_stmts_def Let_def split: if_splits)
  show "tmount_stmts H xid ms = Inl f \<Longrightarrow> fault_known f"
    by (induction ms) (auto split: if_splits option.splits sum.splits)
  show "flag_stmts H l what tb cl xid xs = Inl f \<Longrightarrow> fault_known f"
    by (induction xs) (auto split: if_splits sum.splits)
qed

lemma safe_liftM: "(\<And>f. r = Inl f \<Longrightarrow> fault_known f) \<Longrightarrow> safe (liftM r)"
  by (cases r) (simp_all add: ends_def prog_simps)

lemma entries_stmts_safe [ends_intros]: "safe (entries_stmts H t xid name vdir)"
  unfolding entries_stmts_def
  by (intro ends_seq safe_liftM ends_rules) (auto dest: stmts_known split: if_splits)

lemma create_vxdb_entries_safe [ends_intros]: "safe (create_vxdb_entries H xid name vdir tdir template)"
proof -
  have "safe (vxdb_exec_format H sts)" for sts
    by (auto simp: ends_def vxdb_exec_format_def vxdb_exec_def split: prod.splits)
  then show ?thesis
    unfolding create_vxdb_entries_def Let_def
    by (auto intro!: ends_rules ends_intros ends_seq split: cfg_parsed.split)
qed

lemma create_steps_safe [ends_intros]:
  "safe (create_permitted H user name force xid)" "safe (create_tdir H template)" "safe (create_vdir H user name vdir force)"
  unfolding create_permitted_def create_tdir_def create_vdir_def Let_def
  by (intro ends_rules ends_intros ends_seq)+

lemma vx_create_understands:
  "understands [(''name'', PS), (''template'', PS), (''force'', PB), (''copy'', PB), (''vdir'', PS)] m_vx_create"
proof (rule understandsI)
  fix H :: "'k host" and p ps
  assume a: "asks H p False ps"
    and "list_all (fits H ps) [(''name'', PS), (''template'', PS), (''force'', PB), (''copy'', PB), (''vdir'', PS)]"
  then have "fits H ps (''name'', PS)" "fits H ps (''template'', PS)" "fits H ps (''force'', PB)"
    "fits H ps (''copy'', PB)" "fits H ps (''vdir'', PS)" by simp_all
  then show "safe (m_vx_create H p False)"
    unfolding m_vx_create_def
    by (intro init_bind [OF a] user_bind [OF a]) (simp, simp only: prod.case, intro arg_binds ends_rules ends_intros ends_seq)
qed

section \<open>Every method\<close>

lemmas understood = helper_understands vcd_understands vg_understands vg_vx_understands vx_understands
  vx_internal_understands vx_create_understands vxdb_understands index_understands vxdb_list_understands

lemma registry_signatures:
  "list_all2 (\<lambda>(n, m) (n', sig). n = n' \<and> understands sig m) method_registry signatures"
  by (simp add: method_registry_def signatures_def understood)

lemma dispatch_safe:
  fixes H :: "'k host"
  assumes "map_of signatures name = Some sig" and "calls_ok H" and "asks H p False ps" and "list_all (fits H ps) sig"
  shows "safe (dispatch H name p)"
proof -
  have "list_all2 (\<lambda>(n, m) (n', sig). n = n' \<and> understands sig m) (method_registry :: 'k methods) signatures"
    by (rule registry_signatures)
  note known = map_of_list_all2 [OF this]
  from known(1) [of name] assms(1) obtain m where m: "map_of (method_registry :: 'k methods) name = Some m"
    by fastforce
  from known(2) [OF m] assms(1) have "understands sig m" by simp
  with assms(2-4) m show ?thesis by (simp add: dispatch_def understands_def)
qed

end
