(* ===== verification/Answers.thy ===== *)
theory Answers
  imports Interface
begin

text \<open>
  The form of the answer of each method: one string or number, a structure of them, or an array of
  such values.  A null pointer is allowed in every place; the methods themselves do not check for
  it.
\<close>

section \<open>Types of answers\<close>

datatype sty = TStr | TInt

datatype ty = Any | One sty | Rec "(string \<times> sty) list" | Arr ty

definition int32 :: "int \<Rightarrow> bool" where
  "int32 i \<longleftrightarrow> - (2 ^ 31) \<le> i \<and> i < 2 ^ 31"

fun has_sty :: "sty \<Rightarrow> xval \<Rightarrow> bool" where
  "has_sty _ XNil = True"
| "has_sty TStr (XStr s) = True"
| "has_sty TInt (XInt i) = int32 i"
| "has_sty _ _ = False"

fun has_type :: "ty \<Rightarrow> xval \<Rightarrow> bool" where
  "has_type Any v = True"
| "has_type (One t) v = has_sty t v"
| "has_type (Rec fs) v =
     (case v of
        XStruct gs \<Rightarrow> list_all2 (\<lambda>(k, t) (k', x). k = k' \<and> has_sty t x) fs gs
      | XNil \<Rightarrow> True
      | _ \<Rightarrow> False)"
| "has_type (Arr t) v =
     (case v of XArr vs \<Rightarrow> list_all (has_type t) vs | XNil \<Rightarrow> True | _ \<Rightarrow> False)"

section \<open>What a program gives\<close>

definition gives :: "('a \<Rightarrow> bool) \<Rightarrow> ('s, 'e, 'a) prog \<Rightarrow> bool" where
  "gives Q m \<longleftrightarrow> (\<forall>s v s'. m s = (Inr v, s') \<longrightarrow> Q v)"

lemma gives_bind: "(\<And>x. gives Q (f x)) \<Longrightarrow> gives Q (bindM m f)"
  by (auto simp: gives_def elim!: bindM_InrE)

lemma gives_pure: "Q x \<Longrightarrow> gives Q (ret x)" "gives Q (raise e)"
  by (simp_all add: gives_def prog_simps)

lemma gives_if: "gives Q m \<Longrightarrow> gives Q n \<Longrightarrow> gives Q (if b then m else n)"
  by simp

lemma gives_case:
  "gives Q m \<Longrightarrow> (\<And>x. gives Q (f x)) \<Longrightarrow> gives Q (case w of None \<Rightarrow> m | Some x \<Rightarrow> f x)"
  "(\<And>x. gives Q (g x)) \<Longrightarrow> (\<And>y. gives Q (h y)) \<Longrightarrow> gives Q (case u of Inl x \<Rightarrow> g x | Inr y \<Rightarrow> h y)"
  "(\<And>a b. gives Q (p a b)) \<Longrightarrow> gives Q (case z of (a, b) \<Rightarrow> p a b)"
  by (simp_all split: option.split sum.split prod.split)

lemma gives_errno:
  "gives Q m \<Longrightarrow> gives Q n \<Longrightarrow> (\<And>i. gives Q (f i)) \<Longrightarrow> gives Q (case e of ESRCH \<Rightarrow> m | ENOENT \<Rightarrow> n | Errno i \<Rightarrow> f i)"
  "(\<And>i. gives Q (g i)) \<Longrightarrow> (\<And>i. gives Q (h i)) \<Longrightarrow> gives Q (case w of WExited i \<Rightarrow> g i | WSignaled i \<Rightarrow> h i)"
  by (simp_all split: errno.split wstatus.split)

lemma gives_let: "(\<And>x. gives Q (f x)) \<Longrightarrow> gives Q (let x = v in f x)"
  by simp

lemma gives_answer_row: "(\<And>row. Q (b row)) \<Longrightarrow> Q d \<Longrightarrow> gives Q (answer_row H q b d)"
  unfolding answer_row_def by (rule gives_bind) (auto intro: gives_pure split: list.split)

lemma gives_answer_rows: "(\<And>row. has_type t (b row)) \<Longrightarrow> gives (has_type (Arr t)) (answer_rows H q b)"
  unfolding answer_rows_def by (rule gives_bind) (auto intro: gives_pure simp: list_all_iff)

lemma gives_collect:
  assumes "\<And>x. gives (has_type t) (f x)"
  shows "gives (has_type (Arr t)) (bindM (collectM xs f) (\<lambda>vs. ret (XArr vs)))"
proof -
  have "list_all (has_type t) vs" if "collectM xs f s = (Inr vs, s')" for s vs s'
    using that
  proof (induction xs arbitrary: s vs)
    case (Cons x xs)
    then obtain v ws s1 where "f x s = (Inr v, s1)" "collectM xs f s1 = (Inr ws, s')" "vs = v # ws"
      by (auto simp: prog_simps elim!: bindM_InrE)
    with assms [of x] Cons.IH show ?case by (auto simp: gives_def)
  qed (simp add: prog_simps)
  then show ?thesis by (auto simp: gives_def prog_simps elim!: bindM_InrE)
qed

lemmas gives_rules = gives_answer_row gives_answer_rows gives_pure gives_let gives_case gives_errno
  gives_if gives_bind

section \<open>The answers of the methods\<close>

lemma int32_s32 [simp]: "int32 (s32 i)"
  using pos_mod_bound [of "2 ^ 32" i] pos_mod_sign [of "2 ^ 32" i] by (auto simp: int32_def s32_def Let_def)

lemma int32_small [simp]: "int32 0" "int32 1" "int32 15" "int32 (- 1)" "int32 (- 2)"
  by (simp_all add: int32_def)

lemma int32_column: "lucid_ok (lib H) \<Longrightarrow> int32 (vxdb_column_int (lib H) row i)"
  using lucid_ok_int [of "lib H"] by (auto simp: vxdb_column_int_def scan_or_0_def int32_def split: option.split)

lemma build_s_type: "has_sty TStr (build_s w)" "has_sty TStr (col_s row i)"
  by (simp_all add: col_s_def build_s_def split: option.split)

lemma col_i_type: "lucid_ok (lib H) \<Longrightarrow> has_sty TInt (col_i H row i)"
  by (simp add: col_i_def int32_column)

lemmas ty_simps = build_s_type col_i_type int32_column

definition answers_with :: "ty \<Rightarrow> ('k host \<Rightarrow> xval \<Rightarrow> bool \<Rightarrow> ('k, xval) handler) \<Rightarrow> bool" where
  "answers_with t m \<longleftrightarrow> (\<forall>H p. lucid_ok (lib H) \<longrightarrow> gives (has_type t) (m H p False))"

lemma answers_withI:
  "(\<And>H p. lucid_ok (lib H) \<Longrightarrow> gives (has_type t) (m H p False)) \<Longrightarrow> answers_with t m"
  by (simp add: answers_with_def)

definition answers :: "(string \<times> ty) list" where
  "answers =
     [(''helper.netup'', Any), (''helper.restart'', Any), (''helper.shutdown'', Any),
      (''helper.startup'', Rec [(''vdir'', TStr), (''init'', TStr)]),
      (''vcd.hostinfo'', Rec [(''vbasedir'', TStr), (''cpus'', TInt), (''memnodes'', TInt)]), (''vcd.login'', Any),
      (''vcd.status'', Rec [(''uptime'', TInt), (''requests'', TInt), (''flogins'', TInt), (''nomethod'', TInt)]),
      (''vcd.user.caps.add'', Any), (''vcd.user.caps.get'', Arr (One TStr)), (''vcd.user.caps.remove'', Any),
      (''vcd.user.get'', Arr (Rec [(''username'', TStr), (''uid'', TInt), (''admin'', TInt)])),
      (''vcd.user.remove'', Any), (''vcd.user.set'', Any), (''vg.add'', Any), (''vg.list'', Arr (One TStr)),
      (''vg.remove'', Any), (''vg.vx.reboot'', Any), (''vg.vx.restart'', Any), (''vg.vx.start'', Any),
      (''vg.vx.stop'', Any), (''vx.create'', Any), (''vx.exec'', One TStr), (''vx.kill'', Any),
      (''vx.limstatus'', Arr (Rec [(''type'', TStr), (''min'', TStr), (''cur'', TStr), (''max'', TStr)])),
      (''vx.netstatus'', Arr (Rec [(''type'', TStr), (''recvp'', TStr), (''recvb'', TStr), (''sendp'', TStr), (''sendb'', TStr), (''failp'', TStr), (''failb'', TStr)])),
      (''vx.reboot'', Any), (''vx.remove'', Any), (''vx.rename'', Any), (''vx.restart'', Any), (''vx.start'', Any),
      (''vx.status'', Rec [(''running'', TInt), (''thr_total'', TInt), (''thr_running'', TInt), (''thr_unintr'', TInt), (''thr_onhold'', TInt), (''forks_total'', TInt), (''uptime'', TInt), (''load1m'', TStr), (''load5m'', TStr), (''load15m'', TStr)]),
      (''vx.stop'', Any), (''vx.templates'', Arr (Rec [(''name'', TStr), (''description'', TStr)])),
      (''vxdb.dx.limit.get'', Rec [(''space'', TStr), (''inodes'', TStr), (''reserved'', TInt)]),
      (''vxdb.dx.limit.remove'', Any), (''vxdb.dx.limit.set'', Any),
      (''vxdb.init.get'', Rec [(''init'', TStr), (''halt'', TStr), (''reboot'', TStr), (''timeout'', TInt)]),
      (''vxdb.init.set'', Any), (''vxdb.list'', Arr (One TStr)),
      (''vxdb.mount.get'', Arr (Rec [(''src'', TStr), (''dst'', TStr), (''type'', TStr), (''opts'', TStr)])),
      (''vxdb.mount.remove'', Any), (''vxdb.mount.set'', Any), (''vxdb.name.get'', One TStr),
      (''vxdb.nx.addr.get'', Arr (Rec [(''addr'', TStr), (''netmask'', TStr)])), (''vxdb.nx.addr.remove'', Any),
      (''vxdb.nx.addr.set'', Any), (''vxdb.nx.broadcast.get'', One TStr), (''vxdb.nx.broadcast.remove'', Any),
      (''vxdb.nx.broadcast.set'', Any), (''vxdb.owner.add'', Any), (''vxdb.owner.get'', Arr (One TStr)),
      (''vxdb.owner.remove'', Any), (''vxdb.vdir.get'', One TStr), (''vxdb.vx.bcaps.add'', Any),
      (''vxdb.vx.bcaps.get'', Arr (One TStr)), (''vxdb.vx.bcaps.remove'', Any), (''vxdb.vx.ccaps.add'', Any),
      (''vxdb.vx.ccaps.get'', Arr (One TStr)), (''vxdb.vx.ccaps.remove'', Any),
      (''vxdb.vx.cpuset.get'', Rec [(''cpus'', TStr), (''mems'', TStr), (''virtualize'', TInt)]),
      (''vxdb.vx.cpuset.remove'', Any), (''vxdb.vx.cpuset.set'', Any), (''vxdb.vx.flags.add'', Any),
      (''vxdb.vx.flags.get'', Arr (One TStr)), (''vxdb.vx.flags.remove'', Any),
      (''vxdb.vx.limit.get'', Arr (Rec [(''type'', TStr), (''soft'', TStr), (''max'', TStr)])),
      (''vxdb.vx.limit.remove'', Any), (''vxdb.vx.limit.set'', Any),
      (''vxdb.vx.sched.get'', Arr (Rec [(''cpuid'', TInt), (''fillrate'', TInt), (''interval'', TInt), (''fillrate2'', TInt), (''interval2'', TInt), (''tokensmin'', TInt), (''tokensmax'', TInt)])),
      (''vxdb.vx.sched.remove'', Any), (''vxdb.vx.sched.set'', Any),
      (''vxdb.vx.uname.get'', Arr (Rec [(''type'', TStr), (''value'', TStr)])), (''vxdb.vx.uname.remove'', Any),
      (''vxdb.vx.uname.set'', Any), (''vxdb.xid.get'', One TInt)]"

lemma item_answer:
  "gives (has_type (Rec [(''type'', TStr), (''min'', TStr), (''cur'', TStr), (''max'', TStr)])) (limit_item H xid z)"
  "gives (has_type (Rec [(''type'', TStr), (''recvp'', TStr), (''recvb'', TStr), (''sendp'', TStr), (''sendb'', TStr),
     (''failp'', TStr), (''failb'', TStr)])) (net_item H xid y)"
  unfolding limit_item_def net_item_def Let_def by (intro gives_case gives_bind gives_pure; simp split: prod.split)+

lemma methods_answer:
  "answers_with (Rec [(''vdir'', TStr), (''init'', TStr)]) m_helper_startup"
  "answers_with (Rec [(''vbasedir'', TStr), (''cpus'', TInt), (''memnodes'', TInt)]) m_vcd_hostinfo"
  "answers_with (Rec [(''uptime'', TInt), (''requests'', TInt), (''flogins'', TInt), (''nomethod'', TInt)]) m_vcd_status"
  "answers_with (Arr (One TStr)) m_vcd_user_caps_get"
  "answers_with (Arr (Rec [(''username'', TStr), (''uid'', TInt), (''admin'', TInt)])) m_vcd_user_get"
  "answers_with (Arr (One TStr)) m_vg_list"
  "answers_with (One TStr) m_vx_exec"
  "answers_with (Arr (Rec [(''type'', TStr), (''min'', TStr), (''cur'', TStr), (''max'', TStr)])) m_vx_limstatus"
  "answers_with (Arr (Rec [(''type'', TStr), (''recvp'', TStr), (''recvb'', TStr), (''sendp'', TStr), (''sendb'', TStr), (''failp'', TStr), (''failb'', TStr)])) m_vx_netstatus"
  "answers_with (Rec [(''running'', TInt), (''thr_total'', TInt), (''thr_running'', TInt), (''thr_unintr'', TInt), (''thr_onhold'', TInt), (''forks_total'', TInt), (''uptime'', TInt), (''load1m'', TStr), (''load5m'', TStr), (''load15m'', TStr)]) m_vx_status"
  "answers_with (Arr (Rec [(''name'', TStr), (''description'', TStr)])) m_vx_templates"
  "answers_with (Rec [(''space'', TStr), (''inodes'', TStr), (''reserved'', TInt)]) m_vxdb_dx_limit_get"
  "answers_with (Rec [(''init'', TStr), (''halt'', TStr), (''reboot'', TStr), (''timeout'', TInt)]) m_vxdb_init_get"
  "answers_with (Arr (One TStr)) m_vxdb_list"
  "answers_with (Arr (Rec [(''src'', TStr), (''dst'', TStr), (''type'', TStr), (''opts'', TStr)])) m_vxdb_mount_get"
  "answers_with (One TStr) m_vxdb_name_get"
  "answers_with (Arr (Rec [(''addr'', TStr), (''netmask'', TStr)])) m_vxdb_nx_addr_get"
  "answers_with (One TStr) m_vxdb_nx_broadcast_get"
  "answers_with (Arr (One TStr)) m_vxdb_owner_get"
  "answers_with (One TStr) m_vxdb_vdir_get"
  "answers_with (Arr (One TStr)) m_vxdb_vx_bcaps_get"
  "answers_with (Arr (One TStr)) m_vxdb_vx_ccaps_get"
  "answers_with (Rec [(''cpus'', TStr), (''mems'', TStr), (''virtualize'', TInt)]) m_vxdb_vx_cpuset_get"
  "answers_with (Arr (One TStr)) m_vxdb_vx_flags_get"
  "answers_with (Arr (Rec [(''type'', TStr), (''soft'', TStr), (''max'', TStr)])) m_vxdb_vx_limit_get"
  "answers_with (Arr (Rec [(''cpuid'', TInt), (''fillrate'', TInt), (''interval'', TInt), (''fillrate2'', TInt), (''interval2'', TInt), (''tokensmin'', TInt), (''tokensmax'', TInt)])) m_vxdb_vx_sched_get"
  "answers_with (Arr (Rec [(''type'', TStr), (''value'', TStr)])) m_vxdb_vx_uname_get"
  "answers_with (One TInt) m_vxdb_xid_get"
  by (rule answers_withI, unfold
      m_helper_startup_def m_vcd_hostinfo_def m_vcd_status_def m_vcd_user_caps_get_def m_vcd_user_get_def
      m_vg_list_def m_vx_exec_def m_vx_limstatus_def m_vx_netstatus_def m_vx_status_def m_vx_templates_def
      m_vxdb_dx_limit_get_def m_vxdb_init_get_def m_vxdb_list_def m_vxdb_mount_get_def m_vxdb_name_get_def
      m_vxdb_nx_addr_get_def m_vxdb_nx_broadcast_get_def m_vxdb_owner_get_def m_vxdb_vdir_get_def
      m_vxdb_vx_bcaps_get_def m_vxdb_vx_ccaps_get_def m_vxdb_vx_cpuset_get_def m_vxdb_vx_flags_get_def
      m_vxdb_vx_limit_get_def m_vxdb_vx_sched_get_def m_vxdb_vx_uname_get_def m_vxdb_xid_get_def,
    intro gives_collect item_answer gives_rules;
    simp add: ty_simps status_answer_def limit_entry_def Let_def list_all_iff split: option.split prod.split)+

lemma answers_any: "answers_with Any m"
  by (simp add: answers_with_def gives_def)

lemma registry_answers:
  "list_all2 (\<lambda>(n, m) (n', t). n = n' \<and> answers_with t m) method_registry answers"
  by (simp add: method_registry_def answers_def methods_answer answers_any)

lemma dispatch_answer:
  fixes H :: "'k host"
  assumes "map_of answers name = Some t" and "lucid_ok (lib H)" and "dispatch H name p s = (Inr v, s')"
  shows "has_type t v"
proof -
  have "list_all2 (\<lambda>(n, m) (n', t). n = n' \<and> answers_with t m) (method_registry :: 'k methods) answers"
    by (rule registry_answers)
  note known = map_of_list_all2 [OF this]
  from known(1) [of name] assms(1) obtain m where m: "map_of (method_registry :: 'k methods) name = Some m"
    by fastforce
  from known(2) [OF m] assms(1) have "answers_with t m" by simp
  moreover have "m H p False s = (Inr v, s')" using assms(3) m by (simp add: dispatch_def)
  ultimately show ?thesis using assms(2) unfolding answers_with_def gives_def by blast
qed

end
