(* ===== verification/Client_Laws.thy ===== *)
theory Client_Laws
  imports Client_Main Answers
begin

text \<open>
  The clients and the daemon agree on the interface: every request a command makes has the
  parameters its method takes.
\<close>

section \<open>Requests\<close>

text \<open>Words of a command line are C strings, and an \<^verbatim>\<open>int\<close> variable holds 32 bits.\<close>

definition words_ok :: "'k host \<Rightarrow> string list \<Rightarrow> bool" where
  "words_ok H argv \<longleftrightarrow>
     list_all nul_free argv \<and> (\<forall>s. strtok_tostr (lib H) (tl argv) = Some s \<longrightarrow> nul_free s)
     \<and> int32 (garbage H)"

definition call_fits :: "'k host \<Rightarrow> command \<Rightarrow> bool" where
  "call_fits H cmd =
     (case cmd of
        Call name params reply \<Rightarrow> (\<exists>sig. map_of signatures name = Some sig \<and> list_all (fits H params) sig)
      | _ \<Rightarrow> True)"

definition clients :: "(string \<times> (string \<times> ('k host \<Rightarrow> string list \<Rightarrow> command)) list) list" where
  "clients = [(''vcc'', vcc_CMDS), (''vce'', vce_CMDS), (''vgc'', vgc_CMDS), (''vcdadm'', vcdadm_CMDS)]"

lemma call_fits_simps [simp]:
  "call_fits H Usage" "call_fits H (Login n)" "call_fits H (Fail w)"
  by (simp_all add: call_fits_def)

lemma call_fitsI:
  "map_of signatures name = Some sig \<Longrightarrow> list_all (fits H params) sig \<Longrightarrow> call_fits H (Call name params reply)"
  by (simp add: call_fits_def)

fun val_fits :: "param \<Rightarrow> xval \<Rightarrow> bool" where
  "val_fits PS (XStr s) = nul_free s"
| "val_fits PI (XInt i) = int32 i"
| "val_fits PB (XBool b) = True"
| "val_fits _ _ = False"

lemma fits_val:
  assumes "xmlrpc_ok (xr H)" and "distinct (map fst fs)" and "map_of fs key = Some v" and "val_fits t v"
  shows "fits H (XStruct fs) (key, t)"
  using assms by (cases v; cases t) (auto simp: int32_def intro: fits_struct)

lemma scan_d_int32: "lucid_ok (lib H) \<Longrightarrow> int32 old \<Longrightarrow> int32 (scan_d H w old)"
  using lucid_ok_int [of "lib H" w] by (auto simp: scan_d_def int32_def split: option.split)

lemma words_okD:
  assumes "words_ok H argv"
  shows "i < length argv \<Longrightarrow> nul_free (argv ! i)" and "nul_free d \<Longrightarrow> nul_free (arg_or argv i d)"
    and "int32 (garbage H)" and "strtok_tostr (lib H) (tl argv) = Some s \<Longrightarrow> nul_free s"
  using assms by (auto simp: words_ok_def arg_or_def list_all_length)

lemma call_fits_if:
  "words_ok H argv \<Longrightarrow> (\<forall>i<n. nul_free (argv ! i) \<Longrightarrow> call_fits H cmd) \<Longrightarrow> call_fits H (if length argv < n then Usage else cmd)"
  by (auto simp: words_ok_def list_all_length)

lemma nul_free_Nil [simp]: "nul_free []"
  by (simp add: nul_free_def)

lemma signature_of_vx:
  "map_of signatures ''vcd.hostinfo'' = Some []"
  "map_of signatures ''vcd.status'' = Some []"
  "map_of signatures ''vcd.user.caps.add'' = Some [(''username'', PS), (''cap'', PS)]"
  "map_of signatures ''vcd.user.caps.get'' = Some [(''username'', PS)]"
  "map_of signatures ''vcd.user.caps.remove'' = Some [(''username'', PS), (''cap'', PS)]"
  "map_of signatures ''vcd.user.get'' = Some [(''username'', PS)]"
  "map_of signatures ''vcd.user.remove'' = Some [(''username'', PS)]"
  "map_of signatures ''vcd.user.set'' = Some [(''username'', PS), (''password'', PS), (''admin'', PB)]"
  "map_of signatures ''vg.add'' = Some [(''group'', PS), (''name'', PS)]"
  "map_of signatures ''vg.list'' = Some [(''group'', PS)]"
  "map_of signatures ''vg.remove'' = Some [(''group'', PS), (''name'', PS)]"
  "map_of signatures ''vg.vx.reboot'' = Some [(''group'', PS)]"
  "map_of signatures ''vg.vx.restart'' = Some [(''group'', PS)]"
  "map_of signatures ''vg.vx.start'' = Some [(''group'', PS)]"
  "map_of signatures ''vg.vx.stop'' = Some [(''group'', PS)]"
  "map_of signatures ''vx.create'' = Some [(''name'', PS), (''template'', PS), (''force'', PB), (''copy'', PB), (''vdir'', PS)]"
  "map_of signatures ''vx.exec'' = Some [(''name'', PS), (''command'', PS)]"
  "map_of signatures ''vx.kill'' = Some [(''name'', PS), (''pid'', PI), (''sig'', PI)]"
  "map_of signatures ''vx.limstatus'' = Some [(''name'', PS)]"
  "map_of signatures ''vx.netstatus'' = Some [(''name'', PS)]"
  "map_of signatures ''vx.reboot'' = Some [(''name'', PS)]"
  "map_of signatures ''vx.remove'' = Some [(''name'', PS)]"
  "map_of signatures ''vx.rename'' = Some [(''name'', PS), (''newname'', PS)]"
  "map_of signatures ''vx.restart'' = Some [(''name'', PS)]"
  "map_of signatures ''vx.start'' = Some [(''name'', PS)]"
  "map_of signatures ''vx.status'' = Some [(''name'', PS)]"
  "map_of signatures ''vx.stop'' = Some [(''name'', PS)]"
  "map_of signatures ''vx.templates'' = Some [(''name'', PS)]"
  by code_simp+

lemma signature_of_vxdb:
  "map_of signatures ''vxdb.dx.limit.get'' = Some [(''name'', PS)]"
  "map_of signatures ''vxdb.dx.limit.remove'' = Some [(''name'', PS)]"
  "map_of signatures ''vxdb.dx.limit.set'' = Some [(''name'', PS), (''space'', PS), (''inodes'', PS), (''reserved'', PI)]"
  "map_of signatures ''vxdb.init.get'' = Some [(''name'', PS)]"
  "map_of signatures ''vxdb.init.set'' = Some [(''name'', PS), (''init'', PS), (''halt'', PS), (''reboot'', PS), (''timeout'', PI)]"
  "map_of signatures ''vxdb.list'' = Some [(''username'', PS)]"
  "map_of signatures ''vxdb.mount.get'' = Some [(''name'', PS), (''dst'', PS)]"
  "map_of signatures ''vxdb.mount.remove'' = Some [(''name'', PS), (''dst'', PS)]"
  "map_of signatures ''vxdb.mount.set'' = Some [(''name'', PS), (''src'', PS), (''dst'', PS), (''type'', PS), (''opts'', PS)]"
  "map_of signatures ''vxdb.nx.addr.get'' = Some [(''name'', PS), (''addr'', PS)]"
  "map_of signatures ''vxdb.nx.addr.remove'' = Some [(''name'', PS), (''addr'', PS)]"
  "map_of signatures ''vxdb.nx.addr.set'' = Some [(''name'', PS), (''addr'', PS), (''netmask'', PS)]"
  "map_of signatures ''vxdb.nx.broadcast.get'' = Some [(''name'', PS)]"
  "map_of signatures ''vxdb.nx.broadcast.remove'' = Some [(''name'', PS)]"
  "map_of signatures ''vxdb.nx.broadcast.set'' = Some [(''name'', PS), (''broadcast'', PS)]"
  by code_simp+

lemma signature_of_vxdb_vx:
  "map_of signatures ''vxdb.vx.bcaps.add'' = Some [(''name'', PS), (''bcap'', PS)]"
  "map_of signatures ''vxdb.vx.bcaps.get'' = Some [(''name'', PS)]"
  "map_of signatures ''vxdb.vx.bcaps.remove'' = Some [(''name'', PS), (''bcap'', PS)]"
  "map_of signatures ''vxdb.vx.ccaps.add'' = Some [(''name'', PS), (''ccap'', PS)]"
  "map_of signatures ''vxdb.vx.ccaps.get'' = Some [(''name'', PS)]"
  "map_of signatures ''vxdb.vx.ccaps.remove'' = Some [(''name'', PS), (''ccap'', PS)]"
  "map_of signatures ''vxdb.vx.cpuset.get'' = Some [(''name'', PS)]"
  "map_of signatures ''vxdb.vx.cpuset.remove'' = Some [(''name'', PS)]"
  "map_of signatures ''vxdb.vx.cpuset.set'' = Some [(''name'', PS), (''cpus'', PS), (''mems'', PS), (''virtualize'', PB)]"
  "map_of signatures ''vxdb.vx.flags.add'' = Some [(''name'', PS), (''flag'', PS)]"
  "map_of signatures ''vxdb.vx.flags.get'' = Some [(''name'', PS)]"
  "map_of signatures ''vxdb.vx.flags.remove'' = Some [(''name'', PS), (''flag'', PS)]"
  "map_of signatures ''vxdb.vx.limit.get'' = Some [(''name'', PS), (''type'', PS)]"
  "map_of signatures ''vxdb.vx.limit.remove'' = Some [(''name'', PS), (''type'', PS)]"
  "map_of signatures ''vxdb.vx.limit.set'' = Some [(''name'', PS), (''type'', PS), (''soft'', PS), (''max'', PS)]"
  "map_of signatures ''vxdb.vx.sched.get'' = Some [(''name'', PS), (''cpuid'', PI)]"
  "map_of signatures ''vxdb.vx.sched.remove'' = Some [(''name'', PS), (''cpuid'', PI)]"
  "map_of signatures ''vxdb.vx.sched.set'' = Some [(''name'', PS), (''cpuid'', PI), (''fillrate'', PI), (''interval'', PI), (''fillrate2'', PI), (''interval2'', PI), (''tokensmin'', PI), (''tokensmax'', PI)]"
  "map_of signatures ''vxdb.vx.uname.get'' = Some [(''name'', PS), (''type'', PS)]"
  "map_of signatures ''vxdb.vx.uname.remove'' = Some [(''name'', PS), (''type'', PS)]"
  "map_of signatures ''vxdb.vx.uname.set'' = Some [(''name'', PS), (''type'', PS), (''value'', PS)]"
  by code_simp+

lemmas signature_of = signature_of_vx signature_of_vxdb signature_of_vxdb_vx

lemma vcc_fits:
  assumes "xmlrpc_ok (xr H)" and "lucid_ok (lib H)" and "words_ok H argv"
  shows
    "call_fits H (cmd_create H argv)"
    "call_fits H (cmd_kill H argv)"
    "call_fits H (cmd_limstatus H argv)"
    "call_fits H (cmd_list H argv)"
    "call_fits H (cmd_netstatus H argv)"
    "call_fits H (cmd_reboot H argv)"
    "call_fits H (cmd_remove H argv)"
    "call_fits H (cmd_rename H argv)"
    "call_fits H (cmd_restart H argv)"
    "call_fits H (cmd_start H argv)"
    "call_fits H (cmd_status H argv)"
    "call_fits H (cmd_stop H argv)"
    "call_fits H (cmd_templates H argv)"
  unfolding
    cmd_create_def cmd_kill_def cmd_limstatus_def cmd_list_def cmd_netstatus_def cmd_reboot_def cmd_remove_def
    cmd_rename_def cmd_restart_def cmd_start_def cmd_status_def cmd_stop_def cmd_templates_def
  by (((rule call_fits_if [OF assms(3)])?, rule call_fitsI, rule signature_of,
    simp add: fits_val [OF assms(1)] words_okD(2,3) [OF assms(3)] scan_d_int32 [OF assms(2)])+)

lemma vce_fits:
  assumes "xmlrpc_ok (xr H)" and "lucid_ok (lib H)" and "words_ok H argv"
  shows
    "call_fits H (cmd_dx_limit_get H argv)"
    "call_fits H (cmd_dx_limit_remove H argv)"
    "call_fits H (cmd_dx_limit_set H argv)"
    "call_fits H (cmd_init_get H argv)"
    "call_fits H (cmd_init_set H argv)"
    "call_fits H (vce_cmd_list H argv)"
    "call_fits H (cmd_mount_get H argv)"
    "call_fits H (cmd_mount_remove H argv)"
    "call_fits H (cmd_mount_set H argv)"
    "call_fits H (cmd_nx_addr_get H argv)"
    "call_fits H (cmd_nx_addr_remove H argv)"
    "call_fits H (cmd_nx_addr_set H argv)"
    "call_fits H (cmd_nx_broadcast_get H argv)"
    "call_fits H (cmd_nx_broadcast_remove H argv)"
    "call_fits H (cmd_nx_broadcast_set H argv)"
    "call_fits H (cmd_vx_bcaps_add H argv)"
    "call_fits H (cmd_vx_bcaps_get H argv)"
    "call_fits H (cmd_vx_bcaps_remove H argv)"
    "call_fits H (cmd_vx_ccaps_add H argv)"
    "call_fits H (cmd_vx_ccaps_get H argv)"
    "call_fits H (cmd_vx_ccaps_remove H argv)"
    "call_fits H (cmd_vx_cpuset_get H argv)"
    "call_fits H (cmd_vx_cpuset_remove H argv)"
    "call_fits H (cmd_vx_cpuset_set H argv)"
    "call_fits H (cmd_vx_flags_add H argv)"
    "call_fits H (cmd_vx_flags_get H argv)"
    "call_fits H (cmd_vx_flags_remove H argv)"
    "call_fits H (cmd_vx_limit_get H argv)"
    "call_fits H (cmd_vx_limit_remove H argv)"
    "call_fits H (cmd_vx_limit_set H argv)"
    "call_fits H (cmd_vx_sched_get H argv)"
    "call_fits H (cmd_vx_sched_remove H argv)"
    "call_fits H (cmd_vx_sched_set H argv)"
    "call_fits H (cmd_vx_uname_get H argv)"
    "call_fits H (cmd_vx_uname_remove H argv)"
    "call_fits H (cmd_vx_uname_set H argv)"
  unfolding
    cmd_dx_limit_get_def cmd_dx_limit_remove_def cmd_dx_limit_set_def cmd_init_get_def cmd_init_set_def
    vce_cmd_list_def cmd_mount_get_def cmd_mount_remove_def cmd_mount_set_def cmd_nx_addr_get_def
    cmd_nx_addr_remove_def cmd_nx_addr_set_def cmd_nx_broadcast_get_def cmd_nx_broadcast_remove_def
    cmd_nx_broadcast_set_def cmd_vx_bcaps_add_def cmd_vx_bcaps_get_def cmd_vx_bcaps_remove_def
    cmd_vx_ccaps_add_def cmd_vx_ccaps_get_def cmd_vx_ccaps_remove_def cmd_vx_cpuset_get_def
    cmd_vx_cpuset_remove_def cmd_vx_cpuset_set_def cmd_vx_flags_add_def cmd_vx_flags_get_def
    cmd_vx_flags_remove_def cmd_vx_limit_get_def cmd_vx_limit_remove_def cmd_vx_limit_set_def
    cmd_vx_sched_get_def cmd_vx_sched_remove_def cmd_vx_sched_set_def cmd_vx_uname_get_def
    cmd_vx_uname_remove_def cmd_vx_uname_set_def
  by (((rule call_fits_if [OF assms(3)])?, rule call_fitsI, rule signature_of,
    simp add: fits_val [OF assms(1)] words_okD(2,3) [OF assms(3)] scan_d_int32 [OF assms(2)])+)

lemma vgc_fits:
  assumes "xmlrpc_ok (xr H)" and "lucid_ok (lib H)" and "words_ok H argv"
  shows
    "call_fits H (cmd_add H argv)"
    "call_fits H (vgc_cmd_list H argv)"
    "call_fits H (vgc_cmd_remove H argv)"
    "call_fits H (cmd_vx_reboot H argv)"
    "call_fits H (cmd_vx_restart H argv)"
    "call_fits H (cmd_vx_start H argv)"
    "call_fits H (cmd_vx_stop H argv)"
  unfolding
    cmd_add_def vgc_cmd_list_def vgc_cmd_remove_def cmd_vx_reboot_def cmd_vx_restart_def cmd_vx_start_def
    cmd_vx_stop_def
  by (((rule call_fits_if [OF assms(3)])?, rule call_fitsI, rule signature_of,
    simp add: fits_val [OF assms(1)] words_okD(2,3) [OF assms(3)] scan_d_int32 [OF assms(2)])+)

lemma vcdadm_fits:
  assumes "xmlrpc_ok (xr H)" and "lucid_ok (lib H)" and "words_ok H argv"
  shows
    "call_fits H (cmd_hostinfo H argv)"
    "call_fits H (vcdadm_cmd_status H argv)"
    "call_fits H (cmd_user_get H argv)"
    "call_fits H (cmd_user_remove H argv)"
    "call_fits H (cmd_user_set H argv)"
    "call_fits H (cmd_user_caps_add H argv)"
    "call_fits H (cmd_user_caps_get H argv)"
    "call_fits H (cmd_user_caps_remove H argv)"
  unfolding
    cmd_hostinfo_def vcdadm_cmd_status_def cmd_user_get_def cmd_user_remove_def cmd_user_set_def
    cmd_user_caps_add_def cmd_user_caps_get_def cmd_user_caps_remove_def
  by (((rule call_fits_if [OF assms(3)])?, rule call_fitsI, rule signature_of,
    simp add: fits_val [OF assms(1)] words_okD(2,3) [OF assms(3)] scan_d_int32 [OF assms(2)])+)

lemma exec_fits:
  assumes "xmlrpc_ok (xr H)" and "lucid_ok (lib H)" and "words_ok H argv"
  shows "call_fits H (cmd_exec H argv)" "call_fits H (cmd_login H argv)"
  unfolding cmd_exec_def
  by (rule call_fits_if [OF assms(3)], split option.split, intro conjI impI allI, simp, rule call_fitsI, rule signature_of)
    (simp_all add: fits_val [OF assms(1)] words_okD(4) [OF assms(3)] cmd_login_def)

lemma client_fits:
  assumes "(client, CMDS) \<in> set clients" and "(cmd, f) \<in> set CMDS"
    and "xmlrpc_ok (xr H)" and "lucid_ok (lib H)" and "words_ok H argv"
  shows "call_fits H (f H argv)"
proof -
  have "list_all (\<lambda>(client, CMDS). list_all (\<lambda>(cmd, f). call_fits H (f H argv)) CMDS) clients"
    by (simp add: clients_def vcc_CMDS_def vce_CMDS_def vgc_CMDS_def vcdadm_CMDS_def exec_fits [OF assms(3-5)]
        vcc_fits [OF assms(3-5)] vce_fits [OF assms(3-5)] vgc_fits [OF assms(3-5)] vcdadm_fits [OF assms(3-5)])
  with assms(1,2) show ?thesis by (fastforce simp: list_all_iff)
qed

lemma client_request_asks:
  assumes "xmlrpc_ok (xr H)" and "nul_free user" and "nul_free pass"
  shows "asks H (client_request user pass params) False params"
proof -
  let ?cred = "[(''username'', XStr user), (''password'', XStr pass)]"
  have "fits H (XStruct ?cred) (''username'', PS)" "fits H (XStruct ?cred) (''password'', PS)"
    using assms by (auto intro: fits_val)
  with assms(1) show ?thesis by (simp add: asks_def client_request_def xmlrpc_ok_def)
qed

text \<open>
  C28.  Whatever command of whatever client is run with whatever words, the method it calls exists
  and takes the request: the daemon answers with a value or with one of its own errors, for which
  it has a message, never with an error of the XML-RPC library about the form of the request, and
  never by ending the process that serves it.
\<close>

theorem client_request_understood:
  assumes "(client, CMDS) \<in> set clients" and "(cmd, f) \<in> set CMDS" and "f H argv = Call name params reply"
    and "calls_ok H" and "lucid_ok (lib H)" and "words_ok H argv" and "nul_free user" and "nul_free pass"
  shows "case fst (dispatch H name (client_request user pass params) s) of
      Inl flt \<Rightarrow> fault_known flt | Inr v \<Rightarrow> True"
proof -
  have x: "xmlrpc_ok (xr H)" using assms(4) by (rule calls_okD)
  have "call_fits H (f H argv)" using assms(1,2) x assms(5,6) by (rule client_fits)
  then obtain sig where "map_of signatures name = Some sig" "list_all (fits H params) sig"
    by (auto simp: call_fits_def assms(3))
  with dispatch_safe [OF this(1) assms(4) client_request_asks [OF x assms(7,8)]]
  have "safe (dispatch H name (client_request user pass params))" by simp
  then show ?thesis by (simp add: ends_def)
qed

section \<open>Answers\<close>

text \<open>An answer without null pointers, and whose strings are C strings.\<close>

fun plain :: "xval \<Rightarrow> bool" where
  "plain XNil = False"
| "plain (XStr s) = nul_free s"
| "plain (XArr vs) = list_all plain vs"
| "plain (XStruct fs) = list_all (\<lambda>f. plain (snd f)) fs"
| "plain _ = True"

definition call_reads :: "'k host \<Rightarrow> command \<Rightarrow> bool" where
  "call_reads H cmd =
     (case cmd of
        Call name params reply \<Rightarrow>
          (\<exists>t. map_of answers name = Some t \<and> (\<forall>v. plain v \<longrightarrow> has_type t v \<longrightarrow> snd (reply v)))
      | _ \<Rightarrow> True)"

lemma call_reads_simps [simp]: "call_reads H Usage" "call_reads H (Login n)" "call_reads H (Fail w)"
  by (simp_all add: call_reads_def)

lemma call_readsI:
  "map_of answers name = Some t \<Longrightarrow> (\<And>v. plain v \<Longrightarrow> has_type t v \<Longrightarrow> snd (reply v)) \<Longrightarrow> call_reads H (Call name params reply)"
  by (simp add: call_reads_def)

lemma call_reads_if: "call_reads H cmd \<Longrightarrow> call_reads H (if b then Usage else cmd)"
  by simp

lemma one_str: "xmlrpc_ok (xr H) \<Longrightarrow> plain v \<Longrightarrow> has_type (One TStr) v \<Longrightarrow> show_string H v \<noteq> None"
  by (cases v) (auto simp: show_string_def xmlrpc_ok_def nul_free_def)

lemma rec_member:
  assumes "list_all2 (\<lambda>(k, t) (k', x). k = k' \<and> has_sty t x) fs gs" and "map_of fs key = Some t"
  shows "\<exists>x. map_of gs key = Some x \<and> has_sty t x"
  using assms by (induction rule: list_all2_induct) (auto split: if_splits)

lemma rec_keys: "list_all2 (\<lambda>(k, t) (k', x). k = k' \<and> has_sty t x) fs gs \<Longrightarrow> map fst gs = map fst fs"
  by (induction rule: list_all2_induct) auto

lemma rec_field:
  assumes "xmlrpc_ok (xr H)" and "plain v" and "has_type (Rec fs) v" and "distinct (map fst fs)" and "map_of fs key = Some t"
  shows "\<exists>x. xr_member (xr H) v key = Some x \<and> plain x \<and> has_sty t x"
proof -
  from assms(2,3) obtain gs where v: "v = XStruct gs"
    and gs: "list_all2 (\<lambda>(k, t) (k', x). k = k' \<and> has_sty t x) fs gs"
    by (auto split: xval.splits)
  from rec_member [OF gs assms(5)] obtain x where x: "map_of gs key = Some x" "has_sty t x" by blast
  with assms(2) v have "plain x" by (auto simp: list_all_iff dest!: map_of_SomeD)
  moreover from assms(1) have "xr_member (xr H) v key = Some x"
    using x(1) assms(4) rec_keys [OF gs] by (simp add: v xmlrpc_ok_def)
  ultimately show ?thesis using x(2) by blast
qed

lemma rec_s:
  assumes "xmlrpc_ok (xr H)" and "plain v" and "has_type (Rec fs) v" and "distinct (map fst fs)" and "map_of fs key = Some TStr"
  shows "\<exists>s. answer_s H v key = Some s"
proof -
  from rec_field [OF assms] obtain x where "xr_member (xr H) v key = Some x" "plain x" "has_sty TStr x" by blast
  with assms(1) show ?thesis by (cases x) (auto simp: answer_s_def get_param_def xmlrpc_ok_def nul_free_def)
qed

lemma rec_i:
  assumes "xmlrpc_ok (xr H)" and "plain v" and "has_type (Rec fs) v" and "distinct (map fst fs)" and "map_of fs key = Some TInt"
  shows "\<exists>i. answer_i H v key = Some i"
proof -
  from rec_field [OF assms] obtain x where "xr_member (xr H) v key = Some x" "plain x" "has_sty TInt x" by blast
  with assms(1) show ?thesis by (cases x) (auto simp: answer_i_def get_param_def xmlrpc_ok_def int32_def)
qed

lemma print_items_ok: "list_all (\<lambda>v. show_item v \<noteq> None) vs \<Longrightarrow> snd (print_items show_item vs)"
  by (induction vs) (auto split: prod.splits)

lemma print_array_ok:
  assumes "\<And>v. plain v \<Longrightarrow> has_type t v \<Longrightarrow> show_item v \<noteq> None" and "plain v" and "has_type (Arr t) v"
  shows "snd (print_array show_item v)"
  using assms by (cases v) (auto simp: print_array_def list_all_iff intro!: print_items_ok)

lemma print_lines_ok: "r \<noteq> None \<Longrightarrow> snd (print_lines r)"
  by (auto simp: print_lines_def)

lemma quiet_ok [simp]: "snd (quiet v)"
  by (simp add: quiet_def)

lemma rec_fields:
  assumes "xmlrpc_ok (xr H)" and "plain v" and "has_type (Rec fs) v" and "distinct (map fst fs)"
  shows "list_all (\<lambda>(k, t). case t of TStr \<Rightarrow> \<exists>s. answer_s H v k = Some s | TInt \<Rightarrow> \<exists>i. answer_i H v k = Some i) fs"
  using rec_s [OF assms] rec_i [OF assms] map_of_is_SomeI [OF assms(4)] by (fastforce simp: list_all_iff split: sty.split)

lemma answer_of_vx:
  "map_of answers ''vcd.hostinfo'' = Some (Rec [(''vbasedir'', TStr), (''cpus'', TInt), (''memnodes'', TInt)])"
  "map_of answers ''vcd.status'' = Some (Rec [(''uptime'', TInt), (''requests'', TInt), (''flogins'', TInt), (''nomethod'', TInt)])"
  "map_of answers ''vcd.user.caps.add'' = Some Any"
  "map_of answers ''vcd.user.caps.get'' = Some (Arr (One TStr))"
  "map_of answers ''vcd.user.caps.remove'' = Some Any"
  "map_of answers ''vcd.user.get'' = Some (Arr (Rec [(''username'', TStr), (''uid'', TInt), (''admin'', TInt)]))"
  "map_of answers ''vcd.user.remove'' = Some Any"
  "map_of answers ''vcd.user.set'' = Some Any"
  "map_of answers ''vg.add'' = Some Any"
  "map_of answers ''vg.list'' = Some (Arr (One TStr))"
  "map_of answers ''vg.remove'' = Some Any"
  "map_of answers ''vg.vx.reboot'' = Some Any"
  "map_of answers ''vg.vx.restart'' = Some Any"
  "map_of answers ''vg.vx.start'' = Some Any"
  "map_of answers ''vg.vx.stop'' = Some Any"
  "map_of answers ''vx.create'' = Some Any"
  "map_of answers ''vx.exec'' = Some (One TStr)"
  "map_of answers ''vx.kill'' = Some Any"
  "map_of answers ''vx.limstatus'' = Some (Arr (Rec [(''type'', TStr), (''min'', TStr), (''cur'', TStr), (''max'', TStr)]))"
  "map_of answers ''vx.netstatus'' = Some (Arr (Rec [(''type'', TStr), (''recvp'', TStr), (''recvb'', TStr), (''sendp'', TStr), (''sendb'', TStr), (''failp'', TStr), (''failb'', TStr)]))"
  "map_of answers ''vx.reboot'' = Some Any"
  "map_of answers ''vx.remove'' = Some Any"
  "map_of answers ''vx.rename'' = Some Any"
  "map_of answers ''vx.restart'' = Some Any"
  "map_of answers ''vx.start'' = Some Any"
  "map_of answers ''vx.status'' = Some (Rec [(''running'', TInt), (''thr_total'', TInt), (''thr_running'', TInt), (''thr_unintr'', TInt), (''thr_onhold'', TInt), (''forks_total'', TInt), (''uptime'', TInt), (''load1m'', TStr), (''load5m'', TStr), (''load15m'', TStr)])"
  "map_of answers ''vx.stop'' = Some Any"
  "map_of answers ''vx.templates'' = Some (Arr (Rec [(''name'', TStr), (''description'', TStr)]))"
  by code_simp+

lemma answer_of_vxdb:
  "map_of answers ''vxdb.dx.limit.get'' = Some (Rec [(''space'', TStr), (''inodes'', TStr), (''reserved'', TInt)])"
  "map_of answers ''vxdb.dx.limit.remove'' = Some Any"
  "map_of answers ''vxdb.dx.limit.set'' = Some Any"
  "map_of answers ''vxdb.init.get'' = Some (Rec [(''init'', TStr), (''halt'', TStr), (''reboot'', TStr), (''timeout'', TInt)])"
  "map_of answers ''vxdb.init.set'' = Some Any"
  "map_of answers ''vxdb.list'' = Some (Arr (One TStr))"
  "map_of answers ''vxdb.mount.get'' = Some (Arr (Rec [(''src'', TStr), (''dst'', TStr), (''type'', TStr), (''opts'', TStr)]))"
  "map_of answers ''vxdb.mount.remove'' = Some Any"
  "map_of answers ''vxdb.mount.set'' = Some Any"
  "map_of answers ''vxdb.nx.addr.get'' = Some (Arr (Rec [(''addr'', TStr), (''netmask'', TStr)]))"
  "map_of answers ''vxdb.nx.addr.remove'' = Some Any"
  "map_of answers ''vxdb.nx.addr.set'' = Some Any"
  "map_of answers ''vxdb.nx.broadcast.get'' = Some (One TStr)"
  "map_of answers ''vxdb.nx.broadcast.remove'' = Some Any"
  "map_of answers ''vxdb.nx.broadcast.set'' = Some Any"
  by code_simp+

lemma answer_of_vxdb_vx:
  "map_of answers ''vxdb.vx.bcaps.add'' = Some Any"
  "map_of answers ''vxdb.vx.bcaps.get'' = Some (Arr (One TStr))"
  "map_of answers ''vxdb.vx.bcaps.remove'' = Some Any"
  "map_of answers ''vxdb.vx.ccaps.add'' = Some Any"
  "map_of answers ''vxdb.vx.ccaps.get'' = Some (Arr (One TStr))"
  "map_of answers ''vxdb.vx.ccaps.remove'' = Some Any"
  "map_of answers ''vxdb.vx.cpuset.get'' = Some (Rec [(''cpus'', TStr), (''mems'', TStr), (''virtualize'', TInt)])"
  "map_of answers ''vxdb.vx.cpuset.remove'' = Some Any"
  "map_of answers ''vxdb.vx.cpuset.set'' = Some Any"
  "map_of answers ''vxdb.vx.flags.add'' = Some Any"
  "map_of answers ''vxdb.vx.flags.get'' = Some (Arr (One TStr))"
  "map_of answers ''vxdb.vx.flags.remove'' = Some Any"
  "map_of answers ''vxdb.vx.limit.get'' = Some (Arr (Rec [(''type'', TStr), (''soft'', TStr), (''max'', TStr)]))"
  "map_of answers ''vxdb.vx.limit.remove'' = Some Any"
  "map_of answers ''vxdb.vx.limit.set'' = Some Any"
  "map_of answers ''vxdb.vx.sched.get'' = Some (Arr (Rec [(''cpuid'', TInt), (''fillrate'', TInt), (''interval'', TInt), (''fillrate2'', TInt), (''interval2'', TInt), (''tokensmin'', TInt), (''tokensmax'', TInt)]))"
  "map_of answers ''vxdb.vx.sched.remove'' = Some Any"
  "map_of answers ''vxdb.vx.sched.set'' = Some Any"
  "map_of answers ''vxdb.vx.uname.get'' = Some (Arr (Rec [(''type'', TStr), (''value'', TStr)]))"
  "map_of answers ''vxdb.vx.uname.remove'' = Some Any"
  "map_of answers ''vxdb.vx.uname.set'' = Some Any"
  by code_simp+

lemmas answer_of = answer_of_vx answer_of_vxdb answer_of_vxdb_vx

lemma quiet_reads:
  assumes "xmlrpc_ok (xr H)"
  shows
    "call_reads H (cmd_create H argv)"
    "call_reads H (cmd_kill H argv)"
    "call_reads H (cmd_reboot H argv)"
    "call_reads H (cmd_remove H argv)"
    "call_reads H (cmd_rename H argv)"
    "call_reads H (cmd_restart H argv)"
    "call_reads H (cmd_start H argv)"
    "call_reads H (cmd_stop H argv)"
    "call_reads H (cmd_dx_limit_remove H argv)"
    "call_reads H (cmd_dx_limit_set H argv)"
    "call_reads H (cmd_init_set H argv)"
    "call_reads H (cmd_mount_remove H argv)"
    "call_reads H (cmd_mount_set H argv)"
    "call_reads H (cmd_nx_addr_remove H argv)"
    "call_reads H (cmd_nx_addr_set H argv)"
    "call_reads H (cmd_nx_broadcast_remove H argv)"
    "call_reads H (cmd_nx_broadcast_set H argv)"
    "call_reads H (cmd_vx_bcaps_add H argv)"
    "call_reads H (cmd_vx_bcaps_remove H argv)"
    "call_reads H (cmd_vx_ccaps_add H argv)"
    "call_reads H (cmd_vx_ccaps_remove H argv)"
    "call_reads H (cmd_vx_cpuset_remove H argv)"
    "call_reads H (cmd_vx_cpuset_set H argv)"
    "call_reads H (cmd_vx_flags_add H argv)"
    "call_reads H (cmd_vx_flags_remove H argv)"
    "call_reads H (cmd_vx_limit_remove H argv)"
    "call_reads H (cmd_vx_limit_set H argv)"
    "call_reads H (cmd_vx_sched_remove H argv)"
    "call_reads H (cmd_vx_sched_set H argv)"
    "call_reads H (cmd_vx_uname_remove H argv)"
    "call_reads H (cmd_vx_uname_set H argv)"
    "call_reads H (cmd_add H argv)"
    "call_reads H (vgc_cmd_remove H argv)"
    "call_reads H (cmd_vx_reboot H argv)"
    "call_reads H (cmd_vx_restart H argv)"
    "call_reads H (cmd_vx_start H argv)"
    "call_reads H (cmd_vx_stop H argv)"
    "call_reads H (cmd_user_remove H argv)"
    "call_reads H (cmd_user_set H argv)"
    "call_reads H (cmd_user_caps_add H argv)"
    "call_reads H (cmd_user_caps_remove H argv)"
  unfolding
    cmd_create_def cmd_kill_def cmd_reboot_def cmd_remove_def cmd_rename_def cmd_restart_def cmd_start_def
    cmd_stop_def cmd_dx_limit_remove_def cmd_dx_limit_set_def cmd_init_set_def cmd_mount_remove_def
    cmd_mount_set_def cmd_nx_addr_remove_def cmd_nx_addr_set_def cmd_nx_broadcast_remove_def
    cmd_nx_broadcast_set_def cmd_vx_bcaps_add_def cmd_vx_bcaps_remove_def cmd_vx_ccaps_add_def
    cmd_vx_ccaps_remove_def cmd_vx_cpuset_remove_def cmd_vx_cpuset_set_def cmd_vx_flags_add_def
    cmd_vx_flags_remove_def cmd_vx_limit_remove_def cmd_vx_limit_set_def cmd_vx_sched_remove_def
    cmd_vx_sched_set_def cmd_vx_uname_remove_def cmd_vx_uname_set_def cmd_add_def vgc_cmd_remove_def
    cmd_vx_reboot_def cmd_vx_restart_def cmd_vx_start_def cmd_vx_stop_def cmd_user_remove_def cmd_user_set_def
    cmd_user_caps_add_def cmd_user_caps_remove_def
  by (((rule call_reads_if)?, rule call_readsI, rule answer_of, rule quiet_ok)+)

lemma strings_read:
  assumes "xmlrpc_ok (xr H)"
  shows
    "call_reads H (cmd_list H argv)"
    "call_reads H (vce_cmd_list H argv)"
    "call_reads H (cmd_vx_bcaps_get H argv)"
    "call_reads H (cmd_vx_ccaps_get H argv)"
    "call_reads H (cmd_vx_flags_get H argv)"
    "call_reads H (vgc_cmd_list H argv)"
    "call_reads H (cmd_user_caps_get H argv)"
  unfolding
    cmd_list_def vce_cmd_list_def cmd_vx_bcaps_get_def cmd_vx_ccaps_get_def cmd_vx_flags_get_def
    vgc_cmd_list_def cmd_user_caps_get_def
  by (((rule call_reads_if)?, rule call_readsI, rule answer_of, rule print_array_ok,
    erule (1) one_str [OF assms], assumption, assumption)+)

lemma records_read:
  assumes "xmlrpc_ok (xr H)"
  shows
    "call_reads H (cmd_limstatus H argv)"
    "call_reads H (cmd_netstatus H argv)"
    "call_reads H (cmd_templates H argv)"
    "call_reads H (cmd_mount_get H argv)"
    "call_reads H (cmd_nx_addr_get H argv)"
    "call_reads H (cmd_vx_limit_get H argv)"
    "call_reads H (cmd_vx_sched_get H argv)"
    "call_reads H (cmd_vx_uname_get H argv)"
    "call_reads H (cmd_user_get H argv)"
  unfolding
    cmd_limstatus_def cmd_netstatus_def cmd_templates_def cmd_mount_get_def cmd_nx_addr_get_def
    cmd_vx_limit_get_def cmd_vx_sched_get_def cmd_vx_uname_get_def cmd_user_get_def
  by (((rule call_reads_if)?, rule call_readsI, rule answer_of, rule print_array_ok [rotated],
    assumption, assumption, drule (1) rec_fields [OF assms], simp, clarsimp)+)

lemma lines_read:
  assumes "xmlrpc_ok (xr H)"
  shows
    "call_reads H (cmd_status H argv)"
    "call_reads H (cmd_dx_limit_get H argv)"
    "call_reads H (cmd_init_get H argv)"
    "call_reads H (cmd_vx_cpuset_get H argv)"
    "call_reads H (cmd_hostinfo H argv)"
    "call_reads H (vcdadm_cmd_status H argv)"
  unfolding
    cmd_status_def cmd_dx_limit_get_def cmd_init_get_def cmd_vx_cpuset_get_def cmd_hostinfo_def
    vcdadm_cmd_status_def
  by (((rule call_reads_if)?, rule call_readsI, rule answer_of, rule print_lines_ok,
    drule (1) rec_fields [OF assms], simp, clarsimp)+)

lemma string_read:
  assumes "xmlrpc_ok (xr H)"
  shows "call_reads H (cmd_nx_broadcast_get H argv)" "call_reads H (cmd_exec H argv)" "call_reads H (cmd_login H argv)"
proof -
  show "call_reads H (cmd_nx_broadcast_get H argv)"
    unfolding cmd_nx_broadcast_get_def
    by (rule call_reads_if, rule call_readsI, rule answer_of, rule print_lines_ok) (use one_str [OF assms] in auto)
  show "call_reads H (cmd_exec H argv)"
    unfolding cmd_exec_def
    by (rule call_reads_if, split option.split, intro conjI impI allI, simp, rule call_readsI, rule answer_of,
        rule print_lines_ok) (use one_str [OF assms] in auto)
qed (simp add: cmd_login_def)

lemma client_reads:
  assumes "(client, CMDS) \<in> set clients" and "(cmd, f) \<in> set CMDS" and "xmlrpc_ok (xr H)"
  shows "call_reads H (f H argv)"
proof -
  note reads = quiet_reads strings_read records_read lines_read string_read
  have "list_all (\<lambda>(client, CMDS). list_all (\<lambda>(cmd, f). call_reads H (f H argv)) CMDS) clients"
    by (simp add: clients_def vcc_CMDS_def vce_CMDS_def vgc_CMDS_def vcdadm_CMDS_def reads [OF assms(3)])
  with assms(1,2) show ?thesis by (fastforce simp: list_all_iff)
qed

text \<open>
  C29.  Whatever the daemon answers to a command, if it is no fault, the client can take the answer
  apart and ends with success, unless the answer has a null pointer or a string with a NUL in it.
\<close>

theorem client_answer_understood:
  assumes "(client, CMDS) \<in> set clients" and "(cmd, f) \<in> set CMDS" and "f H argv = Call name params reply"
    and "xmlrpc_ok (xr H)" and "lucid_ok (lib H)"
    and "dispatch H name (client_request user pass params) (s\<lparr>lockfd := -1\<rparr>) = (Inr v, t)" and "plain v"
  shows "run_command H user pass (f H argv) s = (Inr (Ended (fst (reply v)) 0), t\<lparr>lockfd := lockfd s\<rparr>)"
proof -
  have "call_reads H (f H argv)" using assms(1,2,4) by (rule client_reads)
  then obtain ty where ty: "map_of answers name = Some ty" and r: "has_type ty v \<Longrightarrow> snd (reply v)"
    using assms(7) by (auto simp: call_reads_def assms(3))
  have "has_type ty v" using ty assms(5,6) by (rule dispatch_answer)
  with r have "snd (reply v)" .
  then obtain lns where "reply v = (lns, True)" by (cases "reply v") simp
  with assms(6) show ?thesis
    by (simp add: run_command_def assms(3) rpc_def bindM_def prog_simps split: prod.split)
qed

section \<open>Witnesses\<close>

lemma ref_calls_ok: "calls_ok ref_host"
  by (simp add: calls_ok_def ref_xmlrpc_ok ref_sel)

theorem client_request_understood_witness:
  "\<exists>params reply flt. cmd_kill ref_host [''guest1'', ''1'', ''9''] = Call ''vx.kill'' params reply
     \<and> fst (dispatch ref_host ''vx.kill'' (client_request ''admin'' ''wrongpass'' params) (ref_state ref_db [])) = Inl flt
     \<and> fault_known flt"
proof -
  define params where "params = XStruct [(''name'', XStr ''guest1''), (''pid'', XInt 1), (''sig'', XInt 9)]"
  let ?r = "dispatch ref_host ''vx.kill'' (client_request ''admin'' ''wrongpass'' params) (ref_state ref_db [])"
  have c: "cmd_kill ref_host [''guest1'', ''1'', ''9''] = Call ''vx.kill'' params quiet"
    unfolding params_def by (simp add: cmd_kill_def scan_d_def ref_sel ref_scan_def) code_simp
  have "words_ok ref_host [''guest1'', ''1'', ''9'']"
    by (simp add: words_ok_def nul_free_def int32_def ref_sel ref_host_def)
  then have "case fst ?r of Inl flt \<Rightarrow> fault_known flt | Inr v \<Rightarrow> True"
    by (intro client_request_understood [of "''vcc''" vcc_CMDS "''kill''" cmd_kill, OF _ _ c ref_calls_ok])
      (simp_all add: clients_def vcc_CMDS_def ref_lucid_ok nul_free_def)
  moreover have "isl (fst ?r)" unfolding params_def by code_simp
  ultimately show ?thesis using c by (cases "fst ?r") auto
qed

theorem client_answer_understood_witness:
  "\<exists>t. run_command ref_host ''bob'' ''password'' (cmd_dx_limit_get ref_host [''guest1'']) (ref_state ref_db []) = (Inr (Ended [] 0), t)"
proof -
  let ?params = "XStruct [(''name'', XStr ''guest1'')]"
  let ?s = "ref_state ref_db []"
  let ?r = "dispatch ref_host ''vxdb.dx.limit.get'' (client_request ''bob'' ''password'' ?params) (?s\<lparr>lockfd := -1\<rparr>)"
  let ?v = "XStruct [(''space'', XStr []), (''inodes'', XStr []), (''reserved'', XInt 0)]"
  have "fst ?r = Inr ?v" by code_simp
  note run = run_value [OF this]
  obtain reply where c: "cmd_dx_limit_get ref_host [''guest1''] = Call ''vxdb.dx.limit.get'' ?params reply"
    and none: "fst (reply ?v) = []"
    by (auto simp: cmd_dx_limit_get_def print_lines_def answer_s_def answer_i_def get_param_def ref_sel)
  have "plain ?v" by (simp add: nul_free_def)
  from client_answer_understood [of "''vce''" vce_CMDS "''dx.limit.get''" cmd_dx_limit_get, OF _ _ c _ _ run this]
  show ?thesis
    using c none by (auto simp: clients_def vce_CMDS_def ref_xmlrpc_ok ref_lucid_ok)
qed

end
