(* ===== verification/Vlogin.thy ===== *)
theory Vlogin
  imports Client_Main
begin

text \<open>
  The terminal \<^verbatim>\<open>vcc login\<close> turns into once it is in the guest
  (\<^verbatim>\<open>src/src/vcc/vlogin.c\<close>): it puts the user's terminal into raw mode, runs a shell on a
  pseudo terminal and copies what is typed and what is shown, until a signal says that the shell
  has ended.

  The loop runs forever and is left by signals only, so it is a step relation; reading and writing
  are steps of their own, because a signal may arrive between them, and so are the calls before the
  loop, which install the handlers one after the other.  A handler, once it runs, is not interrupted,
  and nobody but this process changes the settings of the user's terminal.
\<close>

section \<open>The terminal\<close>

type_synonym termios = int   \<comment> \<open>terminal settings\<close>

text \<open>The system calls.  The settings of the user's terminal are part of the state; the calls on
  them say whether they succeed.\<close>

record 'k tty =
  tcgetattr :: "('k, unit) syscall"
  tcsetattr :: "('k, unit) syscall"
  cfmakeraw :: "termios \<Rightarrow> termios"
  openpty :: "('k, int \<times> int) syscall"        \<comment> \<open>master and slave\<close>
  fork_pid :: "'k child \<Rightarrow> ('k, int) syscall"
  child_setsid :: "('k, unit) syscall"
  child_ctty :: "int \<Rightarrow> ('k, unit) syscall"     \<comment> \<open>\<^verbatim>\<open>TIOCSCTTY\<close>\<close>
  child_exec :: "string list \<Rightarrow> 'k \<Rightarrow> (errno + string \<times> wstatus) \<times> 'k"
      \<comment> \<open>on the slave as descriptors 0, 1 and 2\<close>
  tty_pgrp :: "int \<Rightarrow> ('k, int) syscall"        \<comment> \<open>\<^verbatim>\<open>TIOCGPGRP\<close>\<close>
  tty_kill :: "int \<Rightarrow> int \<Rightarrow> ('k, unit) syscall"
  get_winsize :: "('k, int \<times> int) syscall"
  set_winsize :: "int \<Rightarrow> int \<times> int \<Rightarrow> ('k, unit) syscall"
  tty_read :: "int \<Rightarrow> nat \<Rightarrow> ('k, string) syscall"
  tty_write :: "int \<Rightarrow> string \<Rightarrow> ('k, nat) syscall"   \<comment> \<open>how many bytes were written\<close>
  get_flags :: "int \<Rightarrow> ('k, unit) syscall"
  set_nonblock :: "int \<Rightarrow> ('k, unit) syscall"
  tty_select :: "int \<Rightarrow> ('k, bool \<times> bool) syscall"   \<comment> \<open>input from the user, output of the shell\<close>
  tty_wait :: "('k, wstatus) syscall"
  interrupted :: "errno \<Rightarrow> bool"                   \<comment> \<open>\<^verbatim>\<open>EINTR\<close> or \<^verbatim>\<open>EAGAIN\<close>\<close>

text \<open>
  The struct \<^verbatim>\<open>terminal\<close>, whether \<^verbatim>\<open>terminal_reset\<close> runs at exit, the settings of
  the user's terminal, and the bytes that have gone each way so far: those read from the shell and
  from the user, and those written to standard output and to the shell.
\<close>

record 'k vterm =
  vt_os :: 'k
  t_fd :: int
  t_ws :: "int \<times> int"
  t_pid :: int
  t_termo :: termios
  t_raw :: bool          \<comment> \<open>\<^verbatim>\<open>TS_RAW\<close>\<close>
  t_atexit :: bool
  settings :: termios
  got :: string
  shown :: string
  typed :: string
  sent :: string

text \<open>A program on the terminal may end the process with a status.\<close>

type_synonym ('k, 'a) vprog = "('k vterm, int, 'a) prog"

definition vsys :: "('k, 'a) syscall \<Rightarrow> ('k, errno + 'a) vprog" where
  "vsys f s = (case f (vt_os s) of (r, k) \<Rightarrow> (Inr r, s\<lparr>vt_os := k\<rparr>))"

definition vset :: "('k vterm \<Rightarrow> 'k vterm) \<Rightarrow> ('k, unit) vprog" where
  "vset f s = (Inr (), f s)"

definition vsys_or_die :: "('k, 'a) syscall \<Rightarrow> ('k, 'a) vprog" where
  "vsys_or_die f = bindM (vsys f) (\<lambda>r. case r of Inl _ \<Rightarrow> raise 1 | Inr x \<Rightarrow> ret x)"

definition terminal_raw :: "'k tty \<Rightarrow> ('k, unit) vprog" where
  "terminal_raw T =
     bindM (vsys_or_die (tcgetattr T)) (\<lambda>_.
     bindM (vset (\<lambda>s. s\<lparr>t_termo := settings s\<rparr>)) (\<lambda>_.
     bindM (vsys_or_die (tcsetattr T)) (\<lambda>_.
     vset (\<lambda>s. s\<lparr>settings := cfmakeraw T (t_termo s), t_raw := True\<rparr>))))"

definition terminal_reset :: "'k tty \<Rightarrow> ('k, unit) vprog" where
  "terminal_reset T =
     bindM (getsM t_raw) (\<lambda>raw.
     if \<not> raw then ret ()
     else
       bindM (vsys_or_die (tcsetattr T)) (\<lambda>_.
       vset (\<lambda>s. s\<lparr>settings := t_termo s, t_raw := False\<rparr>)))"

definition terminal_kill :: "'k tty \<Rightarrow> int \<Rightarrow> ('k, unit) vprog" where
  "terminal_kill T sig =
     bindM (getsM t_fd) (\<lambda>fd.
     bindM (getsM t_pid) (\<lambda>pid.
     bindM (vsys (tty_pgrp T fd)) (\<lambda>r.
     bindM (case r of
              Inl _ \<Rightarrow> ret False
            | Inr pgrp \<Rightarrow>
                if pgrp = -1 then ret False
                else bindM (vsys (tty_kill T (- pgrp) sig)) (\<lambda>r. ret (\<not> isl r))) (\<lambda>reached.
     if reached then ret ()
     else bindM (vsys (tty_kill T (- pid) sig)) (\<lambda>_. ret ())))))"

definition terminal_redraw :: "'k host \<Rightarrow> 'k tty \<Rightarrow> ('k, unit) vprog" where
  "terminal_redraw H T =
     bindM (vsys (get_winsize T)) (\<lambda>r.
     case r of
       Inl _ \<Rightarrow> ret ()
     | Inr ws \<Rightarrow>
         bindM (vset (\<lambda>s. s\<lparr>t_ws := ws\<rparr>)) (\<lambda>_.
         bindM (getsM t_fd) (\<lambda>fd.
         bindM (vsys (set_winsize T fd ws)) (\<lambda>_.
         terminal_kill T (int (hdr H ''SIGWINCH''))))))"

text \<open>
  \<^verbatim>\<open>read_password\<close> of \<^verbatim>\<open>main.c\<close>, on the same terminal; \<open>line\<close> reads the line,
  and \<open>hide\<close> is the change of the settings that turns the echo off.
\<close>

definition read_password ::
    "'k tty \<Rightarrow> (termios \<Rightarrow> termios) \<Rightarrow> ('k, string) syscall \<Rightarrow> string option \<Rightarrow> ('k, string option) vprog" where
  "read_password T hide line pass =
     (if pass \<noteq> None then ret pass
      else
        bindM (vsys (tty_write T 1 ''password: '')) (\<lambda>_.
        bindM (vsys_or_die (tcgetattr T)) (\<lambda>_.
        bindM (getsM settings) (\<lambda>old.
        bindM (vsys_or_die (tcsetattr T)) (\<lambda>_.
        bindM (vset (\<lambda>s. s\<lparr>settings := hide old\<rparr>)) (\<lambda>_.
        bindM (vsys line) (\<lambda>r.
        bindM (vsys_or_die (tcsetattr T)) (\<lambda>_.
        bindM (vset (\<lambda>s. s\<lparr>settings := old\<rparr>)) (\<lambda>_.
        bindM (vsys (tty_write T 1 [CHR 0x0A])) (\<lambda>_.
        ret (case r of Inl _ \<Rightarrow> None | Inr l \<Rightarrow> Some l)))))))))))"

lemma read_password_settings:
  "read_password T hide line pass s = (Inr p, s') \<Longrightarrow> settings s' = settings s"
  by (auto simp: read_password_def bindM_def prog_simps vsys_or_die_def vsys_def vset_def
      split: if_splits sum.splits prod.splits)

section \<open>Copying\<close>

text \<open>From the user to the shell, and from the shell to the user.\<close>

datatype job = In | Out

definition job_src :: "job \<Rightarrow> 'k vterm \<Rightarrow> int" where
  "job_src j s = (case j of In \<Rightarrow> 0 | Out \<Rightarrow> t_fd s)"

definition job_dst :: "job \<Rightarrow> 'k vterm \<Rightarrow> int" where
  "job_dst j s = (case j of In \<Rightarrow> t_fd s | Out \<Rightarrow> 1)"

definition note_read :: "job \<Rightarrow> string \<Rightarrow> 'k vterm \<Rightarrow> 'k vterm" where
  "note_read j buf s = (case j of In \<Rightarrow> s\<lparr>typed := typed s @ buf\<rparr> | Out \<Rightarrow> s\<lparr>got := got s @ buf\<rparr>)"

definition note_write :: "job \<Rightarrow> string \<Rightarrow> 'k vterm \<Rightarrow> 'k vterm" where
  "note_write j buf s = (case j of In \<Rightarrow> s\<lparr>sent := sent s @ buf\<rparr> | Out \<Rightarrow> s\<lparr>shown := shown s @ buf\<rparr>)"

text \<open>The two halves of \<^verbatim>\<open>terminal_copy\<close>.  A write of fewer bytes is taken for complete.\<close>

definition copy_read :: "'k tty \<Rightarrow> job \<Rightarrow> ('k, string) vprog" where
  "copy_read T j =
     bindM (getsM (job_src j)) (\<lambda>src.
     bindM (vsys_or_die (tty_read T src 64)) (\<lambda>buf.
     bindM (vset (note_read j buf)) (\<lambda>_. ret buf)))"

definition copy_write :: "'k tty \<Rightarrow> job \<Rightarrow> string \<Rightarrow> ('k, unit) vprog" where
  "copy_write T j buf =
     bindM (getsM (job_dst j)) (\<lambda>dst.
     bindM (vsys_or_die (tty_write T dst buf)) (\<lambda>n.
     vset (note_write j (take n buf))))"

text \<open>The loop of \<^verbatim>\<open>terminal_end\<close>; \<open>None\<close> if the output never ends.\<close>

partial_function (option) drain :: "'k tty \<Rightarrow> 'k vterm \<Rightarrow> ((int + unit) \<times> 'k vterm) option" where
  "drain T s =
     (case tty_read T (t_fd s) 64 (vt_os s) of
        (Inl _, k) \<Rightarrow> Some (Inr (), s\<lparr>vt_os := k\<rparr>)
      | (Inr buf, k) \<Rightarrow>
          if buf = [] then Some (Inr (), s\<lparr>vt_os := k\<rparr>)
          else
            (case copy_write T Out buf (note_read Out buf (s\<lparr>vt_os := k\<rparr>)) of
               (Inl st, s1) \<Rightarrow> Some (Inl st, s1)
             | (Inr _, s1) \<Rightarrow> drain T s1))"

definition terminal_end :: "'k tty \<Rightarrow> 'k vterm \<Rightarrow> ((int + unit) \<times> 'k vterm) option" where
  "terminal_end T s =
     (case bindM (getsM t_fd) (\<lambda>fd.
           bindM (vsys_or_die (get_flags T fd)) (\<lambda>_. vsys_or_die (set_nonblock T fd))) s of
        (Inl st, s1) \<Rightarrow> Some (Inl st, s1)
      | (Inr _, s1) \<Rightarrow>
          (case drain T s1 of
             None \<Rightarrow> None
           | Some (Inl st, s2) \<Rightarrow> Some (Inl st, s2)
           | Some (Inr _, s2) \<Rightarrow> Some (terminal_reset T s2)))"

section \<open>Signals\<close>

text \<open>The signals \<^verbatim>\<open>do_vlogin\<close> catches, and some whose default action ends a process.\<close>

datatype vsignal = V_INT | V_CHLD | V_WINCH | V_HUP | V_QUIT | V_TERM | V_PIPE | V_KILL

text \<open>The status the process ends with is computed from the number of the signal.\<close>

definition chld_status :: "'k host \<Rightarrow> int" where
  "chld_status H = drop_bit 8 (and (int (hdr H ''SIGCHLD'')) 65280)"

definition vlogin_signal :: "'k host \<Rightarrow> 'k tty \<Rightarrow> vsignal \<Rightarrow> 'k vterm \<Rightarrow> ((int + unit) \<times> 'k vterm) option" where
  "vlogin_signal H T sig s =
     (case sig of
        V_INT \<Rightarrow> Some (terminal_kill T (int (hdr H ''SIGINT'')) s)
      | V_CHLD \<Rightarrow>
          (case terminal_end T s of
             None \<Rightarrow> None
           | Some (Inl st, s1) \<Rightarrow> Some (Inl st, s1)
           | Some (Inr _, s1) \<Rightarrow> Some (bindM (vsys (tty_wait T)) (\<lambda>_. raise (chld_status H)) s1))
      | V_WINCH \<Rightarrow> Some (terminal_redraw H T s)
      | _ \<Rightarrow> Some (Inl 0, s))"

section \<open>The session\<close>

text \<open>The child: the shell on the slave side.\<close>

definition vlogin_child :: "'k tty \<Rightarrow> int \<Rightarrow> string list \<Rightarrow> 'k child" where
  "vlogin_child T slave argv k =
     (case child_setsid T k of
        (Inl _, k1) \<Rightarrow> (([], WExited 1), k1)
      | (Inr _, k1) \<Rightarrow>
          (case child_ctty T slave k1 of
             (Inl _, k2) \<Rightarrow> (([], WExited 1), k2)
           | (Inr _, k2) \<Rightarrow>
               (case child_exec T argv k2 of
                  (Inl _, k3) \<Rightarrow> (([], WExited 1), k3)
                | (Inr z, k3) \<Rightarrow> (z, k3))))"

text \<open>
  Where \<^verbatim>\<open>do_vlogin\<close> stands: before each of its steps up to the main loop, and in the loop
  before \<^verbatim>\<open>select\<close>, before copying, and between the read and the write of a copy.  A signal
  may arrive at each of these points.
\<close>

datatype vpc =
    At_raw                        \<comment> \<open>\<^verbatim>\<open>terminal_raw\<close>\<close>
  | At_atexit                     \<comment> \<open>\<^verbatim>\<open>atexit(terminal_reset)\<close>\<close>
  | At_openpty
  | At_chld int                   \<comment> \<open>\<^verbatim>\<open>signal(SIGCHLD, ...)\<close>; the slave is open\<close>
  | At_fork int
  | At_winch int                  \<comment> \<open>\<^verbatim>\<open>signal(SIGWINCH, ...)\<close>; the child runs\<close>
  | At_int int                    \<comment> \<open>\<^verbatim>\<open>signal(SIGINT, ...)\<close>\<close>
  | At_pid int                    \<comment> \<open>\<^verbatim>\<open>t.pid = pid\<close>\<close>
  | At_redraw
  | At_select
  | At_copy "job list"
  | At_write job string "job list"

definition do_vlogin :: "string list \<Rightarrow> ('k, vpc) vprog" where
  "do_vlogin argv = bindM (unlessM (argv \<noteq> []) 1) (\<lambda>_. ret At_raw)"

definition vlogin_step :: "'k host \<Rightarrow> 'k tty \<Rightarrow> string list \<Rightarrow> vpc \<Rightarrow> ('k, vpc) vprog" where
  "vlogin_step H T argv pc =
     (case pc of
        At_raw \<Rightarrow> bindM (terminal_raw T) (\<lambda>_. ret At_atexit)
      | At_atexit \<Rightarrow> bindM (vset (\<lambda>s. s\<lparr>t_atexit := True\<rparr>)) (\<lambda>_. ret At_openpty)
      | At_openpty \<Rightarrow>
          bindM (vsys_or_die (openpty T)) (\<lambda>(fd, slave).
          bindM (vset (\<lambda>s. s\<lparr>t_fd := fd\<rparr>)) (\<lambda>_. ret (At_chld slave)))
      | At_chld slave \<Rightarrow> ret (At_fork slave)
      | At_fork slave \<Rightarrow>
          bindM (vsys_or_die (fork_pid T (vlogin_child T slave argv))) (\<lambda>pid. ret (At_winch pid))
      | At_winch pid \<Rightarrow> ret (At_int pid)
      | At_int pid \<Rightarrow> ret (At_pid pid)
      | At_pid pid \<Rightarrow> bindM (vset (\<lambda>s. s\<lparr>t_pid := pid\<rparr>)) (\<lambda>_. ret At_redraw)
      | At_redraw \<Rightarrow> bindM (terminal_redraw H T) (\<lambda>_. ret At_select)
      | At_select \<Rightarrow>
          bindM (getsM t_fd) (\<lambda>fd.
          bindM (vsys (tty_select T fd)) (\<lambda>r.
          case r of
            Inl e \<Rightarrow> if interrupted T e then ret At_select else raise 1
          | Inr (user, shell) \<Rightarrow> ret (At_copy ((if user then [In] else []) @ (if shell then [Out] else [])))))
      | At_copy [] \<Rightarrow> ret At_select
      | At_copy (j # js) \<Rightarrow> bindM (copy_read T j) (\<lambda>buf. ret (At_write j buf js))
      | At_write j buf js \<Rightarrow> bindM (copy_write T j buf) (\<lambda>_. ret (At_copy js)))"

text \<open>
  Which handlers are installed at a point.  Without one, \<^verbatim>\<open>SIGCHLD\<close> and \<^verbatim>\<open>SIGWINCH\<close> are
  ignored and every other signal ends the process.
\<close>

definition caught :: "vpc \<Rightarrow> vsignal \<Rightarrow> bool" where
  "caught pc sig =
     (case sig of
        V_CHLD \<Rightarrow> (case pc of At_raw \<Rightarrow> False | At_atexit \<Rightarrow> False | At_openpty \<Rightarrow> False | At_chld _ \<Rightarrow> False | _ \<Rightarrow> True)
      | V_WINCH \<Rightarrow>
          (case pc of At_raw \<Rightarrow> False | At_atexit \<Rightarrow> False | At_openpty \<Rightarrow> False | At_chld _ \<Rightarrow> False | At_fork _ \<Rightarrow> False
           | At_winch _ \<Rightarrow> False | _ \<Rightarrow> True)
      | V_INT \<Rightarrow>
          (case pc of At_raw \<Rightarrow> False | At_atexit \<Rightarrow> False | At_openpty \<Rightarrow> False | At_chld _ \<Rightarrow> False | At_fork _ \<Rightarrow> False
           | At_winch _ \<Rightarrow> False | At_int _ \<Rightarrow> False | _ \<Rightarrow> True)
      | _ \<Rightarrow> False)"

definition ignored :: "vsignal \<Rightarrow> bool" where
  "ignored sig \<longleftrightarrow> sig = V_CHLD \<or> sig = V_WINCH"

text \<open>A process that runs, that has called \<^verbatim>\<open>exit\<close> at some point with a status, or that a signal
  has ended, without \<^verbatim>\<open>exit\<close>.\<close>

datatype 'k vstate = Running vpc "'k vterm" | Exited vpc int "'k vterm" | Killed vpc "'k vterm"

text \<open>\<^verbatim>\<open>exit\<close> runs \<^verbatim>\<open>terminal_reset\<close> once it is registered.\<close>

definition vexit :: "'k tty \<Rightarrow> vpc \<Rightarrow> int \<Rightarrow> 'k vterm \<Rightarrow> 'k vstate" where
  "vexit T pc st s =
     (if t_atexit s then
        (case terminal_reset T s of (Inl st', s') \<Rightarrow> Exited pc st' s' | (Inr _, s') \<Rightarrow> Exited pc st s')
      else Exited pc st s)"

inductive vlogin_reach :: "'k host \<Rightarrow> 'k tty \<Rightarrow> string list \<Rightarrow> 'k vterm \<Rightarrow> 'k vstate \<Rightarrow> bool"
  for H T argv s0 where
  begins: "do_vlogin argv s0 = (Inr pc, s) \<Longrightarrow> vlogin_reach H T argv s0 (Running pc s)"
| fails: "do_vlogin argv s0 = (Inl st, s) \<Longrightarrow> vlogin_reach H T argv s0 (vexit T At_raw st s)"
| goes_on: "vlogin_reach H T argv s0 (Running pc s) \<Longrightarrow> vlogin_step H T argv pc s = (Inr pc', s')
    \<Longrightarrow> vlogin_reach H T argv s0 (Running pc' s')"
| dies: "vlogin_reach H T argv s0 (Running pc s) \<Longrightarrow> vlogin_step H T argv pc s = (Inl st, s')
    \<Longrightarrow> vlogin_reach H T argv s0 (vexit T pc st s')"
| handled: "vlogin_reach H T argv s0 (Running pc s) \<Longrightarrow> caught pc sig
    \<Longrightarrow> vlogin_signal H T sig s = Some (Inr (), s') \<Longrightarrow> vlogin_reach H T argv s0 (Running pc s')"
| ended: "vlogin_reach H T argv s0 (Running pc s) \<Longrightarrow> caught pc sig
    \<Longrightarrow> vlogin_signal H T sig s = Some (Inl st, s') \<Longrightarrow> vlogin_reach H T argv s0 (vexit T pc st s')"
| killed: "vlogin_reach H T argv s0 (Running pc s) \<Longrightarrow> \<not> caught pc sig \<Longrightarrow> \<not> ignored sig
    \<Longrightarrow> vlogin_reach H T argv s0 (Killed pc s)"

section \<open>The settings come back\<close>

lemma vsys_apply: "vsys f s = (Inr (fst (f (vt_os s))), s\<lparr>vt_os := snd (f (vt_os s))\<rparr>)"
  by (simp add: vsys_def split: prod.split)

text \<open>
  \<open>calm T S reset s\<close>: the process will find the settings \<open>S\<close> to go back to, and the settings
  in force are these, if \<open>reset\<close> allows it, or their raw form.
\<close>

definition calm :: "'k tty \<Rightarrow> termios \<Rightarrow> bool \<Rightarrow> 'k vterm \<Rightarrow> bool" where
  "calm T S reset s \<longleftrightarrow>
     t_atexit s \<and> t_termo s = S \<and> (t_raw s \<or> reset) \<and> settings s = (if t_raw s then cfmakeraw T S else S)"

interpretation vc: step_relation "\<lambda>s s'. calm T S b s \<longrightarrow> calm T S b s'" for T S b
  by unfold_locales auto

named_theorems calm_intros \<open>operations that keep the way back to the settings\<close>

abbreviation keeps_calm :: "'k tty \<Rightarrow> termios \<Rightarrow> bool \<Rightarrow> ('k, 'a) vprog \<Rightarrow> bool" where
  "keeps_calm T S b m \<equiv> stays (\<lambda>s s'. calm T S b s \<longrightarrow> calm T S b s') m"

lemma vsys_calm [calm_intros]:
  fixes T :: "'k tty" and f :: "('k, 'a) syscall"
  shows "keeps_calm T S b (vsys f)" "keeps_calm T S b (vsys_or_die f)"
proof -
  show s: "keeps_calm T S b (vsys f)" for f :: "('k, 'a) syscall" by (simp add: stays_def vsys_apply calm_def)
  show "keeps_calm T S b (vsys_or_die f)"
    unfolding vsys_or_die_def by (intro vc.stays_rules s)
qed

lemma vset_calm [calm_intros]:
  "keeps_calm T S b (vset (\<lambda>s. s\<lparr>t_ws := ws\<rparr>))" "keeps_calm T S b (vset (\<lambda>s. s\<lparr>t_fd := fd\<rparr>))"
  "keeps_calm T S b (vset (\<lambda>s. s\<lparr>t_pid := pid\<rparr>))" "keeps_calm T S b (vset (note_read j buf))"
  "keeps_calm T S b (vset (note_write j buf))"
  "keeps_calm T S True (vset (\<lambda>s. s\<lparr>settings := t_termo s, t_raw := False\<rparr>))"
  by (auto simp: stays_def vset_def calm_def note_read_def note_write_def split: job.split)

lemma copy_calm [calm_intros]: "keeps_calm T S b (copy_read T' j)" "keeps_calm T S b (copy_write T' j buf)"
  unfolding copy_read_def copy_write_def by (intro vc.stays_rules calm_intros)+

lemma terminal_calm [calm_intros]:
  "keeps_calm T S True (terminal_reset T)" "keeps_calm T S b (terminal_kill T sig)"
  unfolding terminal_reset_def terminal_kill_def by (intro vc.stays_rules calm_intros)+

lemma terminal_redraw_calm [calm_intros]: "keeps_calm T S b (terminal_redraw H T)"
  unfolding terminal_redraw_def by (intro vc.stays_rules calm_intros)

text \<open>Every round of \<^verbatim>\<open>terminal_end\<close> is a read and a write.\<close>

lemma drain_keeps:
  assumes "drain T s = Some (r, s')"
    and end_os: "\<And>s k. R s (s\<lparr>vt_os := k\<rparr>)"
    and round: "\<And>s k buf r s1. copy_write T Out buf (note_read Out buf (s\<lparr>vt_os := k\<rparr>)) = (r, s1) \<Longrightarrow> R s s1"
    and trans: "\<And>s t u. R s t \<Longrightarrow> R t u \<Longrightarrow> R s u"
  shows "R s s'"
proof -
  have "T = T \<longrightarrow> R s (snd (r, s'))"
  proof (rule drain.raw_induct [where P = "\<lambda>T' s z. T' = T \<longrightarrow> R s (snd z)", OF _ assms(1)])
    fix f :: "'a tty \<Rightarrow> 'a vterm \<Rightarrow> ((int + unit) \<times> 'a vterm) option" and T' s z
    assume IH: "\<And>T' s z. f T' s = Some z \<Longrightarrow> T' = T \<longrightarrow> R s (snd z)"
      and eq: "(case tty_read T' (t_fd s) 64 (vt_os s) of
          (Inl _, k) \<Rightarrow> Some (Inr (), s\<lparr>vt_os := k\<rparr>)
        | (Inr buf, k) \<Rightarrow>
            if buf = [] then Some (Inr (), s\<lparr>vt_os := k\<rparr>)
            else
              (case copy_write T' Out buf (note_read Out buf (s\<lparr>vt_os := k\<rparr>)) of
                 (Inl st, s1) \<Rightarrow> Some (Inl st, s1)
               | (Inr _, s1) \<Rightarrow> f T' s1)) = Some z"
    show "T' = T \<longrightarrow> R s (snd z)"
    proof
      assume T': "T' = T"
      obtain rd k where rd: "tty_read T' (t_fd s) 64 (vt_os s) = (rd, k)" by fastforce
      show "R s (snd z)"
      proof (cases "\<exists>buf. rd = Inr buf \<and> buf \<noteq> []")
        case False
        with eq rd have "z = (Inr (), s\<lparr>vt_os := k\<rparr>)" by (cases rd) auto
        with end_os show ?thesis by simp
      next
        case True
        then obtain buf where buf: "rd = Inr buf" "buf \<noteq> []" by blast
        obtain w s1 where w: "copy_write T Out buf (note_read Out buf (s\<lparr>vt_os := k\<rparr>)) = (w, s1)" by fastforce
        then have s1: "R s s1" by (rule round)
        show ?thesis
        proof (cases w)
          case (Inl st)
          with eq rd buf w T' have "z = (Inl st, s1)" by simp
          with s1 show ?thesis by simp
        next
          case (Inr u)
          with eq rd buf w T' have "f T s1 = Some z" by simp
          from IH [OF this] have "R s1 (snd z)" by simp
          with s1 show ?thesis by (rule trans)
        qed
      qed
    qed
  qed
  then show ?thesis by simp
qed

lemma drain_calm:
  assumes "drain T s = Some (r, s')"
  shows "calm T S b s \<longrightarrow> calm T S b s'"
proof (rule drain_keeps [OF assms, where R = "\<lambda>s s'. calm T S b s \<longrightarrow> calm T S b s'"])
  fix s :: "'a vterm" and k buf r s1
  show "calm T S b s \<longrightarrow> calm T S b (s\<lparr>vt_os := k\<rparr>)" by (simp add: calm_def)
  have "calm T S b s \<longrightarrow> calm T S b (note_read Out buf (s\<lparr>vt_os := k\<rparr>))" by (simp add: calm_def note_read_def)
  with staysD [OF copy_calm(2), of T Out buf "note_read Out buf (s\<lparr>vt_os := k\<rparr>)" r s1 T S b]
  show "copy_write T Out buf (note_read Out buf (s\<lparr>vt_os := k\<rparr>)) = (r, s1) \<Longrightarrow> calm T S b s \<longrightarrow> calm T S b s1"
    by blast
qed blast

lemma terminal_end_calm:
  assumes "terminal_end T s = Some (r, s')"
  shows "calm T S True s \<longrightarrow> calm T S True s'"
proof -
  let ?m = "bindM (getsM t_fd) (\<lambda>fd. bindM (vsys_or_die (get_flags T fd)) (\<lambda>_. vsys_or_die (set_nonblock T fd)))"
  have "keeps_calm T S True ?m" by (intro vc.stays_rules calm_intros)
  note m = staysD [OF this]
  obtain r1 s1 where r1: "?m s = (r1, s1)" by fastforce
  with assms m [OF r1] drain_calm [of T s1] staysD [OF terminal_calm(1)] show ?thesis
    by (fastforce simp: terminal_end_def split: sum.splits option.splits)
qed

lemma vlogin_signal_calm:
  assumes "vlogin_signal H T sig s = Some (r, s')" and "calm T S False s"
  shows "calm T S True s'" and "\<not> isl r \<Longrightarrow> calm T S False s'"
proof -
  have weak: "calm T S True s" using assms(2) by (simp add: calm_def)
  have "calm T S True s' \<and> (isl r \<or> calm T S False s')"
  proof (cases sig)
    case V_CHLD
    have "keeps_calm T S True (bindM (vsys (tty_wait T)) (\<lambda>_. raise (chld_status H)))"
      by (intro vc.stays_rules calm_intros)
    from staysD [OF this] V_CHLD assms(1) weak terminal_end_calm [of T s] show ?thesis
      by (fastforce simp: vlogin_signal_def bindM_def prog_simps vsys_apply split: option.splits sum.splits prod.splits)
  next
    case V_INT
    with assms weak staysD [OF terminal_calm(2)] show ?thesis by (fastforce simp: vlogin_signal_def)
  next
    case V_WINCH
    with assms weak staysD [OF terminal_redraw_calm] show ?thesis by (fastforce simp: vlogin_signal_def)
  qed (use assms weak in \<open>auto simp: vlogin_signal_def\<close>)
  then show "calm T S True s'" and "\<not> isl r \<Longrightarrow> calm T S False s'" by auto
qed

text \<open>The terminal at each point of \<^verbatim>\<open>do_vlogin\<close>: raw once \<^verbatim>\<open>terminal_raw\<close> is done.\<close>

definition on_terminal :: "'k tty \<Rightarrow> termios \<Rightarrow> vpc \<Rightarrow> 'k vterm \<Rightarrow> bool" where
  "on_terminal T S pc s \<longleftrightarrow>
     (case pc of
        At_raw \<Rightarrow> \<not> t_atexit s \<and> \<not> t_raw s \<and> settings s = S
      | At_atexit \<Rightarrow> calm T S False (s\<lparr>t_atexit := True\<rparr>)
      | _ \<Rightarrow> calm T S False s)"

text \<open>What \<^verbatim>\<open>exit\<close> may be called with.\<close>

definition may_exit :: "'k tty \<Rightarrow> termios \<Rightarrow> 'k vterm \<Rightarrow> bool" where
  "may_exit T S s \<longleftrightarrow> calm T S True s \<or> \<not> t_atexit s \<and> settings s = S"

lemma calm_step:
  assumes "vlogin_step H T argv pc s = (r, s')" and "pc \<noteq> At_raw" and "pc \<noteq> At_atexit" and "calm T S False s"
  shows "calm T S False s'" and "r = Inr pc' \<Longrightarrow> pc' \<noteq> At_raw \<and> pc' \<noteq> At_atexit"
proof -
  have "keeps_calm T S False (vlogin_step H T argv pc)"
    unfolding vlogin_step_def using assms(2,3)
    by (cases pc) (auto intro!: vc.stays_rules calm_intros split: list.split)
  from staysD [OF this assms(1)] assms(4) show "calm T S False s'" by simp
  show "r = Inr pc' \<Longrightarrow> pc' \<noteq> At_raw \<and> pc' \<noteq> At_atexit"
    using assms(1-3) unfolding vlogin_step_def
    by (cases pc) (auto simp: bindM_def prog_simps split: sum.splits prod.splits list.splits if_splits)
qed

lemma vlogin_step_terminal:
  assumes "vlogin_step H T argv pc s = (r, s')" and "on_terminal T S pc s"
  shows "case r of Inl _ \<Rightarrow> may_exit T S s' | Inr pc' \<Rightarrow> on_terminal T S pc' s'"
proof (cases "pc = At_raw \<or> pc = At_atexit")
  case True
  with assms show ?thesis
    by (auto simp: vlogin_step_def on_terminal_def may_exit_def terminal_raw_def bindM_def prog_simps vsys_or_die_def
        vsys_apply vset_def calm_def split: sum.splits)
next
  case False
  with assms(2) have c: "calm T S False s" by (auto simp: on_terminal_def split: vpc.splits)
  note step = calm_step [OF assms(1) _ _ c]
  show ?thesis
  proof (cases r)
    case Inl
    with step(1) False show ?thesis by (auto simp: may_exit_def calm_def)
  next
    case (Inr pc')
    with step False show ?thesis by (auto simp: on_terminal_def split: vpc.split)
  qed
qed

lemma caught_calm: "caught pc sig \<Longrightarrow> on_terminal T S pc s \<Longrightarrow> calm T S False s"
  by (auto simp: caught_def on_terminal_def split: vsignal.splits vpc.splits)

lemma vexit_settings:
  assumes "may_exit T S s"
  shows "\<exists>st' s'. vexit T pc st s = Exited pc st' s'
    \<and> (settings s' = S \<or> settings s' = cfmakeraw T S \<and> (\<exists>e k. tcsetattr T k = (Inl e, vt_os s')))"
  using assms
  by (cases "tcsetattr T (vt_os s)")
    (auto simp: may_exit_def vexit_def terminal_reset_def calm_def bindM_def prog_simps vsys_or_die_def vsys_apply vset_def
      split: sum.splits)

text \<open>How the terminal is left.\<close>

definition left_as :: "'k tty \<Rightarrow> termios \<Rightarrow> 'k vstate \<Rightarrow> bool" where
  "left_as T S X \<longleftrightarrow>
     (case X of
        Running pc s \<Rightarrow> on_terminal T S pc s
      | Killed pc s \<Rightarrow> on_terminal T S pc s
      | Exited pc st s \<Rightarrow>
          settings s = S \<or> settings s = cfmakeraw T S \<and> (\<exists>e k. tcsetattr T k = (Inl e, vt_os s)))"

lemma left_vexit: "may_exit T S s \<Longrightarrow> left_as T S (vexit T pc st s)"
  using vexit_settings [of T S s pc st] by (auto simp: left_as_def)

lemma vlogin_reach_left:
  assumes "vlogin_reach H T argv s0 X" and "\<not> t_atexit s0" and "\<not> t_raw s0"
  shows "left_as T (settings s0) X"
  using assms(1)
proof induction
  case (begins pc s)
  with assms(2,3) show ?case by (auto simp: do_vlogin_def bindM_def prog_simps left_as_def on_terminal_def split: if_splits)
next
  case (fails st s)
  with assms(2,3) show ?case
    by (intro left_vexit) (auto simp: do_vlogin_def bindM_def prog_simps may_exit_def split: if_splits)
next
  case (goes_on pc s pc' s')
  with vlogin_step_terminal [OF goes_on(2)] show ?case by (simp add: left_as_def)
next
  case (dies pc s st s')
  with vlogin_step_terminal [OF dies(2)] show ?case by (intro left_vexit) (simp add: left_as_def)
next
  case (handled pc s sig s')
  then have "calm T (settings s0) False s" by (auto simp: left_as_def intro: caught_calm)
  with vlogin_signal_calm(2) [OF handled(3)] have "calm T (settings s0) False s'" by simp
  with handled(2) show ?case by (auto simp: left_as_def on_terminal_def caught_def split: vsignal.splits vpc.splits)
next
  case (ended pc s sig st s')
  then have "calm T (settings s0) False s" by (auto simp: left_as_def intro: caught_calm)
  with vlogin_signal_calm(1) [OF ended(3)] show ?case by (intro left_vexit) (simp add: may_exit_def)
next
  case (killed pc s sig)
  then show ?case by (simp add: left_as_def)
qed

text \<open>
  C30.  However \<^verbatim>\<open>vcc login\<close> is left through \<^verbatim>\<open>exit\<close> -- a system call that fails at whatever
  point, or a signal it catches -- the terminal has the settings it had at the beginning, unless the
  call that was to set them failed, and then it is raw and that was the last call.  A signal it does
  not catch, such as \<^verbatim>\<open>SIGTERM\<close> or \<^verbatim>\<open>SIGHUP\<close>, leaves the terminal raw from
  \<^verbatim>\<open>terminal_raw\<close> on.
\<close>

theorem vlogin_restores:
  assumes "vlogin_reach H T argv s0 X" and "\<not> t_atexit s0" and "\<not> t_raw s0"
  shows "case X of
      Exited pc st s \<Rightarrow> settings s = settings s0
        \<or> settings s = cfmakeraw T (settings s0) \<and> (\<exists>e k. tcsetattr T k = (Inl e, vt_os s))
    | Killed pc s \<Rightarrow> settings s = (if pc = At_raw then settings s0 else cfmakeraw T (settings s0))
    | Running pc s \<Rightarrow> settings s = (if pc = At_raw then settings s0 else cfmakeraw T (settings s0))"
  using vlogin_reach_left [OF assms] by (auto simp: left_as_def on_terminal_def calm_def split: vstate.splits vpc.splits)

section \<open>What is read is written\<close>

text \<open>What has been read and not yet been written at a point of the loop.\<close>

definition pending :: "job \<Rightarrow> vpc \<Rightarrow> string" where
  "pending j pc = (case pc of At_write j' buf js \<Rightarrow> if j' = j then buf else [] | _ \<Rightarrow> [])"

definition in_order :: "vpc \<Rightarrow> 'k vterm \<Rightarrow> bool" where
  "in_order pc s \<longleftrightarrow> got s = shown s @ pending Out pc \<and> typed s = sent s @ pending In pc"

definition same_data :: "'k vterm \<Rightarrow> 'k vterm \<Rightarrow> bool" where
  "same_data s s' \<longleftrightarrow> got s' = got s \<and> shown s' = shown s \<and> typed s' = typed s \<and> sent s' = sent s"

text \<open>More has been read from the shell and shown.\<close>

definition shows_more :: "'k vterm \<Rightarrow> 'k vterm \<Rightarrow> bool" where
  "shows_more s s' \<longleftrightarrow> (\<exists>d. got s' = got s @ d \<and> shown s' = shown s @ d) \<and> typed s' = typed s \<and> sent s' = sent s"

interpretation sd: step_relation same_data
  by unfold_locales (auto simp: same_data_def)

interpretation sm: step_relation shows_more
  by unfold_locales (auto simp: shows_more_def)

lemma same_shows_more: "same_data s s' \<Longrightarrow> shows_more s s'"
  by (simp add: same_data_def shows_more_def)

lemma in_order_same: "in_order pc s \<Longrightarrow> same_data s s' \<Longrightarrow> in_order pc s'"
  by (simp add: in_order_def same_data_def)

named_theorems data_intros \<open>operations that copy nothing\<close>

lemma vsys_data [data_intros]: "stays same_data (vsys f)" "stays same_data (vsys_or_die f)"
proof -
  show s: "stays same_data (vsys f)" for f :: "('k, 'b) syscall" by (simp add: stays_def vsys_apply same_data_def)
  show "stays same_data (vsys_or_die f)"
    unfolding vsys_or_die_def by (intro sd.stays_rules s)
qed

lemma vset_data [data_intros]:
  "stays same_data (vset (\<lambda>s. s\<lparr>t_ws := ws\<rparr>))" "stays same_data (vset (\<lambda>s. s\<lparr>t_fd := fd\<rparr>))"
  "stays same_data (vset (\<lambda>s. s\<lparr>t_pid := pid\<rparr>))" "stays same_data (vset (\<lambda>s. s\<lparr>t_atexit := True\<rparr>))"
  "stays same_data (vset (\<lambda>s. s\<lparr>t_termo := settings s\<rparr>))"
  "stays same_data (vset (\<lambda>s. s\<lparr>settings := cfmakeraw T (t_termo s), t_raw := True\<rparr>))"
  "stays same_data (vset (\<lambda>s. s\<lparr>settings := t_termo s, t_raw := False\<rparr>))"
  by (simp_all add: stays_def vset_def same_data_def)

lemma terminal_data [data_intros]:
  "stays same_data (terminal_reset T)" "stays same_data (terminal_kill T sig)" "stays same_data (terminal_raw T)"
  unfolding terminal_reset_def terminal_kill_def terminal_raw_def by (intro sd.stays_rules data_intros)+

lemma redraw_data [data_intros]: "stays same_data (terminal_redraw H T)"
  unfolding terminal_redraw_def by (intro sd.stays_rules data_intros)

lemma do_vlogin_data: "stays same_data (do_vlogin argv)"
  unfolding do_vlogin_def by (intro sd.stays_rules data_intros)

lemma vexit_exits: "\<exists>st' s'. vexit T pc st s = Exited pc st' s'"
  by (auto simp: vexit_def split: prod.split sum.split)

lemma vexit_data:
  assumes "vexit T pc st s = Exited pc' st' s'"
  shows "pc' = pc \<and> same_data s s'"
  using assms staysD [OF terminal_data(1), of T s] sd.R_refl [of s]
  by (auto simp: vexit_def split: if_splits prod.splits sum.splits)

text \<open>A terminal whose writes are never short and never fail.\<close>

definition writes_all :: "'k tty \<Rightarrow> bool" where
  "writes_all T \<longleftrightarrow> (\<forall>fd buf k. fst (tty_write T fd buf k) = Inr (length buf))"

lemma copy_write_all:
  assumes "writes_all T"
  shows "\<exists>k. copy_write T j buf s = (Inr (), note_write j buf (s\<lparr>vt_os := k\<rparr>))"
proof -
  have "fst (tty_write T (job_dst j s) buf (vt_os s)) = Inr (length buf)"
    using assms by (simp add: writes_all_def)
  then show ?thesis
    by (simp add: copy_write_def bindM_def prog_simps vsys_or_die_def vsys_apply vset_def) blast
qed

lemma drain_shows_more:
  assumes "drain T s = Some (r, s')" and "writes_all T"
  shows "shows_more s s'"
proof (rule drain_keeps [OF assms(1)])
  fix s :: "'a vterm" and k buf r s1
  show "shows_more s (s\<lparr>vt_os := k\<rparr>)" by (simp add: shows_more_def)
  assume "copy_write T Out buf (note_read Out buf (s\<lparr>vt_os := k\<rparr>)) = (r, s1)"
  with copy_write_all [OF assms(2), of Out buf "note_read Out buf (s\<lparr>vt_os := k\<rparr>)"]
  show "shows_more s s1" by (auto simp: shows_more_def note_read_def note_write_def)
qed (rule sm.R_trans)

lemma terminal_end_shows_more:
  assumes "terminal_end T s = Some (r, s')" and "writes_all T"
  shows "shows_more s s'"
proof -
  let ?m = "bindM (getsM t_fd) (\<lambda>fd. bindM (vsys_or_die (get_flags T fd)) (\<lambda>_. vsys_or_die (set_nonblock T fd)))"
  have "stays same_data ?m" by (intro sd.stays_rules data_intros)
  note m = same_shows_more [OF staysD [OF this]]
  note rst = same_shows_more [OF staysD [OF terminal_data(1)]]
  obtain r1 s1 where r1: "?m s = (r1, s1)" by fastforce
  show ?thesis
  proof (cases r1)
    case Inl
    with assms(1) r1 m [OF r1] show ?thesis by (simp add: terminal_end_def)
  next
    case Inr
    with assms(1) r1 obtain r2 s2 where r2: "drain T s1 = Some (r2, s2)"
      and end_s: "s' = s2 \<or> (r, s') = terminal_reset T s2"
      by (auto simp: terminal_end_def split: option.splits sum.splits)
    have "shows_more s s2" by (rule sm.R_trans [OF m [OF r1] drain_shows_more [OF r2 assms(2)]])
    with end_s rst [of T s2 r s'] show ?thesis by (metis sm.R_trans)
  qed
qed

lemma signal_shows_more:
  assumes "vlogin_signal H T sig s = Some (r, s')" and "writes_all T"
  shows "shows_more s s' \<and> (isl r \<or> same_data s s')"
proof (cases sig)
  case V_CHLD
  have "stays same_data (bindM (vsys (tty_wait T)) (\<lambda>_. raise (chld_status H)))"
    by (intro sd.stays_rules data_intros)
  note w = same_shows_more [OF staysD [OF this]]
  from V_CHLD assms(1) obtain r1 s1 where r1: "terminal_end T s = Some (r1, s1)"
    and end_s: "s' = s1 \<or> (r, s') = bindM (vsys (tty_wait T)) (\<lambda>_. raise (chld_status H)) s1" and "isl r"
    by (auto simp: vlogin_signal_def vsys_apply bindM_def prog_simps split: option.splits sum.splits)
  with w [of s1 r s'] terminal_end_shows_more [OF r1 assms(2)] show ?thesis by (metis sm.R_trans)
next
  case V_INT
  with assms(1) staysD [OF terminal_data(2)] show ?thesis
    by (fastforce simp: vlogin_signal_def intro: same_shows_more)
next
  case V_WINCH
  with assms(1) staysD [OF redraw_data] show ?thesis
    by (fastforce simp: vlogin_signal_def intro: same_shows_more)
qed (use assms(1) sm.R_refl in \<open>auto simp: vlogin_signal_def\<close>)

lemma copy_read_note:
  assumes "copy_read T j s = (r, s')"
  shows "isl r \<and> same_data s s' \<or> (\<exists>buf k. r = Inr buf \<and> s' = note_read j buf (s\<lparr>vt_os := k\<rparr>))"
  using assms
  by (auto simp: copy_read_def bindM_def prog_simps vsys_or_die_def vsys_apply vset_def same_data_def split: sum.splits)

lemma vlogin_step_data:
  assumes "\<And>j js. pc \<noteq> At_copy (j # js)" and "\<And>j buf js. pc \<noteq> At_write j buf js"
  shows "stays same_data (vlogin_step H T argv pc)"
  unfolding vlogin_step_def using assms
  by (cases pc) (auto intro!: sd.stays_rules data_intros split: list.split)

lemma vlogin_step_pending:
  assumes "vlogin_step H T argv pc s = (Inr pc', s')" and "\<And>j js. pc \<noteq> At_copy (j # js)"
  shows "pending j pc' = []"
  using assms unfolding vlogin_step_def
  by (cases pc)
    (auto simp: bindM_def prog_simps vsys_apply pending_def split: sum.splits if_splits prod.splits list.splits)

lemma vlogin_step_in_order:
  assumes "vlogin_step H T argv pc s = (r, s')" and "in_order pc s" and "writes_all T"
  shows "case r of Inl _ \<Rightarrow> in_order pc s' | Inr pc' \<Rightarrow> in_order pc' s'"
proof -
  consider (copy) j js where "pc = At_copy (j # js)" | (wr) j buf js where "pc = At_write j buf js"
    | (none) "\<And>j js. pc \<noteq> At_copy (j # js)" "\<And>j buf js. pc \<noteq> At_write j buf js" by blast
  then show ?thesis
  proof cases
    case copy
    obtain r1 s1 where r1: "copy_read T j s = (r1, s1)" by fastforce
    from r1 assms(1) copy show ?thesis
      using copy_read_note [OF r1] assms(2)
      by (cases j; cases r1)
        (auto simp: vlogin_step_def bindM_def prog_simps in_order_def pending_def same_data_def note_read_def)
  next
    case wr
    obtain k where "copy_write T j buf s = (Inr (), note_write j buf (s\<lparr>vt_os := k\<rparr>))"
      using copy_write_all [OF assms(3)] by blast
    with assms(1,2) wr show ?thesis
      by (cases j) (auto simp: vlogin_step_def bindM_def prog_simps in_order_def pending_def note_write_def)
  next
    case none
    from staysD [OF vlogin_step_data assms(1)] none have "same_data s s'" by blast
    moreover have "pending j pc = []" for j using none(2) by (auto simp: pending_def split: vpc.split)
    moreover have "r = Inr pc' \<Longrightarrow> pending j pc' = []" for j pc'
      using vlogin_step_pending [of H T argv pc s pc' s'] assms(1) none(1) by blast
    ultimately show ?thesis using assms(2) by (auto simp: in_order_def same_data_def split: sum.split)
  qed
qed

lemma vlogin_reach_in_order:
  assumes "vlogin_reach H T argv s0 X" and "writes_all T" and "in_order At_raw s0"
  shows "case X of Running pc s \<Rightarrow> in_order pc s | Killed pc s \<Rightarrow> in_order pc s
    | Exited pc st s \<Rightarrow> \<exists>s1. in_order pc s1 \<and> shows_more s1 s"
proof -
  have exited: "case vexit T pc st s of Running pc s \<Rightarrow> in_order pc s | Killed pc s \<Rightarrow> in_order pc s
      | Exited pc st s \<Rightarrow> \<exists>s1. in_order pc s1 \<and> shows_more s1 s"
    if "in_order pc s1" and "shows_more s1 s" for pc st s1 s
  proof -
    obtain st' s' where x: "vexit T pc st s = Exited pc st' s'" using vexit_exits by blast
    with vexit_data [OF x] that show ?thesis by (auto intro: same_shows_more sm.R_trans)
  qed
  from assms(1) show ?thesis
  proof induction
    case (begins pc s)
    then have "pc = At_raw" by (auto simp: do_vlogin_def bindM_def prog_simps split: if_splits)
    with staysD [OF do_vlogin_data begins] show ?case using in_order_same [OF assms(3)] by simp
  next
    case (fails st s)
    show ?case by (rule exited [OF assms(3) same_shows_more [OF staysD [OF do_vlogin_data fails]]])
  next
    case (goes_on pc s pc' s')
    with vlogin_step_in_order [OF goes_on(2) _ assms(2)] show ?case by simp
  next
    case (dies pc s st s')
    with vlogin_step_in_order [OF dies(2) _ assms(2)] have "in_order pc s'" by simp
    from exited [OF this sm.R_refl] show ?case .
  next
    case (handled pc s sig s')
    with signal_shows_more [OF handled(3) assms(2)] in_order_same show ?case by simp blast
  next
    case (ended pc s sig st s')
    with signal_shows_more [OF ended(3) assms(2)] show ?case by (intro exited) auto
  next
    case (killed pc s sig)
    then show ?case by simp
  qed
qed

text \<open>
  C31.  Provided that no write is short or fails, at the end the shell has been sent what the user
  typed and the user has been shown what was read from the shell, in order, with one exception: the
  bytes that were between their read and their write when the process was stopped are lost, and the
  output that was left in the pseudo terminal follows after them.
\<close>

theorem vlogin_output:
  assumes "vlogin_reach H T argv s0 (Exited pc st s)" and "writes_all T"
    and "got s0 = []" and "shown s0 = []" and "typed s0 = []" and "sent s0 = []"
  shows "\<exists>a d. got s = a @ pending Out pc @ d \<and> shown s = a @ d \<and> typed s = sent s @ pending In pc"
proof -
  have "in_order At_raw s0" using assms(3-6) by (simp add: in_order_def pending_def)
  from vlogin_reach_in_order [OF assms(1,2) this] show ?thesis
    unfolding in_order_def shows_more_def prod.case vstate.case
    by (elim exE conjE, intro exI [of _ "shown _"] exI) simp
qed

section \<open>A session\<close>

text \<open>
  A terminal on which the shell has two lines ready: the loop has read the first when the shell
  ends.
\<close>

definition ref_tty :: "string list tty" where
  "ref_tty = \<lparr>
     tcgetattr = \<lambda>k. (Inr (), k), tcsetattr = \<lambda>k. (Inr (), k), cfmakeraw = \<lambda>t. t + 1,
     openpty = \<lambda>k. (Inr (5, 6), k), fork_pid = \<lambda>c k. (Inr 100, k),
     child_setsid = \<lambda>k. (Inr (), k), child_ctty = \<lambda>_ k. (Inr (), k),
     child_exec = \<lambda>_ k. (Inr ([], WExited 0), k),
     tty_pgrp = \<lambda>_ k. (Inr 100, k), tty_kill = \<lambda>_ _ k. (Inr (), k),
     get_winsize = \<lambda>k. (Inr (80, 24), k), set_winsize = \<lambda>_ _ k. (Inr (), k),
     tty_read = \<lambda>_ _ k. (case k of [] \<Rightarrow> (Inr [], []) | l # ls \<Rightarrow> (Inr l, ls)),
     tty_write = \<lambda>_ buf k. (Inr (length buf), k),
     get_flags = \<lambda>_ k. (Inr (), k), set_nonblock = \<lambda>_ k. (Inr (), k),
     tty_select = \<lambda>_ k. (Inr (False, True), k), tty_wait = \<lambda>k. (Inr (WExited 0), k),
     interrupted = \<lambda>_. False \<rparr>"

definition ref_term :: "string list vterm" where
  "ref_term = \<lparr> vt_os = [''hello '', ''world''], t_fd = -1, t_ws = (0, 0), t_pid = 0, t_termo = 0, t_raw = False,
     t_atexit = False, settings = 7, got = [], shown = [], typed = [], sent = [] \<rparr>"

text \<open>When the shell ends the process is between the read and the write of the first line.\<close>

definition ref_pc :: vpc where
  "ref_pc = At_write Out ''hello '' []"

definition ref_running :: "string list vterm" where
  "ref_running = ref_term\<lparr>vt_os := [''world''], t_fd := 5, t_ws := (80, 24), t_pid := 100, t_termo := 7, t_raw := True,
     t_atexit := True, settings := 8, got := ''hello ''\<rparr>"

definition ref_exited :: "string list vterm" where
  "ref_exited = ref_running\<lparr>vt_os := [], settings := 7, t_raw := False, got := ''hello world'', shown := ''world''\<rparr>"

lemmas ref_term_defs = ref_term_def ref_running_def ref_tty_def

text \<open>The session up to its main loop, and its first read.\<close>

definition ref_opened :: "string list vterm" where
  "ref_opened = ref_running\<lparr>vt_os := vt_os ref_term, got := []\<rparr>"

lemmas ref_step_simps = ref_term_defs ref_opened_def vlogin_step_def bindM_def prog_simps vsys_or_die_def vsys_def vset_def

lemma ref_opened: "vlogin_reach H ref_tty [''sh''] ref_term (Running At_select ref_opened)"
proof -
  let ?R = "\<lambda>pc s. vlogin_reach H ref_tty [''sh''] ref_term (Running pc s)"
  have step: "?R pc s \<Longrightarrow> vlogin_step H ref_tty [''sh''] pc s = (Inr pc', s') \<Longrightarrow> ?R pc' s'" for pc s pc' s'
    by (rule vlogin_reach.goes_on)
  have "?R At_raw ref_term"
    by (rule vlogin_reach.begins) (simp add: do_vlogin_def bindM_def prog_simps)
  from step [OF this, of At_atexit "ref_term\<lparr>t_termo := 7, t_raw := True, settings := 8\<rparr>"]
  have "?R At_atexit (ref_term\<lparr>t_termo := 7, t_raw := True, settings := 8\<rparr>)"
    by (simp add: ref_step_simps terminal_raw_def)
  from step [OF this, of At_openpty "ref_opened\<lparr>t_fd := -1, t_ws := (0, 0), t_pid := 0\<rparr>"]
  have "?R At_openpty (ref_opened\<lparr>t_fd := -1, t_ws := (0, 0), t_pid := 0\<rparr>)" by (simp add: ref_step_simps)
  from step [OF this, of "At_chld 6" "ref_opened\<lparr>t_ws := (0, 0), t_pid := 0\<rparr>"]
  have "?R (At_chld 6) (ref_opened\<lparr>t_ws := (0, 0), t_pid := 0\<rparr>)" by (simp add: ref_step_simps)
  from step [OF this, of "At_fork 6"]
  have "?R (At_fork 6) (ref_opened\<lparr>t_ws := (0, 0), t_pid := 0\<rparr>)" by (simp add: ref_step_simps)
  from step [OF this, of "At_winch 100"]
  have "?R (At_winch 100) (ref_opened\<lparr>t_ws := (0, 0), t_pid := 0\<rparr>)" by (simp add: ref_step_simps)
  from step [OF this, of "At_int 100"]
  have "?R (At_int 100) (ref_opened\<lparr>t_ws := (0, 0), t_pid := 0\<rparr>)" by (simp add: ref_step_simps)
  from step [OF this, of "At_pid 100"]
  have "?R (At_pid 100) (ref_opened\<lparr>t_ws := (0, 0), t_pid := 0\<rparr>)" by (simp add: ref_step_simps)
  from step [OF this, of At_redraw "ref_opened\<lparr>t_ws := (0, 0)\<rparr>"]
  have "?R At_redraw (ref_opened\<lparr>t_ws := (0, 0)\<rparr>)" by (simp add: ref_step_simps)
  from step [OF this, of At_select ref_opened] show ?thesis
    by (simp add: ref_step_simps terminal_redraw_def terminal_kill_def)
qed

lemma ref_running: "vlogin_reach H ref_tty [''sh''] ref_term (Running ref_pc ref_running)"
proof -
  have "vlogin_step H ref_tty [''sh''] At_select ref_opened = (Inr (At_copy [Out]), ref_opened)"
    by (simp add: ref_step_simps)
  from vlogin_reach.goes_on [OF ref_opened this]
  have 2: "vlogin_reach H ref_tty [''sh''] ref_term (Running (At_copy [Out]) ref_opened)" .
  have "vlogin_step H ref_tty [''sh''] (At_copy [Out]) ref_opened = (Inr ref_pc, ref_running)"
    by (simp add: ref_step_simps ref_pc_def copy_read_def note_read_def job_src_def)
  from vlogin_reach.goes_on [OF 2 this] show ?thesis .
qed

lemma ref_exits: "vlogin_reach H ref_tty [''sh''] ref_term (Exited ref_pc (chld_status H) ref_exited)"
proof -
  let ?s = "ref_running\<lparr>vt_os := [], got := ''hello world'', shown := ''world''\<rparr>"
  have "drain ref_tty ref_running = Some (Inr (), ?s)"
    by (subst drain.simps, subst drain.simps)
      (simp add: ref_term_defs copy_write_def note_read_def note_write_def job_dst_def bindM_def prog_simps
        vsys_or_die_def vsys_def vset_def)
  then have "vlogin_signal H ref_tty V_CHLD ref_running = Some (Inl (chld_status H), ref_exited)"
    by (simp add: vlogin_signal_def terminal_end_def)
      (simp add: ref_term_defs ref_exited_def terminal_reset_def bindM_def prog_simps vsys_or_die_def vsys_def vset_def)
  from vlogin_reach.ended [OF ref_running _ this]
  show ?thesis by (simp add: caught_def ref_pc_def vexit_def ref_exited_def ref_term_defs terminal_reset_def bindM_def prog_simps)
qed

text \<open>The session ends with the settings 7 it began with; ended by \<^verbatim>\<open>SIGTERM\<close> it leaves 8.\<close>

theorem vlogin_restores_witness:
  "settings ref_exited = settings ref_term
    \<and> (\<forall>H. vlogin_reach H ref_tty [''sh''] ref_term (Killed ref_pc ref_running)) \<and> settings ref_running = 8"
proof -
  have k: "vlogin_reach H ref_tty [''sh''] ref_term (Killed ref_pc ref_running)" for H
    by (rule vlogin_reach.killed [OF ref_running, of V_TERM]) (simp_all add: caught_def ignored_def)
  have s0: "\<not> t_atexit ref_term" "\<not> t_raw ref_term" "settings ref_term = 7" by (simp_all add: ref_term_defs)
  from vlogin_restores [OF ref_exits s0(1,2)] have "settings ref_exited = settings ref_term"
    by (simp add: ref_tty_def)
  moreover from vlogin_restores [OF k s0(1,2)] s0(3) have "settings ref_running = 8"
    by (simp add: ref_pc_def) (simp add: ref_tty_def)
  ultimately show ?thesis using k by simp
qed

theorem vlogin_output_witness:
  "\<exists>a d. got ref_exited = a @ pending Out ref_pc @ d \<and> shown ref_exited = a @ d
     \<and> typed ref_exited = sent ref_exited @ pending In ref_pc"
  by (rule vlogin_output [OF ref_exits]) (simp_all add: ref_term_defs writes_all_def)

end
