(* ===== verification/Spec2Isabelle.thy ===== *)
theory Spec2Isabelle
  imports Limit_Laws Cap_Laws Guest_Laws Group_Laws Create_Laws Register_Laws Rights_Laws Isolation_Laws Daemon_Laws
    Vxpasswd Vshelper Client_Laws Vlogin
begin

text \<open>
  \<^bold>\<open>The VServer Control Daemon\<close>

  vcd is a daemon that manages Linux-VServer guests.  It keeps the configuration of the guests in
  an SQLite database (the vxdb), answers XML-RPC requests that read and change it, and starts,
  stops and inspects guests with system calls of the VServer kernel.  The kernel calls back through
  \<^verbatim>\<open>vshelper\<close>, which is itself a client of the daemon.  Users reach it through the command line
  clients \<^verbatim>\<open>vcc\<close>, \<^verbatim>\<open>vce\<close>, \<^verbatim>\<open>vgc\<close> and \<^verbatim>\<open>vcdadm\<close>;
  \<^verbatim>\<open>vxpasswd\<close> works on the database without the daemon.

  \<^bold>\<open>Foundations\<close>

  \<^item> \<open>Prelude\<close>: programs with a state and faults, the frame rules of a relation between states
    (locale \<open>step_relation\<close>), decimal numerals, lists, C strings.
  \<^item> \<open>Sql\<close>: the tables of \<^verbatim>\<open>vxdb-tables.h\<close> and the statements and queries the daemon
    sends, over rows that are kept under unique indexes.  The locale \<open>keyed_store\<close> states what
    INSERT OR REPLACE, DELETE and SELECT promise to each other; it is interpreted on the rows.
  \<^item> \<open>Host\<close>: what is not in the repository, as records of functions: the lucid library, SQLite,
    XML-RPC, the kernel, the configuration and constants of the system headers; the hypotheses
    about them (\<open>lucid_ok\<close>, \<open>sqlite_ok\<close>, \<open>xmlrpc_ok\<close>) and the state of the daemon.
    \<open>Ref_Host\<close> gives one concrete host and database for which the hypotheses are proved; the
    witnesses run on it.

  \<^bold>\<open>The daemon\<close>

  \<^item> \<open>Lists\<close> (\<^verbatim>\<open>lists.c\<close>), \<open>Validate\<close> (\<^verbatim>\<open>validate.c\<close>), \<open>Vxdb\<close> and \<open>Schema\<close>
    (\<^verbatim>\<open>vxdb.c\<close>), \<open>Auth\<close> (\<^verbatim>\<open>auth.c\<close>), \<open>Methods\<close> (\<^verbatim>\<open>methods.c\<close>,
    \<^verbatim>\<open>methods.h\<close>).
  \<^item> \<open>Handler\<close>: the pieces the methods share and the locale \<open>guest_table\<close>, the laws of a method
    that reads or writes the rows of one guest in one table, interpreted for every such table.
  \<^item> \<open>Vxdb_Limits\<close>, \<open>Vxdb_Caps\<close>, \<open>Vxdb_Net\<close>, \<open>Vxdb_Index\<close>
    (\<^verbatim>\<open>methods/vxdb/\<close>), \<open>Vcd_Methods\<close> (\<^verbatim>\<open>methods/vcd/\<close>), \<open>Vx_Methods\<close> and
    \<open>Create\<close> (\<^verbatim>\<open>methods/vx/\<close>), \<open>Vg_Methods\<close> (\<^verbatim>\<open>methods/vg/\<close>),
    \<open>Helper_Methods\<close> and \<open>Startup\<close> (\<^verbatim>\<open>methods/helper/\<close>): one definition per method.
  \<^item> \<open>Registry\<close>: the table of the methods and the dispatch of a request
    (\<^verbatim>\<open>method_registry_init\<close>).  \<open>Daemon\<close>: command line, configuration, signals and the
    start of the daemon (\<^verbatim>\<open>main.c\<close>, \<^verbatim>\<open>cfg.c\<close>), and the inductive predicate
    \<open>serves\<close>, the states a daemon goes through when every request it gets satisfies a condition.

  \<^bold>\<open>The programs around it\<close>

  \<^item> \<open>Vxpasswd\<close> (\<^verbatim>\<open>vxpasswd.c\<close>).
  \<^item> \<open>Rpc\<close>: the call of the daemon by a client.  \<open>Vshelper\<close> (\<^verbatim>\<open>vshelper/main.c\<close>) and
    \<open>Clients\<close> (\<^verbatim>\<open>vcc/\<close>): the commands of the four clients.  \<open>Client_Main\<close>
    (\<^verbatim>\<open>vcc/main.c\<close>, \<^verbatim>\<open>vcc/vcc/login.c\<close>): what they share, and entering a guest.
    \<open>Vlogin\<close> (\<^verbatim>\<open>vcc/vlogin.c\<close>): the terminal of \<^verbatim>\<open>vcc login\<close>, a step relation
    with signals between the steps.

  \<^bold>\<open>What is shown\<close>

  \<^item> \<open>Access\<close>, \<open>Registry\<close>: a request gets past the check of its method only with a valid user,
    the capabilities and the ownership the method asks for; otherwise nothing changes.
  \<^item> \<open>Schema\<close>, \<open>Daemon\<close>: the check at the start leaves a complete database.
    \<open>Daemon_Laws\<close>: every table has its unique indexes from the start on, through requests, reloads
    and changes of the system, and its rows respect them.
  \<^item> \<open>Frames\<close>: the tables each of the 75 methods may write, as one table that is proved for the
    registry.  \<open>Rights_Laws\<close>: only four methods change users, passwords, administrator bits and
    capabilities, and they ask for the capability AUTH.  \<open>Isolation_Laws\<close>: the rows of a guest change
    only by requests that name it and come from an administrator or an owner of this guest.
  \<^item> \<open>User_Laws\<close>, \<open>Vxpasswd\<close>: users, passwords, capabilities and owners, as changes of the
    relations the check of a request reads.
  \<^item> \<open>Limit_Laws\<close>, \<open>Cap_Laws\<close>: what is stored for a guest is what is answered for it.
  \<^item> \<open>Transactions\<close>, \<open>Guest_Laws\<close>: removing, renaming, stopping, listing and locking guests.
    \<open>Create_Laws\<close>: who may build a guest, and that its context id is free.  \<open>Register_Laws\<close>: the
    transaction of \<^verbatim>\<open>vx.create\<close>, and that it registers this guest and leaves the others alone.
    \<open>Group_Laws\<close>: the loops over a group are equal to loops that leave at the first fault;
    \<^verbatim>\<open>vg.add\<close> puts a guest into a group.
  \<^item> \<open>Vshelper\<close>: starting a guest ends, restarts are recorded, carried out once and only after
    the guest is gone.
  \<^item> \<open>Interface\<close>, \<open>Answers\<close>, \<open>Client_Laws\<close>: the parameters every method reads and the shape
    of its answer, as two tables that are proved for the registry; every command of the four
    clients sends parameters of the first and reads answers of the second.
  \<^item> \<open>Vlogin\<close>: the terminal gets its settings back whenever the process calls \<^verbatim>\<open>exit\<close>, and
    stays raw when a signal without a handler ends it; what is read is written in order.

  \<^bold>\<open>Conventions\<close>

  A C function that may set a fault in the XML-RPC environment is a program
  \<^typ>\<open>('k, 'a) handler\<close>: a function from the state to a fault or a value, and the new state.
  The state has the database connection, the state of the kernel (of an arbitrary type) and the
  descriptor of the lock file.  SQL text is represented by the statement it denotes; a value that
  is put into the text with quotes and contains a quote itself is handed to SQLite as it is
  (\<open>stmt_safe\<close>, \<open>query_safe\<close>), and the hypotheses say nothing about the result beyond the
  unique indexes; theorems about all methods assume texts without quotes (\<open>plain_texts\<close>, for
  \<^verbatim>\<open>vx.create\<close> also without percent signs, since it passes the statements as a format), and for the
  password see \<open>altered_query\<close>.  SQLite may fail on any statement and at any point of a query: the
  methods take a failed lookup for an empty one, and where that shows, the theorem has it as an exception
  (\<open>unanswered\<close>).  Machine integers are words or integers with the wrap-around written out
  (\<open>u32\<close>, \<open>s32\<close>).

  Loops are recursions with the bound the code has: the seconds \<^verbatim>\<open>vx.stop\<close> and
  \<^verbatim>\<open>helper.shutdown\<close> wait, the fifteen checks of \<^verbatim>\<open>vshelper\<close>, the ids
  \<^verbatim>\<open>find_free_xid\<close> tries.  The loop of \<^verbatim>\<open>vxdb_step\<close> may run forever; it is a partial
  function with the value \<open>None\<close>, proved to return unless the database stays busy forever, and a busy
  database is part of the SQLite parameter.  The loop of \<^verbatim>\<open>vcc login\<close> is left by signals only, which
  may arrive before each step from its first call on; the draining of its terminal at the end is a partial
  function too.

  \<^bold>\<open>Not modelled\<close>

  The transport of the XML-RPC calls, which is the library's; log messages; the copies of the
  kernel's headers under \<^verbatim>\<open>src/syscall/\<close>; the allocation and release of memory; signals that
  interrupt a signal handler.
\<close>

end
